(* ===== verification/Nemu_Prelude.thy ===== *)
theory Nemu_Prelude
  imports Main "HOL-Library.Word"
begin

unbundle bit_operations_syntax

text \<open>
  Shared vocabulary of the development: the C integer types as words, bit fields of a
  register (C bit-field structs), the execution monad that carries the emulator's global
  state together with the three non-local exits of the C code (\<open>longjmp_exception\<close>,
  \<open>longjmp_exec\<close> and a failed \<open>assert\<close> or \<open>panic\<close>), and the rules by which invariants and
  frame conditions are pushed through monadic code.
\<close>

section \<open>Machine integers of the C code\<close>

type_synonym u1 = "1 word"
type_synonym u5 = "5 word"
type_synonym u8 = "8 word"
type_synonym u12 = "12 word"
type_synonym u16 = "16 word"
type_synonym u32 = "32 word"
type_synonym u64 = "64 word"
type_synonym u128 = "128 word"

text \<open>C shifts on unsigned operands and the arithmetic right shift on signed ones.\<close>

abbreviation shl :: "'a::len word \<Rightarrow> nat \<Rightarrow> 'a word" where
  "shl w n \<equiv> push_bit n w"

abbreviation shr :: "'a::len word \<Rightarrow> nat \<Rightarrow> 'a word" where
  "shr w n \<equiv> drop_bit n w"

abbreviation sar :: "'a::len word \<Rightarrow> nat \<Rightarrow> 'a word" where
  "sar w n \<equiv> signed_drop_bit n w"

text \<open>A C \<open>bool\<close> converted to an integer.\<close>

definition of_bool_w :: "bool \<Rightarrow> 'a::len word" where
  "of_bool_w b = (if b then 1 else 0)"

named_theorems field_simps_w \<open>reading and writing bit fields\<close>
named_theorems keeps_intro \<open>preservation rules for monadic code\<close>
named_theorems monad_simps \<open>evaluation of monadic code\<close>

section \<open>Bit fields\<close>

text \<open>
  \<open>fld lo n w\<close> is the \<open>n\<close>-bit field of \<open>w\<close> whose least significant bit is bit \<open>lo\<close>, and
  \<open>put_fld lo n v w\<close> stores \<open>v\<close> there (truncated to the field, as an assignment to a C
  bit-field does).
\<close>

definition fld :: "nat \<Rightarrow> nat \<Rightarrow> 'a::len word \<Rightarrow> 'a word" where
  "fld lo n w = take_bit n (drop_bit lo w)"

definition put_fld :: "nat \<Rightarrow> nat \<Rightarrow> 'a::len word \<Rightarrow> 'a word \<Rightarrow> 'a word" where
  "put_fld lo n v w = (w AND NOT (push_bit lo (mask n))) OR push_bit lo (take_bit n v)"

definition put_bit :: "nat \<Rightarrow> bool \<Rightarrow> 'a::len word \<Rightarrow> 'a word" where
  "put_bit i b w = (if b then set_bit i w else unset_bit i w)"

lemma bit_fld_iff [bit_simps]:
  "bit (fld lo n w) i \<longleftrightarrow> i < n \<and> bit w (lo + i)" for w :: "'a::len word"
  by (simp add: fld_def bit_simps)

lemma bit_put_fld_iff [bit_simps]:
  "bit (put_fld lo n v w) i \<longleftrightarrow>
     i < LENGTH('a) \<and> (if lo \<le> i \<and> i < lo + n then bit v (i - lo) else bit w i)"
  for v w :: "'a::len word"
  by (auto simp: put_fld_def bit_simps not_le dest: bit_imp_le_length)

lemma bit_put_bit_iff [bit_simps]:
  "bit (put_bit j b w) i \<longleftrightarrow> i < LENGTH('a) \<and> (if i = j then b else bit w i)"
  for w :: "'a::len word"
  by (auto simp: put_bit_def bit_simps dest: bit_imp_le_length)

lemma fld_put_fld_same [field_simps_w]:
  "lo + n \<le> LENGTH('a) \<Longrightarrow> fld lo n (put_fld lo n v w) = take_bit n v"
  for v w :: "'a::len word"
  by (rule bit_word_eqI) (auto simp: bit_simps)

lemma fld_put_fld_other [field_simps_w]:
  "lo' + n' \<le> lo \<or> lo + n \<le> lo' \<Longrightarrow> fld lo' n' (put_fld lo n v w) = fld lo' n' w"
  for v w :: "'a::len word"
  by (rule bit_word_eqI) (auto simp: bit_simps dest: bit_imp_le_length)

lemma fld_put_bit_other [field_simps_w]:
  "i < lo \<or> lo + n \<le> i \<Longrightarrow> fld lo n (put_bit i b w) = fld lo n w"
  for w :: "'a::len word"
  by (rule bit_word_eqI) (auto simp: bit_simps dest: bit_imp_le_length)

text \<open>The macro \<open>mask_bitset(old, mask, new)\<close>.\<close>

definition mask_bitset :: "'a::len word \<Rightarrow> 'a word \<Rightarrow> 'a word \<Rightarrow> 'a word" where
  "mask_bitset old m new = (old AND NOT m) OR (new AND m)"

lemma bit_mask_bitset_iff [bit_simps]:
  "bit (mask_bitset old m new) i \<longleftrightarrow> (if bit m i then bit new i else bit old i)"
  for old m new :: "'a::len word"
  by (auto simp: mask_bitset_def bit_simps dest: bit_imp_le_length)

lemma mask_bitset_and_same: "mask_bitset old m new AND m = new AND m"
  for old m new :: "'a::len word"
  by (rule bit_word_eqI) (auto simp: bit_simps)

lemma mask_bitset_and_disjoint: "m AND k = 0 \<Longrightarrow> mask_bitset old m new AND k = old AND k"
  for old m new k :: "'a::len word"
  by (rule bit_word_eqI) (auto simp: bit_simps dest!: arg_cong [where f = "\<lambda>w. bit w _"])

lemma bit_and_0D: "m AND k = 0 \<Longrightarrow> bit m i \<Longrightarrow> \<not> bit k i" for m k :: "'a::len word"
  by (metis bit_0_eq bit_and_iff bot_apply bot_bool_def)

text \<open>Testing one bit with a mask.\<close>

lemma and_pow2_nonzero: "w AND 2 ^ k \<noteq> 0 \<longleftrightarrow> bit w k" for w :: "'a::len word"
proof -
  have "w AND 2 ^ k = (if bit w k then 2 ^ k else 0)"
    by (rule bit_word_eqI) (auto simp: bit_simps)
  moreover have "bit w k \<Longrightarrow> (2 :: 'a word) ^ k \<noteq> 0"
    using bit_imp_le_length [of w k] by simp
  ultimately show ?thesis by auto
qed

lemma and_shl_1_nonzero: "w AND shl 1 k \<noteq> 0 \<longleftrightarrow> bit w k" for w :: "'a::len word"
  using and_pow2_nonzero [of w k] by simp

lemma bit_fold_or: "bit (fold (\<lambda>i d. d OR f i) is d) k \<longleftrightarrow> bit d k \<or> (\<exists>i\<in>set is. bit (f i) k)"
  for d :: "'a::len word"
  by (induction "is" arbitrary: d) (auto simp: bit_or_iff)

lemma fld_and: "fld lo n (v AND w) = fld lo n v AND fld lo n w" for v w :: "'a::len word"
  by (rule bit_word_eqI) (auto simp: bit_simps)

lemma u64_eq_iff: "x = y \<longleftrightarrow> (\<forall>n. bit x n = bit y n)" for x y :: u64
  by (auto intro: bit_eqI)

section \<open>The execution monad\<close>

text \<open>
  Every function of the emulator that touches global state is a state transformer. It ends
  in one of four ways: it returns a value; it takes \<open>longjmp_exception(cause)\<close> to the
  exception handler of \<open>cpu_exec\<close>; it takes \<open>longjmp_exec(cause)\<close> with another cause; or
  the process dies in a failed \<open>assert\<close>, \<open>Assert\<close> or \<open>panic\<close>. The state reached so far is
  kept in every case, as it is in C.
\<close>

datatype 'a outcome = Ret 'a | Exn u64 | Jmp nat | Abort

type_synonym ('s, 'a) nemu = "'s \<Rightarrow> 'a outcome \<times> 's"

definition return_m :: "'a \<Rightarrow> ('s, 'a) nemu" where
  "return_m x s = (Ret x, s)"

definition bind_m :: "('s, 'a) nemu \<Rightarrow> ('a \<Rightarrow> ('s, 'b) nemu) \<Rightarrow> ('s, 'b) nemu" where
  "bind_m m f s = (case m s of
      (Ret x, s') \<Rightarrow> f x s'
    | (Exn e, s') \<Rightarrow> (Exn e, s')
    | (Jmp c, s') \<Rightarrow> (Jmp c, s')
    | (Abort, s') \<Rightarrow> (Abort, s'))"

definition then_m :: "('s, 'a) nemu \<Rightarrow> ('s, 'b) nemu \<Rightarrow> ('s, 'b) nemu" where
  "then_m m k = bind_m m (\<lambda>_. k)"

definition gets_m :: "('s \<Rightarrow> 'a) \<Rightarrow> ('s, 'a) nemu" where
  "gets_m f s = (Ret (f s), s)"

definition modify_m :: "('s \<Rightarrow> 's) \<Rightarrow> ('s, unit) nemu" where
  "modify_m f s = (Ret (), f s)"

definition assert_m :: "bool \<Rightarrow> ('s, unit) nemu" where
  "assert_m P s = (if P then (Ret (), s) else (Abort, s))"

definition panic_m :: "('s, 'a) nemu" where
  "panic_m s = (Abort, s)"

definition when_m :: "bool \<Rightarrow> ('s, unit) nemu \<Rightarrow> ('s, unit) nemu" where
  "when_m P m = (if P then m else return_m ())"

text \<open>Code that reads the state and then runs: \<open>with_m f\<close> applies \<open>f\<close> to the current state.\<close>

definition with_m :: "('s \<Rightarrow> ('s, 'a) nemu) \<Rightarrow> ('s, 'a) nemu" where
  "with_m f s = f s s"

lemmas monad_defs = return_m_def gets_m_def modify_m_def assert_m_def panic_m_def with_m_def

lemma return_m_apply [monad_simps]: "return_m x s = (Ret x, s)"
  by (simp add: return_m_def)

lemma gets_m_apply [monad_simps]: "gets_m f s = (Ret (f s), s)"
  by (simp add: gets_m_def)

lemma modify_m_apply [monad_simps]: "modify_m f s = (Ret (), f s)"
  by (simp add: modify_m_def)

lemma assert_m_apply [monad_simps]: "assert_m P s = (if P then (Ret (), s) else (Abort, s))"
  by (simp add: assert_m_def)

lemma panic_m_apply [monad_simps]: "panic_m s = (Abort, s)"
  by (simp add: panic_m_def)

lemma with_m_apply [monad_simps]: "with_m f s = f s s"
  by (simp add: with_m_def)

lemma when_m_apply [monad_simps]: "when_m P m s = (if P then m s else (Ret (), s))"
  by (simp add: when_m_def return_m_def)

lemma bind_m_return [simp]: "bind_m (return_m x) f = f x"
  by (rule ext) (simp add: bind_m_def return_m_def)

lemma bind_m_apply [monad_simps]:
  "m s = (Ret x, s') \<Longrightarrow> bind_m m f s = f x s'"
  "m s = (Exn e, s') \<Longrightarrow> bind_m m f s = (Exn e, s')"
  "m s = (Jmp c, s') \<Longrightarrow> bind_m m f s = (Jmp c, s')"
  "m s = (Abort, s') \<Longrightarrow> bind_m m f s = (Abort, s')"
  by (simp_all add: bind_m_def)

lemma then_m_apply [monad_simps]:
  "m s = (Ret x, s') \<Longrightarrow> then_m m k s = k s'"
  "m s = (Exn e, s') \<Longrightarrow> then_m m k s = (Exn e, s')"
  "m s = (Jmp c, s') \<Longrightarrow> then_m m k s = (Jmp c, s')"
  "m s = (Abort, s') \<Longrightarrow> then_m m k s = (Abort, s')"
  by (simp_all add: then_m_def bind_m_def)

lemma bind_m_assoc: "bind_m (bind_m m f) g = bind_m m (\<lambda>x. bind_m (f x) g)"
  by (rule ext) (simp add: bind_m_def split: prod.splits outcome.splits)

lemma then_assoc: "then_m (then_m m k) l = then_m m (then_m k l)"
  by (simp add: then_m_def bind_m_assoc)

lemma then_return: "then_m (return_m ()) k = k"
  by (simp add: then_m_def)

lemma bind_discard: "then_m (bind_m m (\<lambda>_. return_m ())) k = then_m m k"
  by (simp add: then_m_def bind_m_assoc)

lemma then_modify: "then_m (modify_m f) (then_m (modify_m g) k) = then_m (modify_m (\<lambda>s. g (f s))) k"
  by (rule ext) (simp add: then_m_def bind_m_def modify_m_def)

lemma bind_m_RetD:
  assumes "bind_m m f s = (Ret y, s')"
  obtains x s1 where "m s = (Ret x, s1)" and "f x s1 = (Ret y, s')"
  using assms by (auto simp: bind_m_def split: prod.splits outcome.splits)

section \<open>Preservation\<close>

text \<open>
  \<open>keeps P m\<close>: whichever way \<open>m\<close> ends, the predicate \<open>P\<close> survives it. The rules below are
  collected in \<open>keeps_intro\<close>; each operation of the model adds its own.
\<close>

definition keeps :: "('s \<Rightarrow> bool) \<Rightarrow> ('s, 'a) nemu \<Rightarrow> bool" where
  "keeps P m \<longleftrightarrow> (\<forall>s. P s \<longrightarrow> P (snd (m s)))"

lemma keepsI: "(\<And>s. P s \<Longrightarrow> P (snd (m s))) \<Longrightarrow> keeps P m"
  by (simp add: keeps_def)

lemma keepsD: "keeps P m \<Longrightarrow> P s \<Longrightarrow> P (snd (m s))"
  by (simp add: keeps_def)

lemma keeps_return [keeps_intro]: "keeps P (return_m x)"
  by (simp add: keeps_def return_m_def)

lemma keeps_gets [keeps_intro]: "keeps P (gets_m f)"
  by (simp add: keeps_def gets_m_def)

lemma keeps_assert [keeps_intro]: "keeps P (assert_m b)"
  by (simp add: keeps_def assert_m_def)

lemma keeps_panic [keeps_intro]: "keeps P panic_m"
  by (simp add: keeps_def panic_m_def)

lemma keeps_bind [keeps_intro]:
  "keeps P m \<Longrightarrow> (\<And>x. keeps P (f x)) \<Longrightarrow> keeps P (bind_m m f)"
  by (auto simp: keeps_def bind_m_def split: prod.splits outcome.splits)

lemma keeps_then [keeps_intro]: "keeps P m \<Longrightarrow> keeps P k \<Longrightarrow> keeps P (then_m m k)"
  by (simp add: then_m_def keeps_bind)

lemma keeps_when [keeps_intro]: "keeps P m \<Longrightarrow> keeps P (when_m b m)"
  by (simp add: when_m_def keeps_return)

lemma keeps_if [keeps_intro]:
  "(b \<Longrightarrow> keeps P m) \<Longrightarrow> (\<not> b \<Longrightarrow> keeps P k) \<Longrightarrow> keeps P (if b then m else k)"
  by simp

lemma keeps_with [keeps_intro]: "(\<And>s. keeps P (f s)) \<Longrightarrow> keeps P (with_m f)"
  by (simp add: keeps_def with_m_def)

lemma keeps_modify: "(\<And>s. P s \<Longrightarrow> P (f s)) \<Longrightarrow> keeps P (modify_m f)"
  by (simp add: keeps_def modify_m_def)

lemma keeps_Let [keeps_intro]: "keeps P (f x) \<Longrightarrow> keeps P (let y = x in f y)"
  by simp

end
