(* ===== verification/Machine.thy ===== *)
theory Machine
  imports Nemu_Prelude
begin

text \<open>
  The global state of the emulator (\<open>src/isa/riscv64/include/isa-def.h\<close>,
  \<open>src/cpu/cpu-exec.c\<close>, \<open>src/isa/riscv64/system/priv.c\<close> and the other files that own
  globals) as one record, the enumerations of \<open>include/isa.h\<close> and \<open>local-include/intr.h\<close>,
  and the non-local exits. The record's field \<open>cfg_share\<close> is the build option
  \<open>CONFIG_SHARE\<close> (the difftest reference library) against the stand-alone emulator; no
  operation writes it.
\<close>

section \<open>Enumerations\<close>

datatype mmu_mode = MMU_DIRECT | MMU_TRANSLATE | MMU_DYNAMIC

datatype mem_type =
  MEM_TYPE_IFETCH | MEM_TYPE_READ | MEM_TYPE_WRITE | MEM_TYPE_IFETCH_READ | MEM_TYPE_WRITE_READ

datatype mem_ret = MEM_RET_OK | MEM_RET_FAIL | MEM_RET_CROSS_PAGE

datatype nemu_run = NEMU_RUNNING | NEMU_STOP | NEMU_END | NEMU_ABORT | NEMU_QUIT

datatype cfi = CFI_NONE | CFI_BRANCH | CFI_JUMP

abbreviation (input) MODE_U :: u64 where "MODE_U \<equiv> 0"
abbreviation (input) MODE_S :: u64 where "MODE_S \<equiv> 1"
abbreviation (input) MODE_H :: u64 where "MODE_H \<equiv> 2"
abbreviation (input) MODE_M :: u64 where "MODE_M \<equiv> 3"

text \<open>Exception numbers.\<close>

abbreviation (input) EX_IAM :: u64 where "EX_IAM \<equiv> 0"
abbreviation (input) EX_IAF :: u64 where "EX_IAF \<equiv> 1"
abbreviation (input) EX_II :: u64 where "EX_II \<equiv> 2"
abbreviation (input) EX_BP :: u64 where "EX_BP \<equiv> 3"
abbreviation (input) EX_LAM :: u64 where "EX_LAM \<equiv> 4"
abbreviation (input) EX_LAF :: u64 where "EX_LAF \<equiv> 5"
abbreviation (input) EX_SAM :: u64 where "EX_SAM \<equiv> 6"
abbreviation (input) EX_SAF :: u64 where "EX_SAF \<equiv> 7"
abbreviation (input) EX_ECU :: u64 where "EX_ECU \<equiv> 8"
abbreviation (input) EX_ECS :: u64 where "EX_ECS \<equiv> 9"
abbreviation (input) EX_ECM :: u64 where "EX_ECM \<equiv> 11"
abbreviation (input) EX_IPF :: u64 where "EX_IPF \<equiv> 12"
abbreviation (input) EX_LPF :: u64 where "EX_LPF \<equiv> 13"
abbreviation (input) EX_SPF :: u64 where "EX_SPF \<equiv> 15"
abbreviation (input) EX_DUCF :: u64 where "EX_DUCF \<equiv> 24"
abbreviation (input) EX_DSCF :: u64 where "EX_DSCF \<equiv> 25"

abbreviation (input) DFR_EF :: u64 where "DFR_EF \<equiv> 1"
abbreviation (input) DFR_LF :: u64 where "DFR_LF \<equiv> 2"
abbreviation (input) DFR_SF :: u64 where "DFR_SF \<equiv> 3"
abbreviation (input) DFR_JF :: u64 where "DFR_JF \<equiv> 4"
abbreviation (input) MFR_LF :: u64 where "MFR_LF \<equiv> 5"
abbreviation (input) MFR_SF :: u64 where "MFR_SF \<equiv> 6"

abbreviation (input) NEMU_EXEC_END :: nat where "NEMU_EXEC_END \<equiv> 1"
abbreviation (input) NEMU_EXEC_AGAIN :: nat where "NEMU_EXEC_AGAIN \<equiv> 2"
abbreviation (input) NEMU_EXEC_EXCEPTION :: nat where "NEMU_EXEC_EXCEPTION \<equiv> 3"

abbreviation (input) SYS_STATE_UPDATE :: u32 where "SYS_STATE_UPDATE \<equiv> 1"
abbreviation (input) SYS_STATE_FLUSH_TCACHE :: u32 where "SYS_STATE_FLUSH_TCACHE \<equiv> 2"

section \<open>Records of the C code\<close>

record execution_guide_t =
  force_raise_exception :: bool
  exception_num :: u64
  guide_mtval :: u64
  guide_stval :: u64
  force_set_jump_target :: bool
  jump_target :: u64

record mem_event_t =
  ev_pc :: u64
  ev_access :: bool
  ev_is_load :: bool
  ev_vaddr :: u64

record store_commit_t =
  sc_addr :: u64
  sc_data :: u64
  sc_mask :: u8
  sc_valid :: bool

record hosttlb_entry =
  tlb_offset :: u64
  tlb_gvpn :: u64

text \<open>
  A device region on the memory bus (\<open>IOMap\<close>). The C struct holds a pointer to the device's
  callback; the model names the device, and the device theory gives the callback of each.
\<close>

datatype device_id = DEV_NONE | DEV_CLINT | DEV_UARTLITE | DEV_RTC | DEV_I8042

record IOMap =
  map_low :: u64
  map_high :: u64
  map_space :: nat
  map_callback :: device_id

text \<open>
  The events of the SDL window that \<open>device_update\<close> looks at. Which events are waiting at its
  \<open>n\<close>-th call, and whether the alarm signal has arrived before it, is up to the host: the
  fields \<open>sdl_queue\<close> and \<open>alarm_signal\<close> of the machine, which no operation writes.
\<close>

datatype sdl_event = SDL_QUIT | SDL_KEYDOWN u8 | SDL_KEYUP u8 | SDL_OTHER

text \<open>
  The \<open>Decode\<close> structure of \<open>include/cpu/decode.h\<close>: the static variable \<open>s\<close> of \<open>execute\<close>, which
  lives across instructions. An \<open>Operand\<close> is the C union of a register pointer and an
  immediate: a pointer to \<open>cpu.gpr[r]\<close>, a pointer to the static \<open>zero_null\<close>, or a value. The
  helper pointer \<open>EHelper\<close> is the value \<open>isa_fetch_decode\<close> returns, and the links of the trace
  cache belong to the performance build.
\<close>

datatype operand = Preg u5 | Pzero_null | Imm u64

datatype instr_type = INSTR_TYPE_N | INSTR_TYPE_J | INSTR_TYPE_B | INSTR_TYPE_I

record Decode =
  dec_pc :: u64
  dec_snpc :: u64
  dec_prev_pc :: u64
  dec_prev_type :: cfi
  dec_prev_is_cfi :: bool
  id_dest :: operand
  id_src1 :: operand
  id_src2 :: operand
  dec_jnpc :: u64
  dec_idx_in_bb :: u16
  dec_type :: instr_type
  dec_instr :: u32

record machine =
  cfg_share :: bool
  gpr :: "u5 \<Rightarrow> u64"
  fpr :: "u5 \<Rightarrow> u64"
  zero_null :: u64
  pc :: u64
  mode :: u64
  amo :: bool
  lr_addr :: u64
  lr_valid :: u64
  guided_exec :: bool
  execution_guide :: execution_guide_t
  current_pc :: u64
  query_mem_event :: mem_event_t
  shadow :: "u12 \<Rightarrow> u64"
  csr_array :: "u12 \<Rightarrow> u64"
  csr_perf :: u64
  ifetch_mmu_state :: mmu_mode
  data_mmu_state :: mmu_mode
  pf_last_addr :: "mem_type \<Rightarrow> u64"
  pf_force_count :: "mem_type \<Rightarrow> nat"
  pmem :: "u64 \<Rightarrow> u8"
  memory_size :: u64
  ignore_illegal_mem_access :: bool
  hostrtlb :: "u12 \<Rightarrow> hosttlb_entry"
  hostwtlb :: "u12 \<Rightarrow> hosttlb_entry"
  store_commit_queue :: "store_commit_t list"
  scq_head :: nat
  scq_tail :: nat
  io_maps :: "IOMap list"
  pio_maps :: "IOMap list"
  io_space :: "nat \<Rightarrow> u8"
  p_space :: nat
  host_clock :: "nat \<Rightarrow> u64"
  clock_reads :: nat
  util_boot_time :: u64
  boot_time :: u64
  clint_base :: nat
  serial_base :: nat
  serial_out :: "u8 list"
  rtc_port_base :: nat
  i8042_data_port_base :: nat
  key_queue :: "u32 list"
  key_f :: nat
  key_r :: nat
  g_nr_guest_instr :: u64
  g_ex_cause :: u64
  g_sys_state_flag :: u32
  profiling_started :: bool
  nemu_state :: nemu_run
  halt_pc :: u64
  halt_ret :: u32
  dec :: Decode
  n_remain_total :: u64
  n_remain :: u32
  g_timer :: u64
  device_update_flag :: bool
  alarm_signal :: "nat \<Rightarrow> bool"
  sdl_queue :: "nat \<Rightarrow> sdl_event list"
  device_polls :: nat
  key_map :: "u8 \<Rightarrow> u32"

type_synonym 'a exec = "(machine, 'a) nemu"

text \<open>
  Static storage at process start: everything zero, the memory size the configured one, and
  \<open>nemu_state\<close> stopped (\<open>src/utils/state.c\<close>).
\<close>

definition static_init :: "bool \<Rightarrow> machine" where
  "static_init share = \<lparr>
     cfg_share = share, gpr = (\<lambda>_. 0), fpr = (\<lambda>_. 0), zero_null = 0, pc = 0, mode = 0, amo = False,
     lr_addr = 0, lr_valid = 0, guided_exec = False,
     execution_guide = \<lparr>force_raise_exception = False, exception_num = 0, guide_mtval = 0,
       guide_stval = 0, force_set_jump_target = False, jump_target = 0\<rparr>,
     current_pc = 0,
     query_mem_event = \<lparr>ev_pc = 0, ev_access = False, ev_is_load = False, ev_vaddr = 0\<rparr>,
     shadow = (\<lambda>_. 0), csr_array = (\<lambda>_. 0), csr_perf = 0,
     ifetch_mmu_state = MMU_DIRECT, data_mmu_state = MMU_DIRECT,
     pf_last_addr = (\<lambda>_. 0), pf_force_count = (\<lambda>_. 0),
     pmem = (\<lambda>_. 0), memory_size = 0x200000000, ignore_illegal_mem_access = False,
     hostrtlb = (\<lambda>_. \<lparr>tlb_offset = 0, tlb_gvpn = 0\<rparr>),
     hostwtlb = (\<lambda>_. \<lparr>tlb_offset = 0, tlb_gvpn = 0\<rparr>),
     store_commit_queue =
       replicate 64 \<lparr>sc_addr = 0, sc_data = 0, sc_mask = 0, sc_valid = False\<rparr>, scq_head = 0, scq_tail = 0,
     io_maps = [], pio_maps = [], io_space = (\<lambda>_. 0), p_space = 0,
     host_clock = (\<lambda>_. 0), clock_reads = 0, util_boot_time = 0, boot_time = 0, clint_base = 0, serial_base = 0,
     serial_out = [], rtc_port_base = 0, i8042_data_port_base = 0,
     key_queue = replicate 1024 0,
     key_f = 0, key_r = 0, g_nr_guest_instr = 0, g_ex_cause = 0, g_sys_state_flag = 0,
     profiling_started = False, nemu_state = NEMU_STOP, halt_pc = 0, halt_ret = 0,
     dec = \<lparr>dec_pc = 0, dec_snpc = 0, dec_prev_pc = 0, dec_prev_type = CFI_NONE, dec_prev_is_cfi = False,
       id_dest = Imm 0, id_src1 = Imm 0, id_src2 = Imm 0, dec_jnpc = 0, dec_idx_in_bb = 0,
       dec_type = INSTR_TYPE_N, dec_instr = 0\<rparr>,
     n_remain_total = 0, n_remain = 0, g_timer = 0, device_update_flag = False, alarm_signal = (\<lambda>_. False),
     sdl_queue = (\<lambda>_. []), device_polls = 0, key_map = (\<lambda>_. 0)\<rparr>"

lemma static_init_simps [simp]:
  "cfg_share (static_init b) = b" "gpr (static_init b) = (\<lambda>_. 0)" "mode (static_init b) = 0"
  "pc (static_init b) = 0" "amo (static_init b) = False" "csr_array (static_init b) = (\<lambda>_. 0)"
  "pmem (static_init b) = (\<lambda>_. 0)" "memory_size (static_init b) = 0x200000000"
  "ifetch_mmu_state (static_init b) = MMU_DIRECT" "data_mmu_state (static_init b) = MMU_DIRECT"
  "lr_valid (static_init b) = 0" "lr_addr (static_init b) = 0" "guided_exec (static_init b) = False"
  "ignore_illegal_mem_access (static_init b) = False" "io_maps (static_init b) = []"
  "store_commit_queue (static_init b) =
     replicate 64 \<lparr>sc_addr = 0, sc_data = 0, sc_mask = 0, sc_valid = False\<rparr>"
  "scq_head (static_init b) = 0" "scq_tail (static_init b) = 0" "nemu_state (static_init b) = NEMU_STOP"
  by (simp_all add: static_init_def)

section \<open>Control and status registers as an array\<close>

text \<open>
  \<open>rtlreg_t csr_array[4096]\<close>: the index type is 12 bits wide, so that the assertion
  \<open>addr < 4096\<close> of the C code is the type of the model. A named CSR pointer of the C code,
  such as \<open>mstatus\<close>, points to a fixed element; its name is the address below.
\<close>

abbreviation csr :: "u12 \<Rightarrow> machine \<Rightarrow> u64" where
  "csr a s \<equiv> csr_array s a"

definition set_csr :: "u12 \<Rightarrow> u64 \<Rightarrow> machine \<Rightarrow> machine" where
  "set_csr a v s = s\<lparr>csr_array := (csr_array s)(a := v)\<rparr>"

lemma csr_set_csr [simp]: "csr_array (set_csr a v s) = (csr_array s)(a := v)"
  by (simp add: set_csr_def)

lemma set_csr_frame [simp]:
  "cfg_share (set_csr a v s) = cfg_share s"
  "gpr (set_csr a v s) = gpr s"
  "pc (set_csr a v s) = pc s"
  "mode (set_csr a v s) = mode s"
  "amo (set_csr a v s) = amo s"
  "pmem (set_csr a v s) = pmem s"
  "memory_size (set_csr a v s) = memory_size s"
  "ifetch_mmu_state (set_csr a v s) = ifetch_mmu_state s"
  "data_mmu_state (set_csr a v s) = data_mmu_state s"
  "io_maps (set_csr a v s) = io_maps s"
  "lr_addr (set_csr a v s) = lr_addr s"
  "lr_valid (set_csr a v s) = lr_valid s"
  "guided_exec (set_csr a v s) = guided_exec s"
  "execution_guide (set_csr a v s) = execution_guide s"
  "ignore_illegal_mem_access (set_csr a v s) = ignore_illegal_mem_access s"
  "nemu_state (set_csr a v s) = nemu_state s"
  "g_sys_state_flag (set_csr a v s) = g_sys_state_flag s"
  "g_ex_cause (set_csr a v s) = g_ex_cause s"
  by (simp_all add: set_csr_def)

section \<open>General-purpose registers\<close>

definition set_gpr :: "u5 \<Rightarrow> u64 \<Rightarrow> machine \<Rightarrow> machine" where
  "set_gpr r v s = s\<lparr>gpr := (gpr s)(r := v)\<rparr>"

lemma gpr_set_gpr [simp]: "gpr (set_gpr r v s) = (gpr s)(r := v)"
  by (simp add: set_gpr_def)

section \<open>Non-local exits\<close>

text \<open>
  \<open>longjmp_exception\<close> (\<open>src/cpu/cpu-exec.c\<close>) records the cause and leaves; in a guided build
  (\<open>CONFIG_GUIDED_EXEC\<close>, which goes with \<open>CONFIG_SHARE\<close>) it first ends the guided step.
\<close>

definition longjmp_exec :: "nat \<Rightarrow> 'a exec" where
  "longjmp_exec cause s = (Jmp cause, s)"

definition longjmp_exception :: "u64 \<Rightarrow> 'a exec" where
  "longjmp_exception ex_cause s =
     (Exn ex_cause,
      (if cfg_share s then s\<lparr>guided_exec := False\<rparr> else s)\<lparr>g_ex_cause := ex_cause\<rparr>)"

definition set_sys_state_flag :: "u32 \<Rightarrow> unit exec" where
  "set_sys_state_flag flag = modify_m (\<lambda>s. s\<lparr>g_sys_state_flag := g_sys_state_flag s OR flag\<rparr>)"

definition set_nemu_state :: "nemu_run \<Rightarrow> u64 \<Rightarrow> u32 \<Rightarrow> unit exec" where
  "set_nemu_state st hpc ret = modify_m (\<lambda>s. s\<lparr>nemu_state := st, halt_pc := hpc, halt_ret := ret\<rparr>)"

lemma longjmp_exception_outcome [simp]: "fst (longjmp_exception e s) = Exn e"
  by (simp add: longjmp_exception_def)

lemma longjmp_exception_frame [simp]:
  "csr_array (snd (longjmp_exception e s)) = csr_array s"
  "gpr (snd (longjmp_exception e s)) = gpr s"
  "mode (snd (longjmp_exception e s)) = mode s"
  "pmem (snd (longjmp_exception e s)) = pmem s"
  "pc (snd (longjmp_exception e s)) = pc s"
  "amo (snd (longjmp_exception e s)) = amo s"
  "cfg_share (snd (longjmp_exception e s)) = cfg_share s"
  by (simp_all add: longjmp_exception_def)

section \<open>Host TLB flush and system flags\<close>

text \<open>
  \<open>hosttlb_flush\<close> (\<open>src/memory/host-tlb.c\<close>). The table of \<open>HOSTTLB_SIZE * 2\<close> entries is split
  into its read and its write half, indexed by the low 12 bits of the virtual page number;
  \<open>memset(hosttlb, -1, ...)\<close> makes every byte of every entry 0xff.
\<close>

definition hosttlb_vpn :: "u64 \<Rightarrow> u64" where
  "hosttlb_vpn vaddr = shr vaddr 12"

definition hosttlb_idx :: "u64 \<Rightarrow> u12" where
  "hosttlb_idx vaddr = ucast (hosttlb_vpn vaddr mod 4096)"

definition hosttlb_flush :: "u64 \<Rightarrow> unit exec" where
  "hosttlb_flush vaddr = modify_m (\<lambda>s.
     if vaddr = 0 then s\<lparr>hostrtlb := (\<lambda>_. \<lparr>tlb_offset = -1, tlb_gvpn = -1\<rparr>),
                         hostwtlb := (\<lambda>_. \<lparr>tlb_offset = -1, tlb_gvpn = -1\<rparr>)\<rparr>
     else let gvpn = hosttlb_vpn vaddr; idx = hosttlb_idx vaddr;
              r = hostrtlb s idx; w = hostwtlb s idx
          in s\<lparr>hostrtlb := (if tlb_gvpn r = gvpn then (hostrtlb s)(idx := r\<lparr>tlb_gvpn := -1\<rparr>)
                            else hostrtlb s),
               hostwtlb := (if tlb_gvpn w = gvpn then (hostwtlb s)(idx := w\<lparr>tlb_gvpn := -1\<rparr>)
                            else hostwtlb s)\<rparr>)"

definition mmu_tlb_flush :: "u64 \<Rightarrow> unit exec" where
  "mmu_tlb_flush vaddr =
     then_m (hosttlb_flush vaddr) (when_m (vaddr = 0) (set_sys_state_flag SYS_STATE_FLUSH_TCACHE))"

lemma mmu_tlb_flush_ret: "fst (mmu_tlb_flush v s) = Ret ()"
  by (simp add: mmu_tlb_flush_def hosttlb_flush_def set_sys_state_flag_def monad_simps)

end
