(* ===== verification/Instr_Pattern.thy ===== *)
theory Instr_Pattern
  imports Machine
begin

text \<open>
  The pattern matcher of the instruction decoder (\<open>include/cpu/decode.h\<close>): \<open>pattern_decode\<close>
  turns a pattern string into a key, a mask and a shift, and \<open>def_INSTR_raw\<close> tests an
  instruction word with them. The theorem of this theory says that the test is the pattern
  read as a picture of the word, most significant bit first.
\<close>

section \<open>The model\<close>

text \<open>
  One round of the unrolled loop per character; a character other than a blank, \<open>0\<close>, \<open>1\<close> and
  \<open>?\<close> fails the assertion (\<open>None\<close>). The loop is unrolled 64 times, so a longer string is cut.
  In C a pattern of 32 question marks shifts a 32-bit word by 32, which the C standard leaves
  undefined; key and mask are zero there, so that the test does not depend on the result.
\<close>

fun pattern_loop :: "string \<Rightarrow> u32 \<times> u32 \<times> u32 \<Rightarrow> (u32 \<times> u32 \<times> u32) option" where
  "pattern_loop [] (key, msk, sh) = Some (key, msk, sh)"
| "pattern_loop (c # cs) (key, msk, sh) =
    (if c = CHR '' '' then pattern_loop cs (key, msk, sh)
     else if \<not> (c = CHR ''0'' \<or> c = CHR ''1'' \<or> c = CHR ''?'') then None
     else pattern_loop cs
       (shl key 1 OR (if c = CHR ''1'' then 1 else 0),
        shl msk 1 OR (if c = CHR ''?'' then 0 else 1),
        (if c = CHR ''?'' then sh + 1 else 0)))"

definition pattern_decode :: "string \<Rightarrow> (u32 \<times> u32 \<times> u32) option" where
  "pattern_decode str = map_option
     (\<lambda>(key, msk, sh). (shr key (unat sh), shr msk (unat sh), sh))
     (pattern_loop (take 64 str) (0, 0, 0))"

text \<open>The test of \<open>def_INSTR_raw\<close>.\<close>

definition instr_matches :: "string \<Rightarrow> u32 \<Rightarrow> bool option" where
  "instr_matches pattern instr =
     map_option (\<lambda>(key, msk, sh). shr instr (unat sh) AND msk = key) (pattern_decode pattern)"

section \<open>What a pattern means\<close>

definition pattern_chars :: "string \<Rightarrow> string" where
  "pattern_chars str = filter (\<lambda>c. c \<noteq> CHR '' '') str"

definition pattern_valid :: "string \<Rightarrow> bool" where
  "pattern_valid str \<longleftrightarrow> length str \<le> 64 \<and> length (pattern_chars str) \<le> 32 \<and>
     list_all (\<lambda>c. c = CHR ''0'' \<or> c = CHR ''1'' \<or> c = CHR ''?'') (pattern_chars str)"

text \<open>The characters from the right against the bits from the least significant one.\<close>

definition pattern_holds :: "string \<Rightarrow> u32 \<Rightarrow> bool" where
  "pattern_holds str w \<longleftrightarrow>
     list_all (\<lambda>(i, c). c = CHR ''?'' \<or> (bit w i \<longleftrightarrow> c = CHR ''1''))
       (enumerate 0 (rev (pattern_chars str)))"

section \<open>Proof\<close>

fun pat_key :: "string \<Rightarrow> u32" where
  "pat_key [] = 0"
| "pat_key (c # cs) = shl (pat_key cs) 1 OR (if c = CHR ''1'' then 1 else 0)"

fun pat_mask :: "string \<Rightarrow> u32" where
  "pat_mask [] = 0"
| "pat_mask (c # cs) = shl (pat_mask cs) 1 OR (if c = CHR ''?'' then 0 else 1)"

definition pat_shift :: "string \<Rightarrow> nat" where
  "pat_shift cs = length (takeWhile (\<lambda>c. c = CHR ''?'') cs)"

lemma pattern_loop_eq:
  assumes "list_all (\<lambda>c. c = CHR ''0'' \<or> c = CHR ''1'' \<or> c = CHR ''?'') (pattern_chars str)"
  shows "pattern_loop str (pat_key cs, pat_mask cs, of_nat (pat_shift cs)) =
    Some (pat_key (rev (pattern_chars str) @ cs), pat_mask (rev (pattern_chars str) @ cs),
          of_nat (pat_shift (rev (pattern_chars str) @ cs)))"
  using assms
proof (induction str arbitrary: cs)
  case Nil
  show ?case by (simp add: pattern_chars_def)
next
  case (Cons c str)
  show ?case
  proof (cases "c = CHR '' ''")
    case True
    then show ?thesis using Cons by (simp add: pattern_chars_def)
  next
    case False
    then have chars: "pattern_chars (c # str) = c # pattern_chars str"
      by (simp add: pattern_chars_def)
    have c: "c = CHR ''0'' \<or> c = CHR ''1'' \<or> c = CHR ''?''" and
      str: "list_all (\<lambda>c. c = CHR ''0'' \<or> c = CHR ''1'' \<or> c = CHR ''?'') (pattern_chars str)"
      using Cons.prems by (simp_all add: chars)
    have "(if c = CHR ''?'' then of_nat (pat_shift cs) + 1 else 0) = (of_nat (pat_shift (c # cs)) :: u32)"
      by (simp add: pat_shift_def)
    with c False have "pattern_loop (c # str) (pat_key cs, pat_mask cs, of_nat (pat_shift cs)) =
        pattern_loop str (pat_key (c # cs), pat_mask (c # cs), of_nat (pat_shift (c # cs)))"
      by (simp only: pattern_loop.simps pat_key.simps pat_mask.simps if_True if_False not_True_eq_False)
    also have "\<dots> = Some (pat_key (rev (pattern_chars str) @ c # cs),
        pat_mask (rev (pattern_chars str) @ c # cs), of_nat (pat_shift (rev (pattern_chars str) @ c # cs)))"
      by (rule Cons.IH [OF str])
    finally show ?thesis by (simp add: chars)
  qed
qed

lemma bit_shift_in:
  "bit (shl w 1 OR (if b then 1 else 0)) i \<longleftrightarrow> i < 32 \<and> (case i of 0 \<Rightarrow> b | Suc j \<Rightarrow> bit w j)" for w :: u32
proof -
  have "bit (if b then 1 else (0 :: u32)) i \<longleftrightarrow> b \<and> i = 0" by (simp add: bit_1_iff)
  moreover have "bit (shl w 1) i \<longleftrightarrow> i < 32 \<and> (case i of 0 \<Rightarrow> False | Suc j \<Rightarrow> bit w j)"
    by (cases i) (simp_all only: bit_push_bit_iff possible_bit_word, auto)
  ultimately show ?thesis by (cases i) (simp_all only: bit_or_iff, auto)
qed

lemma bit_pat_key: "bit (pat_key cs) i \<longleftrightarrow> i < 32 \<and> i < length cs \<and> cs ! i = CHR ''1''"
proof (induction cs arbitrary: i)
  case (Cons c cs)
  show ?case unfolding pat_key.simps bit_shift_in
    by (cases i) (simp_all only: Cons.IH nat.case length_Cons nth_Cons_0 nth_Cons_Suc, auto)
qed simp

lemma bit_pat_mask: "bit (pat_mask cs) i \<longleftrightarrow> i < 32 \<and> i < length cs \<and> cs ! i \<noteq> CHR ''?''"
proof (induction cs arbitrary: i)
  case (Cons c cs)
  have eq: "(if c = CHR ''?'' then 0 else 1) = (if c \<noteq> CHR ''?'' then 1 else (0 :: u32))" by simp
  show ?case unfolding pat_mask.simps eq bit_shift_in
    by (cases i) (simp_all only: Cons.IH nat.case length_Cons nth_Cons_0 nth_Cons_Suc, auto)
qed simp

lemma pat_shift_le: "pat_shift cs \<le> length cs"
  by (simp add: pat_shift_def length_takeWhile_le)

lemma pat_below_shift: "i < pat_shift cs \<Longrightarrow> cs ! i = CHR ''?''"
  using nth_mem [of i "takeWhile (\<lambda>c. c = CHR ''?'') cs"]
  by (auto simp: pat_shift_def takeWhile_nth dest: set_takeWhileD)

lemma masked_eq_iff:
  "shr w n AND shr m n = shr k n \<longleftrightarrow> (\<forall>i\<ge>n. bit w i \<and> bit m i \<longleftrightarrow> bit k i)" for w m k :: u32
proof -
  have "shr w n AND shr m n = shr k n \<longleftrightarrow> (\<forall>j. bit w (n + j) \<and> bit m (n + j) \<longleftrightarrow> bit k (n + j))"
  proof
    assume "shr w n AND shr m n = shr k n"
    then have "bit (shr w n AND shr m n) j = bit (shr k n) j" for j by simp
    then show "\<forall>j. bit w (n + j) \<and> bit m (n + j) \<longleftrightarrow> bit k (n + j)" by (simp add: bit_simps)
  qed (auto intro!: bit_word_eqI simp: bit_simps)
  then show ?thesis by (metis le_add1 le_add_diff_inverse)
qed

lemma pattern_match_chars:
  assumes "length cs \<le> 32"
  shows "(shr w (pat_shift cs) AND shr (pat_mask cs) (pat_shift cs) = shr (pat_key cs) (pat_shift cs)) \<longleftrightarrow>
    (\<forall>i < length cs. cs ! i = CHR ''?'' \<or> (bit w i \<longleftrightarrow> cs ! i = CHR ''1''))"
proof -
  have "(bit w i \<and> i < 32 \<and> i < length cs \<and> cs ! i \<noteq> CHR ''?'' \<longleftrightarrow>
      i < 32 \<and> i < length cs \<and> cs ! i = CHR ''1'') \<longleftrightarrow>
      (i < length cs \<longrightarrow> cs ! i = CHR ''?'' \<or> (bit w i \<longleftrightarrow> cs ! i = CHR ''1''))" for i
    using assms by (cases "cs ! i = CHR ''?''") auto
  then show ?thesis
    unfolding masked_eq_iff bit_pat_key bit_pat_mask using pat_below_shift [of _ cs]
    by (meson not_le)
qed

lemma instr_matches_holds:
  assumes "pattern_valid pattern"
  shows "instr_matches pattern w = Some (pattern_holds pattern w)"
proof -
  let ?cs = "rev (pattern_chars pattern)"
  have len: "length ?cs \<le> 32" and take: "take 64 pattern = pattern"
    using assms by (simp_all add: pattern_valid_def)
  have "pattern_loop pattern (0, 0, 0) =
      Some (pat_key ?cs, pat_mask ?cs, of_nat (pat_shift ?cs))"
    using pattern_loop_eq [of pattern "[]"] assms by (simp add: pattern_valid_def pat_shift_def)
  moreover have "unat (of_nat (pat_shift ?cs) :: u32) = pat_shift ?cs"
    using pat_shift_le [of ?cs] len by (simp add: unsigned_of_nat take_bit_nat_eq_self)
  ultimately have "instr_matches pattern w = Some (shr w (pat_shift ?cs) AND
      shr (pat_mask ?cs) (pat_shift ?cs) = shr (pat_key ?cs) (pat_shift ?cs))"
    by (simp add: instr_matches_def pattern_decode_def take)
  then show ?thesis
    unfolding pattern_match_chars [OF len] pattern_holds_def
    by (simp add: list_all_iff in_set_enumerate_eq split_beta Ball_def)
qed

text \<open>
  C29. An instruction word passes the decoder's key, mask and shift test of a pattern exactly
  when it looks like the pattern: reading the pattern from the right without its blanks, each
  \<open>0\<close> and \<open>1\<close> is the bit at that position and \<open>?\<close> is anything.
\<close>

theorem pattern_decode_spec:
  assumes "pattern_valid pattern"
  shows "instr_matches pattern w = Some (pattern_holds pattern w)"
  by (rule instr_matches_holds [OF assms])

theorem pattern_decode_spec_witness:
  "instr_matches ''0100000 ????? ????? 101 ????? ????? ??'' 0x40735293 =
     Some (pattern_holds ''0100000 ????? ????? 101 ????? ????? ??'' 0x40735293) \<and>
   pattern_holds ''0100000 ????? ????? 101 ????? ????? ??'' 0x40735293 \<and>
   \<not> pattern_holds ''0100000 ????? ????? 101 ????? ????? ??'' 0x00735293"
proof -
  have "pattern_valid ''0100000 ????? ????? 101 ????? ????? ??''" by code_simp
  from pattern_decode_spec [OF this] show ?thesis by (intro conjI) (blast, code_simp+)
qed

end
