(* ===== verification/Csr_Def.thy ===== *)
theory Csr_Def
  imports Machine
begin

text \<open>
  The control and status registers of \<open>src/isa/riscv64/local-include/csr.h\<close>: the register
  lists with their addresses, the bit-field layouts of the registers the emulator reads by
  field, the masks, and \<open>init_csr\<close> / \<open>csr_is_legal\<close>'s table of existing registers. A layout is
  the C struct as a list of field names and widths, least significant first; the positions
  the accessors use are proved to be those of the layout.
\<close>

section \<open>Register lists\<close>

definition CUSTOM_CSR :: "(string \<times> u12) list" where
  "CUSTOM_CSR = [(''srnctl'', 0x5c4)]"

definition CSRS_PMP :: "(string \<times> u12) list" where
  "CSRS_PMP =
     [(''pmpcfg0'', 0x3a0), (''pmpcfg2'', 0x3a2),
      (''pmpaddr0'', 0x3b0), (''pmpaddr1'', 0x3b1), (''pmpaddr2'', 0x3b2), (''pmpaddr3'', 0x3b3),
      (''pmpaddr4'', 0x3b4), (''pmpaddr5'', 0x3b5), (''pmpaddr6'', 0x3b6), (''pmpaddr7'', 0x3b7),
      (''pmpaddr8'', 0x3b8), (''pmpaddr9'', 0x3b9), (''pmpaddr10'', 0x3ba), (''pmpaddr11'', 0x3bb),
      (''pmpaddr12'', 0x3bc), (''pmpaddr13'', 0x3bd), (''pmpaddr14'', 0x3be), (''pmpaddr15'', 0x3bf)]"

definition DASICS_CSRS :: "(string \<times> u12) list" where
  "DASICS_CSRS =
     [(''dsmcfg'', 0xbc0), (''dsmbound0'', 0xbc2), (''dsmbound1'', 0xbc3),
      (''dumcfg'', 0x9e0), (''dumbound0'', 0x9e2), (''dumbound1'', 0x9e3),
      (''dlcfg0'', 0x880),
      (''dlbound0'', 0x890), (''dlbound1'', 0x891), (''dlbound2'', 0x892), (''dlbound3'', 0x893),
      (''dlbound4'', 0x894), (''dlbound5'', 0x895), (''dlbound6'', 0x896), (''dlbound7'', 0x897),
      (''dlbound8'', 0x898), (''dlbound9'', 0x899), (''dlbound10'', 0x89a), (''dlbound11'', 0x89b),
      (''dlbound12'', 0x89c), (''dlbound13'', 0x89d), (''dlbound14'', 0x89e), (''dlbound15'', 0x89f),
      (''dlbound16'', 0x8a0), (''dlbound17'', 0x8a1), (''dlbound18'', 0x8a2), (''dlbound19'', 0x8a3),
      (''dlbound20'', 0x8a4), (''dlbound21'', 0x8a5), (''dlbound22'', 0x8a6), (''dlbound23'', 0x8a7),
      (''dlbound24'', 0x8a8), (''dlbound25'', 0x8a9), (''dlbound26'', 0x8aa), (''dlbound27'', 0x8ab),
      (''dlbound28'', 0x8ac), (''dlbound29'', 0x8ad), (''dlbound30'', 0x8ae), (''dlbound31'', 0x8af),
      (''dmaincall'', 0x8b0), (''dretpc'', 0x8b1), (''dretpcfz'', 0x8b2), (''dfreason'', 0x8b3),
      (''djbound0lo'', 0x8c0), (''djbound0hi'', 0x8c1), (''djbound1lo'', 0x8c2), (''djbound1hi'', 0x8c3),
      (''djbound2lo'', 0x8c4), (''djbound2hi'', 0x8c5), (''djbound3lo'', 0x8c6), (''djbound3hi'', 0x8c7),
      (''djcfg'', 0x8c8)]"

definition MPK_CSRS :: "(string \<times> u12) list" where
  "MPK_CSRS = [(''upkru'', 0x800), (''spkrs'', 0x9d1), (''spkctl'', 0x9d0)]"

text \<open>The base list; the stand-alone build also has \<open>mtime\<close>.\<close>

definition CSRS :: "bool \<Rightarrow> (string \<times> u12) list" where
  "CSRS share =
     [(''mstatus'', 0x300), (''misa'', 0x301), (''medeleg'', 0x302), (''mideleg'', 0x303),
      (''mie'', 0x304), (''mtvec'', 0x305), (''mcounteren'', 0x306),
      (''mscratch'', 0x340), (''mepc'', 0x341), (''mcause'', 0x342),
      (''mtval'', 0x343), (''mip'', 0x344)] @
     CSRS_PMP @
     [(''mhartid'', 0xf14),
      (''sstatus'', 0x100),
      (''sie'', 0x104), (''stvec'', 0x105), (''scounteren'', 0x106),
      (''sscratch'', 0x140), (''sepc'', 0x141), (''scause'', 0x142),
      (''stval'', 0x143), (''sip'', 0x144),
      (''satp'', 0x180)] @
     CUSTOM_CSR @
     [(''fflags'', 0x001), (''frm'', 0x002), (''fcsr'', 0x003)] @
     (if share then [] else [(''mtime'', 0xc01)])"

definition NCSRS :: "(string \<times> u12) list" where
  "NCSRS =
     [(''ustatus'', 0x000), (''uie'', 0x004), (''utvec'', 0x005),
      (''uscratch'', 0x040), (''uepc'', 0x041), (''ucause'', 0x042),
      (''utval'', 0x043), (''uip'', 0x044), (''utimer'', 0x045),
      (''sedeleg'', 0x102), (''sideleg'', 0x103)]"

definition ARCH_CSRS :: "(string \<times> u12) list" where
  "ARCH_CSRS = [(''mvendorid'', 0xf11), (''marchid'', 0xf12), (''mimpid'', 0xf13)]"

text \<open>
  \<open>init_csr\<close> marks the registers of every configured list as existing; the table is never
  written again.
\<close>

definition all_csrs :: "bool \<Rightarrow> (string \<times> u12) list" where
  "all_csrs share = CSRS share @ NCSRS @ ARCH_CSRS @ DASICS_CSRS @ MPK_CSRS"

definition csr_exist :: "bool \<Rightarrow> u12 \<Rightarrow> bool" where
  "csr_exist share a \<longleftrightarrow> a \<in> snd ` set (all_csrs share)"

lemma csr_exist_code [code]: "csr_exist share a = list_ex (\<lambda>p. snd p = a) (all_csrs share)"
  by (auto simp: csr_exist_def list_ex_iff)

section \<open>Addresses of the named registers\<close>

abbreviation (input) "c_mstatus \<equiv> (0x300 :: u12)"
abbreviation (input) "c_misa \<equiv> (0x301 :: u12)"
abbreviation (input) "c_medeleg \<equiv> (0x302 :: u12)"
abbreviation (input) "c_mideleg \<equiv> (0x303 :: u12)"
abbreviation (input) "c_mie \<equiv> (0x304 :: u12)"
abbreviation (input) "c_mtvec \<equiv> (0x305 :: u12)"
abbreviation (input) "c_mepc \<equiv> (0x341 :: u12)"
abbreviation (input) "c_mcause \<equiv> (0x342 :: u12)"
abbreviation (input) "c_mtval \<equiv> (0x343 :: u12)"
abbreviation (input) "c_mip \<equiv> (0x344 :: u12)"
abbreviation (input) "c_pmpcfg0 \<equiv> (0x3a0 :: u12)"
abbreviation (input) "c_pmpcfg2 \<equiv> (0x3a2 :: u12)"
abbreviation (input) "c_pmpaddr0 \<equiv> (0x3b0 :: u12)"
abbreviation (input) "c_sstatus \<equiv> (0x100 :: u12)"
abbreviation (input) "c_sedeleg \<equiv> (0x102 :: u12)"
abbreviation (input) "c_sideleg \<equiv> (0x103 :: u12)"
abbreviation (input) "c_sie \<equiv> (0x104 :: u12)"
abbreviation (input) "c_stvec \<equiv> (0x105 :: u12)"
abbreviation (input) "c_sepc \<equiv> (0x141 :: u12)"
abbreviation (input) "c_scause \<equiv> (0x142 :: u12)"
abbreviation (input) "c_stval \<equiv> (0x143 :: u12)"
abbreviation (input) "c_sip \<equiv> (0x144 :: u12)"
abbreviation (input) "c_satp \<equiv> (0x180 :: u12)"
abbreviation (input) "c_srnctl \<equiv> (0x5c4 :: u12)"
abbreviation (input) "c_fflags \<equiv> (0x001 :: u12)"
abbreviation (input) "c_frm \<equiv> (0x002 :: u12)"
abbreviation (input) "c_fcsr \<equiv> (0x003 :: u12)"
abbreviation (input) "c_mtime \<equiv> (0xc01 :: u12)"
abbreviation (input) "c_ustatus \<equiv> (0x000 :: u12)"
abbreviation (input) "c_uie \<equiv> (0x004 :: u12)"
abbreviation (input) "c_utvec \<equiv> (0x005 :: u12)"
abbreviation (input) "c_uepc \<equiv> (0x041 :: u12)"
abbreviation (input) "c_ucause \<equiv> (0x042 :: u12)"
abbreviation (input) "c_utval \<equiv> (0x043 :: u12)"
abbreviation (input) "c_uip \<equiv> (0x044 :: u12)"
abbreviation (input) "c_utimer \<equiv> (0x045 :: u12)"
abbreviation (input) "c_dsmcfg \<equiv> (0xbc0 :: u12)"
abbreviation (input) "c_dsmbound0 \<equiv> (0xbc2 :: u12)"
abbreviation (input) "c_dsmbound1 \<equiv> (0xbc3 :: u12)"
abbreviation (input) "c_dumcfg \<equiv> (0x9e0 :: u12)"
abbreviation (input) "c_dumbound0 \<equiv> (0x9e2 :: u12)"
abbreviation (input) "c_dumbound1 \<equiv> (0x9e3 :: u12)"
abbreviation (input) "c_dlcfg0 \<equiv> (0x880 :: u12)"
abbreviation (input) "c_dlbound0 \<equiv> (0x890 :: u12)"
abbreviation (input) "c_dmaincall \<equiv> (0x8b0 :: u12)"
abbreviation (input) "c_dretpc \<equiv> (0x8b1 :: u12)"
abbreviation (input) "c_dretpcfz \<equiv> (0x8b2 :: u12)"
abbreviation (input) "c_dfreason \<equiv> (0x8b3 :: u12)"
abbreviation (input) "c_djbound0 \<equiv> (0x8c0 :: u12)"
abbreviation (input) "c_djcfg \<equiv> (0x8c8 :: u12)"
abbreviation (input) "c_upkru \<equiv> (0x800 :: u12)"
abbreviation (input) "c_spkrs \<equiv> (0x9d1 :: u12)"
abbreviation (input) "c_spkctl \<equiv> (0x9d0 :: u12)"

section \<open>Bit-field layouts\<close>

type_synonym layout = "(string \<times> nat) list"

text \<open>Position of a field: the widths of the fields declared before it.\<close>

fun field_pos_from :: "nat \<Rightarrow> layout \<Rightarrow> string \<Rightarrow> (nat \<times> nat) option" where
  "field_pos_from lo [] f = None"
| "field_pos_from lo ((g, n) # fs) f =
     (if g = f then Some (lo, n) else field_pos_from (lo + n) fs f)"

definition field_pos :: "layout \<Rightarrow> string \<Rightarrow> (nat \<times> nat) option" where
  "field_pos = field_pos_from 0"

definition layout_width :: "layout \<Rightarrow> nat" where
  "layout_width l = sum_list (map snd l)"

definition mstatus_layout :: layout where
  "mstatus_layout =
     [(''uie'', 1), (''sie'', 1), (''pad0'', 1), (''mie'', 1), (''upie'', 1), (''spie'', 1),
      (''pad1'', 1), (''mpie'', 1), (''spp'', 1), (''vs'', 2), (''mpp'', 2), (''fs'', 2),
      (''xs'', 2), (''mprv'', 1), (''sum'', 1), (''mxr'', 1), (''tvm'', 1), (''tw'', 1),
      (''tsr'', 1), (''pad3'', 9), (''uxl'', 2), (''sxl'', 2), (''sbe'', 1), (''mbe'', 1),
      (''pad4'', 25), (''sd'', 1)]"

definition misa_layout :: layout where
  "misa_layout = [(''extensions'', 26), (''pad'', 36), (''mxl'', 2)]"

definition mcause_layout :: layout where
  "mcause_layout = [(''code'', 63), (''intr'', 1)]"

definition mie_layout :: layout where
  "mie_layout =
     [(''usie'', 1), (''ssie'', 1), (''hsie'', 1), (''msie'', 1),
      (''utie'', 1), (''stie'', 1), (''htie'', 1), (''mtie'', 1),
      (''ueie'', 1), (''seie'', 1), (''heie'', 1), (''meie'', 1)]"

definition mip_layout :: layout where
  "mip_layout =
     [(''usip'', 1), (''ssip'', 1), (''hsip'', 1), (''msip'', 1),
      (''utip'', 1), (''stip'', 1), (''htip'', 1), (''mtip'', 1),
      (''ueip'', 1), (''seip'', 1), (''heip'', 1), (''meip'', 1)]"

definition satp_layout :: layout where
  "satp_layout = [(''ppn'', 44), (''asid'', 16), (''mode'', 4)]"

definition srnctl_layout :: layout where
  "srnctl_layout = [(''rnctrl'', 1), (''svinval'', 1), (''reserve'', 63)]"

definition spkctl_layout :: layout where
  "spkctl_layout = [(''pke'', 1), (''pks'', 1)]"

definition dsmcfg_layout :: layout where
  "dsmcfg_layout =
     [(''mcfg_sena'', 1), (''mcfg_uena'', 1), (''mcfg_cuet'', 1), (''mcfg_cust'', 1),
      (''mcfg_cult'', 1), (''mcfg_cuft'', 1), (''mcfg_cset'', 1), (''mcfg_csst'', 1),
      (''mcfg_cslt'', 1), (''mcfg_csft'', 1)]"

section \<open>Field accessors\<close>

definition mstatus_uie :: "machine \<Rightarrow> bool" where "mstatus_uie s = bit (csr c_mstatus s) 0"
definition mstatus_sie :: "machine \<Rightarrow> bool" where "mstatus_sie s = bit (csr c_mstatus s) 1"
definition mstatus_mie :: "machine \<Rightarrow> bool" where "mstatus_mie s = bit (csr c_mstatus s) 3"
definition mstatus_upie :: "machine \<Rightarrow> bool" where "mstatus_upie s = bit (csr c_mstatus s) 4"
definition mstatus_spie :: "machine \<Rightarrow> bool" where "mstatus_spie s = bit (csr c_mstatus s) 5"
definition mstatus_mpie :: "machine \<Rightarrow> bool" where "mstatus_mpie s = bit (csr c_mstatus s) 7"
definition mstatus_spp :: "machine \<Rightarrow> u64" where "mstatus_spp s = fld 8 1 (csr c_mstatus s)"
definition mstatus_mpp :: "machine \<Rightarrow> u64" where "mstatus_mpp s = fld 11 2 (csr c_mstatus s)"
definition mstatus_fs :: "machine \<Rightarrow> u64" where "mstatus_fs s = fld 13 2 (csr c_mstatus s)"
definition mstatus_mprv :: "machine \<Rightarrow> bool" where "mstatus_mprv s = bit (csr c_mstatus s) 17"
definition mstatus_sum :: "machine \<Rightarrow> bool" where "mstatus_sum s = bit (csr c_mstatus s) 18"
definition mstatus_mxr :: "machine \<Rightarrow> bool" where "mstatus_mxr s = bit (csr c_mstatus s) 19"
definition mstatus_tvm :: "machine \<Rightarrow> bool" where "mstatus_tvm s = bit (csr c_mstatus s) 20"
definition mstatus_tw :: "machine \<Rightarrow> bool" where "mstatus_tw s = bit (csr c_mstatus s) 21"
definition mstatus_tsr :: "machine \<Rightarrow> bool" where "mstatus_tsr s = bit (csr c_mstatus s) 22"

lemmas mstatus_defs =
  mstatus_uie_def mstatus_sie_def mstatus_mie_def mstatus_upie_def mstatus_spie_def
  mstatus_mpie_def mstatus_spp_def mstatus_mpp_def mstatus_fs_def mstatus_mprv_def
  mstatus_sum_def mstatus_mxr_def mstatus_tvm_def mstatus_tw_def mstatus_tsr_def

definition satp_ppn :: "machine \<Rightarrow> u64" where "satp_ppn s = fld 0 44 (csr c_satp s)"
definition satp_mode :: "machine \<Rightarrow> u64" where "satp_mode s = fld 60 4 (csr c_satp s)"

definition srnctl_svinval :: "machine \<Rightarrow> bool" where "srnctl_svinval s = bit (csr c_srnctl s) 1"

definition spkctl_pke :: "machine \<Rightarrow> bool" where "spkctl_pke s = bit (csr c_spkctl s) 0"
definition spkctl_pks :: "machine \<Rightarrow> bool" where "spkctl_pks s = bit (csr c_spkctl s) 1"

definition mcfg_sena :: "machine \<Rightarrow> bool" where "mcfg_sena s = bit (csr c_dsmcfg s) 0"
definition mcfg_uena :: "machine \<Rightarrow> bool" where "mcfg_uena s = bit (csr c_dsmcfg s) 1"
definition mcfg_cuet :: "machine \<Rightarrow> bool" where "mcfg_cuet s = bit (csr c_dsmcfg s) 2"
definition mcfg_cust :: "machine \<Rightarrow> bool" where "mcfg_cust s = bit (csr c_dsmcfg s) 3"
definition mcfg_cult :: "machine \<Rightarrow> bool" where "mcfg_cult s = bit (csr c_dsmcfg s) 4"
definition mcfg_cuft :: "machine \<Rightarrow> bool" where "mcfg_cuft s = bit (csr c_dsmcfg s) 5"
definition mcfg_cset :: "machine \<Rightarrow> bool" where "mcfg_cset s = bit (csr c_dsmcfg s) 6"
definition mcfg_csst :: "machine \<Rightarrow> bool" where "mcfg_csst s = bit (csr c_dsmcfg s) 7"
definition mcfg_cslt :: "machine \<Rightarrow> bool" where "mcfg_cslt s = bit (csr c_dsmcfg s) 8"
definition mcfg_csft :: "machine \<Rightarrow> bool" where "mcfg_csft s = bit (csr c_dsmcfg s) 9"

lemmas mcfg_defs = mcfg_sena_def mcfg_uena_def mcfg_cuet_def mcfg_cust_def mcfg_cult_def
  mcfg_cuft_def mcfg_cset_def mcfg_csst_def mcfg_cslt_def mcfg_csft_def

text \<open>The accessors read the positions the struct declarations give.\<close>

lemma mstatus_layout_width: "layout_width mstatus_layout = 64"
  by (simp add: layout_width_def mstatus_layout_def)

lemma mstatus_layout_pos:
  "map (field_pos mstatus_layout)
     [''uie'', ''sie'', ''mie'', ''upie'', ''spie'', ''mpie'', ''spp'', ''mpp'', ''fs'',
      ''mprv'', ''sum'', ''mxr'', ''tvm'', ''tw'', ''tsr'', ''uxl'', ''sxl'', ''sd''] =
   map Some [(0, 1), (1, 1), (3, 1), (4, 1), (5, 1), (7, 1), (8, 1), (11, 2), (13, 2),
      (17, 1), (18, 1), (19, 1), (20, 1), (21, 1), (22, 1), (32, 2), (34, 2), (63, 1)]"
  by code_simp

lemma other_layout_pos:
  "field_pos satp_layout ''ppn'' = Some (0, 44)" "field_pos satp_layout ''mode'' = Some (60, 4)"
  "field_pos srnctl_layout ''svinval'' = Some (1, 1)"
  "field_pos spkctl_layout ''pke'' = Some (0, 1)" "field_pos spkctl_layout ''pks'' = Some (1, 1)"
  "field_pos mip_layout ''mtip'' = Some (7, 1)"
  "field_pos misa_layout ''extensions'' = Some (0, 26)" "field_pos misa_layout ''mxl'' = Some (62, 2)"
  by code_simp+

lemma dsmcfg_layout_pos:
  "map (field_pos dsmcfg_layout)
     [''mcfg_sena'', ''mcfg_uena'', ''mcfg_cuet'', ''mcfg_cust'', ''mcfg_cult'',
      ''mcfg_cuft'', ''mcfg_cset'', ''mcfg_csst'', ''mcfg_cslt'', ''mcfg_csft''] =
   map Some [(0, 1), (1, 1), (2, 1), (3, 1), (4, 1), (5, 1), (6, 1), (7, 1), (8, 1), (9, 1)]"
  by code_simp

section \<open>Masks\<close>

definition MSTATUS_WMASK :: u64 where "MSTATUS_WMASK = 0x7e79bb OR shl 1 63"
definition SSTATUS_WMASK :: u64 where
  "SSTATUS_WMASK = shl 1 19 OR shl 1 18 OR shl 3 13 OR (shl 1 4 OR shl 1 0) OR
     shl 1 8 OR shl 1 5 OR shl 1 1"
definition SSTATUS_RMASK :: u64 where
  "SSTATUS_RMASK = SSTATUS_WMASK OR shl 3 15 OR shl 1 63 OR shl 3 32"
definition USTATUS_WMASK :: u64 where "USTATUS_WMASK = shl 1 4 OR 1"
definition USTATUS_RMASK :: u64 where "USTATUS_RMASK = USTATUS_WMASK"
definition MIP_MASK :: u64 where "MIP_MASK = 0xbbb"
definition SIE_MASK :: "machine \<Rightarrow> u64" where "SIE_MASK s = 0x333 AND csr c_mideleg s"
definition SIP_MASK :: "machine \<Rightarrow> u64" where "SIP_MASK s = 0x333 AND csr c_mideleg s"
definition SIP_WMASK_S :: u64 where "SIP_WMASK_S = 3"
definition MTIE_MASK :: u64 where "MTIE_MASK = shl 1 7"
definition UIE_MASK :: "machine \<Rightarrow> u64" where "UIE_MASK s = 0x111 AND csr c_sideleg s"
definition UIP_MASK :: "machine \<Rightarrow> u64" where "UIP_MASK s = 0x111 AND csr c_sideleg s"
definition UIP_WMASK_U :: u64 where "UIP_WMASK_U = 1"
definition PKR_MASK :: u64 where "PKR_MASK = 0xffffffffffffffff"
definition PKCTL_MASK :: u64 where "PKCTL_MASK = 3"
definition DUMCFG_MASK :: u64 where "DUMCFG_MASK = 0x20 OR 0x10 OR 0x8 OR 0x4 OR 0x2"
definition DSMCFG_MASK :: u64 where
  "DSMCFG_MASK = 0x200 OR 0x100 OR 0x80 OR 0x40 OR 0x20 OR 0x10 OR 0x8 OR 0x4 OR 0x2 OR 0x1"
definition SATP_SV39_MASK :: u64 where "SATP_SV39_MASK = 0xf000000000000000"

text \<open>
  \<open>CONFIG_PADDRBITS\<close> is 36 in a \<open>CONFIG_SHARE\<close> build and 40 otherwise
  (\<open>src/memory/Kconfig\<close>), which gives the width of \<open>satp.ppn\<close>.
\<close>

definition PADDRBITS :: "machine \<Rightarrow> nat" where
  "PADDRBITS s = (if cfg_share s then 36 else 40)"

definition SATP_MASK :: "machine \<Rightarrow> u64" where
  "SATP_MASK s = shl 8 (16 + 44) OR shl (shl 1 16 - 1) 44 OR (shl 1 (PADDRBITS s - 12) - 1)"

definition MASKED_SATP :: "machine \<Rightarrow> u64 \<Rightarrow> u64" where
  "MASKED_SATP s x = SATP_MASK s AND x"

lemmas csr_masks = MSTATUS_WMASK_def SSTATUS_WMASK_def SSTATUS_RMASK_def USTATUS_WMASK_def
  USTATUS_RMASK_def MIP_MASK_def SIE_MASK_def SIP_MASK_def SIP_WMASK_S_def MTIE_MASK_def
  UIE_MASK_def UIP_MASK_def UIP_WMASK_U_def PKR_MASK_def PKCTL_MASK_def DUMCFG_MASK_def
  DSMCFG_MASK_def SATP_SV39_MASK_def

text \<open>The status masks as numbers.\<close>

lemma SSTATUS_WMASK_num: "SSTATUS_WMASK = 0xc6133"
  by (simp add: SSTATUS_WMASK_def)

lemma SSTATUS_RMASK_num: "SSTATUS_RMASK = 0x80000003000de133"
  by (simp add: SSTATUS_RMASK_def SSTATUS_WMASK_num)

lemma MSTATUS_WMASK_num: "MSTATUS_WMASK = 0x80000000007e79bb"
  by (simp add: MSTATUS_WMASK_def)

lemma DSMCFG_MASK_num: "DSMCFG_MASK = 0x3ff"
  by (simp add: DSMCFG_MASK_def)

lemma DUMCFG_MASK_num: "DUMCFG_MASK = 0x3e"
  by (simp add: DUMCFG_MASK_def)

section \<open>PMP and DASICS constants\<close>

abbreviation (input) "PMP_R \<equiv> (0x01 :: u64)"
abbreviation (input) "PMP_W \<equiv> (0x02 :: u64)"
abbreviation (input) "PMP_X \<equiv> (0x04 :: u64)"
abbreviation (input) "PMP_A \<equiv> (0x18 :: u64)"
abbreviation (input) "PMP_L \<equiv> (0x80 :: u64)"
abbreviation (input) "PMP_TOR \<equiv> (0x08 :: u64)"
abbreviation (input) "PMP_NA4 \<equiv> (0x10 :: u64)"
abbreviation (input) "PMP_NAPOT \<equiv> (0x18 :: u64)"
abbreviation (input) "PMP_SHIFT \<equiv> (2 :: nat)"
abbreviation (input) "PMP_PLATFORMGARIN \<equiv> (12 :: nat)"
abbreviation (input) "CONFIG_RV_PMP_NUM \<equiv> (16 :: nat)"
abbreviation (input) "LIBCFG_V \<equiv> (8 :: u8)"
abbreviation (input) "LIBCFG_R \<equiv> (2 :: u8)"
abbreviation (input) "LIBCFG_W \<equiv> (1 :: u8)"
abbreviation (input) "JUMPCFG_V \<equiv> (1 :: u8)"
abbreviation (input) "MAX_DASICS_LIBBOUNDS \<equiv> (16 :: nat)"
abbreviation (input) "MAX_DASICS_JUMPBOUNDS \<equiv> (4 :: nat)"

end
