(* ===== verification/Intr.thy ===== *)
theory Intr
  imports Csr_Def
begin

text \<open>
  Traps and interrupts: \<open>src/isa/riscv64/system/intr.c\<close>, the macro \<open>INTR_TVAL_REG\<close> of
  \<open>local-include/intr.h\<close>, and \<open>update_mmu_state\<close> of \<open>system/mmu.c\<close>, which every change of
  privilege mode calls. The theory shows where a trap goes, what it saves, that it never
  lowers the privilege, and which interrupt \<open>isa_query_intr\<close> picks.
\<close>

section \<open>The cached translation mode\<close>

text \<open>
  The effective mode of a data access is \<open>mstatus.mpp\<close> under \<open>mprv\<close>. \<open>update_mmu_state\<close>
  fails its assertion when \<open>satp.mode\<close> is neither Bare nor Sv39 in an effective mode below M.
\<close>

definition effective_mode :: "bool \<Rightarrow> machine \<Rightarrow> u64" where
  "effective_mode ifetch s = (if mstatus_mprv s \<and> \<not> ifetch then mstatus_mpp s else mode s)"

definition update_mmu_state_internal :: "bool \<Rightarrow> machine \<Rightarrow> mmu_mode option" where
  "update_mmu_state_internal ifetch s =
    (if effective_mode ifetch s < MODE_M then
       if \<not> (satp_mode s = 0 \<or> satp_mode s = 8) then None
       else if satp_mode s = 8 then Some MMU_TRANSLATE
       else Some MMU_DIRECT
     else Some MMU_DIRECT)"

definition update_mmu_state :: "bool exec" where
  "update_mmu_state s =
    (case update_mmu_state_internal True s of
       None \<Rightarrow> (Abort, s)
     | Some i \<Rightarrow>
         let s1 = s\<lparr>ifetch_mmu_state := i\<rparr>; old = data_mmu_state s1 in
         (case update_mmu_state_internal False s1 of
            None \<Rightarrow> (Abort, s1)
          | Some d \<Rightarrow> (Ret (d \<noteq> old), s1\<lparr>data_mmu_state := d\<rparr>)))"

definition get_data_mmu_state :: "machine \<Rightarrow> mmu_mode" where
  "get_data_mmu_state s = (if data_mmu_state s = MMU_DIRECT then MMU_DIRECT else MMU_TRANSLATE)"

section \<open>Delegation\<close>

abbreviation (input) INTR_BIT :: u64 where "INTR_BIT \<equiv> 0x8000000000000000"
abbreviation (input) INTR_EMPTY :: u64 where "INTR_EMPTY \<equiv> - 1"

definition intr_deleg_S :: "u64 \<Rightarrow> machine \<Rightarrow> bool" where
  "intr_deleg_S exceptionNO s =
    (let deleg = (if exceptionNO AND INTR_BIT \<noteq> 0 then csr c_mideleg s else csr c_medeleg s)
     in deleg AND shl 1 (unat (exceptionNO AND 0x3f)) \<noteq> 0 \<and> mode s < MODE_M)"

text \<open>The shifted one is an \<open>int\<close> in the C code: it is sign-extended before the conjunction.\<close>

definition intr_deleg_U :: "u64 \<Rightarrow> machine \<Rightarrow> bool" where
  "intr_deleg_U exceptionNO s =
    (let deleg = (if exceptionNO AND INTR_BIT \<noteq> 0 then csr c_sideleg s else csr c_sedeleg s);
         m = 0x1f
     in deleg AND scast (shl (1 :: u32) (unat (exceptionNO AND m))) \<noteq> 0 \<and> mode s = MODE_U)"

definition INTR_TVAL_REG :: "u64 \<Rightarrow> machine \<Rightarrow> u12" where
  "INTR_TVAL_REG ex s =
    (if intr_deleg_U ex s then c_utval else if intr_deleg_S ex s then c_stval else c_mtval)"

definition set_tval :: "u64 \<Rightarrow> u64 \<Rightarrow> machine \<Rightarrow> machine" where
  "set_tval ex v s = set_csr (INTR_TVAL_REG ex s) v s"

section \<open>Taking a trap\<close>

definition get_trap_pc :: "u64 \<Rightarrow> u64 \<Rightarrow> u64" where
  "get_trap_pc xtvec xcause =
    (let base = shl (shr xtvec 2) 2;
         md = xtvec AND 1;
         is_intr = (shr xcause 63 = 1);
         cause_no = xcause AND 0x3f
     in if is_intr \<and> md = 1 then base + shl cause_no 2 else base)"

definition set_mstatus :: "(u64 \<Rightarrow> u64) \<Rightarrow> machine \<Rightarrow> machine" where
  "set_mstatus f s = set_csr c_mstatus (f (csr c_mstatus s)) s"

text \<open>The exceptions that keep the trap value their raiser wrote.\<close>

definition keeps_tval :: "u64 \<Rightarrow> bool" where
  "keeps_tval NO \<longleftrightarrow> NO \<in> {EX_IPF, EX_LPF, EX_SPF, EX_LAM, EX_SAM, EX_IAF, EX_LAF, EX_SAF,
                              EX_DUCF, EX_DSCF}"

definition trap_to_U :: "u64 \<Rightarrow> u64 \<Rightarrow> machine \<Rightarrow> machine" where
  "trap_to_U NO epc s = (let
     s = set_csr c_ucause NO s;
     s = set_csr c_uepc epc s;
     s = set_mstatus (put_bit 4 (mstatus_uie s)) s;
     s = set_mstatus (put_bit 0 False) s;
     s = (if keeps_tval NO then s else set_csr c_utval 0 s)
     in s\<lparr>mode := MODE_U\<rparr>)"

definition trap_to_S :: "u64 \<Rightarrow> u64 \<Rightarrow> machine \<Rightarrow> machine" where
  "trap_to_S NO epc s = (let
     s = set_csr c_scause NO s;
     s = set_csr c_sepc epc s;
     s = set_mstatus (put_fld 8 1 (mode s)) s;
     s = set_mstatus (put_bit 5 (mstatus_sie s)) s;
     s = set_mstatus (put_bit 1 False) s;
     s = (if keeps_tval NO then s else set_csr c_stval 0 s)
     in s\<lparr>mode := MODE_S\<rparr>)"

definition trap_to_M :: "u64 \<Rightarrow> u64 \<Rightarrow> machine \<Rightarrow> machine" where
  "trap_to_M NO epc s = (let
     s = set_csr c_mcause NO s;
     s = set_csr c_mepc epc s;
     s = set_mstatus (put_fld 11 2 (mode s)) s;
     s = set_mstatus (put_bit 7 (mstatus_mie s)) s;
     s = set_mstatus (put_bit 3 False) s;
     s = (if keeps_tval NO then s else set_csr c_mtval 0 s)
     in s\<lparr>mode := MODE_M\<rparr>)"

definition raise_intr :: "u64 \<Rightarrow> u64 \<Rightarrow> u64 exec" where
  "raise_intr NO epc = with_m (\<lambda>s.
     let delegU = intr_deleg_U NO s;
         delegS = intr_deleg_S NO s \<and> \<not> delegU
     in if delegU then
          then_m (modify_m (trap_to_U NO epc))
            (then_m update_mmu_state (gets_m (\<lambda>s. get_trap_pc (csr c_utvec s) (csr c_ucause s))))
        else if delegS then
          then_m (modify_m (trap_to_S NO epc))
            (then_m update_mmu_state (gets_m (\<lambda>s. get_trap_pc (csr c_stvec s) (csr c_scause s))))
        else
          then_m (modify_m (trap_to_M NO epc))
            (then_m update_mmu_state (gets_m (\<lambda>s. get_trap_pc (csr c_mtvec s) (csr c_mcause s)))))"

section \<open>Pending interrupts\<close>

text \<open>\<open>IRQ_MEIP, IRQ_MSIP, IRQ_MTIP, IRQ_SEIP, IRQ_SSIP, IRQ_STIP, IRQ_UEIP, IRQ_USIP, IRQ_UTIP\<close>.\<close>

definition priority :: "nat list" where
  "priority = [11, 3, 7, 9, 1, 5, 8, 0, 4]"

definition irq_global_enable :: "nat \<Rightarrow> machine \<Rightarrow> bool" where
  "irq_global_enable irq s =
    (let delegU = csr c_sideleg s AND shl 1 irq \<noteq> 0;
         delegS = csr c_mideleg s AND shl 1 irq \<noteq> 0 \<and> \<not> delegU
     in if delegU then mode s = MODE_U \<and> mstatus_uie s
        else if delegS then mode s = MODE_S \<and> mstatus_sie s \<or> mode s < MODE_S
        else mode s = MODE_M \<and> mstatus_mie s \<or> mode s < MODE_M)"

fun query_intr_from :: "nat list \<Rightarrow> u64 \<Rightarrow> machine \<Rightarrow> u64" where
  "query_intr_from [] intr_vec s = INTR_EMPTY"
| "query_intr_from (irq # rest) intr_vec s =
    (if intr_vec AND shl 1 irq \<noteq> 0 \<and> irq_global_enable irq s then of_nat irq OR INTR_BIT
     else query_intr_from rest intr_vec s)"

definition isa_query_intr :: "machine \<Rightarrow> u64" where
  "isa_query_intr s =
    (let intr_vec = csr c_mie s AND csr c_mip s
     in if intr_vec = 0 then INTR_EMPTY else query_intr_from priority intr_vec s)"

section \<open>What the theorems are about\<close>

text \<open>
  \<open>satp_ok\<close> is the WARL state of \<open>satp.mode\<close>; \<open>mmu_coherent\<close> says that the two cached
  translation modes are those of the current \<open>mstatus\<close>, \<open>satp\<close> and privilege mode;
  \<open>trap_target\<close> is the privilege a trap is delegated to.
\<close>

definition satp_ok :: "machine \<Rightarrow> bool" where
  "satp_ok s \<longleftrightarrow> satp_mode s = 0 \<or> satp_mode s = 8"

definition mmu_coherent :: "machine \<Rightarrow> bool" where
  "mmu_coherent s \<longleftrightarrow> update_mmu_state_internal True s = Some (ifetch_mmu_state s) \<and>
                      update_mmu_state_internal False s = Some (data_mmu_state s)"

definition trap_target :: "u64 \<Rightarrow> machine \<Rightarrow> u64" where
  "trap_target NO s =
    (if intr_deleg_U NO s then MODE_U else if intr_deleg_S NO s then MODE_S else MODE_M)"

definition xcause :: "u64 \<Rightarrow> u12" where
  "xcause m = (if m = MODE_U then c_ucause else if m = MODE_S then c_scause else c_mcause)"

definition xepc :: "u64 \<Rightarrow> u12" where
  "xepc m = (if m = MODE_U then c_uepc else if m = MODE_S then c_sepc else c_mepc)"

text \<open>
  Interrupt enable, previous interrupt enable and previous privilege of a mode, by the bit
  positions the privileged architecture gives them in \<open>mstatus\<close>.
\<close>

definition xie :: "u64 \<Rightarrow> machine \<Rightarrow> bool" where
  "xie m s = bit (csr c_mstatus s) (unat m)"

definition xpie :: "u64 \<Rightarrow> machine \<Rightarrow> bool" where
  "xpie m s = bit (csr c_mstatus s) (unat m + 4)"

definition xpp :: "u64 \<Rightarrow> machine \<Rightarrow> u64" where
  "xpp m s = (if m = MODE_U then MODE_U else if m = MODE_S then fld 8 1 (csr c_mstatus s)
    else fld 11 2 (csr c_mstatus s))"

definition target_enabled :: "u64 \<Rightarrow> machine \<Rightarrow> bool" where
  "target_enabled t s \<longleftrightarrow> mode s < t \<or> mode s = t \<and>
     (if t = MODE_U then mstatus_uie s else if t = MODE_S then mstatus_sie s else mstatus_mie s)"

section \<open>Lemmas\<close>

lemma update_mmu_internal_cong:
  assumes "csr c_mstatus s = csr c_mstatus t" "csr c_satp s = csr c_satp t" "mode s = mode t"
  shows "update_mmu_state_internal i s = update_mmu_state_internal i t"
  using assms by (simp add: update_mmu_state_internal_def effective_mode_def mstatus_defs satp_mode_def)

lemma satp_ok_cong: "csr c_satp s = csr c_satp t \<Longrightarrow> satp_ok s = satp_ok t"
  by (simp add: satp_ok_def satp_mode_def)

lemma update_mmu_internal_satp_ok: "satp_ok s \<Longrightarrow> \<exists>m. update_mmu_state_internal i s = Some m"
  by (simp add: satp_ok_def update_mmu_state_internal_def)

lemma update_mmu_state_satp_ok:
  assumes "satp_ok s"
  shows "\<exists>b i d. update_mmu_state s = (Ret b, s\<lparr>ifetch_mmu_state := i, data_mmu_state := d\<rparr>)"
proof -
  obtain i where i: "update_mmu_state_internal True s = Some i"
    using update_mmu_internal_satp_ok [OF assms] by blast
  have "satp_ok (s\<lparr>ifetch_mmu_state := i\<rparr>)"
    using assms satp_ok_cong [of s "s\<lparr>ifetch_mmu_state := i\<rparr>"] by simp
  then obtain d where "update_mmu_state_internal False (s\<lparr>ifetch_mmu_state := i\<rparr>) = Some d"
    using update_mmu_internal_satp_ok by blast
  with i show ?thesis by (simp add: update_mmu_state_def Let_def) blast
qed

lemma update_mmu_state_Ret:
  assumes "update_mmu_state s = (Ret b, s')"
  obtains i d where "s' = s\<lparr>ifetch_mmu_state := i, data_mmu_state := d\<rparr>" and "mmu_coherent s'"
proof -
  from assms obtain i d where
    i: "update_mmu_state_internal True s = Some i" and
    d: "update_mmu_state_internal False (s\<lparr>ifetch_mmu_state := i\<rparr>) = Some d" and
    s': "s' = s\<lparr>ifetch_mmu_state := i, data_mmu_state := d\<rparr>"
    by (auto simp: update_mmu_state_def Let_def split: option.splits)
  have "mmu_coherent s'"
    using i d update_mmu_internal_cong [of s' s] update_mmu_internal_cong [of s' "s\<lparr>ifetch_mmu_state := i\<rparr>"]
    by (simp add: mmu_coherent_def s')
  with s' show ?thesis by (rule that)
qed

lemmas trap_defs = trap_to_U_def trap_to_S_def trap_to_M_def set_mstatus_def

lemma trap_frame:
  "gpr (trap_to_U NO epc s) = gpr s" "gpr (trap_to_S NO epc s) = gpr s" "gpr (trap_to_M NO epc s) = gpr s"
  "pmem (trap_to_U NO epc s) = pmem s" "pmem (trap_to_S NO epc s) = pmem s" "pmem (trap_to_M NO epc s) = pmem s"
  "csr_array (trap_to_U NO epc s) c_satp = csr c_satp s" "csr_array (trap_to_S NO epc s) c_satp = csr c_satp s"
  "csr_array (trap_to_M NO epc s) c_satp = csr c_satp s"
  by (simp_all add: trap_defs Let_def)

lemma raise_intr_eq:
  assumes "satp_ok s"
  shows "\<exists>i d s1. s1 = (if intr_deleg_U NO s then trap_to_U NO epc s
                       else if intr_deleg_S NO s then trap_to_S NO epc s else trap_to_M NO epc s) \<and>
     raise_intr NO epc s =
      (Ret (get_trap_pc (csr (if intr_deleg_U NO s then c_utvec else if intr_deleg_S NO s then c_stvec else c_mtvec) s) NO), 
       s1\<lparr>ifetch_mmu_state := i, data_mmu_state := d\<rparr>) \<and>
     mmu_coherent (s1\<lparr>ifetch_mmu_state := i, data_mmu_state := d\<rparr>)"
proof -
  define s1 where "s1 = (if intr_deleg_U NO s then trap_to_U NO epc s
                       else if intr_deleg_S NO s then trap_to_S NO epc s else trap_to_M NO epc s)"
  have "satp_ok s1"
    using assms satp_ok_cong [of s1 s] by (simp add: s1_def trap_frame)
  then obtain b i d where u: "update_mmu_state s1 = (Ret b, s1\<lparr>ifetch_mmu_state := i, data_mmu_state := d\<rparr>)"
    using update_mmu_state_satp_ok by blast
  then have coh: "mmu_coherent (s1\<lparr>ifetch_mmu_state := i, data_mmu_state := d\<rparr>)"
    by (rule update_mmu_state_Ret) 
  have "csr_array s1 (if intr_deleg_U NO s then c_utvec else if intr_deleg_S NO s then c_stvec else c_mtvec) =
      csr_array s (if intr_deleg_U NO s then c_utvec else if intr_deleg_S NO s then c_stvec else c_mtvec)"
    "csr_array s1 (if intr_deleg_U NO s then c_ucause else if intr_deleg_S NO s then c_scause else c_mcause) = NO"
    by (auto simp: s1_def trap_defs Let_def)
  then have "raise_intr NO epc s =
      (Ret (get_trap_pc (csr (if intr_deleg_U NO s then c_utvec else if intr_deleg_S NO s then c_stvec else c_mtvec) s) NO), 
       s1\<lparr>ifetch_mmu_state := i, data_mmu_state := d\<rparr>)"
    using u s1_def by (simp add: raise_intr_def Let_def monad_simps then_m_def bind_m_def modify_m_def split: if_splits)
  then show ?thesis using s1_def coh by blast
qed

lemma stack_mmu_modes [simp]:
  "xie m (s\<lparr>ifetch_mmu_state := i, data_mmu_state := d\<rparr>) = xie m s"
  "xpie m (s\<lparr>ifetch_mmu_state := i, data_mmu_state := d\<rparr>) = xpie m s"
  "xpp m (s\<lparr>ifetch_mmu_state := i, data_mmu_state := d\<rparr>) = xpp m s"
  by (simp_all add: xie_def xpie_def xpp_def)

lemma trap_stack:
  assumes "mode s \<in> {MODE_U, MODE_S, MODE_M}" and "mode s \<le> trap_target NO s"
    and "s1 = (if intr_deleg_U NO s then trap_to_U NO epc s
       else if intr_deleg_S NO s then trap_to_S NO epc s else trap_to_M NO epc s)"
  shows "\<not> xie (trap_target NO s) s1" "xpie (trap_target NO s) s1 = xie (trap_target NO s) s"
    "xpp (trap_target NO s) s1 = mode s"
proof -
  show "\<not> xie (trap_target NO s) s1"
    by (simp add: assms(3) trap_target_def xie_def trap_defs Let_def bit_put_bit_iff)
  show "xpie (trap_target NO s) s1 = xie (trap_target NO s) s"
    by (simp add: assms(3) trap_target_def xie_def xpie_def trap_defs Let_def bit_put_bit_iff
        bit_put_fld_iff mstatus_defs)
  show "xpp (trap_target NO s) s1 = mode s"
    using assms(1,2) unfolding word_le_nat_alt
    by (auto simp: assms(3) trap_target_def xpp_def trap_defs Let_def field_simps_w split: if_splits)
qed
lemma query_intr_from_find:
  "query_intr_from ps v s =
    (case find (\<lambda>irq. bit v irq \<and> irq_global_enable irq s) ps of
       None \<Rightarrow> INTR_EMPTY | Some irq \<Rightarrow> of_nat irq OR INTR_BIT)"
  by (induction ps) (simp_all add: and_pow2_nonzero)

lemma irq_cases:
  assumes "irq \<in> set priority"
  shows "of_nat irq OR INTR_BIT \<noteq> INTR_EMPTY \<and> (of_nat irq OR INTR_BIT) AND INTR_BIT \<noteq> 0 \<and>
    unat ((of_nat irq OR INTR_BIT) AND 0x3f) = irq \<and> unat ((of_nat irq OR INTR_BIT) AND 0x1f) = irq \<and>
    scast (shl (1 :: u32) irq) = (shl 1 irq :: u64)"
  using assms unfolding priority_def by (auto)

lemma isa_query_intr_eq:
  "isa_query_intr s = query_intr_from priority (csr c_mie s AND csr c_mip s) s"
proof -
  have "query_intr_from ps 0 s = INTR_EMPTY" for ps
    by (induction ps) simp_all
  then show ?thesis by (simp add: isa_query_intr_def Let_def)
qed

section \<open>Properties\<close>

text \<open>
  C6. With a legal \<open>satp.mode\<close>, taking a trap always returns: it goes to the mode the
  delegation registers select, which is never below the current one, saves the cause and the
  return address there, disables that mode's interrupts after saving their enable bit and the
  interrupted privilege in \<open>mstatus\<close>, leaves general registers and memory alone, and leaves the
  cached translation modes coherent with the new mode.
\<close>

theorem raise_intr_spec:
  assumes "satp_ok s" and "mode s \<in> {MODE_U, MODE_S, MODE_M}"
  shows "\<exists>tp s'. raise_intr NO epc s = (Ret tp, s') \<and>
    mode s' = trap_target NO s \<and> mode s \<le> mode s' \<and>
    csr (xcause (mode s')) s' = NO \<and>
    csr (xepc (mode s')) s' = epc \<and>
    \<not> xie (mode s') s' \<and> xpie (mode s') s' = xie (mode s') s \<and> xpp (mode s') s' = mode s \<and>
    gpr s' = gpr s \<and> pmem s' = pmem s \<and> satp_ok s' \<and> mmu_coherent s'"
proof -
  obtain tp i d s1 where s1: "s1 = (if intr_deleg_U NO s then trap_to_U NO epc s
       else if intr_deleg_S NO s then trap_to_S NO epc s else trap_to_M NO epc s)"
    and r: "raise_intr NO epc s = (Ret tp, s1\<lparr>ifetch_mmu_state := i, data_mmu_state := d\<rparr>)"
    and c: "mmu_coherent (s1\<lparr>ifetch_mmu_state := i, data_mmu_state := d\<rparr>)"
    using raise_intr_eq [OF assms(1), of NO epc] by (elim exE conjE) (rule that)
  have m: "mode s1 = trap_target NO s"
    by (simp add: s1 trap_target_def trap_defs Let_def)
  moreover have le: "mode s \<le> mode s1"
    using assms(2) by (auto simp: m trap_target_def intr_deleg_U_def intr_deleg_S_def Let_def)
  moreover have "\<not> xie (mode s1) s1" "xpie (mode s1) s1 = xie (mode s1) s" "xpp (mode s1) s1 = mode s"
    using trap_stack [OF assms(2) _ s1] le by (simp_all add: m)
  moreover have "csr (xcause (mode s1)) s1 = NO" "csr (xepc (mode s1)) s1 = epc"
    by (simp_all add: s1 trap_defs Let_def xcause_def xepc_def)
  moreover have "gpr s1 = gpr s" "pmem s1 = pmem s" "csr c_satp s1 = csr c_satp s"
    by (simp_all add: s1 trap_frame)
  ultimately show ?thesis
    using r c assms(1) satp_ok_cong [of "s1\<lparr>ifetch_mmu_state := i, data_mmu_state := d\<rparr>" s]
    by simp
qed

theorem raise_intr_spec_witness:
  "\<exists>tp s'. raise_intr EX_ECU 0x80000000 (static_init True) = (Ret tp, s') \<and> mode s' = MODE_M \<and>
     csr c_mepc s' = 0x80000000"
proof -
  have "satp_ok (static_init True)" "mode (static_init True) \<in> {MODE_U, MODE_S, MODE_M}"
    "trap_target EX_ECU (static_init True) = MODE_M"
    by (simp_all add: satp_ok_def satp_mode_def static_init_def fld_def trap_target_def
        intr_deleg_U_def intr_deleg_S_def)
  with raise_intr_spec [of "static_init True" EX_ECU "0x80000000"] show ?thesis
    by (auto simp: xepc_def)
qed


text \<open>
  C8. The delegation \<open>isa_query_intr\<close> computes agrees with the one \<open>raise_intr\<close> acts on: an
  interrupt that is reported is taken in a mode above the current one, or in the current
  mode with that mode's interrupt enable set.
\<close>

theorem isa_query_intr_target:
  assumes "isa_query_intr s \<noteq> INTR_EMPTY" and "mode s \<in> {MODE_U, MODE_S, MODE_M}"
  shows "target_enabled (trap_target (isa_query_intr s) s) s"
proof -
  obtain irq where irq: "find (\<lambda>irq. bit (csr c_mie s AND csr c_mip s) irq \<and> irq_global_enable irq s) priority = Some irq"
      and q: "isa_query_intr s = of_nat irq OR INTR_BIT"
    using assms(1) by (auto simp: isa_query_intr_eq query_intr_from_find split: option.splits)
  then have m: "irq \<in> set priority" and ge: "irq_global_enable irq s"
    by (auto simp: find_Some_iff)
  show ?thesis
    using ge assms(2) irq_cases [OF m]
    by (auto simp: q target_enabled_def trap_target_def intr_deleg_U_def intr_deleg_S_def irq_global_enable_def Let_def split: if_splits)
qed

theorem isa_query_intr_target_witness:
  "(let s = set_csr c_mie 0x80 (set_csr c_mip 0x80 (static_init False))
    in isa_query_intr s = 7 OR INTR_BIT \<and> target_enabled (trap_target (isa_query_intr s) s) s)"
proof -
  define s where "s = set_csr c_mie 0x80 (set_csr c_mip 0x80 (static_init False))"
  have q: "isa_query_intr s = 7 OR INTR_BIT" and m: "mode s \<in> {MODE_U, MODE_S, MODE_M}"
    by (simp_all add: s_def static_init_def isa_query_intr_def priority_def irq_global_enable_def)
  then have "target_enabled (trap_target (isa_query_intr s) s) s"
    using isa_query_intr_target [of s] by simp
  with q show ?thesis by (simp add: s_def)
qed

end
