(* ===== verification/Pmp.thy ===== *)
theory Pmp
  imports Intr
begin

text \<open>
  Physical memory protection: the configuration accessors of
  \<open>src/isa/riscv64/system/priv.c\<close> and \<open>isa_pmp_check_permission\<close> of \<open>system/mmu.c\<close>. The loop of
  the check threads the top of the previous region and stops at the first entry that matches
  any part of the access; it is shown equal to a first-match search over regions that are
  intervals (TOR) or naturally aligned power-of-two blocks (NAPOT).
\<close>

section \<open>Accessors\<close>

text \<open>
  \<open>pmpcfg_from_index\<close>: byte \<open>idx mod 8\<close> of \<open>pmpcfg0\<close> or \<open>pmpcfg2\<close> (a little-endian host), with
  the assertion \<open>idx < CONFIG_RV_PMP_NUM\<close>.
\<close>

definition pmpcfg_from_index :: "nat \<Rightarrow> machine \<Rightarrow> u8 option" where
  "pmpcfg_from_index idx s =
    (if idx \<ge> CONFIG_RV_PMP_NUM then None
     else let cfg_csr_addr = (if idx div 8 = 0 then c_pmpcfg0 else c_pmpcfg2)
          in Some (ucast (shr (csr cfg_csr_addr s) (8 * (idx mod 8)))))"

definition pmpaddr_from_index :: "nat \<Rightarrow> machine \<Rightarrow> u64" where
  "pmpaddr_from_index idx s = csr (c_pmpaddr0 + of_nat idx) s"

definition pmp_tor_mask :: u64 where
  "pmp_tor_mask = - shl 1 (PMP_PLATFORMGARIN - PMP_SHIFT)"

section \<open>The check\<close>

definition pmp_mode :: "mem_type \<Rightarrow> u64 \<Rightarrow> machine \<Rightarrow> u64" where
  "pmp_mode type out_mode s =
    (if out_mode = MODE_M
     then (if mstatus_mprv s \<and> type \<noteq> MEM_TYPE_IFETCH then mstatus_mpp s else mode s)
     else out_mode)"

definition pmp_tor :: "u64 \<Rightarrow> u64" where
  "pmp_tor pmpaddr = shl (pmpaddr AND pmp_tor_mask) PMP_SHIFT"

definition pmp_napot_mask :: "u64 \<Rightarrow> bool \<Rightarrow> u64" where
  "pmp_napot_mask pmpaddr is_na4 =
    (let m = shl pmpaddr 1 OR of_bool_w (\<not> is_na4) OR NOT pmp_tor_mask
     in shl (NOT (m AND NOT (m + 1))) PMP_SHIFT)"

definition pmp_sector_match :: "u8 \<Rightarrow> u64 \<Rightarrow> u64 \<Rightarrow> u64 \<Rightarrow> bool" where
  "pmp_sector_match cfg pmpaddr base cur_addr =
    (let is_tor = (ucast cfg AND PMP_A = PMP_TOR);
         is_na4 = (ucast cfg AND PMP_A = PMP_NA4);
         tor = pmp_tor pmpaddr;
         napot_match = ((cur_addr XOR tor) AND pmp_napot_mask pmpaddr is_na4 = 0);
         tor_match = (base \<le> cur_addr \<and> cur_addr < tor)
     in if is_tor then tor_match else napot_match)"

text \<open>The 4-byte sectors of an access: \<open>offset = 0, 4, ...\<close> below \<open>len\<close>.\<close>

definition pmp_sectors :: "u64 \<Rightarrow> nat \<Rightarrow> u64 list" where
  "pmp_sectors addr len = map (\<lambda>k. addr + of_nat (4 * k)) [0..<(len + 3) div 4]"

definition pmp_grants :: "u8 \<Rightarrow> mem_type \<Rightarrow> u64 \<Rightarrow> bool" where
  "pmp_grants cfg type m \<longleftrightarrow>
     m = MODE_M \<and> ucast cfg AND PMP_L = 0 \<or>
     (type = MEM_TYPE_READ \<or> type = MEM_TYPE_IFETCH_READ \<or> type = MEM_TYPE_WRITE_READ) \<and>
       ucast cfg AND PMP_R \<noteq> 0 \<or>
     type = MEM_TYPE_WRITE \<and> ucast cfg AND PMP_W \<noteq> 0 \<or>
     type = MEM_TYPE_IFETCH \<and> ucast cfg AND PMP_X \<noteq> 0"

fun pmp_check_from :: "nat list \<Rightarrow> u64 \<Rightarrow> u64 \<Rightarrow> nat \<Rightarrow> mem_type \<Rightarrow> u64 \<Rightarrow> machine \<Rightarrow> bool option" where
  "pmp_check_from [] base addr len type m s = Some (m = MODE_M)"
| "pmp_check_from (i # is) base addr len type m s =
    (let pmpaddr = pmpaddr_from_index i s;
         tor = pmp_tor pmpaddr
     in case pmpcfg_from_index i s of
          None \<Rightarrow> None
        | Some cfg \<Rightarrow>
            if ucast cfg AND PMP_A \<noteq> 0 \<and>
               list_ex (pmp_sector_match cfg pmpaddr base) (pmp_sectors addr len)
            then Some (list_all (pmp_sector_match cfg pmpaddr base) (pmp_sectors addr len) \<and>
                       pmp_grants cfg type m)
            else pmp_check_from is tor addr len type m s)"

definition isa_pmp_check_permission :: "u64 \<Rightarrow> nat \<Rightarrow> mem_type \<Rightarrow> u64 \<Rightarrow> machine \<Rightarrow> bool option" where
  "isa_pmp_check_permission addr len type out_mode s =
     pmp_check_from [0..<CONFIG_RV_PMP_NUM] 0 addr len type (pmp_mode type out_mode s) s"

section \<open>Regions\<close>

text \<open>
  The specification of a region. A NAPOT region is the naturally aligned block of
  \<open>2 ^ napot_block\<close> bytes around the base address, its size given by the trailing ones of
  the address register (forced to one below the 4 KiB granularity); a TOR region runs from
  the previous entry's address to this one's.
\<close>

definition trailing_ones :: "u64 \<Rightarrow> nat" where
  "trailing_ones m = length (takeWhile (bit m) [0..<64])"

definition napot_block :: "u64 \<Rightarrow> nat" where
  "napot_block pmpaddr = trailing_ones (shl pmpaddr 1 OR 0x3ff) + 2"

definition pmp_base :: "nat \<Rightarrow> machine \<Rightarrow> u64" where
  "pmp_base i s = (if i = 0 then 0 else pmp_tor (pmpaddr_from_index (i - 1) s))"

definition pmp_cfg :: "nat \<Rightarrow> machine \<Rightarrow> u8" where
  "pmp_cfg i s = ucast (shr (csr (if i < 8 then c_pmpcfg0 else c_pmpcfg2) s) (8 * (i mod 8)))"

definition pmp_in_region :: "nat \<Rightarrow> u64 \<Rightarrow> machine \<Rightarrow> bool" where
  "pmp_in_region i a s =
    (let A = ucast (pmp_cfg i s) AND PMP_A; p = pmpaddr_from_index i s in
     A \<noteq> 0 \<and>
     (if A = PMP_TOR then pmp_base i s \<le> a \<and> a < pmp_tor p
      else shr a (napot_block p) = shr (pmp_tor p) (napot_block p)))"

section \<open>Lemmas\<close>

lemma trailing_ones_le: "trailing_ones m \<le> 64"
  unfolding trailing_ones_def using length_takeWhile_le [of "bit m" "[0..<64]"] by simp

lemma trailing_ones_bits: "i < trailing_ones m \<Longrightarrow> bit m i"
  using takeWhile_nth [of i "bit m" "[0..<64]"] nth_mem [of i "takeWhile (bit m) [0..<64]"]
    trailing_ones_le [of m] set_takeWhileD [of _ "bit m" "[0..<64]"]
  unfolding trailing_ones_def by fastforce

lemma trailing_ones_stop: "trailing_ones m < 64 \<Longrightarrow> \<not> bit m (trailing_ones m)"
  using nth_length_takeWhile [of "bit m" "[0..<64]"]
  unfolding trailing_ones_def by simp

lemma low_ones:
  fixes m :: u64
  assumes lo: "\<And>i. i < t \<Longrightarrow> bit m i" and t: "t < 64" "\<not> bit m t"
  shows "m AND NOT (m + 1) = mask t"
proof -
  define q where "q = m AND NOT (mask (Suc t))"
  have q: "bit q n \<longleftrightarrow> bit m n \<and> t < n" for n
    by (auto simp: q_def bit_and_iff bit_not_iff bit_mask_iff not_less_eq dest: bit_imp_le_length)
  have bm: "bit (mask t :: u64) n \<longleftrightarrow> n < t" for n
    using t(1) by (auto simp: bit_mask_iff)
  have bp: "bit (2 ^ t :: u64) n \<longleftrightarrow> n = t" for n
    using t(1) by (auto simp: bit_exp_iff)
  have m: "m = mask t OR q"
  proof (rule bit_word_eqI)
    fix n
    show "bit m n = bit (mask t OR q) n"
      using lo [of n] t(2) linorder_less_linear [of n t] by (auto simp: bit_or_iff bm q)
  qed
  have "m = mask t + q"
    unfolding m by (rule disjunctive_add [symmetric]) (auto simp: bm q m)
  then have "m + 1 = 2 ^ t + q"
    by (simp add: mask_eq_exp_minus_1)
  also have "\<dots> = 2 ^ t OR q"
    by (rule disjunctive_add) (auto simp: bp q)
  finally have m1: "m + 1 = 2 ^ t OR q" .
  show ?thesis
  proof (rule bit_word_eqI)
    fix n assume "n < LENGTH(64)"
    then show "bit (m AND NOT (m + 1)) n = bit (mask t :: u64) n"
      unfolding m1 using lo [of n] t(2) linorder_less_linear [of n t]
      by (auto simp: bit_and_iff bit_or_iff bit_not_iff bm bp q)
  qed
qed

lemma trailing_ones_mask: "m AND NOT (m + 1) = mask (trailing_ones m)" for m :: u64
proof (cases "trailing_ones m < 64")
  case True
  then show ?thesis by (intro low_ones trailing_ones_bits trailing_ones_stop)
next
  case False
  then have t: "trailing_ones m = 64" using trailing_ones_le [of m] by simp
  have "m = - 1"
    by (rule bit_word_eqI) (use trailing_ones_bits [of _ m] t in simp)
  with t show ?thesis by (simp add: mask_eq_exp_minus_1)
qed

lemma xor_high_zero:
  "(a XOR b) AND shl (NOT (mask t)) 2 = 0 \<longleftrightarrow> shr a (t + 2) = shr b (t + 2)" for a b :: u64
proof -
  have L: "bit w n \<Longrightarrow> n < 64" for w :: u64 and n
    using bit_imp_le_length [of w n] by simp
  have "(a XOR b) AND shl (NOT (mask t)) 2 = 0 \<longleftrightarrow> (\<forall>n. t + 2 \<le> n \<longrightarrow> n < 64 \<longrightarrow> bit a n = bit b n)"
    by (auto simp: bit_eq_iff bit_simps)
  also have "\<dots> \<longleftrightarrow> (\<forall>n. t + 2 \<le> n \<longrightarrow> bit a n = bit b n)"
    using L by blast
  also have "\<dots> \<longleftrightarrow> (\<forall>k. bit a (t + 2 + k) = bit b (t + 2 + k))"
    by (metis le_add1 le_add_diff_inverse)
  also have "\<dots> \<longleftrightarrow> shr a (t + 2) = shr b (t + 2)"
  proof
    assume "\<forall>k. bit a (t + 2 + k) = bit b (t + 2 + k)"
    then show "shr a (t + 2) = shr b (t + 2)" by (intro bit_eqI) (simp add: bit_drop_bit_eq)
  next
    assume "shr a (t + 2) = shr b (t + 2)"
    then have "bit (shr a (t + 2)) k = bit (shr b (t + 2)) k" for k by simp
    then show "\<forall>k. bit a (t + 2 + k) = bit b (t + 2 + k)" by (simp add: bit_drop_bit_eq)
  qed
  finally show ?thesis .
qed

lemma not_pmp_tor_mask: "NOT pmp_tor_mask = 0x3ff"
  by (simp add: pmp_tor_mask_def)

lemma pmp_napot_match_iff:
  "(cur XOR pmp_tor a) AND pmp_napot_mask a na4 = 0 \<longleftrightarrow>
     shr cur (napot_block a) = shr (pmp_tor a) (napot_block a)"
proof -
  have "shl a 1 OR of_bool_w (\<not> na4) OR NOT pmp_tor_mask = shl a 1 OR (of_bool_w (\<not> na4) OR 0x3ff)"
    by (simp add: not_pmp_tor_mask or.assoc)
  also have "of_bool_w (\<not> na4) OR (0x3ff :: u64) = 0x3ff"
    by (simp add: of_bool_w_def)
  finally show ?thesis
    by (simp add: pmp_napot_mask_def napot_block_def Let_def trailing_ones_mask xor_high_zero)
qed

lemma napot_block_ge: "12 \<le> napot_block a"
proof (rule ccontr)
  assume *: "\<not> 12 \<le> napot_block a"
  let ?m = "shl a 1 OR 0x3ff"
  from * have t: "trailing_ones ?m < 10" by (simp add: napot_block_def)
  have "bit (0x3ff :: u64) i" if "i < 10" for i
  proof -
    have "mask 10 = (0x3ff :: u64)" by (simp add: mask_eq_exp_minus_1)
    moreover have "bit (mask 10 :: u64) i" using that by (simp add: bit_mask_iff)
    ultimately show ?thesis by metis
  qed
  with t trailing_ones_stop [of ?m] show False by (simp add: bit_or_iff)
qed

lemma pmpcfg_from_index_eq: "i < 16 \<Longrightarrow> pmpcfg_from_index i s = Some (pmp_cfg i s)"
  by (auto simp: pmpcfg_from_index_def pmp_cfg_def)

lemma pmp_check_from_find:
  assumes "k \<le> 16"
  shows "pmp_check_from [k..<16] (pmp_base k s) addr len type m s =
    Some (case find (\<lambda>i. list_ex (\<lambda>a. pmp_in_region i a s) (pmp_sectors addr len)) [k..<16] of
       None \<Rightarrow> m = MODE_M
     | Some i \<Rightarrow> list_all (\<lambda>a. pmp_in_region i a s) (pmp_sectors addr len) \<and> pmp_grants (pmp_cfg i s) type m)"
  using assms
proof (induction "16 - k" arbitrary: k)
  case 0 then show ?case by simp
next
  case (Suc n)
  then have k: "k < 16" "[k..<16] = k # [Suc k..<16]" by (simp_all add: upt_conv_Cons)
  have b: "pmp_base (Suc k) s = pmp_tor (pmpaddr_from_index k s)" by (simp add: pmp_base_def)
  have IH: "pmp_check_from [Suc k..<16] (pmp_tor (pmpaddr_from_index k s)) addr len type m s =
    Some (case find (\<lambda>i. list_ex (\<lambda>a. pmp_in_region i a s) (pmp_sectors addr len)) [Suc k..<16] of
       None \<Rightarrow> m = MODE_M
     | Some i \<Rightarrow> list_all (\<lambda>a. pmp_in_region i a s) (pmp_sectors addr len) \<and> pmp_grants (pmp_cfg i s) type m)"
    using Suc.hyps(1) [of "Suc k"] Suc.hyps(2) k(1) by (simp add: b)
  have sm: "pmp_in_region k a s \<longleftrightarrow> ucast (pmp_cfg k s) AND PMP_A \<noteq> 0 \<and>
      pmp_sector_match (pmp_cfg k s) (pmpaddr_from_index k s) (pmp_base k s) a" for a
    by (auto simp: pmp_in_region_def pmp_sector_match_def pmp_napot_match_iff Let_def)
  show ?case
    unfolding k(2) using k(1)
    by (auto simp: pmpcfg_from_index_eq Let_def IH sm list_ex_iff list_all_iff)
qed

section \<open>Properties\<close>

text \<open>
  C11. The permission check is a first-match search: no assertion fails, the lowest-numbered
  entry whose region holds any 4-byte sector of the access decides, it grants the access only
  if its region holds all of them and its permission bits (or an unlocked entry in M mode)
  allow it, and with no such entry only M mode passes.
\<close>

theorem isa_pmp_check_permission_spec:
  "isa_pmp_check_permission addr len type out_mode s =
    Some (case find (\<lambda>i. list_ex (\<lambda>a. pmp_in_region i a s) (pmp_sectors addr len)) [0..<16] of
       None \<Rightarrow> pmp_mode type out_mode s = MODE_M
     | Some i \<Rightarrow> list_all (\<lambda>a. pmp_in_region i a s) (pmp_sectors addr len) \<and>
                 pmp_grants (pmp_cfg i s) type (pmp_mode type out_mode s))"
  using pmp_check_from_find [of 0 s addr len type]
  by (simp add: isa_pmp_check_permission_def pmp_base_def)

text \<open>
  C12. The mask arithmetic on \<open>pmpaddr\<close> (\<open>~(mask & ~(mask + 1)) << 2\<close>) selects exactly the
  addresses of one naturally aligned power-of-two block of at least 4 KiB.
\<close>

theorem pmp_napot_region:
  "((cur XOR pmp_tor a) AND pmp_napot_mask a na4 = 0 \<longleftrightarrow>
     uint cur div 2 ^ napot_block a = uint (pmp_tor a) div 2 ^ napot_block a) \<and>
   12 \<le> napot_block a"
proof -
  have "take_bit 64 (uint x) = uint x" for x :: u64
    by (rule bintr_uint) simp
  then have "shr x n = shr y n \<longleftrightarrow> uint x div 2 ^ n = uint y div 2 ^ n" for x y :: u64 and n
    unfolding word_uint_eq_iff unsigned_drop_bit_eq by (simp add: drop_bit_eq_div)
  then show ?thesis by (simp add: pmp_napot_match_iff napot_block_ge)
qed

end
