(* ===== verification/Host_Mem.thy ===== *)
theory Host_Mem
  imports Nemu_Prelude
begin

text \<open>
  \<open>include/memory/host.h\<close>: little-endian accesses of 1, 2, 4 or 8 bytes to host memory, which
  is a function from addresses to bytes. Guest memory is addressed by 64-bit words and device
  memory by natural numbers; the lemmas are proved once, in a locale, for any address type on
  which a short range does not wrap onto itself, and interpreted for both.
\<close>

section \<open>Definitions\<close>

fun le_read :: "('a::semiring_1 \<Rightarrow> u8) \<Rightarrow> 'a \<Rightarrow> nat \<Rightarrow> u64" where
  "le_read m a 0 = 0"
| "le_read m a (Suc n) = ucast (m a) OR shl (le_read m (a + 1) n) 8"

fun le_write :: "('a::semiring_1 \<Rightarrow> u8) \<Rightarrow> 'a \<Rightarrow> nat \<Rightarrow> u64 \<Rightarrow> ('a \<Rightarrow> u8)" where
  "le_write m a 0 d = m"
| "le_write m a (Suc n) d = le_write (m(a := ucast d)) (a + 1) n (shr d 8)"

definition host_len_ok :: "nat \<Rightarrow> bool" where
  "host_len_ok len \<longleftrightarrow> len = 1 \<or> len = 2 \<or> len = 4 \<or> len = 8"

definition host_read :: "('a::semiring_1 \<Rightarrow> u8) \<Rightarrow> 'a \<Rightarrow> nat \<Rightarrow> u64 option" where
  "host_read m addr len = (if host_len_ok len then Some (le_read m addr len) else None)"

definition host_write :: "('a::semiring_1 \<Rightarrow> u8) \<Rightarrow> 'a \<Rightarrow> nat \<Rightarrow> u64 \<Rightarrow> ('a \<Rightarrow> u8) option" where
  "host_write m addr len data = (if host_len_ok len then Some (le_write m addr len data) else None)"

section \<open>Bits and bytes of an access\<close>

lemma bit_le_read:
  "n \<le> 8 \<Longrightarrow> bit (le_read m a n) k \<longleftrightarrow> k < 8 * n \<and> bit (m (a + of_nat (k div 8))) (k mod 8)"
proof (induction n arbitrary: a k)
  case 0
  then show ?case by simp
next
  case (Suc n)
  have IH: "bit (le_read m (a + 1) n) (k - 8) \<longleftrightarrow>
      k - 8 < 8 * n \<and> bit (m (a + 1 + of_nat ((k - 8) div 8))) ((k - 8) mod 8)"
    using Suc by simp
  show ?case
  proof (cases "k < 8")
    case True
    with Suc.prems show ?thesis by (simp add: bit_simps)
  next
    case False
    then obtain j where j: "k = 8 + j" using le_Suc_ex not_less by blast
    have "\<not> bit (m a) k" using False bit_imp_le_length [of "m a" k] by auto
    then have "bit (le_read m a (Suc n)) k \<longleftrightarrow> k < 64 \<and> bit (le_read m (a + 1) n) (k - 8)"
      using False by (auto simp: bit_simps)
    also have "\<dots> \<longleftrightarrow> k < 8 * Suc n \<and> bit (m (a + of_nat (k div 8))) (k mod 8)"
      unfolding IH using j Suc.prems div_add_self2 [of 8 j] by (auto simp: ac_simps)
    finally show ?thesis .
  qed
qed

lemma le_read_cong: "(\<And>i. i < n \<Longrightarrow> m (a + of_nat i) = m' (a + of_nat i)) \<Longrightarrow> le_read m a n = le_read m' a n"
proof (induction n arbitrary: a)
  case (Suc n)
  have "m a = m' a" using Suc.prems [of 0] by simp
  moreover have "le_read m (a + 1) n = le_read m' (a + 1) n"
    using Suc.prems [of "Suc _"] by (intro Suc.IH) (simp add: ac_simps)
  ultimately show ?case by simp
qed simp

lemma le_write_frame: "(\<And>i. i < n \<Longrightarrow> x \<noteq> a + of_nat i) \<Longrightarrow> le_write m a n d x = m x"
proof (induction n arbitrary: m a d)
  case (Suc n)
  have "x \<noteq> a" using Suc.prems [of 0] by simp
  moreover have "le_write (m(a := ucast d)) (a + 1) n (shr d 8) x = (m(a := ucast d)) x"
    using Suc.prems [of "Suc _"] by (intro Suc.IH) (simp add: ac_simps)
  ultimately show ?case by simp
qed simp

section \<open>Accesses that do not wrap\<close>

text \<open>\<open>fits a n\<close>: the \<open>n\<close> addresses from \<open>a\<close> on are distinct.\<close>

locale host_memory =
  fixes fits :: "'a::semiring_1 \<Rightarrow> nat \<Rightarrow> bool"
  assumes fits_inj: "fits a n \<Longrightarrow> i < n \<Longrightarrow> j < n \<Longrightarrow> a + of_nat i = a + of_nat j \<Longrightarrow> i = j"
begin

lemma le_write_byte:
  assumes "fits a n" and "i < n"
  shows "le_write m a n d (a + of_nat i) = ucast (shr d (8 * i))"
proof -
  have "le_write m b k d' (b + of_nat i) = ucast (shr d' (8 * i))"
    if "i < k" and "\<And>i j. i < k \<Longrightarrow> j < k \<Longrightarrow> b + of_nat i = b + of_nat j \<Longrightarrow> i = j" for m b k d' i
    using that
  proof (induction k arbitrary: m b d' i)
    case (Suc k)
    have inj: "i = j" if "i < k" "j < k" "b + 1 + of_nat i = b + 1 + of_nat j" for i j
      using Suc.prems(2) [of "Suc i" "Suc j"] that by (simp add: ac_simps)
    show ?case
    proof (cases i)
      case 0
      have "b \<noteq> b + 1 + of_nat j" if "j < k" for j
        using Suc.prems(2) [of 0 "Suc j"] that by (auto simp: ac_simps)
      then show ?thesis using 0 by (simp add: le_write_frame)
    next
      case (Suc i')
      have "le_write (m(b := ucast d')) (b + 1) k (shr d' 8) (b + 1 + of_nat i') = ucast (shr (shr d' 8) (8 * i'))"
        using Suc.IH Suc.prems Suc inj by simp
      then show ?thesis using Suc by (simp add: ac_simps)
    qed
  qed simp
  then show ?thesis using assms fits_inj by blast
qed

text \<open>What was stored is loaded back, truncated to the access width.\<close>

lemma load_store_same:
  assumes "fits a n" and "n \<le> 8"
  shows "le_read (le_write m a n d) a n = take_bit (8 * n) d"
proof (rule bit_word_eqI)
  fix k assume "k < LENGTH(64)"
  have "bit (le_write m a n d (a + of_nat (k div 8))) (k mod 8) \<longleftrightarrow> bit d k" if "k < 8 * n"
  proof -
    have "k div 8 < n" using that by (simp add: less_mult_imp_div_less mult.commute)
    then have "le_write m a n d (a + of_nat (k div 8)) = ucast (shr d (8 * (k div 8)))"
      using le_write_byte [OF assms(1)] by simp
    then show ?thesis by (simp add: bit_simps)
  qed
  then show "bit (le_read (le_write m a n d) a n) k = bit (take_bit (8 * n) d) k"
    using assms(2) by (auto simp: bit_le_read bit_simps)
qed

lemma load_store_disjoint:
  assumes "\<And>i j. i < n \<Longrightarrow> j < k \<Longrightarrow> b + of_nat j \<noteq> a + of_nat i"
  shows "le_read (le_write m a n d) b k = le_read m b k"
  using assms by (intro le_read_cong le_write_frame) blast

lemma host_read_write_same:
  assumes "fits a len" and "host_write m a len d = Some m'"
  shows "host_read m' a len = Some (take_bit (8 * len) d)"
  using assms load_store_same [OF assms(1)]
  by (auto simp: host_read_def host_write_def host_len_ok_def split: if_splits)

end

interpretation io_mem: host_memory "\<lambda>(a :: nat) n. True"
  by unfold_locales simp

interpretation guest_mem: host_memory "\<lambda>(a :: u64) n. n \<le> 2 ^ 32"
proof unfold_locales
  fix a :: u64 and n i j :: nat
  assume n: "n \<le> 2 ^ 32" and i: "i < n" and j: "j < n" and e: "a + of_nat i = a + of_nat j"
  have "unat (of_nat k :: u64) = k" if "k < n" for k
    using that n by (simp add: unat_of_nat)
  with i j e show "i = j" by (metis add_left_cancel)
qed

end
