(* ===== verification/Fifo.thy ===== *)
theory Fifo
  imports Main
begin

text \<open>
  The interface of a bounded queue, as the store-commit queue of \<open>src/memory/paddr.c\<close> and the
  key queue of \<open>src/device/keyboard.c\<close> provide it, with the ordering theorem a client relies
  on, and the list lemmas on ring buffers that both implementations use: a ring with its
  oldest element at index \<open>f\<close> is read off as \<open>rotate f buf\<close>.
\<close>

section \<open>Ring buffers\<close>

lemma ring_index_inj: "i < (L::nat) \<Longrightarrow> n < L \<Longrightarrow> (f + i) mod L = (f + n) mod L \<longleftrightarrow> i = n"
proof -
  have *: "j = 0" if "(f + k) mod L = (f + k + j) mod L" "j < L" for k j
  proof -
    have "L dvd j" using that(1) mod_eq_dvd_iff_nat [of "f + k" "f + k + j" L] by simp
    with that(2) show ?thesis using nat_dvd_not_less by blast
  qed
  assume i: "i < L" and n: "n < L"
  show ?thesis
  proof
    assume e: "(f + i) mod L = (f + n) mod L"
    show "i = n"
    proof (cases "i \<le> n")
      case True
      then show ?thesis using * [of i "n - i"] e n by (simp add: less_imp_diff_less)
    next
      case False
      then show ?thesis using * [of n "i - n"] e i by (simp add: less_imp_diff_less)
    qed
  qed simp
qed

lemma rotate_update:
  assumes "n < length buf"
  shows "rotate f (buf[(f + n) mod length buf := e]) = (rotate f buf)[n := e]"
proof (rule nth_equalityI)
  fix i assume "i < length (rotate f (buf[(f + n) mod length buf := e]))"
  then have i: "i < length buf" by simp
  moreover have "(f + n) mod length buf < length buf"
    using assms by (intro mod_less_divisor) auto
  ultimately show "rotate f (buf[(f + n) mod length buf := e]) ! i = (rotate f buf)[n := e] ! i"
    using assms ring_index_inj [OF i assms, of f] by (auto simp: nth_rotate nth_list_update)
qed simp

lemma rotate_next:
  assumes "buf \<noteq> []" and "f < length buf"
  shows "rotate (Suc f mod length buf) buf = tl (rotate f buf) @ [hd (rotate f buf)]"
proof -
  have "rotate (Suc f mod length buf) buf = rotate (Suc f) buf"
    by (rule rotate_conv_mod [symmetric])
  also have "\<dots> = rotate1 (rotate f buf)" by (simp add: rotate_Suc)
  also have "\<dots> = tl (rotate f buf) @ [hd (rotate f buf)]"
    using assms(1) by (cases "rotate f buf") simp_all
  finally show ?thesis .
qed

lemma hd_rotate: "f < length buf \<Longrightarrow> hd (rotate f buf) = buf ! f"
  by (cases "buf = []") (simp_all add: hd_conv_nth nth_rotate)

section \<open>The interface\<close>

text \<open>Popping \<open>n\<close> times, collecting the results in order.\<close>

fun pops :: "('s \<Rightarrow> 'e option \<times> 's) \<Rightarrow> nat \<Rightarrow> 's \<Rightarrow> 'e option list \<times> 's" where
  "pops pop 0 s = ([], s)"
| "pops pop (Suc n) s = (let (r, s1) = pop s; (rs, s2) = pops pop n s1 in (r # rs, s2))"

locale fifo =
  fixes inv :: "'s \<Rightarrow> bool" and content :: "'s \<Rightarrow> 'e list" and room :: "'s \<Rightarrow> nat"
    and push :: "'e \<Rightarrow> 's \<Rightarrow> 's" and pop :: "'s \<Rightarrow> 'e option \<times> 's" and ok :: "'e \<Rightarrow> bool"
  assumes push_law: "inv s \<Longrightarrow> 0 < room s \<Longrightarrow> ok e \<Longrightarrow>
      inv (push e s) \<and> content (push e s) = content s @ [e] \<and> room (push e s) = room s - 1"
    and pop_empty_law: "inv s \<Longrightarrow> content s = [] \<Longrightarrow> pop s = (None, s)"
    and pop_law: "inv s \<Longrightarrow> content s = e # es \<Longrightarrow>
      \<exists>s'. pop s = (Some e, s') \<and> inv s' \<and> content s' = es \<and> room s' = Suc (room s)"
begin

lemma push_all:
  assumes "inv s" and "length es \<le> room s" and "list_all ok es"
  shows "inv (fold push es s) \<and> content (fold push es s) = content s @ es \<and>
         room (fold push es s) = room s - length es"
  using assms
proof (induction es arbitrary: s)
  case (Cons e es)
  have "inv (push e s) \<and> content (push e s) = content s @ [e] \<and> room (push e s) = room s - 1"
    using Cons.prems by (intro push_law) auto
  then show ?case using Cons.IH [of "push e s"] Cons.prems by auto
qed simp

lemma pop_all:
  assumes "inv s" and "content s = es @ rest"
  shows "fst (pops pop (length es) s) = map Some es \<and> inv (snd (pops pop (length es) s)) \<and>
         content (snd (pops pop (length es) s)) = rest"
  using assms
proof (induction es arbitrary: s)
  case (Cons e es)
  then obtain s' where "pop s = (Some e, s')" "inv s'" "content s' = es @ rest"
    using pop_law [of s e "es @ rest"] by auto
  then show ?case using Cons.IH [of s'] by (simp add: case_prod_beta)
qed simp

text \<open>First in, first out: what is pushed into an empty queue comes out complete and in order.\<close>

lemma fifo_order:
  assumes "inv s" and "content s = []" and "length es \<le> room s" and "list_all ok es"
  shows "fst (pops pop (length es) (fold push es s)) = map Some es"
  using push_all [OF assms(1,3,4)] pop_all [of "fold push es s" es "[]"] assms(2) by simp

end

end
