(* ===== verification/Device_IO.thy ===== *)
theory Device_IO
  imports Csr_Def Host_Mem Fifo
begin

text \<open>
  Devices on the memory bus: the I/O space allocator and the region map of
  \<open>src/device/io/map.c\<close>, \<open>io/mmio.c\<close> and \<open>io/port-io.c\<close>, and the device models of
  \<open>src/isa/riscv64/clint.c\<close>, \<open>src/device/uartlite.c\<close>, \<open>timer.c\<close> and \<open>keyboard.c\<close>. A callback
  pointer of the C code is the device's name here and \<open>invoke_callback\<close> dispatches on it. The
  host clock is a stream of readings; the serial output is the list of bytes written.
\<close>

section \<open>Time\<close>

definition get_time_internal :: "u64 exec" where
  "get_time_internal s = (Ret (host_clock s (clock_reads s)), s\<lparr>clock_reads := Suc (clock_reads s)\<rparr>)"

definition get_time :: "u64 exec" where
  "get_time = then_m
     (with_m (\<lambda>s. when_m (util_boot_time s = 0)
        (bind_m get_time_internal (\<lambda>t. modify_m (\<lambda>s. s\<lparr>util_boot_time := t\<rparr>)))))
     (bind_m get_time_internal (\<lambda>now. gets_m (\<lambda>s. now - util_boot_time s)))"

section \<open>I/O space and region map\<close>

abbreviation (input) IO_SPACE_MAX :: nat where "IO_SPACE_MAX \<equiv> 134217728"
abbreviation (input) NR_MAP :: nat where "NR_MAP \<equiv> 16"

definition page_round :: "nat \<Rightarrow> nat" where
  "page_round sz = (sz + 4095) div 4096 * 4096"

definition new_space :: "nat \<Rightarrow> nat exec" where
  "new_space sz = with_m (\<lambda>s. let p = p_space s in
     then_m (modify_m (\<lambda>s. s\<lparr>p_space := p_space s + page_round sz\<rparr>))
       (with_m (\<lambda>s. then_m (assert_m (p_space s < IO_SPACE_MAX)) (return_m p))))"

definition map_inside :: "IOMap \<Rightarrow> u64 \<Rightarrow> bool" where
  "map_inside m addr \<longleftrightarrow> addr \<ge> map_low m \<and> addr \<le> map_high m"

fun find_mapid_by_addr :: "IOMap list \<Rightarrow> u64 \<Rightarrow> nat option" where
  "find_mapid_by_addr [] addr = None"
| "find_mapid_by_addr (m # ms) addr =
    (if map_inside m addr then Some 0 else map_option Suc (find_mapid_by_addr ms addr))"

definition fetch_mmio_map :: "u64 \<Rightarrow> machine \<Rightarrow> IOMap option" where
  "fetch_mmio_map addr s = map_option ((!) (io_maps s)) (find_mapid_by_addr (io_maps s) addr)"

definition is_in_mmio :: "u64 \<Rightarrow> machine \<Rightarrow> bool" where
  "is_in_mmio addr s = (find_mapid_by_addr (io_maps s) addr \<noteq> None)"

definition add_mmio_map :: "u64 \<Rightarrow> nat \<Rightarrow> u32 \<Rightarrow> device_id \<Rightarrow> unit exec" where
  "add_mmio_map addr space len callback = with_m (\<lambda>s.
     then_m (assert_m (length (io_maps s) < NR_MAP))
       (modify_m (\<lambda>s. s\<lparr>io_maps := io_maps s @
          [\<lparr>map_low = addr, map_high = addr + ucast len - 1, map_space = space, map_callback = callback\<rparr>]\<rparr>)))"

definition add_pio_map :: "u16 \<Rightarrow> nat \<Rightarrow> u32 \<Rightarrow> device_id \<Rightarrow> unit exec" where
  "add_pio_map addr space len callback = with_m (\<lambda>s.
     then_m (assert_m (length (pio_maps s) < NR_MAP))
       (then_m (assert_m (ucast addr + len \<le> 65535))
         (modify_m (\<lambda>s. s\<lparr>pio_maps := pio_maps s @
            [\<lparr>map_low = ucast addr, map_high = ucast (ucast addr + len - 1), map_space = space,
              map_callback = callback\<rparr>]\<rparr>))))"

section \<open>Device models\<close>

text \<open>Words of the I/O space a device keeps its registers in.\<close>

definition io_get :: "nat \<Rightarrow> nat \<Rightarrow> machine \<Rightarrow> u64" where
  "io_get a len s = le_read (io_space s) a len"

definition io_put :: "nat \<Rightarrow> nat \<Rightarrow> u64 \<Rightarrow> machine \<Rightarrow> machine" where
  "io_put a len v s = s\<lparr>io_space := le_write (io_space s) a len v\<rparr>"

abbreviation (input) CLINT_MTIMECMP :: nat where "CLINT_MTIMECMP \<equiv> 0x4000"
abbreviation (input) CLINT_MTIME :: nat where "CLINT_MTIME \<equiv> 0xBFF8"
abbreviation (input) TIMEBASE :: u64 where "TIMEBASE \<equiv> 10000000"

definition update_clint :: "unit exec" where
  "update_clint = bind_m get_time (\<lambda>t. modify_m (\<lambda>s. let
     now = t - boot_time s;
     s = io_put (clint_base s + CLINT_MTIME) 8 (TIMEBASE * now div 1000000) s;
     mtip = (io_get (clint_base s + CLINT_MTIME) 8 s \<ge> io_get (clint_base s + CLINT_MTIMECMP) 8 s)
     in set_csr c_mip (put_bit 7 mtip (csr c_mip s)) s))"

definition clint_uptime :: "u64 exec" where
  "clint_uptime = then_m update_clint (gets_m (\<lambda>s. io_get (clint_base s + CLINT_MTIME) 8 s))"

definition clint_io_handler :: "u32 \<Rightarrow> nat \<Rightarrow> bool \<Rightarrow> unit exec" where
  "clint_io_handler offset len is_write = update_clint"

definition serial_io_handler :: "u32 \<Rightarrow> nat \<Rightarrow> bool \<Rightarrow> unit exec" where
  "serial_io_handler offset len is_write = then_m (assert_m (len = 1))
     (if offset = 4 then
        (if is_write then modify_m (\<lambda>s. s\<lparr>serial_out := serial_out s @ [io_space s (serial_base s + 4)]\<rparr>)
         else panic_m)
      else if offset = 8 then
        when_m (\<not> is_write) (modify_m (\<lambda>s. s\<lparr>io_space := (io_space s)(serial_base s + 8 := 0)\<rparr>))
      else return_m ())"

definition rtc_io_handler :: "u32 \<Rightarrow> nat \<Rightarrow> bool \<Rightarrow> unit exec" where
  "rtc_io_handler offset len is_write = then_m (assert_m (offset = 0 \<or> offset = 4))
     (when_m (\<not> is_write \<and> offset = 4)
       (bind_m get_time (\<lambda>us. modify_m (\<lambda>s.
          io_put (rtc_port_base s + 4) 4 (shr us 32) (io_put (rtc_port_base s) 4 us s)))))"

text \<open>
  The key queue: a ring of 1024 entries. \<open>keymap\<close>, which SDL scan codes index, is a parameter.
\<close>

abbreviation (input) KEY_QUEUE_LEN :: nat where "KEY_QUEUE_LEN \<equiv> 1024"

definition key_enqueue :: "u32 \<Rightarrow> machine \<Rightarrow> machine" where
  "key_enqueue k s = s\<lparr>key_queue := (key_queue s)[key_r s := k], key_r := (key_r s + 1) mod KEY_QUEUE_LEN\<rparr>"

definition send_key :: "(u8 \<Rightarrow> u32) \<Rightarrow> u8 \<Rightarrow> bool \<Rightarrow> unit exec" where
  "send_key keymap scancode is_keydown = with_m (\<lambda>s.
     when_m (nemu_state s = NEMU_RUNNING \<and> keymap scancode \<noteq> 0)
       (then_m (modify_m (key_enqueue (keymap scancode OR (if is_keydown then 0x8000 else 0))))
          (with_m (\<lambda>s. assert_m (key_r s \<noteq> key_f s)))))"

definition key_dequeue :: "machine \<Rightarrow> u32 option \<times> machine" where
  "key_dequeue s = (if key_f s \<noteq> key_r s
     then (Some (key_queue s ! key_f s), s\<lparr>key_f := (key_f s + 1) mod KEY_QUEUE_LEN\<rparr>)
     else (None, s))"

definition i8042_data_io_handler :: "u32 \<Rightarrow> nat \<Rightarrow> bool \<Rightarrow> unit exec" where
  "i8042_data_io_handler offset len is_write =
     then_m (assert_m (\<not> is_write)) (then_m (assert_m (offset = 0))
       (modify_m (\<lambda>s. let (k, s1) = key_dequeue s in
          io_put (i8042_data_port_base s1) 4 (case k of Some k \<Rightarrow> ucast k | None \<Rightarrow> 0) s1)))"

section \<open>Bus accesses\<close>

definition invoke_callback :: "device_id \<Rightarrow> u32 \<Rightarrow> nat \<Rightarrow> bool \<Rightarrow> unit exec" where
  "invoke_callback c offset len is_write =
    (case c of
       DEV_NONE \<Rightarrow> return_m ()
     | DEV_CLINT \<Rightarrow> clint_io_handler offset len is_write
     | DEV_UARTLITE \<Rightarrow> serial_io_handler offset len is_write
     | DEV_RTC \<Rightarrow> rtc_io_handler offset len is_write
     | DEV_I8042 \<Rightarrow> i8042_data_io_handler offset len is_write)"

text \<open>A failed assertion of \<open>host_read\<close> or \<open>host_write\<close> ends the process.\<close>

definition lift_opt :: "'a option \<Rightarrow> 'a exec" where
  "lift_opt x = (case x of None \<Rightarrow> panic_m | Some v \<Rightarrow> return_m v)"

definition map_read :: "u64 \<Rightarrow> nat \<Rightarrow> IOMap option \<Rightarrow> u64 exec" where
  "map_read addr len m = then_m (assert_m (len \<ge> 1 \<and> len \<le> 8))
     (case m of
        None \<Rightarrow> panic_m
      | Some m \<Rightarrow> then_m (assert_m (addr \<le> map_high m \<and> addr \<ge> map_low m))
          (let offset = addr - map_low m in
           then_m (invoke_callback (map_callback m) (ucast offset) len False)
             (with_m (\<lambda>s. lift_opt (host_read (io_space s) (map_space m + unat offset) len)))))"

definition map_write :: "u64 \<Rightarrow> nat \<Rightarrow> u64 \<Rightarrow> IOMap option \<Rightarrow> unit exec" where
  "map_write addr len data m = then_m (assert_m (len \<ge> 1 \<and> len \<le> 8))
     (case m of
        None \<Rightarrow> panic_m
      | Some m \<Rightarrow> then_m (assert_m (addr \<le> map_high m \<and> addr \<ge> map_low m))
          (let offset = addr - map_low m in
           then_m (with_m (\<lambda>s. bind_m (lift_opt (host_write (io_space s) (map_space m + unat offset) len data))
                     (\<lambda>sp. modify_m (\<lambda>s. s\<lparr>io_space := sp\<rparr>))))
             (invoke_callback (map_callback m) (ucast offset) len True)))"

definition mmio_read :: "u64 \<Rightarrow> nat \<Rightarrow> u64 exec" where
  "mmio_read addr len = with_m (\<lambda>s. map_read addr len (fetch_mmio_map addr s))"

definition mmio_write :: "u64 \<Rightarrow> nat \<Rightarrow> u64 \<Rightarrow> unit exec" where
  "mmio_write addr len data = with_m (\<lambda>s. map_write addr len data (fetch_mmio_map addr s))"

definition pio_read :: "u16 \<Rightarrow> nat \<Rightarrow> u32 exec" where
  "pio_read addr len = then_m (assert_m (int (unat addr) + int len - 1 < 65535))
     (with_m (\<lambda>s. case find_mapid_by_addr (pio_maps s) (ucast addr) of
        None \<Rightarrow> return_m 0xffffffff
      | Some i \<Rightarrow> bind_m (map_read (ucast addr) len (Some (pio_maps s ! i))) (\<lambda>v. return_m (ucast v))))"

definition pio_write :: "u16 \<Rightarrow> nat \<Rightarrow> u32 \<Rightarrow> unit exec" where
  "pio_write addr len data = then_m (assert_m (int (unat addr) + int len - 1 < 65535))
     (with_m (\<lambda>s. case find_mapid_by_addr (pio_maps s) (ucast addr) of
        None \<Rightarrow> return_m ()
      | Some i \<Rightarrow> map_write (ucast addr) len (ucast data) (Some (pio_maps s ! i))))"

section \<open>Initialisation\<close>

definition init_clint :: "unit exec" where
  "init_clint = bind_m (new_space 0x10000) (\<lambda>b.
     then_m (modify_m (\<lambda>s. s\<lparr>clint_base := b\<rparr>))
       (then_m (add_mmio_map 0x38000000 b 0x10000 DEV_CLINT)
         (bind_m get_time (\<lambda>t. modify_m (\<lambda>s. s\<lparr>boot_time := t\<rparr>)))))"

definition init_uartlite :: "unit exec" where
  "init_uartlite = bind_m (new_space 0xd) (\<lambda>b.
     then_m (modify_m (\<lambda>s. s\<lparr>serial_base := b\<rparr>))
       (then_m (add_pio_map 0x3f8 b 0xd DEV_UARTLITE) (add_mmio_map 0x40600000 b 0xd DEV_UARTLITE)))"

definition init_timer :: "unit exec" where
  "init_timer = bind_m (new_space 8) (\<lambda>b.
     then_m (modify_m (\<lambda>s. s\<lparr>rtc_port_base := b\<rparr>))
       (then_m (add_pio_map 0x48 b 8 DEV_RTC) (add_mmio_map 0xa1000048 b 8 DEV_RTC)))"

definition init_i8042 :: "unit exec" where
  "init_i8042 = bind_m (new_space 4) (\<lambda>b.
     then_m (modify_m (\<lambda>s. io_put b 4 0 (s\<lparr>i8042_data_port_base := b\<rparr>)))
       (then_m (add_pio_map 0x60 b 4 DEV_I8042) (add_mmio_map 0xa1000060 b 4 DEV_I8042)))"

section \<open>The key queue as a FIFO\<close>

definition key_inv :: "machine \<Rightarrow> bool" where
  "key_inv s \<longleftrightarrow> length (key_queue s) = 1024 \<and> key_f s < 1024 \<and> key_r s < 1024"

definition key_used :: "machine \<Rightarrow> nat" where
  "key_used s = (key_r s + 1024 - key_f s) mod 1024"

definition key_content :: "machine \<Rightarrow> u32 list" where
  "key_content s = take (key_used s) (rotate (key_f s) (key_queue s))"

definition key_room :: "machine \<Rightarrow> nat" where
  "key_room s = 1023 - key_used s"

lemma key_used_less: "key_used s < 1024"
  by (simp add: key_used_def)

lemma key_used_cases:
  "key_inv s \<Longrightarrow> key_used s = (if key_f s \<le> key_r s then key_r s - key_f s else key_r s + 1024 - key_f s)"
  by (auto simp: key_used_def key_inv_def le_mod_geq not_le mod_if)

lemma Suc_mod_1024: "n < 1024 \<Longrightarrow> Suc n mod 1024 = (if n = 1023 then 0 else Suc n)"
  by auto

lemma key_r_eq: "key_inv s \<Longrightarrow> key_r s = (key_f s + key_used s) mod 1024"
  by (auto simp: key_used_cases key_inv_def le_mod_geq)

lemma key_used_0: "key_inv s \<Longrightarrow> key_used s = 0 \<longleftrightarrow> key_f s = key_r s"
  by (auto simp: key_used_cases key_inv_def)

lemma take_Suc_update: "n < length xs \<Longrightarrow> take (Suc n) (xs[n := e]) = take n xs @ [e]"
  by (simp add: take_Suc_conv_app_nth)

lemma key_push:
  assumes "key_inv s" and "0 < key_room s"
  shows "key_inv (key_enqueue k s) \<and> key_content (key_enqueue k s) = key_content s @ [k] \<and>
         key_room (key_enqueue k s) = key_room s - 1"
proof -
  let ?s = "key_enqueue k s"
  have u: "key_used ?s = Suc (key_used s)"
  proof -
    have i: "key_inv ?s" using assms(1) by (simp add: key_inv_def key_enqueue_def)
    show ?thesis
      using assms unfolding key_room_def key_used_cases [OF i] key_used_cases [OF assms(1)]
      by (auto simp: key_enqueue_def key_inv_def Suc_mod_1024 split: if_splits)
  qed
  have "rotate (key_f s) ((key_queue s)[key_r s := k]) = (rotate (key_f s) (key_queue s))[key_used s := k]"
    using rotate_update [of "key_used s" "key_queue s" "key_f s" k] key_r_eq [OF assms(1)] key_used_less [of s] assms(1)
    by (simp add: key_inv_def)
  then have "key_content ?s = key_content s @ [k]"
    using u key_used_less [of s] assms(1) unfolding key_content_def
    by (simp add: key_enqueue_def take_Suc_update key_inv_def)
  moreover have "key_inv ?s" using assms(1) by (simp add: key_inv_def key_enqueue_def)
  ultimately show ?thesis using u by (simp add: key_room_def)
qed

lemma key_pop:
  assumes "key_inv s" and "key_content s = k # ks"
  shows "\<exists>s'. key_dequeue s = (Some k, s') \<and> key_inv s' \<and> key_content s' = ks \<and> key_room s' = Suc (key_room s)"
proof -
  let ?s = "s\<lparr>key_f := (key_f s + 1) mod 1024\<rparr>"
  have ne: "key_used s \<noteq> 0"
  proof
    assume "key_used s = 0"
    then show False using assms(2) by (simp add: key_content_def)
  qed
  then have d: "key_dequeue s = (Some (key_queue s ! key_f s), ?s)"
    using key_used_0 [OF assms(1)] by (simp add: key_dequeue_def)
  have u: "key_used s = Suc (key_used ?s)"
  proof -
    have i: "key_inv ?s" using assms(1) by (simp add: key_inv_def)
    show ?thesis
      using ne assms(1) unfolding key_used_cases [OF i] key_used_cases [OF assms(1)]
      by (auto simp: key_inv_def Suc_mod_1024 split: if_splits)
  qed
  have q: "key_queue s \<noteq> []" "key_f s < length (key_queue s)" "length (key_queue s) = 1024"
    using assms(1) by (auto simp: key_inv_def)
  obtain r0 rs where R: "rotate (key_f s) (key_queue s) = r0 # rs"
    using q(1) by (metis list.exhaust rotate_is_Nil_conv)
  have "Suc (length rs) = length (rotate (key_f s) (key_queue s))" using R by simp
  then have L: "length rs = 1023" using q(3) by simp
  have r0: "r0 = key_queue s ! key_f s" using hd_rotate [OF q(2)] R by simp
  have N: "rotate (key_f ?s) (key_queue s) = rs @ [r0]"
    using rotate_next [OF q(1,2)] q(3) R by simp
  have "k # ks = r0 # take (key_used ?s) rs"
    using assms(2) u R by (simp add: key_content_def)
  moreover have "key_content ?s = take (key_used ?s) rs"
    using N L u key_used_less [of s] unfolding key_content_def by simp
  ultimately have "key_content ?s = ks" "k = key_queue s ! key_f s"
    using r0 by simp_all
  moreover have "key_inv ?s" using assms(1) by (simp add: key_inv_def)
  ultimately show ?thesis using d u key_used_less [of s] by (simp add: key_room_def)
qed

interpretation keys: fifo key_inv key_content key_room key_enqueue key_dequeue "\<lambda>_. True"
proof unfold_locales
  fix s assume "key_inv s" "key_content s = []"
  then have "key_used s = 0" using key_used_less [of s] by (auto simp: key_content_def key_inv_def)
  then show "key_dequeue s = (None, s)"
    using key_used_0 [OF \<open>key_inv s\<close>] by (simp add: key_dequeue_def)
qed (use key_push key_pop in auto)

section \<open>Lemmas on time and device registers\<close>

lemma send_key_eq:
  assumes "nemu_state s = NEMU_RUNNING" "keymap sc \<noteq> 0" "key_inv s"
  shows "send_key keymap sc d s =
    (if key_room s = 0 then Abort else Ret (), key_enqueue (keymap sc OR (if d then 0x8000 else 0)) s)"
proof -
  have "key_r (key_enqueue k s) = key_f (key_enqueue k s) \<longleftrightarrow> key_room s = 0" for k
    using assms(3) unfolding key_room_def key_used_cases [OF assms(3)]
    by (auto simp: key_enqueue_def key_inv_def Suc_mod_1024 split: if_splits)
  then show ?thesis
    using assms(1,2) by (simp add: send_key_def monad_simps then_m_def bind_m_def modify_m_def)
qed

lemma get_time_eq:
  "\<exists>t s1. get_time s = (Ret t, s1) \<and> csr_array s1 = csr_array s \<and> io_space s1 = io_space s \<and>
     clint_base s1 = clint_base s \<and> boot_time s1 = boot_time s \<and> pmem s1 = pmem s \<and> gpr s1 = gpr s"
  by (simp add: get_time_def get_time_internal_def monad_simps then_m_def bind_m_def modify_m_def gets_m_def)

lemma io_get_put_same: "n \<le> 8 \<Longrightarrow> io_get a n (io_put a n v s) = take_bit (8 * n) v"
  by (simp add: io_get_def io_put_def io_mem.load_store_same)

lemma io_get_put_other: "a + n \<le> b \<or> b + k \<le> a \<Longrightarrow> io_get b k (io_put a n v s) = io_get b k s"
  unfolding io_get_def io_put_def by (simp, intro io_mem.load_store_disjoint) auto

lemma io_put_frame [simp]:
  "csr_array (io_put a n v s) = csr_array s" "clint_base (io_put a n v s) = clint_base s"
  by (simp_all add: io_put_def)

lemma io_get_set_csr [simp]: "io_get a n (set_csr r v s) = io_get a n s"
  by (simp add: io_get_def set_csr_def)

section \<open>Properties\<close>

text \<open>
  Key events are delivered complete and in order: with the emulator running and room in
  the ring, \<open>send_key\<close> appends the mapped code (and it aborts only when the ring is full), and
  codes queued into an empty ring are read back in the order they were sent.
\<close>

lemma key_queue_fifo:
  assumes "key_inv s" and "key_content s = []" and "length ks \<le> 1023"
    and "nemu_state s = NEMU_RUNNING" and "keymap sc \<noteq> 0"
  shows "fst (pops key_dequeue (length ks) (fold key_enqueue ks s)) = map Some ks \<and>
    send_key keymap sc d s = (Ret (), key_enqueue (keymap sc OR (if d then 0x8000 else 0)) s)"
proof -
  have "key_used s = 0"
    using assms(1,2) key_used_less [of s] by (auto simp: key_content_def key_inv_def)
  then have "key_room s = 1023" by (simp add: key_room_def)
  then show ?thesis
    using keys.fifo_order [OF assms(1,2), of ks] assms send_key_eq [of s keymap sc d]
    by (simp add: list_all_iff)
qed

text \<open>
  \<open>update_clint\<close> always returns, and afterwards the machine timer interrupt is pending
  exactly when \<open>mtime\<close> has reached \<open>mtimecmp\<close>; no other interrupt bit and no other register
  changes.
\<close>

lemma update_clint_spec:
  assumes "update_clint s = (r, s')"
  shows "r = Ret () \<and>
    (bit (csr c_mip s') 7 \<longleftrightarrow> io_get (clint_base s + CLINT_MTIMECMP) 8 s \<le> io_get (clint_base s + CLINT_MTIME) 8 s') \<and>
    (\<forall>i. i \<noteq> 7 \<longrightarrow> bit (csr c_mip s') i = bit (csr c_mip s) i) \<and>
    (\<forall>a. a \<noteq> c_mip \<longrightarrow> csr a s' = csr a s)"
proof -
  obtain t s1 where g: "get_time s = (Ret t, s1)" "csr_array s1 = csr_array s" "io_space s1 = io_space s"
     "clint_base s1 = clint_base s"
    using get_time_eq by blast
  have L: "i < 64" if "bit w i" for w :: u64 and i
    using bit_imp_le_length [OF that] by simp
  have "io_get a k s1 = io_get a k s" for a k
    using g by (simp add: io_get_def)
  then show ?thesis
    using assms
    by (auto simp: update_clint_def bind_m_def g modify_m_def Let_def io_get_put_same io_get_put_other bit_simps
        dest: L)
qed

text \<open>
  \<open>new_space\<close> hands out page-aligned device memory that no later allocation overlaps:
  the next allocation starts at or after the end of this one, inside the I/O space.
\<close>

lemma new_space_spec:
  assumes "new_space sz s = (Ret p, s')" and "4096 dvd p_space s"
  shows "p = p_space s \<and> 4096 dvd p \<and> p + sz \<le> p_space s' \<and> 4096 dvd p_space s' \<and> p_space s' < IO_SPACE_MAX \<and>
         io_space s' = io_space s"
proof -
  have "sz \<le> page_round sz"
    using div_mult_mod_eq [of "sz + 4095" 4096] mod_less_divisor [of 4096 "sz + 4095"] by (simp add: page_round_def)
  moreover have "4096 dvd page_round sz" by (simp add: page_round_def)
  ultimately show ?thesis
    using assms by (auto simp: new_space_def monad_simps then_m_def bind_m_def modify_m_def assert_m_def return_m_def Let_def split: if_splits)
qed

end
