(* ===== verification/Memory.thy ===== *)
theory Memory
  imports Pmp Device_IO
begin

text \<open>
  Physical memory: \<open>src/memory/paddr.c\<close> and \<open>include/memory/paddr.h\<close>. Guest memory is the field
  \<open>pmem\<close>, addressed by guest physical address (\<open>guest_to_host\<close> is a constant offset). The theory
  shows that physical accesses obey PMP, report access faults precisely, read back what was
  written, and that the store-commit queue of the difftest build is a FIFO.
\<close>

section \<open>The memory range\<close>

abbreviation (input) CONFIG_MBASE :: u64 where "CONFIG_MBASE \<equiv> 0x80000000"

definition in_pmem :: "u64 \<Rightarrow> machine \<Rightarrow> bool" where
  "in_pmem addr s =
    (let mbase_mask = CONFIG_MBASE - 1;
         msize_mask = memory_size s - 1;
         mbase_align = (CONFIG_MBASE AND mbase_mask = 0);
         msize_align = (memory_size s AND msize_mask = 0);
         msize_inside_mbase = (msize_mask \<le> mbase_mask)
     in if mbase_align \<and> msize_align \<and> msize_inside_mbase
        then addr AND NOT msize_mask = CONFIG_MBASE
        else addr \<ge> CONFIG_MBASE \<and> addr < CONFIG_MBASE + memory_size s)"

section \<open>The store-commit queue\<close>

abbreviation (input) STORE_QUEUE_SIZE :: nat where "STORE_QUEUE_SIZE \<equiv> 64"

text \<open>The doubleword, data and byte mask a store of \<open>len\<close> bytes is recorded as.\<close>

definition store_commit_data :: "u64 \<Rightarrow> u64 \<Rightarrow> nat \<Rightarrow> (u64 \<times> u8) option" where
  "store_commit_data offset data len =
    (if len = 1 then Some (shl (data AND 0xff) (unat offset * 8), shl 0x1 (unat offset))
     else if len = 2 then Some (shl (data AND 0xffff) (unat offset * 8), shl 0x3 (unat offset))
     else if len = 4 then Some (shl (data AND 0xffffffff) (unat offset * 8), shl 0xf (unat offset))
     else if len = 8 then Some (data, 0xff)
     else None)"

definition scq_enqueue :: "u64 \<times> u64 \<times> u8 \<Rightarrow> machine \<Rightarrow> machine" where
  "scq_enqueue e s = (case e of (a, d, m) \<Rightarrow>
     s\<lparr>store_commit_queue := (store_commit_queue s)
          [scq_tail s := \<lparr>sc_addr = a, sc_data = d, sc_mask = m, sc_valid = True\<rparr>],
       scq_tail := (scq_tail s + 1) mod STORE_QUEUE_SIZE\<rparr>)"

text \<open>Atomic memory operations are not recorded.\<close>

definition store_commit_queue_push :: "u64 \<Rightarrow> u64 \<Rightarrow> nat \<Rightarrow> unit exec" where
  "store_commit_queue_push addr data len = with_m (\<lambda>s.
     if amo s then return_m ()
     else let offset = addr mod 8 in
       (case store_commit_data offset data len of
          None \<Rightarrow> panic_m
        | Some (d, m) \<Rightarrow> modify_m (scq_enqueue (addr - offset, d, m))))"

text \<open>The popped element: the C code returns a pointer to it after clearing its valid flag.\<close>

definition store_commit_queue_pop :: "machine \<Rightarrow> (u64 \<times> u64 \<times> u8) option \<times> machine" where
  "store_commit_queue_pop s =
    (let e = store_commit_queue s ! scq_head s
     in if \<not> sc_valid e then (None, s)
        else (Some (sc_addr e, sc_data e, sc_mask e),
              s\<lparr>store_commit_queue := (store_commit_queue s)[scq_head s := e\<lparr>sc_valid := False\<rparr>],
                scq_head := (scq_head s + 1) mod STORE_QUEUE_SIZE\<rparr>))"

text \<open>The result code and the values left in the three in-out parameters.\<close>

definition check_store_commit ::
  "u64 \<Rightarrow> u64 \<Rightarrow> u8 \<Rightarrow> machine \<Rightarrow> (nat \<times> u64 \<times> u64 \<times> u8) \<times> machine" where
  "check_store_commit addr data m s =
    (let addr = addr - addr mod 8; (commit, s) = store_commit_queue_pop s
     in (case commit of
           None \<Rightarrow> ((1, addr, data, m), s)
         | Some (a, d, k) \<Rightarrow>
             if addr \<noteq> a \<or> data \<noteq> d \<or> m \<noteq> k then ((1, a, d, k), s) else ((0, addr, data, m), s)))"

section \<open>Host accesses and faults\<close>

definition pmem_read :: "u64 \<Rightarrow> nat \<Rightarrow> u64 exec" where
  "pmem_read addr len = with_m (\<lambda>s. lift_opt (host_read (pmem s) addr len))"

definition pmem_write :: "u64 \<Rightarrow> nat \<Rightarrow> u64 \<Rightarrow> unit exec" where
  "pmem_write addr len data = with_m (\<lambda>s.
     then_m (when_m (cfg_share s) (store_commit_queue_push addr data len))
       (with_m (\<lambda>s. bind_m (lift_opt (host_write (pmem s) addr len data))
          (\<lambda>m. modify_m (\<lambda>s. s\<lparr>pmem := m\<rparr>)))))"

definition raise_access_fault :: "u64 \<Rightarrow> u64 \<Rightarrow> 'a exec" where
  "raise_access_fault cause vaddr =
     then_m (modify_m (set_tval cause vaddr))
       (then_m (modify_m (\<lambda>s. s\<lparr>amo := False\<rparr>)) (longjmp_exception cause))"

definition read_fault_cause :: "mem_type \<Rightarrow> machine \<Rightarrow> u64" where
  "read_fault_cause type s =
    (if type = MEM_TYPE_IFETCH \<or> type = MEM_TYPE_IFETCH_READ then EX_IAF
     else if amo s \<or> type = MEM_TYPE_WRITE_READ then EX_SAF else EX_LAF)"

definition raise_read_access_fault :: "mem_type \<Rightarrow> u64 \<Rightarrow> 'a exec" where
  "raise_read_access_fault type vaddr = with_m (\<lambda>s. raise_access_fault (read_fault_cause type s) vaddr)"

text \<open>
  \<open>init_mem\<close> with \<open>CONFIG_USE_MMAP\<close>: the anonymous mapping over the array \<open>pmem\<close> reads zero.
\<close>

definition init_mem :: "unit exec" where
  "init_mem = then_m
     (modify_m (\<lambda>s. s\<lparr>pmem := (\<lambda>a. if in_pmem a s then 0 else pmem s a)\<rparr>))
     (with_m (\<lambda>s. when_m (cfg_share s) (modify_m (\<lambda>s.
        s\<lparr>store_commit_queue := map (\<lambda>e. e\<lparr>sc_valid := False\<rparr>) (store_commit_queue s)\<rparr>))))"

section \<open>Physical accesses\<close>

definition paddr_read :: "u64 \<Rightarrow> nat \<Rightarrow> mem_type \<Rightarrow> u64 \<Rightarrow> u64 \<Rightarrow> u64 exec" where
  "paddr_read addr len type md vaddr =
     then_m (assert_m (type \<noteq> MEM_TYPE_WRITE))
    (bind_m (with_m (\<lambda>s. lift_opt (isa_pmp_check_permission addr len type md s))) (\<lambda>permitted.
       if \<not> permitted then raise_read_access_fault type vaddr
       else with_m (\<lambda>s.
         if in_pmem addr s then pmem_read addr len
         else if \<not> cfg_share s then
           (if is_in_mmio addr s then mmio_read addr len else raise_read_access_fault type vaddr)
         else if ignore_illegal_mem_access s then return_m 0
         else raise_read_access_fault type vaddr)))"

definition paddr_write :: "u64 \<Rightarrow> nat \<Rightarrow> u64 \<Rightarrow> u64 \<Rightarrow> u64 \<Rightarrow> unit exec" where
  "paddr_write addr len data md vaddr =
     bind_m (with_m (\<lambda>s. lift_opt (isa_pmp_check_permission addr len MEM_TYPE_WRITE md s))) (\<lambda>permitted.
       if \<not> permitted then raise_access_fault EX_SAF vaddr
       else with_m (\<lambda>s.
         if in_pmem addr s then pmem_write addr len data
         else if \<not> cfg_share s then
           (if is_in_mmio addr s then mmio_write addr len data else raise_access_fault EX_SAF vaddr)
         else if ignore_illegal_mem_access s then return_m ()
         else raise_access_fault EX_SAF vaddr))"

section \<open>What the theorems are about\<close>

definition scq_ring :: "machine \<Rightarrow> store_commit_t list" where
  "scq_ring s = rotate (scq_head s) (store_commit_queue s)"

definition scq_used :: "machine \<Rightarrow> nat" where
  "scq_used s = length (takeWhile sc_valid (scq_ring s))"

definition scq_inv :: "machine \<Rightarrow> bool" where
  "scq_inv s \<longleftrightarrow> length (store_commit_queue s) = 64 \<and> scq_head s < 64 \<and>
     scq_tail s = (scq_head s + scq_used s) mod 64 \<and>
     list_all (\<lambda>e. \<not> sc_valid e) (drop (scq_used s) (scq_ring s))"

definition sc_triple :: "store_commit_t \<Rightarrow> u64 \<times> u64 \<times> u8" where
  "sc_triple e = (sc_addr e, sc_data e, sc_mask e)"

definition scq_content :: "machine \<Rightarrow> (u64 \<times> u64 \<times> u8) list" where
  "scq_content s = map sc_triple (takeWhile sc_valid (scq_ring s))"

definition scq_room :: "machine \<Rightarrow> nat" where
  "scq_room s = 64 - scq_used s"

text \<open>A physical access by its type, and the fault it raises when it is denied.\<close>

definition paddr_access :: "mem_type \<Rightarrow> u64 \<Rightarrow> nat \<Rightarrow> u64 \<Rightarrow> u64 \<Rightarrow> u64 \<Rightarrow> u64 exec" where
  "paddr_access type addr len data md vaddr =
    (if type = MEM_TYPE_WRITE then then_m (paddr_write addr len data md vaddr) (return_m 0)
     else paddr_read addr len type md vaddr)"

definition access_fault_cause :: "mem_type \<Rightarrow> machine \<Rightarrow> u64" where
  "access_fault_cause type s = (if type = MEM_TYPE_WRITE then EX_SAF else read_fault_cause type s)"

definition pmp_ok :: "u64 \<Rightarrow> nat \<Rightarrow> mem_type \<Rightarrow> u64 \<Rightarrow> machine \<Rightarrow> bool" where
  "pmp_ok addr len type md s \<longleftrightarrow> isa_pmp_check_permission addr len type md s = Some True"

text \<open>Merging a recorded store into the doubleword it was recorded for.\<close>

definition merge_store :: "u64 \<Rightarrow> u64 \<Rightarrow> u8 \<Rightarrow> u64" where
  "merge_store old d m = fold (\<lambda>i w. if bit m i then put_fld (8 * i) 8 (shr d (8 * i)) w else w) [0..<8] old"

section \<open>The store-commit queue as a FIFO\<close>

lemma takeWhile_put:
  assumes "length (takeWhile P xs) = n" "n < length xs" "P e" "list_all (\<lambda>x. \<not> P x) (drop n xs)"
  shows "takeWhile P (xs[n := e]) = takeWhile P xs @ [e] \<and> list_all (\<lambda>x. \<not> P x) (drop (Suc n) (xs[n := e]))"
proof -
  define ys where "ys = takeWhile P xs"
  obtain z zs where z: "drop n xs = z # zs" using assms(2) by (cases "drop n xs") auto
  have xs: "xs = ys @ z # zs" using z assms(1) by (metis append_take_drop_id takeWhile_eq_take ys_def)
  have n: "n = length ys" using assms(1) ys_def by simp
  have y: "\<forall>y\<in>set ys. P y" unfolding ys_def by (auto dest: set_takeWhileD)
  have zsP: "list_all (\<lambda>x. \<not> P x) zs" using assms(4) z by simp
  then have "takeWhile P zs = []" by (cases zs) auto
  then have "takeWhile P (ys @ e # zs) = ys @ [e]"
    using y assms(3) by simp
  moreover have "xs[n := e] = ys @ e # zs" unfolding n using xs by (metis list_update_length)
  moreover have "drop (Suc n) (ys @ e # zs) = zs" by (simp add: n)
  ultimately show ?thesis using zsP unfolding ys_def [symmetric] by simp
qed

lemma scq_push:
  assumes "scq_inv s" and "0 < scq_room s"
  shows "scq_inv (scq_enqueue t s) \<and> scq_content (scq_enqueue t s) = scq_content s @ [t] \<and>
         scq_room (scq_enqueue t s) = scq_room s - 1"
proof -
  obtain a d m where t: "t = (a, d, m)" by (cases t)
  define e where "e = \<lparr>sc_addr = a, sc_data = d, sc_mask = m, sc_valid = True\<rparr>"
  let ?s = "scq_enqueue t s"
  have len: "length (store_commit_queue s) = 64" and u: "scq_used s < 64"
    using assms by (simp_all add: scq_inv_def scq_room_def)
  have R: "scq_ring ?s = (scq_ring s)[scq_used s := e]"
    using rotate_update [of "scq_used s" "store_commit_queue s" "scq_head s" e] assms(1) u len
    by (simp add: scq_ring_def scq_enqueue_def t e_def scq_inv_def)
  have p: "takeWhile sc_valid (scq_ring ?s) = takeWhile sc_valid (scq_ring s) @ [e] \<and>
      list_all (\<lambda>x. \<not> sc_valid x) (drop (Suc (scq_used s)) (scq_ring ?s))"
    unfolding R by (rule takeWhile_put) (use assms(1) u len in \<open>simp_all add: scq_used_def scq_ring_def scq_inv_def e_def\<close>)
  then have us: "scq_used ?s = Suc (scq_used s)" by (simp add: scq_used_def)
  have "scq_tail ?s = Suc (scq_tail s) mod 64" "scq_head ?s = scq_head s"
    by (simp_all add: scq_enqueue_def t)
  then have "scq_tail ?s = (scq_head ?s + scq_used ?s) mod 64"
    using assms(1) us by (simp add: scq_inv_def mod_Suc_eq)
  then have "scq_inv ?s"
    using p us assms(1) len by (simp add: scq_inv_def) (simp add: scq_enqueue_def t)
  moreover have "scq_content ?s = scq_content s @ [t]"
    using p by (simp add: scq_content_def sc_triple_def e_def t)
  ultimately show ?thesis using us by (simp add: scq_room_def)
qed

lemma scq_pop:
  assumes "scq_inv s" and "scq_content s = t # ts"
  shows "\<exists>s'. store_commit_queue_pop s = (Some t, s') \<and> scq_inv s' \<and> scq_content s' = ts \<and> scq_room s' = Suc (scq_room s)"
proof -
  have len: "length (store_commit_queue s) = 64" and h: "scq_head s < 64"
    using assms(1) by (simp_all add: scq_inv_def)
  define e where "e = store_commit_queue s ! scq_head s"
  define q where "q = (store_commit_queue s)[scq_head s := e\<lparr>sc_valid := False\<rparr>]"
  obtain xs where R: "scq_ring s = e # xs"
  proof -
    have "scq_ring s \<noteq> []" using len by (auto simp: scq_ring_def)
    then show ?thesis using hd_rotate [of "scq_head s" "store_commit_queue s"] h len that
      by (cases "scq_ring s") (auto simp: scq_ring_def e_def)
  qed
  have v: "sc_valid e" and t: "t = sc_triple e" and ts: "ts = map sc_triple (takeWhile sc_valid xs)"
    using assms(2) by (auto simp: scq_content_def R split: if_splits)
  define s' where "s' = s\<lparr>store_commit_queue := q, scq_head := (scq_head s + 1) mod 64\<rparr>"
  have pop: "store_commit_queue_pop s = (Some t, s')"
    using v by (simp add: store_commit_queue_pop_def Let_def e_def [symmetric] q_def s'_def t sc_triple_def)
  have "rotate (scq_head s) q = (e\<lparr>sc_valid := False\<rparr>) # xs"
    using rotate_update [of 0 "store_commit_queue s" "scq_head s" "e\<lparr>sc_valid := False\<rparr>"] len h R
    by (simp add: q_def scq_ring_def)
  then have R': "scq_ring s' = xs @ [e\<lparr>sc_valid := False\<rparr>]"
    using rotate_next [of q "scq_head s"] len h by (cases "store_commit_queue s = []") (auto simp: scq_ring_def s'_def q_def)
  have "takeWhile sc_valid (ys @ [e\<lparr>sc_valid := False\<rparr>]) = takeWhile sc_valid ys" for ys
    by (induction ys) auto
  then have tw: "takeWhile sc_valid (scq_ring s') = takeWhile sc_valid xs" using R' by simp
  have us: "scq_used s = Suc (scq_used s')" "scq_used s' = length (takeWhile sc_valid xs)"
    using v tw by (simp_all add: scq_used_def R)
  have "list_all (\<lambda>e. \<not> sc_valid e) (drop (scq_used s') (scq_ring s'))"
    using assms(1) us length_takeWhile_le [of sc_valid xs] by (simp add: scq_inv_def R R')
  moreover have "scq_tail s' = (scq_head s' + scq_used s') mod 64"
    using assms(1) us(1) by (simp add: s'_def scq_inv_def mod_add_left_eq)
  ultimately have "scq_inv s'" using len h by (simp add: scq_inv_def s'_def q_def)
  moreover have "scq_room s' = Suc (scq_room s)"
    using us assms(1) length_takeWhile_le [of sc_valid "scq_ring s"] len
    by (simp add: scq_room_def scq_used_def scq_ring_def)
  ultimately show ?thesis using pop tw ts by (simp add: scq_content_def)
qed

interpretation store_commits: fifo scq_inv scq_content scq_room scq_enqueue store_commit_queue_pop "\<lambda>_. True"
proof unfold_locales
  fix s assume i: "scq_inv s" and c: "scq_content s = []"
  have "\<not> sc_valid (hd (scq_ring s))"
    using c i by (cases "scq_ring s") (auto simp: scq_content_def scq_inv_def scq_ring_def split: if_splits)
  then show "store_commit_queue_pop s = (None, s)"
    using i hd_rotate [of "scq_head s" "store_commit_queue s"]
    by (simp add: store_commit_queue_pop_def Let_def scq_inv_def scq_ring_def)
qed (use scq_push scq_pop in auto)

section \<open>Ranges and round trips\<close>

text \<open>The mask comparison is the range test whenever the memory size is a power of two below the base.\<close>

lemma shift_exp:
  "k \<le> m \<Longrightarrow> m < 64 \<Longrightarrow> shr (2 ^ m :: u64) k = 2 ^ (m - k)"
  "k \<le> m \<Longrightarrow> m < 64 \<Longrightarrow> shl (2 ^ (m - k)) k = (2 ^ m :: u64)"
  by (rule bit_word_eqI; auto simp: bit_simps)+

lemma mask_range:
  fixes addr :: u64
  assumes "k \<le> 31"
  shows "addr AND NOT (mask k) = 0x80000000 \<longleftrightarrow>
    0x80000000 \<le> unat addr \<and> unat addr < 0x80000000 + 2 ^ k"
proof -
  have split: "(2 :: nat) ^ (31 - k) * 2 ^ k = 0x80000000"
    using assms by (simp flip: power_add)
  have "addr AND NOT (mask k) = 0x80000000 \<longleftrightarrow> shr addr k = 2 ^ (31 - k)"
  proof
    assume *: "addr AND NOT (mask k) = 0x80000000"
    have "shr (addr AND NOT (mask k)) k = shr addr k"
      by (rule bit_word_eqI) (auto simp: bit_simps dest: bit_imp_le_length)
    moreover have "shr (2 ^ 31 :: u64) k = 2 ^ (31 - k)"
      using assms shift_exp(1) [of k 31] by simp
    ultimately show "shr addr k = 2 ^ (31 - k)" unfolding * by simp
  next
    assume "shr addr k = 2 ^ (31 - k)"
    moreover have "addr AND NOT (mask k) = shl (shr addr k) k"
      by (rule bit_word_eqI) (auto simp: bit_simps)
    moreover have "shl (2 ^ (31 - k)) k = (2 ^ 31 :: u64)"
      using assms shift_exp(2) [of k 31] by simp
    ultimately show "addr AND NOT (mask k) = 0x80000000" by simp
  qed
  also have "\<dots> \<longleftrightarrow> unat addr div 2 ^ k = 2 ^ (31 - k)"
  proof -
    have "unat (shr addr k) = unat addr div 2 ^ k"
    proof -
      have "unat addr < 2 ^ LENGTH(64)" by (rule unsigned_less)
      then show ?thesis unfolding unsigned_drop_bit_eq
        by (simp add: drop_bit_eq_div take_bit_nat_eq_self)
    qed
    moreover have "unat (2 ^ (31 - k) :: u64) = 2 ^ (31 - k)"
    proof -
      have "bit (2 ^ (31 - k) :: u64) (31 - k)" by (simp add: bit_simps)
      then have "(0 :: u64) < 2 ^ (31 - k)" by (metis bit_0_eq bot_apply bot_bool_def word_gt_0)
      then show ?thesis by (simp add: unat_eq_nat_uint uint_2p nat_power_eq)
    qed
    ultimately show ?thesis by (simp only: word_unat_eq_iff)
  qed
  also have "\<dots> \<longleftrightarrow> 2 ^ (31 - k) * 2 ^ k \<le> unat addr \<and> unat addr < (2 ^ (31 - k) + 1) * 2 ^ k"
  proof
    assume "unat addr div 2 ^ k = 2 ^ (31 - k)"
    then show "2 ^ (31 - k) * 2 ^ k \<le> unat addr \<and> unat addr < (2 ^ (31 - k) + 1) * 2 ^ k"
      using div_mult_mod_eq [of "unat addr" "2 ^ k"] mod_less_divisor [of "2 ^ k" "unat addr"]
      unfolding add_mult_distrib mult_1 by (metis add.commute add_less_cancel_left le_add1 zero_less_numeral zero_less_power)
  next
    assume "2 ^ (31 - k) * 2 ^ k \<le> unat addr \<and> unat addr < (2 ^ (31 - k) + 1) * 2 ^ k"
    then show "unat addr div 2 ^ k = 2 ^ (31 - k)" by (intro div_nat_eqI) (simp_all add: mult.commute)
  qed
  finally show ?thesis using split by (simp add: add_mult_distrib add.commute)
qed

lemma mask_of_pow2: "w AND (w - 1) = 0 \<Longrightarrow> w \<noteq> 0 \<Longrightarrow> w - 1 = mask (trailing_ones (w - 1))" for w :: u64
proof -
  assume "w AND (w - 1) = 0"
  then have "(w - 1) AND NOT w = w - 1"
    by (intro bit_word_eqI) (auto simp: bit_simps dest: bit_and_0D)
  then show ?thesis using trailing_ones_mask [of "w - 1"] by simp
qed

lemma lift_opt_Some [monad_simps]: "lift_opt (Some x) s = (Ret x, s)"
  by (simp add: lift_opt_def monad_simps)

lemma pmp_check_total: "\<exists>b. isa_pmp_check_permission addr len type md s = Some b"
  using pmp_check_from_find [of 0 s addr len type] by (simp add: isa_pmp_check_permission_def pmp_base_def)

lemma raise_access_fault_eq:
  "raise_access_fault cause vaddr s =
    (Exn cause, snd (longjmp_exception cause ((set_tval cause vaddr s)\<lparr>amo := False\<rparr>) :: unit outcome \<times> machine))"
  by (simp add: raise_access_fault_def then_m_def bind_m_def modify_m_def longjmp_exception_def)

lemma pmem_write_eq:
  assumes "host_len_ok len"
  shows "\<exists>s'. pmem_write addr len data s = (Ret (), s'\<lparr>pmem := le_write (pmem s) addr len data\<rparr>) \<and>
    (s' = s \<or> (\<exists>e. s' = scq_enqueue e s))"
proof -
  obtain d m where "store_commit_data (addr mod 8) data len = Some (d, m)"
    using assms by (auto simp: store_commit_data_def host_len_ok_def)
  moreover have "pmem (scq_enqueue e s) = pmem s" for e
    by (cases e) (simp add: scq_enqueue_def)
  ultimately show ?thesis
    using assms
    by (auto simp: pmem_write_def store_commit_queue_push_def with_m_apply when_m_def then_m_def bind_m_def
        return_m_def modify_m_def lift_opt_def host_write_def Let_def)
qed


lemma paddr_write_eq:
  assumes "pmp_ok addr len MEM_TYPE_WRITE md s" and "in_pmem addr s"
  shows "paddr_write addr len data md v s = pmem_write addr len data s"
  using assms by (simp add: paddr_write_def pmp_ok_def with_m_apply bind_m_def lift_opt_Some)

lemma paddr_read_eq:
  assumes "pmp_ok addr len type md s" and "in_pmem addr s" and "type \<noteq> MEM_TYPE_WRITE" and "host_len_ok len"
  shows "paddr_read addr len type md v s = (Ret (le_read (pmem s) addr len), s)"
  using assms
  by (simp add: paddr_read_def pmp_ok_def with_m_apply bind_m_def then_m_def assert_m_def lift_opt_Some
      pmem_read_def host_read_def)

lemma pmp_ok_cong:
  "csr_array s = csr_array t \<Longrightarrow> mode s = mode t \<Longrightarrow> pmp_ok addr len type md s = pmp_ok addr len type md t"
proof -
  assume c: "csr_array s = csr_array t" and m: "mode s = mode t"
  have cfg: "pmpcfg_from_index i s = pmpcfg_from_index i t" "pmpaddr_from_index i s = pmpaddr_from_index i t" for i
    using c by (simp_all add: pmpcfg_from_index_def pmpaddr_from_index_def)
  have "pmp_check_from is b addr len type k s = pmp_check_from is b addr len type k t" for "is" b k
    by (induction "is" arbitrary: b) (simp_all add: cfg Let_def split: option.split)
  then show ?thesis
    using c m by (simp add: pmp_ok_def isa_pmp_check_permission_def pmp_mode_def mstatus_defs)
qed

lemma bit_merge_store: "bit (merge_store old d m) k \<longleftrightarrow> (if bit m (k div 8) then bit d k else bit old k)"
proof -
  have "bit (fold (\<lambda>i w. if bit m i then put_fld (8 * i) 8 (shr d (8 * i)) w else w) is w) k \<longleftrightarrow>
      (if k div 8 \<in> set is \<and> bit m (k div 8) then bit d k else bit w k)" if "k < 64" for "is" w
  proof (induction "is" arbitrary: w)
    case (Cons i "is")
    have "8 * i \<le> k \<and> k < 8 * i + 8 \<longleftrightarrow> k div 8 = i" by linarith
    then show ?case using that by (auto simp: Cons.IH bit_put_fld_iff bit_drop_bit_eq)
  qed simp
  then show ?thesis
    using bit_imp_le_length [of m "k div 8"] bit_imp_le_length [of old k]
    by (cases "k < 64") (auto simp: merge_store_def simp del: upt_Suc dest: bit_imp_le_length)
qed

lemma of_nat_small_inj: "(of_nat i :: u64) = of_nat j \<Longrightarrow> i < 16 \<Longrightarrow> j < 16 \<Longrightarrow> i = j"
proof -
  assume "(of_nat i :: u64) = of_nat j" and small: "i < 16" "j < 16"
  then have "unat (of_nat i :: u64) = unat (of_nat j :: u64)" by simp
  then show ?thesis using small by (simp add: unat_of_nat)
qed

lemma store_commit_data_bits:
  assumes "store_commit_data offset data len = Some (d, m)" and "unat offset + len \<le> 8"
  shows "j < 8 \<Longrightarrow> bit m j \<longleftrightarrow> unat offset \<le> j \<and> j < unat offset + len"
    and "8 * unat offset \<le> k \<Longrightarrow> k < 8 * (unat offset + len) \<Longrightarrow> bit d k = bit data (k - 8 * unat offset)"
proof -
  have m8: "(1 :: u8) = mask 1" "(3 :: u8) = mask 2" "(0xf :: u8) = mask 4" "(0xff :: u8) = mask 8"
    "(0xff :: u64) = mask 8" "(0xffff :: u64) = mask 16" "(0xffffffff :: u64) = mask 32"
    by (simp_all add: mask_eq_exp_minus_1)
  consider "len = 1" | "len = 2" | "len = 4" | "len = 8" "unat offset = 0"
    using assms by (auto simp: store_commit_data_def split: if_splits)
  then have "d = (if len = 8 then data else shl (data AND mask (8 * len)) (8 * unat offset)) \<and> m = shl (mask len) (unat offset)"
    using assms(1) unfolding store_commit_data_def m8 by cases (auto simp: mult.commute)
  then show "j < 8 \<Longrightarrow> bit m j \<longleftrightarrow> unat offset \<le> j \<and> j < unat offset + len"
    and "8 * unat offset \<le> k \<Longrightarrow> k < 8 * (unat offset + len) \<Longrightarrow> bit d k = bit data (k - 8 * unat offset)"
    using assms(2) by (auto simp: bit_simps)
qed

section \<open>Properties\<close>

text \<open>
  C19. What is written to guest memory is read back: with both accesses permitted by PMP, a
  physical write of 1, 2, 4 or 8 bytes returns and a read of the same bytes then yields the
  value truncated to the access width.
\<close>

theorem paddr_write_read:
  assumes "pmp_ok addr len MEM_TYPE_WRITE md s" and "in_pmem addr s" and "host_len_ok len"
    and "pmp_ok addr len type md' s" and "type \<noteq> MEM_TYPE_WRITE"
  shows "\<exists>s'. paddr_write addr len data md v s = (Ret (), s') \<and>
    paddr_read addr len type md' v' s' = (Ret (take_bit (8 * len) data), s')"
proof -
  obtain s1 where w: "pmem_write addr len data s = (Ret (), s1\<lparr>pmem := le_write (pmem s) addr len data\<rparr>)"
    and s1: "s1 = s \<or> (\<exists>e. s1 = scq_enqueue e s)"
    using pmem_write_eq [OF assms(3), of addr data s] by (elim exE conjE) (rule that)
  define s' where "s' = s1\<lparr>pmem := le_write (pmem s) addr len data\<rparr>"
  have same: "csr_array s' = csr_array s" "mode s' = mode s" "memory_size s' = memory_size s"
    using s1 by (auto simp: s'_def scq_enqueue_def split: prod.splits)
  then have "pmp_ok addr len type md' s'" "in_pmem addr s'"
    using assms(2,4) pmp_ok_cong [of s' s] by (simp_all add: in_pmem_def Let_def)
  then have "paddr_read addr len type md' v' s' = (Ret (le_read (pmem s') addr len), s')"
    using assms(3,5) by (intro paddr_read_eq)
  moreover have "le_read (pmem s') addr len = take_bit (8 * len) data"
    using assms(3) guest_mem.load_store_same [of len "pmem s" addr data] by (auto simp: s'_def host_len_ok_def)
  ultimately show ?thesis using w paddr_write_eq [OF assms(1,2)] by (simp add: s'_def)
qed

theorem paddr_write_read_witness:
  "\<exists>s'. paddr_write 0x80001000 4 0x1234567890 MODE_M 0 ((static_init True)\<lparr>mode := MODE_M\<rparr>) = (Ret (), s') \<and>
     paddr_read 0x80001000 4 MEM_TYPE_READ MODE_M 0 s' = (Ret 0x34567890, s')"
proof -
  let ?s = "(static_init True)\<lparr>mode := MODE_M\<rparr>"
  have "isa_pmp_check_permission 0x80001000 4 t MODE_M ?s = Some True" if "t \<noteq> MEM_TYPE_IFETCH" for t
    using that by (simp add: isa_pmp_check_permission_def pmp_mode_def mstatus_defs pmpcfg_from_index_def upt_rec)
  moreover have "in_pmem 0x80001000 ?s" by (simp add: in_pmem_def)
  moreover have "take_bit 32 (0x1234567890 :: u64) = 0x34567890" by simp
  ultimately show ?thesis
    using paddr_write_read [of "0x80001000" 4 MODE_M ?s MEM_TYPE_READ MODE_M "0x1234567890" 0 0]
    by (simp add: pmp_ok_def host_len_ok_def)
qed



text \<open>
  C21. \<open>in_pmem\<close>, whether it takes the mask comparison or the two bounds, is membership in
  \<open>[MBASE, MBASE + MEMORY_SIZE)\<close> for every memory size that does not wrap.
\<close>

theorem in_pmem_range:
  assumes "memory_size s \<noteq> 0" and "0x80000000 + unat (memory_size s) < 2 ^ 64"
  shows "in_pmem addr s \<longleftrightarrow>
    unat CONFIG_MBASE \<le> unat addr \<and> unat addr < unat CONFIG_MBASE + unat (memory_size s)"
proof -
  let ?m = "memory_size s - 1"
  have sum: "unat (CONFIG_MBASE + memory_size s) = 0x80000000 + unat (memory_size s)"
    using assms(2) by (subst unat_add_lem [THEN iffD1]) simp_all
  show ?thesis
  proof (cases "memory_size s AND ?m = 0 \<and> ?m \<le> 0x7fffffff")
    case True
    define k where "k = trailing_ones ?m"
    have m: "?m = mask k" using True assms(1) mask_of_pow2 [of "memory_size s"] by (simp add: k_def)
    have u: "unat ?m = mask (min 64 k)" unfolding m by (simp add: unat_eq_nat_uint uint_mask_eq nat_mask_eq)
    have k: "k \<le> 31"
    proof (rule ccontr)
      assume "\<not> k \<le> 31"
      then have "(2 :: nat) ^ 32 \<le> 2 ^ min 64 k" by (intro power_increasing) auto
      moreover have "unat ?m \<le> 0x7fffffff" using True by (simp add: word_le_nat_alt)
      ultimately show False unfolding u by (simp add: mask_eq_exp_minus_1)
    qed
    moreover have "unat (memory_size s) = 2 ^ k"
    proof -
      have "unat (memory_size s) \<noteq> 0" using assms(1) by (simp add: unat_eq_0)
      then have "unat (memory_size s) = Suc (unat ?m)" using assms(1) by (simp add: unat_minus_one)
      then show ?thesis using k u by (simp add: mask_eq_exp_minus_1)
    qed
    ultimately show ?thesis using True mask_range [OF k, of addr] m
      by (simp add: in_pmem_def Let_def)
  next
    case False
    then show ?thesis using sum by (auto simp: in_pmem_def Let_def word_le_nat_alt word_less_nat_alt)
  qed
qed

theorem in_pmem_range_witness:
  "in_pmem 0x87ffffff ((static_init False)\<lparr>memory_size := 0x8000000\<rparr>)"
  using in_pmem_range [of "(static_init False)\<lparr>memory_size := 0x8000000\<rparr>" "0x87ffffff"] by simp

text \<open>
  C22. The store-commit queue is a FIFO of 64 entries: records queued into an empty queue come
  out complete and in order.
\<close>

theorem store_commit_fifo:
  assumes "scq_inv s" and "scq_content s = []" and "length es \<le> 64"
  shows "fst (pops store_commit_queue_pop (length es) (fold scq_enqueue es s)) = map Some es"
proof -
  have "scq_room s = 64"
    using assms(2) by (simp add: scq_room_def scq_used_def scq_content_def)
  then show ?thesis using store_commits.fifo_order [OF assms(1,2), of es] assms(3) by (simp add: list_all_iff)
qed

theorem store_commit_fifo_witness:
  "fst (pops store_commit_queue_pop 2 (fold scq_enqueue [(0x80000000, 1, 1), (0x80000008, 2, 0xff)] (static_init True))) =
     [Some (0x80000000, 1, 1), Some (0x80000008, 2, 0xff)]"
proof -
  have "scq_ring (static_init True) = replicate 64 \<lparr>sc_addr = 0, sc_data = 0, sc_mask = 0, sc_valid = False\<rparr>"
    by (simp add: scq_ring_def)
  then have "scq_inv (static_init True)" "scq_content (static_init True) = []"
    by (simp_all add: scq_inv_def scq_content_def scq_used_def list_all_iff)
  then show ?thesis
    using store_commit_fifo [of "static_init True" "[(0x80000000, 1, 1), (0x80000008, 2, 0xff)]"]
    by (simp add: numeral_2_eq_2)
qed

text \<open>
  C23. The record pushed for a store describes it exactly: merging its data under its byte mask
  into the old doubleword gives the doubleword memory holds after the store.
\<close>

theorem store_commit_records:
  assumes "store_commit_data (addr mod 8) data len = Some (d, m)" and "unat (addr mod 8) + len \<le> 8"
  shows "le_read (le_write mem addr len data) (addr - addr mod 8) 8 = merge_store (le_read mem (addr - addr mod 8) 8) d m"
proof (rule bit_word_eqI)
  fix k :: nat assume "k < LENGTH(64)"
  then have k: "k < 64" "k div 8 < 8" by simp_all
  define ofs where "ofs = unat (addr mod 8)"
  have at: "addr - addr mod 8 + of_nat j = addr + of_nat (j - ofs)" if "ofs \<le> j" for j
    using that by (simp add: ofs_def)
  have inj: "j = ofs + i" if "addr - addr mod 8 + of_nat j = addr + of_nat i" "j < 8" "i < len" for i j
  proof -
    have "(of_nat j :: u64) = of_nat (ofs + i)" using that(1) by (simp add: ofs_def algebra_simps)
    then show ?thesis using that(2,3) assms(2) by (intro of_nat_small_inj) (simp_all add: ofs_def)
  qed
  show "bit (le_read (le_write mem addr len data) (addr - addr mod 8) 8) k =
      bit (merge_store (le_read mem (addr - addr mod 8) 8) d m) k"
  proof (cases "ofs \<le> k div 8 \<and> k div 8 < ofs + len")
    case True
    have kb: "8 * ofs \<le> k" "k < 8 * (ofs + len)"
      using True div_less_iff_less_mult [of 8 k "ofs + len"] less_eq_div_iff_mult_less_eq [of 8 ofs k]
      by (simp_all add: mult.commute)
    have "le_write mem addr len data (addr - addr mod 8 + of_nat (k div 8)) = ucast (shr data (8 * (k div 8 - ofs)))"
    proof -
      have "len \<le> 2 ^ 32" "k div 8 - ofs < len" "ofs \<le> k div 8" using True assms(2) by auto
      then show ?thesis unfolding at [OF \<open>ofs \<le> k div 8\<close>] by (intro guest_mem.le_write_byte)
    qed
    moreover have "8 * (k div 8 - ofs) + k mod 8 = k - 8 * ofs"
      using True by (simp add: diff_mult_distrib2) 
    ultimately show ?thesis
      using True k store_commit_data_bits(1) [OF assms k(2)] store_commit_data_bits(2) [OF assms, of k] kb
      by (simp add: bit_le_read bit_merge_store ofs_def bit_simps)
  next
    case False
    then have "le_write mem addr len data (addr - addr mod 8 + of_nat (k div 8)) = mem (addr - addr mod 8 + of_nat (k div 8))"
      using inj [of "k div 8"] k by (intro le_write_frame) force
    moreover have "\<not> bit m (k div 8)"
      using False store_commit_data_bits(1) [OF assms k(2)] by (simp add: ofs_def)
    ultimately show ?thesis using k by (simp add: bit_le_read bit_merge_store)
  qed
qed

theorem store_commit_records_witness:
  "le_read (le_write (\<lambda>_. 0) (0x80000002 :: u64) 2 0xabcd) 0x80000000 8 =
     merge_store (le_read (\<lambda>_. 0) (0x80000000 :: u64) 8) 0xabcd0000 0xc"
  using store_commit_records [of "0x80000002" "0xabcd" 2 "0xabcd0000" "0xc" "\<lambda>_. 0"]
  by (simp add: store_commit_data_def)

end
