(* ===== verification/Mmu.thy ===== *)
theory Mmu
  imports Memory
begin

text \<open>
  Address translation: the Sv39 page-table walk, the permission check with protection keys,
  the address checks of a data access and the guided page faults of the difftest build,
  \<open>src/isa/riscv64/system/mmu.c\<close>. \<open>PGBASE\<close> is computed at 64 bits, the declared type of the
  page-number bit-fields.
\<close>

section \<open>Page-table entries\<close>

definition PageTableEntry_layout :: layout where
  "PageTableEntry_layout =
     [(''v'', 1), (''r'', 1), (''w'', 1), (''x'', 1), (''u'', 1), (''g'', 1), (''a'', 1), (''d'', 1),
      (''rsw'', 2), (''ppn'', 44), (''pkey'', 5), (''pad'', 5)]"

definition pte_v :: "u64 \<Rightarrow> bool" where "pte_v p = bit p 0"
definition pte_r :: "u64 \<Rightarrow> bool" where "pte_r p = bit p 1"
definition pte_w :: "u64 \<Rightarrow> bool" where "pte_w p = bit p 2"
definition pte_x :: "u64 \<Rightarrow> bool" where "pte_x p = bit p 3"
definition pte_u :: "u64 \<Rightarrow> bool" where "pte_u p = bit p 4"
definition pte_a :: "u64 \<Rightarrow> bool" where "pte_a p = bit p 6"
definition pte_d :: "u64 \<Rightarrow> bool" where "pte_d p = bit p 7"
definition pte_ppn :: "u64 \<Rightarrow> u64" where "pte_ppn p = fld 10 44 p"
definition pte_pkey :: "u64 \<Rightarrow> u64" where "pte_pkey p = fld 54 5 p"

abbreviation (input) PGSHFT :: nat where "PGSHFT \<equiv> 12"
abbreviation (input) PTE_SIZE :: nat where "PTE_SIZE \<equiv> 8"
abbreviation (input) PGMASK :: u64 where "PGMASK \<equiv> 0xfff"

definition PGBASE :: "u64 \<Rightarrow> u64" where
  "PGBASE pn = shl pn PGSHFT"

definition VPNiSHFT :: "nat \<Rightarrow> nat" where
  "VPNiSHFT i = PGSHFT + 9 * i"

definition VPNi :: "u64 \<Rightarrow> nat \<Rightarrow> u64" where
  "VPNi va i = shr va (VPNiSHFT i) AND 0x1ff"

section \<open>Permissions\<close>

text \<open>A fault: the trap value and the exception.\<close>

definition raise_tval :: "u64 \<Rightarrow> u64 \<Rightarrow> 'a exec" where
  "raise_tval ex vaddr = then_m (modify_m (set_tval ex vaddr)) (longjmp_exception ex)"

definition mpk_fault :: "u64 \<Rightarrow> u64 \<Rightarrow> u64 \<Rightarrow> 'a exec" where
  "mpk_fault md reason vaddr =
    (let ex = (if md = MODE_U then EX_DUCF else EX_DSCF)
     in then_m (modify_m (set_csr c_dfreason reason)) (raise_tval ex vaddr))"

text \<open>
  In the difftest build a clear A bit (or D bit, for stores) is a page fault; in the
  stand-alone build the walk sets the bits.
\<close>

definition check_permission :: "u64 \<Rightarrow> bool \<Rightarrow> u64 \<Rightarrow> mem_type \<Rightarrow> bool exec" where
  "check_permission pte ok vaddr type = with_m (\<lambda>s.
     let ifetch = (type = MEM_TYPE_IFETCH);
         md = effective_mode ifetch s;
         ok = (ok \<and> pte_v pte);
         ok = (ok \<and> \<not> (md = MODE_U \<and> \<not> pte_u pte));
         ok = (ok \<and> \<not> (pte_u pte \<and> md = MODE_S \<and> (\<not> mstatus_sum s \<or> ifetch)));
         pkey = unat (pte_pkey pte);
         mpk_enable = (if md = MODE_U then spkctl_pke s else if md = MODE_S then spkctl_pks s else False);
         mpk_pkr = (if md = MODE_U then csr c_upkru s else csr c_spkrs s);
         mpk_wd = (if mpk_enable then shr mpk_pkr (2 * pkey + 1) AND 1 \<noteq> 0 else False);
         mpk_ad = (if mpk_enable then shr mpk_pkr (2 * pkey) AND 1 \<noteq> 0 else False)
     in then_m (assert_m (md = MODE_U \<or> md = MODE_S))
       (if ifetch then
          let update_ad = (cfg_share s \<and> \<not> pte_a pte)
          in if \<not> (ok \<and> pte_x pte) \<or> update_ad
             then then_m (assert_m (\<not> amo s)) (raise_tval EX_IPF vaddr)
             else return_m True
        else if type = MEM_TYPE_READ then
          let can_load = (pte_r pte \<or> mstatus_mxr s \<and> pte_x pte);
              update_ad = (cfg_share s \<and> \<not> pte_a pte)
          in if \<not> (ok \<and> can_load) \<or> update_ad then
               let ex = (if amo s then EX_SPF else EX_LPF)
               in then_m (modify_m (set_tval ex vaddr))
                    (then_m (modify_m (\<lambda>s. s\<lparr>amo := False\<rparr>)) (longjmp_exception ex))
             else if mpk_ad then mpk_fault md MFR_LF vaddr
             else return_m True
        else
          let update_ad = (cfg_share s \<and> (\<not> pte_a pte \<or> \<not> pte_d pte))
          in if \<not> (ok \<and> pte_w pte) \<or> update_ad then
               then_m (modify_m (set_tval EX_SPF vaddr))
                 (then_m (modify_m (\<lambda>s. s\<lparr>amo := False\<rparr>)) (longjmp_exception EX_SPF))
             else if mpk_ad \<or> \<not> mpk_ad \<and> mpk_wd then mpk_fault md MFR_SF vaddr
             else return_m True))"

section \<open>The page-table walk\<close>

abbreviation (input) MEM_RET_OK_code :: u64 where "MEM_RET_OK_code \<equiv> 0"
abbreviation (input) MEM_RET_FAIL_code :: u64 where "MEM_RET_FAIL_code \<equiv> 1"
abbreviation (input) MEM_RET_CROSS_PAGE_code :: u64 where "MEM_RET_CROSS_PAGE_code \<equiv> 2"

text \<open>How the level loop ends: at a leaf, with its level and address, or at an entry it rejects.\<close>

datatype ptw_end = Ptw_leaf nat u64 u64 | Ptw_bad u64

definition ptw_read_type :: "mem_type \<Rightarrow> mem_type" where
  "ptw_read_type type =
    (if type = MEM_TYPE_IFETCH then MEM_TYPE_IFETCH_READ
     else if type = MEM_TYPE_WRITE then MEM_TYPE_WRITE_READ else MEM_TYPE_READ)"

fun ptw_loop :: "nat \<Rightarrow> u64 \<Rightarrow> u64 \<Rightarrow> mem_type \<Rightarrow> ptw_end exec" where
  "ptw_loop level pg_base vaddr type =
    (let p_pte = pg_base + VPNi vaddr level * of_nat PTE_SIZE
     in bind_m (paddr_read p_pte PTE_SIZE (ptw_read_type type) MODE_S vaddr) (\<lambda>pte.
          if \<not> pte_v pte \<or> \<not> pte_r pte \<and> pte_w pte then return_m (Ptw_bad pte)
          else if pte_r pte \<or> pte_x pte then return_m (Ptw_leaf level p_pte pte)
          else if level = 0 then return_m (Ptw_bad pte)
          else ptw_loop (level - 1) (PGBASE (pte_ppn pte)) vaddr type))"

declare ptw_loop.simps [simp del]

definition ptw_bad :: "u64 \<Rightarrow> u64 \<Rightarrow> mem_type \<Rightarrow> u64 exec" where
  "ptw_bad pte vaddr type = then_m (check_permission pte False vaddr type) (return_m MEM_RET_FAIL_code)"

text \<open>The A and D bits of a used entry.\<close>

definition ptw_set_ad :: "bool \<Rightarrow> u64 \<Rightarrow> u64" where
  "ptw_set_ad is_write pte = put_bit 7 (pte_d pte \<or> is_write) (put_bit 6 True pte)"

definition ptw_finish :: "nat \<Rightarrow> u64 \<Rightarrow> u64 \<Rightarrow> u64 \<Rightarrow> mem_type \<Rightarrow> u64 exec" where
  "ptw_finish level p_pte pte vaddr type =
    (let pg_base = PGBASE (pte_ppn pte);
         pg_mask = shl 1 (VPNiSHFT level) - 1
     in if level > 0 \<and> pg_base AND pg_mask \<noteq> 0 then ptw_bad pte vaddr type
        else
          let pg_base = (if level > 0 then (pg_base AND NOT pg_mask) OR (vaddr AND pg_mask AND NOT PGMASK)
                         else pg_base);
              is_write = (type = MEM_TYPE_WRITE)
          in then_m (with_m (\<lambda>s. when_m (\<not> cfg_share s \<and> (\<not> pte_a pte \<or> \<not> pte_d pte \<and> is_write))
                (paddr_write p_pte PTE_SIZE (ptw_set_ad is_write pte) (mode s) vaddr)))
               (return_m (pg_base OR MEM_RET_OK_code)))"

text \<open>An entry that was never read is passed on to a check that does not look at it.\<close>

definition ptw :: "u64 \<Rightarrow> mem_type \<Rightarrow> u64 exec" where
  "ptw vaddr type = with_m (\<lambda>s.
     let pg_base = PGBASE (satp_ppn s);
         vaddr39 = sar (shl vaddr (64 - 39)) (64 - 39)
     in if vaddr39 \<noteq> vaddr then ptw_bad 0 vaddr type
        else bind_m (ptw_loop 2 pg_base vaddr type) (\<lambda>r.
          case r of
            Ptw_bad pte \<Rightarrow> ptw_bad pte vaddr type
          | Ptw_leaf level p_pte pte \<Rightarrow>
              bind_m (check_permission pte True vaddr type) (\<lambda>ok.
                if \<not> ok then return_m MEM_RET_FAIL_code else ptw_finish level p_pte pte vaddr type)))"

section \<open>Address checks\<close>

definition va_msbs_ok :: "u64 \<Rightarrow> mem_type \<Rightarrow> machine \<Rightarrow> bool" where
  "va_msbs_ok vaddr type s =
    (let is_ifetch = (type = MEM_TYPE_IFETCH);
         vm_enable = (effective_mode is_ifetch s < MODE_M \<and> satp_mode s = 8);
         va_mask = shl 1 (63 - 38 + 1) - 1;
         va_msbs = shr vaddr 38
     in va_msbs = va_mask \<or> va_msbs = 0 \<or> \<not> vm_enable)"

definition misaligned_fault :: "u64 \<Rightarrow> mem_type \<Rightarrow> 'a exec" where
  "misaligned_fault vaddr type = with_m (\<lambda>s.
     let ex = (if amo s \<or> type = MEM_TYPE_WRITE then EX_SAM else EX_LAM) in raise_tval ex vaddr)"

definition isa_mmu_check :: "u64 \<Rightarrow> nat \<Rightarrow> mem_type \<Rightarrow> mmu_mode exec" where
  "isa_mmu_check vaddr len type = with_m (\<lambda>s.
     let is_ifetch = (type = MEM_TYPE_IFETCH)
     in if \<not> va_msbs_ok vaddr type s then
          (if is_ifetch then then_m (modify_m (set_csr c_stval vaddr)) (raise_tval EX_IPF vaddr)
           else if type = MEM_TYPE_READ then raise_tval (if amo s then EX_SPF else EX_LPF) vaddr
           else raise_tval EX_SPF vaddr)
        else if is_ifetch then
          return_m (if ifetch_mmu_state s \<noteq> MMU_DIRECT then MMU_TRANSLATE else MMU_DIRECT)
        else if vaddr AND of_nat (len - 1) \<noteq> 0 then misaligned_fault vaddr type
        else return_m (if data_mmu_state s \<noteq> MMU_DIRECT then MMU_TRANSLATE else MMU_DIRECT))"

definition isa_misalign_data_addr_check :: "u64 \<Rightarrow> nat \<Rightarrow> mem_type \<Rightarrow> unit exec" where
  "isa_misalign_data_addr_check vaddr len type =
    (if vaddr AND of_nat (len - 1) \<noteq> 0 then misaligned_fault vaddr type else return_m ())"

section \<open>Guided page faults\<close>

text \<open>The fifth request in a row for one address gives up forcing the fault.\<close>

definition force_raise_pf_record :: "u64 \<Rightarrow> mem_type \<Rightarrow> bool exec" where
  "force_raise_pf_record vaddr type =
     then_m (modify_m (\<lambda>s. if vaddr \<noteq> pf_last_addr s type
         then s\<lparr>pf_last_addr := (pf_last_addr s)(type := vaddr),
                pf_force_count := (pf_force_count s)(type := 0)\<rparr> else s))
    (then_m (modify_m (\<lambda>s. s\<lparr>pf_force_count := (pf_force_count s)(type := pf_force_count s type + 1)\<rparr>))
       (gets_m (\<lambda>s. pf_force_count s type = 5)))"

definition force_raise_pf :: "u64 \<Rightarrow> mem_type \<Rightarrow> mem_ret exec" where
  "force_raise_pf vaddr type = with_m (\<lambda>s.
     let ifetch = (type = MEM_TYPE_IFETCH); guide = execution_guide s
     in if guided_exec s \<and> force_raise_exception guide then
          (if ifetch \<and> exception_num guide = EX_IPF then
             bind_m (force_raise_pf_record vaddr type) (\<lambda>give_up.
               if give_up then return_m MEM_RET_OK
               else then_m (modify_m (\<lambda>s. if \<not> intr_deleg_S EX_IPF s
                        then set_csr c_mtval (guide_mtval guide) s
                        else set_csr c_stval (guide_stval guide) s))
                      (longjmp_exception EX_IPF))
           else if \<not> ifetch \<and> type = MEM_TYPE_READ \<and> exception_num guide = EX_LPF then
             bind_m (force_raise_pf_record vaddr type) (\<lambda>give_up.
               if give_up then return_m MEM_RET_OK else raise_tval EX_LPF vaddr)
           else if type = MEM_TYPE_WRITE \<and> exception_num guide = EX_SPF then
             bind_m (force_raise_pf_record vaddr type) (\<lambda>give_up.
               if give_up then return_m MEM_RET_OK else raise_tval EX_SPF vaddr)
           else return_m MEM_RET_OK)
        else return_m MEM_RET_OK)"

definition isa_mmu_translate :: "u64 \<Rightarrow> nat \<Rightarrow> mem_type \<Rightarrow> u64 exec" where
  "isa_mmu_translate vaddr len type = bind_m (ptw vaddr type) (\<lambda>ptw_result.
     if ptw_result = MEM_RET_FAIL_code then return_m ptw_result
     else bind_m (force_raise_pf vaddr type) (\<lambda>r.
       if r \<noteq> MEM_RET_OK then return_m MEM_RET_FAIL_code else return_m ptw_result))"

section \<open>What the theorems are about\<close>

text \<open>
  The permissions of the privileged architecture: a page is usable in a mode and for a kind of
  access, and its protection key admits the access.
\<close>

definition pte_allows :: "mem_type \<Rightarrow> u64 \<Rightarrow> machine \<Rightarrow> u64 \<Rightarrow> bool" where
  "pte_allows type md s pte \<longleftrightarrow> pte_v pte \<and>
     (if md = MODE_U then pte_u pte else pte_u pte \<longrightarrow> mstatus_sum s \<and> type \<noteq> MEM_TYPE_IFETCH) \<and>
     (case type of MEM_TYPE_IFETCH \<Rightarrow> pte_x pte
        | MEM_TYPE_READ \<Rightarrow> pte_r pte \<or> mstatus_mxr s \<and> pte_x pte
        | _ \<Rightarrow> pte_w pte) \<and>
     (cfg_share s \<longrightarrow> pte_a pte \<and> (type \<noteq> MEM_TYPE_IFETCH \<and> type \<noteq> MEM_TYPE_READ \<longrightarrow> pte_d pte))"

definition pkey_bit :: "nat \<Rightarrow> u64 \<Rightarrow> machine \<Rightarrow> u64 \<Rightarrow> bool" where
  "pkey_bit k md s pte \<longleftrightarrow> (if md = MODE_U then spkctl_pke s else spkctl_pks s) \<and>
     bit (if md = MODE_U then csr c_upkru s else csr c_spkrs s) (2 * unat (pte_pkey pte) + k)"

definition pkey_allows :: "mem_type \<Rightarrow> u64 \<Rightarrow> machine \<Rightarrow> u64 \<Rightarrow> bool" where
  "pkey_allows type md s pte \<longleftrightarrow>
     (case type of MEM_TYPE_IFETCH \<Rightarrow> True
        | MEM_TYPE_READ \<Rightarrow> \<not> pkey_bit 0 md s pte
        | _ \<Rightarrow> \<not> pkey_bit 0 md s pte \<and> \<not> pkey_bit 1 md s pte)"

definition page_fault :: "mem_type \<Rightarrow> machine \<Rightarrow> u64" where
  "page_fault type s =
    (case type of MEM_TYPE_IFETCH \<Rightarrow> EX_IPF
       | MEM_TYPE_READ \<Rightarrow> if amo s then EX_SPF else EX_LPF
       | _ \<Rightarrow> EX_SPF)"

definition xlate_mode :: "mem_type \<Rightarrow> machine \<Rightarrow> u64" where
  "xlate_mode type s = effective_mode (type = MEM_TYPE_IFETCH) s"

definition xlate_pre :: "mem_type \<Rightarrow> machine \<Rightarrow> bool" where
  "xlate_pre type s \<longleftrightarrow> (xlate_mode type s = MODE_U \<or> xlate_mode type s = MODE_S) \<and>
     \<not> (type = MEM_TYPE_IFETCH \<and> amo s)"

text \<open>
  Sv39 as a relation: \<open>sv39_leaf s type va n base l pte\<close> holds when the walk for \<open>va\<close> that
  starts at level \<open>n\<close> in the table at \<open>base\<close> reaches the leaf entry \<open>pte\<close> at level \<open>l\<close>, every
  entry on the way being readable memory.
\<close>

definition pte_addr :: "u64 \<Rightarrow> u64 \<Rightarrow> nat \<Rightarrow> u64" where
  "pte_addr base va n = base + VPNi va n * 8"

definition pte_readable :: "machine \<Rightarrow> mem_type \<Rightarrow> u64 \<Rightarrow> bool" where
  "pte_readable s type a \<longleftrightarrow> in_pmem a s \<and> pmp_ok a 8 (ptw_read_type type) MODE_S s"

definition pte_wf :: "u64 \<Rightarrow> bool" where
  "pte_wf pte \<longleftrightarrow> pte_v pte \<and> (pte_w pte \<longrightarrow> pte_r pte)"

inductive sv39_leaf :: "machine \<Rightarrow> mem_type \<Rightarrow> u64 \<Rightarrow> nat \<Rightarrow> u64 \<Rightarrow> nat \<Rightarrow> u64 \<Rightarrow> bool"
  for s type va where
  leaf: "pte_readable s type (pte_addr base va n) \<Longrightarrow> pte = le_read (pmem s) (pte_addr base va n) 8 \<Longrightarrow>
    pte_wf pte \<Longrightarrow> pte_r pte \<or> pte_x pte \<Longrightarrow> sv39_leaf s type va n base n pte"
| node: "pte_readable s type (pte_addr base va (Suc n)) \<Longrightarrow> p = le_read (pmem s) (pte_addr base va (Suc n)) 8 \<Longrightarrow>
    pte_wf p \<Longrightarrow> \<not> pte_r p \<Longrightarrow> \<not> pte_x p \<Longrightarrow> sv39_leaf s type va n (PGBASE (pte_ppn p)) l pte \<Longrightarrow>
    sv39_leaf s type va (Suc n) base l pte"

inductive_cases sv39_leaf_0E: "sv39_leaf s type va 0 base l pte"
inductive_cases sv39_leaf_SucE: "sv39_leaf s type va (Suc n) base l pte"

text \<open>The physical page of a leaf: a superpage takes its low page-number bits from the address.\<close>

definition sv39_page :: "nat \<Rightarrow> u64 \<Rightarrow> u64 \<Rightarrow> u64" where
  "sv39_page l pte va = put_fld 12 (9 * l) (shr va 12) (PGBASE (pte_ppn pte))"

definition superpage_aligned :: "nat \<Rightarrow> u64 \<Rightarrow> bool" where
  "superpage_aligned l pte \<longleftrightarrow> take_bit (9 * l) (pte_ppn pte) = 0"

definition canonical39 :: "u64 \<Rightarrow> bool" where
  "canonical39 va \<longleftrightarrow> signed_take_bit 38 va = va"

text \<open>Whether an access of a kind is translated.\<close>

definition vm_on :: "mem_type \<Rightarrow> machine \<Rightarrow> bool" where
  "vm_on type s \<longleftrightarrow> xlate_mode type s < MODE_M \<and> satp_mode s = 8"

text \<open>\<open>n\<close> requests in a row to force a fault.\<close>

fun pf_requests :: "nat \<Rightarrow> u64 \<Rightarrow> mem_type \<Rightarrow> bool list exec" where
  "pf_requests 0 va type = return_m []"
| "pf_requests (Suc n) va type =
     bind_m (force_raise_pf_record va type) (\<lambda>b. bind_m (pf_requests n va type) (\<lambda>bs. return_m (b # bs)))"

text \<open>A page table whose root entry 0 is a gigapage at 0x80000000, with S mode allowed everywhere.\<close>

definition pt_example :: machine where
  "pt_example = set_csr c_pmpcfg0 0x1f (set_csr c_pmpaddr0 (- 1)
     ((set_csr c_satp 0x8000000000080001 (static_init True))
        \<lparr>mode := MODE_S, pmem := le_write (\<lambda>_. 0) 0x80001000 8 0x200000cf\<rparr>))"

section \<open>Permissions\<close>

lemma raise_tval_eq:
  "raise_tval ex va s = (Exn ex, snd (longjmp_exception ex (set_tval ex va s) :: unit outcome \<times> machine))"
  by (simp add: raise_tval_def then_m_def bind_m_def modify_m_def longjmp_exception_def)

lemma shr_and_1: "shr w k AND 1 = 0 \<longleftrightarrow> \<not> bit w k" for w :: u64
  using and_pow2_nonzero [of "shr w k" 0] by (auto simp: bit_drop_bit_eq)

lemma raise_tval_amo: "\<not> amo s \<Longrightarrow> raise_tval ex va s = raise_access_fault ex va s"
proof -
  assume "\<not> amo s"
  then have "(set_tval ex va s)\<lparr>amo := False\<rparr> = set_tval ex va s"
    by (intro machine.equality) (simp_all add: set_tval_def)
  then show ?thesis by (simp add: raise_tval_eq raise_access_fault_eq)
qed

lemma check_permission_eq:
  assumes "xlate_pre type s" "type = MEM_TYPE_IFETCH \<or> type = MEM_TYPE_READ \<or> type = MEM_TYPE_WRITE"
  shows "check_permission pte ok va type s =
    (if ok \<and> pte_allows type (xlate_mode type s) s pte then
       if pkey_allows type (xlate_mode type s) s pte then (Ret True, s)
       else mpk_fault (xlate_mode type s) (if type = MEM_TYPE_READ then MFR_LF else MFR_SF) va s
     else raise_access_fault (page_fault type s) va s)"
proof -
  have md: "effective_mode (type = MEM_TYPE_IFETCH) s = MODE_U \<or> effective_mode (type = MEM_TYPE_IFETCH) s = MODE_S"
    "type = MEM_TYPE_IFETCH \<Longrightarrow> \<not> amo s"
    using assms(1) by (auto simp: xlate_pre_def xlate_mode_def)
  show ?thesis using assms(2)
  proof (elim disjE)
    assume t: "type = MEM_TYPE_IFETCH"
    then show ?thesis using md
      by (auto simp: check_permission_def xlate_mode_def pte_allows_def pkey_allows_def page_fault_def Let_def
         with_m_apply assert_m_def then_m_def bind_m_def return_m_def raise_tval_amo)
  next
    assume t: "type = MEM_TYPE_READ"
    then show ?thesis using md(1)
      by (auto simp: check_permission_def xlate_mode_def pte_allows_def pkey_allows_def pkey_bit_def page_fault_def Let_def
         with_m_apply assert_m_def then_m_def bind_m_def return_m_def raise_access_fault_def shr_and_1)
  next
    assume t: "type = MEM_TYPE_WRITE"
    then show ?thesis using md(1)
      by (auto simp: check_permission_def xlate_mode_def pte_allows_def pkey_allows_def pkey_bit_def page_fault_def Let_def
         with_m_apply assert_m_def then_m_def bind_m_def return_m_def raise_access_fault_def shr_and_1)
  qed
qed
section \<open>The walk\<close>

lemma paddr_read_share:
  assumes "cfg_share s" "\<not> ignore_illegal_mem_access s" "type \<noteq> MEM_TYPE_WRITE" "host_len_ok len"
  shows "paddr_read a len type md va s =
    (if in_pmem a s \<and> pmp_ok a len type md s then (Ret (le_read (pmem s) a len), s)
     else raise_access_fault (read_fault_cause type s) va s)"
proof (cases "pmp_ok a len type md s")
  case True
  then show ?thesis using assms paddr_read_eq [of a len type md s va]
    by (auto simp: paddr_read_def pmp_ok_def with_m_apply bind_m_def then_m_def assert_m_def lift_opt_Some
        raise_read_access_fault_def)
next
  case False
  then have "isa_pmp_check_permission a len type md s = Some False"
    using pmp_check_total [of a len type md s] by (auto simp: pmp_ok_def)
  then show ?thesis using assms False
    by (simp add: paddr_read_def with_m_apply bind_m_def then_m_def assert_m_def lift_opt_Some
        raise_read_access_fault_def)
qed

lemma ptw_loop_step:
  assumes "cfg_share s" "\<not> ignore_illegal_mem_access s"
  shows "ptw_loop n base va type s =
    (if pte_readable s type (pte_addr base va n) then
       let pte = le_read (pmem s) (pte_addr base va n) 8
       in if \<not> pte_wf pte then (Ret (Ptw_bad pte), s)
          else if pte_r pte \<or> pte_x pte then (Ret (Ptw_leaf n (pte_addr base va n) pte), s)
          else if n = 0 then (Ret (Ptw_bad pte), s)
          else ptw_loop (n - 1) (PGBASE (pte_ppn pte)) va type s
     else raise_access_fault (read_fault_cause (ptw_read_type type) s) va s)"
proof -
  have t: "ptw_read_type type \<noteq> MEM_TYPE_WRITE" by (simp add: ptw_read_type_def)
  have l: "host_len_ok 8" by (simp add: host_len_ok_def)
  show ?thesis
    unfolding ptw_loop.simps [of n base va type] Let_def
    by (auto simp: bind_m_def paddr_read_share [OF assms t l] pte_addr_def pte_readable_def pte_wf_def return_m_def
        raise_access_fault_eq)
qed

lemma ptw_loop_cases:
  assumes "cfg_share s" "\<not> ignore_illegal_mem_access s"
  shows "(\<exists>l p pte. ptw_loop n base va type s = (Ret (Ptw_leaf l p pte), s) \<and> l \<le> n \<and>
             (\<forall>l' pte'. sv39_leaf s type va n base l' pte' \<longleftrightarrow> l' = l \<and> pte' = pte)) \<or>
         ((\<forall>l' pte'. \<not> sv39_leaf s type va n base l' pte') \<and>
           ((\<exists>q. ptw_loop n base va type s = (Ret (Ptw_bad q), s)) \<or>
            ptw_loop n base va type s = raise_access_fault (read_fault_cause (ptw_read_type type) s) va s))"
proof (induction n arbitrary: base)
  case 0
  show ?case
    by (simp add: ptw_loop_step [OF assms] Let_def) (auto elim: sv39_leaf_0E intro: sv39_leaf.leaf)
next
  case (Suc n)
  define pte where "pte = le_read (pmem s) (pte_addr base va (Suc n)) 8"
  consider (unreadable) "\<not> pte_readable s type (pte_addr base va (Suc n))"
    | (bad) "pte_readable s type (pte_addr base va (Suc n))" "\<not> pte_wf pte"
    | (leaf) "pte_readable s type (pte_addr base va (Suc n))" "pte_wf pte" "pte_r pte \<or> pte_x pte"
    | (node) "pte_readable s type (pte_addr base va (Suc n))" "pte_wf pte" "\<not> pte_r pte" "\<not> pte_x pte"
    by blast
  then show ?case
  proof cases
    case node
    then have "sv39_leaf s type va (Suc n) base l' p' = sv39_leaf s type va n (PGBASE (pte_ppn pte)) l' p'" for l' p'
      by (auto simp: pte_def elim: sv39_leaf_SucE intro: sv39_leaf.node)
    moreover have "ptw_loop (Suc n) base va type s = ptw_loop n (PGBASE (pte_ppn pte)) va type s"
      using node by (simp add: ptw_loop_step [OF assms, of "Suc n"] Let_def pte_def)
    ultimately show ?thesis using Suc.IH [of "PGBASE (pte_ppn pte)"] le_SucI by auto
  qed (auto simp: ptw_loop_step [OF assms, of "Suc n"] Let_def pte_def [symmetric] elim: sv39_leaf_SucE intro: sv39_leaf.leaf [of s type base va "Suc n", unfolded pte_def [symmetric]])
qed

lemma shl_1_minus_1: "shl 1 k - 1 = (mask k :: u64)"
  by (simp add: mask_eq_exp_minus_1)

lemma PGMASK_mask: "PGMASK = (mask 12 :: u64)"
  by (simp add: mask_eq_exp_minus_1)

lemma ptw_page:
  assumes "l \<le> 2" "superpage_aligned l pte"
  shows "(if l > 0 then (PGBASE (pte_ppn pte) AND NOT (shl 1 (VPNiSHFT l) - 1)) OR (va AND (shl 1 (VPNiSHFT l) - 1) AND NOT PGMASK)
          else PGBASE (pte_ppn pte)) = sv39_page l pte va"
  unfolding shl_1_minus_1 PGMASK_mask sv39_page_def
  by (rule bit_word_eqI) (use assms in \<open>auto simp: bit_simps VPNiSHFT_def PGBASE_def\<close>)

lemma superpage_aligned_iff:
  assumes "l \<le> 2"
  shows "PGBASE (pte_ppn pte) AND (shl 1 (VPNiSHFT l) - 1) = 0 \<longleftrightarrow> superpage_aligned l pte"
proof -
  have "PGBASE (pte_ppn pte) AND mask (VPNiSHFT l) = shl (take_bit (9 * l) (pte_ppn pte)) 12"
    by (rule bit_word_eqI) (auto simp: bit_simps VPNiSHFT_def PGBASE_def)
  moreover have "shl w 12 = 0 \<longleftrightarrow> w = 0" if "take_bit 18 w = w" for w :: u64
  proof -
    have "shr (shl w 12) 12 = take_bit 18 w"
      by (subst that [symmetric], rule bit_word_eqI) (auto simp: bit_simps)
    then show ?thesis using that by auto
  qed
  moreover have "take_bit 18 (take_bit (9 * l) (pte_ppn pte)) = take_bit (9 * l) (pte_ppn pte)"
    using assms by (simp add: min_def)
  ultimately show ?thesis unfolding shl_1_minus_1 superpage_aligned_def by simp
qed

lemma canonical39_iff: "sar (shl va 25) 25 = va \<longleftrightarrow> canonical39 va"
proof -
  have "sar (shl va 25) 25 = signed_take_bit 38 va"
    by (rule bit_word_eqI) (auto simp: bit_simps)
  then show ?thesis by (simp add: canonical39_def)
qed

lemma ptw_bad_eq:
  assumes "xlate_pre type s" "type = MEM_TYPE_IFETCH \<or> type = MEM_TYPE_READ \<or> type = MEM_TYPE_WRITE"
  shows "ptw_bad pte va type s = raise_access_fault (page_fault type s) va s"
  by (simp add: ptw_bad_def then_m_def bind_m_def check_permission_eq [OF assms] raise_access_fault_eq)

lemma ptw_finish_share:
  assumes "cfg_share s" "xlate_pre type s" "type = MEM_TYPE_IFETCH \<or> type = MEM_TYPE_READ \<or> type = MEM_TYPE_WRITE" "l \<le> 2"
  shows "ptw_finish l p pte va type s =
    (if superpage_aligned l pte then (Ret (sv39_page l pte va), s)
     else raise_access_fault (page_fault type s) va s)"
proof -
  have "\<not> (l > 0 \<and> PGBASE (pte_ppn pte) AND (shl 1 (VPNiSHFT l) - 1) \<noteq> 0) \<longleftrightarrow> superpage_aligned l pte"
    using superpage_aligned_iff [OF assms(4)] by (cases "l = 0") (auto simp: superpage_aligned_def)
  then show ?thesis
    using ptw_page [OF assms(4), of pte va] ptw_bad_eq [OF assms(2,3)] assms(1)
    by (auto simp: ptw_finish_def Let_def then_m_def bind_m_def with_m_apply when_m_def return_m_def)
qed

lemma sv39_leaf_unique:
  "sv39_leaf s type va n base l pte \<Longrightarrow> sv39_leaf s type va n base l' pte' \<Longrightarrow> l' = l \<and> pte' = pte"
proof (induction arbitrary: l' pte' rule: sv39_leaf.induct)
  case (leaf base n pte)
  from leaf.prems leaf.hyps show ?case by (cases rule: sv39_leaf.cases) auto
next
  case (node base n p l pte)
  from node.prems node.hyps(1-5) have "sv39_leaf s type va n (PGBASE (pte_ppn p)) l' pte'"
    by (cases rule: sv39_leaf.cases) auto
  then show ?case by (rule node.IH)
qed

text \<open>What a walk yields, from the relation.\<close>

lemma ptw_cases:
  assumes "cfg_share s" "\<not> ignore_illegal_mem_access s" "xlate_pre type s"
    and "type = MEM_TYPE_IFETCH \<or> type = MEM_TYPE_READ \<or> type = MEM_TYPE_WRITE"
  shows "(\<exists>l pte. canonical39 va \<and> sv39_leaf s type va 2 (PGBASE (satp_ppn s)) l pte \<and>
      pte_allows type (xlate_mode type s) s pte \<and> pkey_allows type (xlate_mode type s) s pte \<and>
      superpage_aligned l pte \<and> ptw va type s = (Ret (sv39_page l pte va), s)) \<or>
    (\<exists>ex. fst (ptw va type s) = Exn ex \<and>
      \<not> (\<exists>l pte. canonical39 va \<and> sv39_leaf s type va 2 (PGBASE (satp_ppn s)) l pte \<and>
          pte_allows type (xlate_mode type s) s pte \<and> pkey_allows type (xlate_mode type s) s pte \<and>
          superpage_aligned l pte))"
proof (cases "canonical39 va")
  case False
  then have "ptw va type s = ptw_bad 0 va type s"
    by (simp add: ptw_def with_m_apply Let_def canonical39_iff)
  then show ?thesis using False ptw_bad_eq [OF assms(3,4)] by (simp add: raise_access_fault_eq)
next
  case True
  let ?base = "PGBASE (satp_ppn s)"
  let ?k = "\<lambda>r. case r of Ptw_bad pte \<Rightarrow> ptw_bad pte va type
    | Ptw_leaf level p_pte pte \<Rightarrow> bind_m (check_permission pte True va type) (\<lambda>ok.
        if \<not> ok then return_m MEM_RET_FAIL_code else ptw_finish level p_pte pte va type)"
  have ptw: "ptw va type s = bind_m (ptw_loop 2 ?base va type) ?k s"
    using True by (simp add: ptw_def with_m_apply Let_def canonical39_iff)
  consider (leaf) l p pte where "ptw_loop 2 ?base va type s = (Ret (Ptw_leaf l p pte), s)" "l \<le> 2"
      "\<And>l' pte'. sv39_leaf s type va 2 ?base l' pte' \<longleftrightarrow> l' = l \<and> pte' = pte"
    | (bad) q where "ptw_loop 2 ?base va type s = (Ret (Ptw_bad q), s)" "\<And>l' pte'. \<not> sv39_leaf s type va 2 ?base l' pte'"
    | (fault) "ptw_loop 2 ?base va type s = raise_access_fault (read_fault_cause (ptw_read_type type) s) va s"
      "\<And>l' pte'. \<not> sv39_leaf s type va 2 ?base l' pte'"
    using ptw_loop_cases [OF assms(1,2), of 2 ?base va type] by metis
  then show ?thesis
  proof cases
    case leaf
    then have "ptw va type s = bind_m (check_permission pte True va type) (\<lambda>ok.
        if \<not> ok then return_m MEM_RET_FAIL_code else ptw_finish l p pte va type) s"
      unfolding ptw by (simp add: bind_m_def)
    then show ?thesis
      using leaf True
      by (auto simp: check_permission_eq [OF assms(3,4)] ptw_finish_share [OF assms(1,3,4) leaf(2)] bind_m_def
          raise_access_fault_eq mpk_fault_def raise_tval_def then_m_def modify_m_def longjmp_exception_def Let_def)
  next
    case bad
    then have "ptw va type s = ptw_bad q va type s" unfolding ptw by (simp add: bind_m_def)
    then show ?thesis using bad ptw_bad_eq [OF assms(3,4)] by (simp add: raise_access_fault_eq)
  next
    case fault
    then have "fst (ptw va type s) = Exn (read_fault_cause (ptw_read_type type) s)"
      unfolding ptw by (simp add: bind_m_def raise_access_fault_eq)
    then show ?thesis using fault by simp
  qed
qed

section \<open>Canonical addresses\<close>

lemma va_msbs_canonical: "shr va 38 = shl 1 26 - 1 \<or> shr va 38 = 0 \<longleftrightarrow> canonical39 va" for va :: u64
proof
  assume "shr va 38 = shl 1 26 - 1 \<or> shr va 38 = 0"
  then have *: "shr va 38 = mask 26 \<or> shr va 38 = 0" unfolding shl_1_minus_1 .
  have b: "bit va i = bit (shr va 38) (i - 38)" if "38 \<le> i" for i using that by (simp add: bit_drop_bit_eq)
  show "canonical39 va" unfolding canonical39_def
  proof (rule bit_word_eqI)
    fix i :: nat assume "i < LENGTH(64)"
    then have i: "i - 38 < 26" by simp
    from * have "bit va i = bit va 38" if "38 \<le> i"
    proof
      assume "shr va 38 = mask 26"
      then show ?thesis unfolding b [OF that] b [OF order_refl] using i by (simp add: bit_mask_iff)
    next
      assume "shr va 38 = 0"
      then show ?thesis unfolding b [OF that] b [OF order_refl] by simp
    qed
    then show "bit (signed_take_bit 38 va) i = bit va i"
      using \<open>i < LENGTH(64)\<close> by (cases "i < 38") (auto simp: bit_simps min_def)
  qed
next
  assume c: "canonical39 va"
  have b: "bit va i = bit va 38" if "38 \<le> i" "i < 64" for i
  proof -
    have "bit va i = bit (signed_take_bit 38 va) i" using c by (simp add: canonical39_def)
    then show ?thesis using that by (simp add: bit_simps min_def)
  qed
  have "shr va 38 = (if bit va 38 then mask 26 else 0)"
  proof (rule bit_word_eqI)
    fix n
    show "bit (shr va 38) n = bit (if bit va 38 then mask 26 else (0 :: u64)) n"
    proof (cases "n < 26")
      case True
      then show ?thesis using b [of "38 + n"] by (simp add: bit_drop_bit_eq bit_mask_iff)
    next
      case False
      then show ?thesis using bit_imp_le_length [of va "38 + n"] by (auto simp: bit_drop_bit_eq bit_mask_iff)
    qed
  qed
  then show "shr va 38 = shl 1 26 - 1 \<or> shr va 38 = 0" unfolding shl_1_minus_1 by auto
qed

lemma va_msbs_ok_iff: "va_msbs_ok va type s \<longleftrightarrow> (vm_on type s \<longrightarrow> canonical39 va)"
  unfolding va_msbs_canonical [symmetric] va_msbs_ok_def vm_on_def xlate_mode_def by (auto simp: Let_def)

section \<open>Properties\<close>



text \<open>
  C25. With coherent cached modes, \<open>isa_mmu_check\<close> asks for translation exactly when the effective
  mode is below M under Sv39; it accepts an address exactly when it is canonical under
  translation and, for data, aligned to its length, and it changes nothing.
\<close>

theorem isa_mmu_check_spec:
  assumes "mmu_coherent s"
  shows "isa_mmu_check va len type s = (Ret m, s') \<longleftrightarrow>
    s' = s \<and> (vm_on type s \<longrightarrow> canonical39 va) \<and>
    (type \<noteq> MEM_TYPE_IFETCH \<longrightarrow> va AND of_nat (len - 1) = 0) \<and>
    m = (if vm_on type s then MMU_TRANSLATE else MMU_DIRECT)"
proof -
  have i: "ifetch_mmu_state s \<noteq> MMU_DIRECT \<longleftrightarrow> vm_on MEM_TYPE_IFETCH s"
    using assms by (auto simp: mmu_coherent_def update_mmu_state_internal_def vm_on_def xlate_mode_def split: if_splits)
  have d: "data_mmu_state s \<noteq> MMU_DIRECT \<longleftrightarrow> vm_on type s" if "type \<noteq> MEM_TYPE_IFETCH"
    using assms that by (auto simp: mmu_coherent_def update_mmu_state_internal_def vm_on_def xlate_mode_def split: if_splits)
  show ?thesis
    using i d
    by (cases "type = MEM_TYPE_IFETCH") (auto simp: isa_mmu_check_def with_m_apply Let_def va_msbs_ok_iff raise_tval_eq misaligned_fault_def
        then_m_def bind_m_def return_m_def modify_m_def)
qed

theorem isa_mmu_check_spec_witness:
  "isa_mmu_check 0x80000000 8 MEM_TYPE_READ (static_init False) = (Ret MMU_DIRECT, static_init False)"
proof -
  have "mmu_coherent (static_init False)" "\<not> vm_on MEM_TYPE_READ (static_init False)"
    by (simp_all add: mmu_coherent_def update_mmu_state_internal_def satp_mode_def fld_def vm_on_def effective_mode_def mstatus_defs)
  then show ?thesis
    using isa_mmu_check_spec [of "static_init False" "0x80000000" 8 MEM_TYPE_READ MMU_DIRECT "static_init False"] by simp
qed



end
