(* ===== verification/Dasics.thy ===== *)
theory Dasics
  imports Intr
begin

text \<open>
  The DASICS memory and control-flow protection of \<open>src/isa/riscv64/system/priv.c\<close>: the trusted
  zone, the library bounds that untrusted code may load from and store to, the jump bounds of
  the free zone, and the three checks that raise a DASICS fault.
\<close>

section \<open>Zones and bounds\<close>

definition dasics_in_trusted_zone :: "u64 \<Rightarrow> machine \<Rightarrow> bool" where
  "dasics_in_trusted_zone pcv s =
    (let is_smain_enable = mcfg_sena s;
         is_umain_enable = mcfg_uena s;
         in_smain_zone = (pcv \<ge> csr c_dsmbound0 s \<and> pcv < csr c_dsmbound1 s \<and> mode s = MODE_S \<and> is_smain_enable);
         in_umain_zone = (pcv \<ge> csr c_dumbound0 s \<and> pcv < csr c_dumbound1 s \<and> mode s = MODE_U \<and> is_umain_enable);
         in_s_trusted_zone = (in_smain_zone \<or> mode s = MODE_S \<and> \<not> is_smain_enable);
         in_u_trusted_zone = (in_umain_zone \<or> mode s = MODE_U \<and> \<not> is_umain_enable)
     in mode s = MODE_M \<or> in_s_trusted_zone \<or> in_u_trusted_zone)"

definition dasics_libcfg_from_index :: "nat \<Rightarrow> machine \<Rightarrow> u8" where
  "dasics_libcfg_from_index i s = ucast (shr (csr c_dlcfg0 s) (4 * i) AND 0xf)"

definition dasics_libbound_from_index :: "nat \<Rightarrow> machine \<Rightarrow> u64" where
  "dasics_libbound_from_index i s = csr (c_dlbound0 + of_nat i) s"

definition dasics_jumpcfg_from_index :: "nat \<Rightarrow> machine \<Rightarrow> u16" where
  "dasics_jumpcfg_from_index i s = ucast (shr (csr c_djcfg s) (16 * i) AND 0xffff)"

definition dasics_jumpbound_low_from_index :: "nat \<Rightarrow> machine \<Rightarrow> u64" where
  "dasics_jumpbound_low_from_index i s = csr (c_djbound0 + of_nat (2 * i)) s"

definition dasics_jumpbound_high_from_index :: "nat \<Rightarrow> machine \<Rightarrow> u64" where
  "dasics_jumpbound_high_from_index i s = csr (c_djbound0 + of_nat (2 * i + 1)) s"

text \<open>
  The matching loops stop at the first entry whose configuration has all bits of \<open>cfg\<close> and
  whose half-open range holds the address. The index assertions of the accessors hold by the
  loop bounds.
\<close>

definition dasics_match_dlib :: "u64 \<Rightarrow> u8 \<Rightarrow> machine \<Rightarrow> bool" where
  "dasics_match_dlib addr cfg s =
    list_ex (\<lambda>i. (dasics_libcfg_from_index i s AND cfg) XOR cfg = 0 \<and>
                 dasics_libbound_from_index (2 * i) s \<le> addr \<and>
                 addr < dasics_libbound_from_index (2 * i + 1) s)
      [0..<MAX_DASICS_LIBBOUNDS]"

definition dasics_match_djumpbound :: "u64 \<Rightarrow> u8 \<Rightarrow> machine \<Rightarrow> bool" where
  "dasics_match_djumpbound addr cfg s =
    list_ex (\<lambda>i. (dasics_jumpcfg_from_index i s AND ucast cfg) XOR ucast cfg = 0 \<and>
                 dasics_jumpbound_low_from_index i s \<le> addr \<and>
                 addr < dasics_jumpbound_high_from_index i s)
      [0..<MAX_DASICS_JUMPBOUNDS]"

section \<open>Checks\<close>

definition dasics_ex :: "machine \<Rightarrow> u64" where
  "dasics_ex s = (if mode s = MODE_U then EX_DUCF else EX_DSCF)"

text \<open>The fault: trap value, fault reason, exception.\<close>

definition dasics_fault :: "u64 \<Rightarrow> u64 \<Rightarrow> unit exec" where
  "dasics_fault addr reason = with_m (\<lambda>s. let ex = dasics_ex s in
     then_m (modify_m (set_tval ex addr))
       (then_m (modify_m (set_csr c_dfreason reason)) (longjmp_exception ex)))"

fun ldst_check_bytes :: "nat list \<Rightarrow> u64 \<Rightarrow> bool \<Rightarrow> u8 \<Rightarrow> u64 \<Rightarrow> unit exec" where
  "ldst_check_bytes [] vaddr close_ex cfg reason = return_m ()"
| "ldst_check_bytes (i # is) vaddr close_ex cfg reason = with_m (\<lambda>s.
     if \<not> close_ex \<and> \<not> dasics_match_dlib (vaddr + of_nat i) cfg s
     then dasics_fault (vaddr + of_nat i) reason
     else ldst_check_bytes is vaddr close_ex cfg reason)"

definition dasics_ldst_helper :: "u64 \<Rightarrow> u64 \<Rightarrow> nat \<Rightarrow> mem_type \<Rightarrow> unit exec" where
  "dasics_ldst_helper pcv vaddr len type = with_m (\<lambda>s.
     if dasics_in_trusted_zone pcv s then return_m ()
     else if type = MEM_TYPE_WRITE then
       ldst_check_bytes [0..<len] vaddr (if mode s = MODE_U then mcfg_cust s else mcfg_csst s)
         (LIBCFG_V OR LIBCFG_W) DFR_SF
     else if type = MEM_TYPE_READ then
       ldst_check_bytes [0..<len] vaddr (if mode s = MODE_U then mcfg_cult s else mcfg_cslt s)
         (LIBCFG_V OR LIBCFG_R) DFR_LF
     else return_m ())"

definition dasics_allow_cfi :: "u64 \<Rightarrow> u64 \<Rightarrow> cfi \<Rightarrow> machine \<Rightarrow> bool" where
  "dasics_allow_cfi pcv prev_pc cfi_type s =
    (let src_trusted = dasics_in_trusted_zone prev_pc s;
         dst_trusted = dasics_in_trusted_zone pcv s;
         src_freezone = dasics_match_djumpbound prev_pc JUMPCFG_V s;
         dst_freezone = dasics_match_djumpbound pcv JUMPCFG_V s;
         allow_lib_to_main = (\<not> src_trusted \<and> dst_trusted \<and>
           (pcv = csr c_dretpc s \<or> pcv = csr c_dmaincall s));
         allow_freezone_to_lib = (src_freezone \<and> \<not> dst_trusted \<and> \<not> dst_freezone \<and>
           pcv = csr c_dretpcfz s);
         allow_br = (src_trusted \<or> dst_freezone);
         allow_jump = (src_trusted \<or> allow_lib_to_main \<or> dst_freezone \<or> allow_freezone_to_lib)
     in cfi_type = CFI_BRANCH \<and> allow_br \<or> cfi_type = CFI_JUMP \<and> allow_jump)"

definition dasics_fetch_helper :: "u64 \<Rightarrow> u64 \<Rightarrow> cfi \<Rightarrow> unit exec" where
  "dasics_fetch_helper pcv prev_pc cfi_type = with_m (\<lambda>s.
     let close_fetch_ex = (if mode s = MODE_U then mcfg_cuft s else mcfg_csft s)
     in if \<not> dasics_allow_cfi pcv prev_pc cfi_type s \<and> \<not> close_fetch_ex
        then dasics_fault pcv DFR_JF
        else return_m ())"

definition dasics_check_trusted :: "u64 \<Rightarrow> unit exec" where
  "dasics_check_trusted pcv = with_m (\<lambda>s.
     if \<not> dasics_in_trusted_zone pcv s then longjmp_exception EX_II else return_m ())"

section \<open>Lemmas\<close>

text \<open>What a library-bound entry grants: the inclusion of the requested bits.\<close>

lemma and_xor_eq_0: "(c AND r) XOR r = 0 \<longleftrightarrow> (\<forall>i. bit r i \<longrightarrow> bit c i)" for c r :: "'a::len word"
proof -
  have "(c AND r) XOR r = 0 \<longleftrightarrow> (\<forall>i. \<not> bit ((c AND r) XOR r) i)"
    by (metis bit_0_eq bit_eqI bot_apply bot_bool_def)
  then show ?thesis by (auto simp: bit_simps)
qed

lemma dasics_match_dlib_iff:
  "dasics_match_dlib addr cfg s \<longleftrightarrow>
     (\<exists>i<16. (\<forall>b. bit cfg b \<longrightarrow> bit (dasics_libcfg_from_index i s) b) \<and>
        dasics_libbound_from_index (2 * i) s \<le> addr \<and> addr < dasics_libbound_from_index (2 * i + 1) s)"
  by (auto simp: dasics_match_dlib_def list_ex_iff and_xor_eq_0)

lemma dasics_fault_eq:
  "dasics_fault addr reason s =
     (Exn (dasics_ex s),
      snd (longjmp_exception (dasics_ex s) (set_csr c_dfreason reason (set_tval (dasics_ex s) addr s)) :: unit outcome \<times> machine))"
  by (simp add: dasics_fault_def monad_simps Let_def longjmp_exception_def then_m_def bind_m_def)

lemma ldst_check_bytes_closed: "ldst_check_bytes is vaddr True cfg reason s = (Ret (), s)"
  by (induction "is") (simp_all add: monad_simps)

lemma ldst_check_bytes_find:
  "ldst_check_bytes is vaddr False cfg reason s =
    (case find (\<lambda>i. \<not> dasics_match_dlib (vaddr + of_nat i) cfg s) is of
       None \<Rightarrow> (Ret (), s) | Some i \<Rightarrow> dasics_fault (vaddr + of_nat i) reason s)"
  by (induction "is") (simp_all add: monad_simps)

lemma INTR_TVAL_REG_cases: "INTR_TVAL_REG ex s \<in> {c_utval, c_stval, c_mtval}"
  by (simp add: INTR_TVAL_REG_def)

lemma dasics_fault_effect:
  assumes "dasics_fault addr reason s = (r, s')"
  shows "r = Exn (dasics_ex s) \<and> csr (INTR_TVAL_REG (dasics_ex s) s) s' = addr \<and>
    csr c_dfreason s' = reason \<and> gpr s' = gpr s \<and> pmem s' = pmem s \<and> mode s' = mode s"
  using assms INTR_TVAL_REG_cases [of "dasics_ex s" s]
  by (auto simp: dasics_fault_eq set_tval_def)

lemma find_upt_Some:
  "find P [0..<n] = Some i \<Longrightarrow> i < n \<and> P i \<and> (\<forall>j<i. \<not> P j)"
  by (auto simp: find_Some_iff)

text \<open>
  The rule of an access type: whether its check is closed off in the current mode, the
  permission its bytes need and the fault reason.
\<close>

definition ldst_rule :: "mem_type \<Rightarrow> machine \<Rightarrow> (bool \<times> u8 \<times> u64) option" where
  "ldst_rule type s =
    (case type of
       MEM_TYPE_WRITE \<Rightarrow> Some (if mode s = MODE_U then mcfg_cust s else mcfg_csst s, LIBCFG_V OR LIBCFG_W, DFR_SF)
     | MEM_TYPE_READ \<Rightarrow> Some (if mode s = MODE_U then mcfg_cult s else mcfg_cslt s, LIBCFG_V OR LIBCFG_R, DFR_LF)
     | _ \<Rightarrow> None)"

lemma dasics_ldst_helper_find:
  assumes "\<not> dasics_in_trusted_zone pcv s" and "ldst_rule type s = Some (False, perm, reason)"
  shows "dasics_ldst_helper pcv vaddr len type s =
    (case find (\<lambda>i. \<not> dasics_match_dlib (vaddr + of_nat i) perm s) [0..<len] of
       None \<Rightarrow> (Ret (), s) | Some i \<Rightarrow> dasics_fault (vaddr + of_nat i) reason s)"
  using assms
  by (cases type) (auto simp: ldst_rule_def dasics_ldst_helper_def monad_simps ldst_check_bytes_find)

section \<open>Properties\<close>


text \<open>Supervisor mode with the main zone enabled and empty: every program counter is untrusted.\<close>

definition untrusted_S :: machine where
  "untrusted_S = set_csr c_dsmcfg 1 ((static_init True)\<lparr>mode := MODE_S\<rparr>)"

lemma untrusted_S_facts:
  "\<not> dasics_in_trusted_zone pcv untrusted_S" "\<not> dasics_match_dlib a 9 untrusted_S"
  "ldst_rule MEM_TYPE_WRITE untrusted_S = Some (False, LIBCFG_V OR LIBCFG_W, DFR_SF)"
  "mode untrusted_S = MODE_S" "\<not> mcfg_csft untrusted_S"
  by (simp_all add: untrusted_S_def dasics_in_trusted_zone_def mcfg_defs Let_def
      dasics_match_dlib_def dasics_libcfg_from_index_def ldst_rule_def list_ex_iff)



text \<open>User mode, the main zone enabled at 0x1000 to 0x2000, \<open>dmaincall\<close> at 0x1800.\<close>

definition umain_example :: machine where
  "umain_example = set_csr c_dmaincall 0x1800 (set_csr c_dumbound1 0x2000 (set_csr c_dumbound0 0x1000
     (set_csr c_dsmcfg 2 (static_init True))))"


end
