(* ===== verification/Vaddr.thy ===== *)
theory Vaddr
  imports Mmu Dasics
begin

text \<open>
  Virtual memory accesses: \<open>src/memory/vaddr.c\<close>, \<open>include/cpu/ifetch.h\<close> and the host TLB of
  \<open>src/memory/host-tlb.c\<close> (which the performance build uses in place of a walk per access). The
  \<open>Decode\<close> pointer is the optional pc of the accessing instruction; a host pointer into guest
  memory is the guest physical address, because \<open>guest_to_host\<close> adds a constant.
\<close>

section \<open>Accesses through the walk\<close>

abbreviation (input) PAGE_MASK :: u64 where "PAGE_MASK \<equiv> 0xfff"

text \<open>The byte loops for an access that crosses a page.\<close>

fun vaddr_read_cross_page :: "nat list \<Rightarrow> u64 \<Rightarrow> u64 \<Rightarrow> mem_type \<Rightarrow> u64 \<Rightarrow> u64 exec" where
  "vaddr_read_cross_page [] vaddr addr type data = return_m data"
| "vaddr_read_cross_page (i # is) vaddr addr type data =
     bind_m (isa_mmu_translate addr 1 type) (\<lambda>mmu_ret.
       if mmu_ret AND PAGE_MASK \<noteq> MEM_RET_OK_code then return_m 0
       else with_m (\<lambda>s. bind_m
         (paddr_read ((mmu_ret AND NOT PAGE_MASK) OR (addr AND PAGE_MASK)) 1 type (mode s) vaddr)
         (\<lambda>byte. vaddr_read_cross_page is vaddr (addr + 1) type (data OR shl byte (8 * i)))))"

fun vaddr_write_cross_page :: "nat \<Rightarrow> u64 \<Rightarrow> u64 \<Rightarrow> u64 \<Rightarrow> unit exec" where
  "vaddr_write_cross_page 0 vaddr addr data = return_m ()"
| "vaddr_write_cross_page (Suc n) vaddr addr data =
     bind_m (isa_mmu_translate addr 1 MEM_TYPE_WRITE) (\<lambda>mmu_ret.
       if mmu_ret AND PAGE_MASK \<noteq> MEM_RET_OK_code then return_m ()
       else with_m (\<lambda>s. then_m
         (paddr_write ((mmu_ret AND NOT PAGE_MASK) OR (addr AND PAGE_MASK)) 1 (data AND 0xff) (mode s) vaddr)
         (vaddr_write_cross_page n vaddr (addr + 1) (shr data 8))))"

definition vaddr_mmu_read :: "u64 \<Rightarrow> nat \<Rightarrow> mem_type \<Rightarrow> u64 exec" where
  "vaddr_mmu_read addr len type = bind_m (isa_mmu_translate addr len type) (\<lambda>pg_base.
     let ret = pg_base AND PAGE_MASK
     in if ret = MEM_RET_OK_code then
          with_m (\<lambda>s. paddr_read (pg_base OR (addr AND PAGE_MASK)) len type (mode s) addr)
        else if len \<noteq> 1 \<and> ret = MEM_RET_CROSS_PAGE_code then
          vaddr_read_cross_page [0..<len] addr addr type 0
        else return_m 0)"

definition vaddr_mmu_write :: "u64 \<Rightarrow> nat \<Rightarrow> u64 \<Rightarrow> unit exec" where
  "vaddr_mmu_write addr len data = bind_m (isa_mmu_translate addr len MEM_TYPE_WRITE) (\<lambda>pg_base.
     let ret = pg_base AND PAGE_MASK
     in if ret = MEM_RET_OK_code then
          with_m (\<lambda>s. paddr_write (pg_base OR (addr AND PAGE_MASK)) len data (mode s) addr)
        else if len \<noteq> 1 \<and> ret = MEM_RET_CROSS_PAGE_code then
          vaddr_write_cross_page len addr addr data
        else return_m ())"

definition resolve_mmu_mode :: "u64 \<Rightarrow> nat \<Rightarrow> mem_type \<Rightarrow> mmu_mode \<Rightarrow> mmu_mode exec" where
  "resolve_mmu_mode addr len type mmu_mode =
    (if mmu_mode = MMU_DYNAMIC then isa_mmu_check addr len type else return_m mmu_mode)"

definition vaddr_read_internal :: "u64 option \<Rightarrow> u64 \<Rightarrow> nat \<Rightarrow> mem_type \<Rightarrow> mmu_mode \<Rightarrow> u64 exec" where
  "vaddr_read_internal dpc addr len type mmu_mode =
     then_m (with_m (\<lambda>s. when_m (cfg_share s \<and> type \<noteq> MEM_TYPE_IFETCH)
       (isa_misalign_data_addr_check addr len type)))
    (then_m (case dpc of None \<Rightarrow> return_m () | Some pcv \<Rightarrow> dasics_ldst_helper pcv addr len type)
    (bind_m (resolve_mmu_mode addr len type mmu_mode) (\<lambda>mmu_mode.
       if mmu_mode = MMU_DIRECT then with_m (\<lambda>s. paddr_read addr len type (mode s) addr)
       else vaddr_mmu_read addr len type)))"

definition vaddr_ifetch :: "u64 \<Rightarrow> nat \<Rightarrow> u64 exec" where
  "vaddr_ifetch addr len = vaddr_read_internal None addr len MEM_TYPE_IFETCH MMU_DYNAMIC"

definition vaddr_read :: "u64 option \<Rightarrow> u64 \<Rightarrow> nat \<Rightarrow> mmu_mode \<Rightarrow> u64 exec" where
  "vaddr_read dpc addr len mmu_mode = vaddr_read_internal dpc addr len MEM_TYPE_READ mmu_mode"

definition vaddr_write :: "u64 \<Rightarrow> u64 \<Rightarrow> nat \<Rightarrow> u64 \<Rightarrow> mmu_mode \<Rightarrow> unit exec" where
  "vaddr_write pcv addr len data mmu_mode =
     then_m (with_m (\<lambda>s. when_m (cfg_share s) (isa_misalign_data_addr_check addr len MEM_TYPE_WRITE)))
    (then_m (dasics_ldst_helper pcv addr len MEM_TYPE_WRITE)
    (bind_m (resolve_mmu_mode addr len MEM_TYPE_WRITE mmu_mode) (\<lambda>mmu_mode.
       if mmu_mode = MMU_DIRECT then with_m (\<lambda>s. paddr_write addr len data (mode s) addr)
       else vaddr_mmu_write addr len data)))"

definition vaddr_read_safe :: "u64 \<Rightarrow> nat \<Rightarrow> u64 exec" where
  "vaddr_read_safe addr len = vaddr_read_internal None addr len MEM_TYPE_READ MMU_DYNAMIC"

text \<open>The fetched word and the advanced pc.\<close>

definition instr_fetch :: "u64 \<Rightarrow> nat \<Rightarrow> (u32 \<times> u64) exec" where
  "instr_fetch pcv len = bind_m (vaddr_ifetch pcv len) (\<lambda>w. return_m (ucast w, pcv + of_nat len))"

section \<open>The host TLB\<close>

definition hosttlb_init :: "unit exec" where
  "hosttlb_init = hosttlb_flush 0"

definition va2pa :: "u64 \<Rightarrow> nat \<Rightarrow> mem_type \<Rightarrow> u64 exec" where
  "va2pa vaddr len type = bind_m (isa_mmu_check vaddr len type) (\<lambda>ret.
     if ret = MMU_DIRECT then return_m vaddr
     else bind_m (isa_mmu_translate vaddr len type) (\<lambda>pg_base.
       then_m (assert_m (pg_base AND PAGE_MASK = MEM_RET_OK_code))
         (return_m (pg_base OR (vaddr AND PAGE_MASK)))))"

definition tlb_fill :: "u64 \<Rightarrow> u64 \<Rightarrow> (u12 \<Rightarrow> hosttlb_entry) \<Rightarrow> (u12 \<Rightarrow> hosttlb_entry)" where
  "tlb_fill vaddr paddr tlb =
     tlb(hosttlb_idx vaddr := \<lparr>tlb_offset = paddr - vaddr, tlb_gvpn = hosttlb_vpn vaddr\<rparr>)"

definition hosttlb_read_slowpath :: "u64 \<Rightarrow> nat \<Rightarrow> mem_type \<Rightarrow> u64 exec" where
  "hosttlb_read_slowpath vaddr len type = bind_m (va2pa vaddr len type) (\<lambda>paddr.
     then_m (modify_m (\<lambda>s. if in_pmem paddr s then s\<lparr>hostrtlb := tlb_fill vaddr paddr (hostrtlb s)\<rparr> else s))
       (paddr_read paddr len MEM_TYPE_READ MODE_S vaddr))"

definition hosttlb_write_slowpath :: "u64 \<Rightarrow> nat \<Rightarrow> u64 \<Rightarrow> unit exec" where
  "hosttlb_write_slowpath vaddr len data = bind_m (va2pa vaddr len MEM_TYPE_WRITE) (\<lambda>paddr.
     then_m (modify_m (\<lambda>s. if in_pmem paddr s then s\<lparr>hostwtlb := tlb_fill vaddr paddr (hostwtlb s)\<rparr> else s))
       (paddr_write paddr len data MODE_S vaddr))"

definition hosttlb_read :: "u64 \<Rightarrow> nat \<Rightarrow> mem_type \<Rightarrow> u64 exec" where
  "hosttlb_read vaddr len type = with_m (\<lambda>s.
     let e = hostrtlb s (hosttlb_idx vaddr)
     in if tlb_gvpn e \<noteq> hosttlb_vpn vaddr then hosttlb_read_slowpath vaddr len type
        else lift_opt (host_read (pmem s) (tlb_offset e + vaddr) len))"

definition hosttlb_write :: "u64 \<Rightarrow> nat \<Rightarrow> u64 \<Rightarrow> unit exec" where
  "hosttlb_write vaddr len data = with_m (\<lambda>s.
     let e = hostwtlb s (hosttlb_idx vaddr)
     in if tlb_gvpn e \<noteq> hosttlb_vpn vaddr then hosttlb_write_slowpath vaddr len data
        else bind_m (lift_opt (host_write (pmem s) (tlb_offset e + vaddr) len data))
               (\<lambda>m. modify_m (\<lambda>s. s\<lparr>pmem := m\<rparr>)))"

section \<open>Lemmas\<close>

lemma hosttlb_vpn_not_minus_1: "hosttlb_vpn va \<noteq> -1"
proof
  assume "hosttlb_vpn va = -1"
  then have "bit (hosttlb_vpn va) 63 = bit (-1 :: u64) 63" by simp
  then show False using bit_imp_le_length [of va 75] by (auto simp: hosttlb_vpn_def bit_simps)
qed

lemma same_page: "hosttlb_vpn va' = hosttlb_vpn va \<Longrightarrow> hosttlb_idx va' = hosttlb_idx va"
  by (simp add: hosttlb_idx_def)

lemma page_add_or: "(v AND NOT PAGE_MASK) + (w AND PAGE_MASK) = (v AND NOT PAGE_MASK) OR (w AND PAGE_MASK)" for v w :: u64
proof -
  have m: "PAGE_MASK = (mask 12 :: u64)" by (simp add: mask_eq_exp_minus_1)
  show ?thesis
    unfolding m by (rule disjunctive_add_eq_or, rule bit_word_eqI) (auto simp: bit_simps)
qed

lemma page_decompose: "va = (va AND NOT PAGE_MASK) + (va AND PAGE_MASK)" for va :: u64
proof -
  have m: "PAGE_MASK = (mask 12 :: u64)" by (simp add: mask_eq_exp_minus_1)
  show ?thesis unfolding page_add_or unfolding m by (rule bit_word_eqI) (auto simp: bit_simps)
qed

lemma page_offset_add:
  assumes "hosttlb_vpn va' = hosttlb_vpn va" and "pa AND PAGE_MASK = va AND PAGE_MASK"
  shows "pa - va + va' = (pa AND NOT PAGE_MASK) OR (va' AND PAGE_MASK)"
proof -
  have m: "PAGE_MASK = (mask 12 :: u64)" by (simp add: mask_eq_exp_minus_1)
  have hi: "va AND NOT PAGE_MASK = shl (hosttlb_vpn va) 12" for va
    unfolding m hosttlb_vpn_def by (rule bit_word_eqI) (auto simp: bit_simps)
  define h where "h = va AND NOT PAGE_MASK"
  have "va' AND NOT PAGE_MASK = h" using assms(1) by (simp only: h_def hi)
  then have v: "va = h + (va AND PAGE_MASK)" "va' = h + (va' AND PAGE_MASK)" "pa = (pa AND NOT PAGE_MASK) + (va AND PAGE_MASK)"
    using page_decompose [of va] page_decompose [of va'] page_decompose [of pa] assms(2) by (simp_all only: h_def)
  have "pa - va + va' = (pa AND NOT PAGE_MASK) + (va' AND PAGE_MASK)"
    by (subst v(1), subst v(2), subst v(3)) simp
  then show ?thesis by (simp only: page_add_or)
qed

lemma va2pa_page_offset:
  assumes "va2pa va len type s = (Ret pa, s')"
  shows "pa AND PAGE_MASK = va AND PAGE_MASK"
proof -
  have m: "PAGE_MASK = (mask 12 :: u64)" by (simp add: mask_eq_exp_minus_1)
  have "(pg OR (va AND PAGE_MASK)) AND PAGE_MASK = va AND PAGE_MASK" if "pg AND PAGE_MASK = 0" for pg
    using that by (simp add: bit.conj_disj_distrib2 and.assoc)
  then show ?thesis using assms
    by (auto simp: va2pa_def then_m_def assert_m_def return_m_def elim!: bind_m_RetD split: if_splits)
qed

section \<open>Properties\<close>



text \<open>
  A flush leaves no stale translation: after flushing everything (address 0) or the page of
  \<open>va\<close>, reads and writes of \<open>va\<close> go through translation again.
\<close>

lemma hosttlb_flush_miss:
  assumes "vaddr = 0 \<or> hosttlb_vpn va = hosttlb_vpn vaddr"
  shows "\<exists>s'. hosttlb_flush vaddr s = (Ret (), s') \<and>
    hosttlb_read va len type s' = hosttlb_read_slowpath va len type s' \<and>
    hosttlb_write va len data s' = hosttlb_write_slowpath va len data s'"
  using assms hosttlb_vpn_not_minus_1 [of va] same_page [of va vaddr]
  by (auto simp: hosttlb_flush_def modify_m_def hosttlb_read_def hosttlb_write_def with_m_apply Let_def)



end
