(* ===== verification/Decode.thy ===== *)
theory Decode
  imports Instr_Pattern Vaddr
begin

text \<open>
  The instruction decoder: operand helpers and dispatch tables of
  \<open>src/isa/riscv64/instr/{rvi,rvm,rva,rvc,priv}/decode.h\<close> and \<open>isa_fetch_decode\<close> of
  \<open>src/isa/riscv64/instr/decode.c\<close>. A table function returns the execution helper's id; the
  operands and the instruction word are fields of the machine's \<open>Decode\<close> structure.
\<close>

section \<open>Execution helper ids\<close>

text \<open>
  \<open>EXEC_ID_name\<close> of \<open>include/isa-all-instr.h\<close>, grouped by the file that defines the helper. The
  load and store helpers exist once per MMU mode (the suffix \<open>_mmu\<close>), the atomic ones once per
  width (\<open>True\<close> is \<open>_d\<close>). In the stand-alone build all atomic instructions share the id
  \<open>atomic\<close>, and all system instructions share \<open>system\<close>.
\<close>

datatype compute_id =
    EXEC_ID_add | EXEC_ID_sub | EXEC_ID_sll | EXEC_ID_sra | EXEC_ID_srl | EXEC_ID_slt
    | EXEC_ID_sltu | EXEC_ID_xor | EXEC_ID_or | EXEC_ID_and | EXEC_ID_addi | EXEC_ID_slli
    | EXEC_ID_srai | EXEC_ID_srli | EXEC_ID_slti | EXEC_ID_sltui | EXEC_ID_xori | EXEC_ID_ori
    | EXEC_ID_andi | EXEC_ID_auipc | EXEC_ID_lui | EXEC_ID_addw | EXEC_ID_subw | EXEC_ID_sllw
    | EXEC_ID_srlw | EXEC_ID_sraw | EXEC_ID_addiw | EXEC_ID_slliw | EXEC_ID_srliw | EXEC_ID_sraiw

datatype control_id =
    EXEC_ID_jal | EXEC_ID_jalr | EXEC_ID_dasicscall_j | EXEC_ID_dasicscall_jr | EXEC_ID_beq
    | EXEC_ID_bne | EXEC_ID_blt | EXEC_ID_bge | EXEC_ID_bltu | EXEC_ID_bgeu

datatype ldst_id =
    EXEC_ID_ld | EXEC_ID_lw | EXEC_ID_lh | EXEC_ID_lb | EXEC_ID_lwu | EXEC_ID_lhu | EXEC_ID_lbu
    | EXEC_ID_sd | EXEC_ID_sw | EXEC_ID_sh | EXEC_ID_sb

datatype rvm_id =
    EXEC_ID_mul | EXEC_ID_mulh | EXEC_ID_mulhu | EXEC_ID_mulhsu | EXEC_ID_div | EXEC_ID_divu
    | EXEC_ID_rem | EXEC_ID_remu | EXEC_ID_mulw | EXEC_ID_divw | EXEC_ID_remw | EXEC_ID_divuw
    | EXEC_ID_remuw

datatype rvc_id =
    EXEC_ID_c_j | EXEC_ID_c_jr | EXEC_ID_c_jalr | EXEC_ID_c_beqz | EXEC_ID_c_bnez | EXEC_ID_c_li
    | EXEC_ID_c_addi | EXEC_ID_c_addiw | EXEC_ID_c_slli | EXEC_ID_c_srli | EXEC_ID_c_srai
    | EXEC_ID_c_andi | EXEC_ID_c_mv | EXEC_ID_c_add | EXEC_ID_c_and | EXEC_ID_c_or | EXEC_ID_c_xor
    | EXEC_ID_c_sub | EXEC_ID_c_addw | EXEC_ID_c_subw

datatype pseudo_id =
    EXEC_ID_p_sext_w | EXEC_ID_p_blez | EXEC_ID_p_bgtz | EXEC_ID_p_bltz | EXEC_ID_p_bgez
    | EXEC_ID_p_jal | EXEC_ID_p_ret | EXEC_ID_p_li_0 | EXEC_ID_p_li_1 | EXEC_ID_p_inc
    | EXEC_ID_p_dec

datatype rvb_id =
    EXEC_ID_clz | EXEC_ID_ctz | EXEC_ID_cpop | EXEC_ID_sext_b | EXEC_ID_sext_h | EXEC_ID_zext_h
    | EXEC_ID_rev8 | EXEC_ID_revb | EXEC_ID_orc_b | EXEC_ID_clzw | EXEC_ID_ctzw | EXEC_ID_cpopw
    | EXEC_ID_andn | EXEC_ID_orn | EXEC_ID_xnor | EXEC_ID_rol | EXEC_ID_rolw | EXEC_ID_ror
    | EXEC_ID_rori | EXEC_ID_rorw | EXEC_ID_roriw | EXEC_ID_bclr | EXEC_ID_bclri | EXEC_ID_bset
    | EXEC_ID_bseti | EXEC_ID_binv | EXEC_ID_binvi | EXEC_ID_bext | EXEC_ID_bexti | EXEC_ID_clmul
    | EXEC_ID_clmulr | EXEC_ID_clmulh | EXEC_ID_min | EXEC_ID_minu | EXEC_ID_max | EXEC_ID_maxu
    | EXEC_ID_pack | EXEC_ID_packw | EXEC_ID_packh | EXEC_ID_xpermn | EXEC_ID_xpermb
    | EXEC_ID_adduw | EXEC_ID_slliuw | EXEC_ID_sh1add | EXEC_ID_sh2add | EXEC_ID_sh3add
    | EXEC_ID_sh1adduw | EXEC_ID_sh2adduw | EXEC_ID_sh3adduw

datatype rva_id =
    EXEC_ID_lr | EXEC_ID_sc | EXEC_ID_amoswap | EXEC_ID_amoadd | EXEC_ID_amoor | EXEC_ID_amoand
    | EXEC_ID_amoxor | EXEC_ID_amomaxu | EXEC_ID_amomax | EXEC_ID_amominu | EXEC_ID_amomin

datatype exec_id =
    COMPUTE compute_id | CONTROL control_id | LDST ldst_id mmu_mode | RVM rvm_id | RVC rvc_id
  | PSEUDO pseudo_id | RVB rvb_id | RVA rva_id bool | EXEC_ID_atomic | EXEC_ID_system
  | EXEC_ID_fence | EXEC_ID_fence_i | EXEC_ID_nemu_trap | EXEC_ID_inv | EXEC_ID_rt_inv

section \<open>Instruction fields and operands\<close>

definition upd_dec :: "(Decode \<Rightarrow> Decode) \<Rightarrow> unit exec" where
  "upd_dec f = modify_m (\<lambda>s. s\<lparr>dec := f (dec s)\<rparr>)"

definition get_instr :: "machine \<Rightarrow> u32" where
  "get_instr s = dec_instr (dec s)"

definition with_instr :: "(u32 \<Rightarrow> 'a exec) \<Rightarrow> 'a exec" where
  "with_instr f = with_m (\<lambda>s. f (get_instr s))"

text \<open>A signed C bit-field, promoted to \<open>int\<close>.\<close>

definition sfld :: "nat \<Rightarrow> nat \<Rightarrow> u32 \<Rightarrow> u32" where
  "sfld lo n w = signed_take_bit (n - 1) (drop_bit lo w)"

definition instr_rd :: "u32 \<Rightarrow> u32" where "instr_rd i = fld 7 5 i"
definition instr_funct3 :: "u32 \<Rightarrow> u32" where "instr_funct3 i = fld 12 3 i"
definition instr_rs1 :: "u32 \<Rightarrow> u32" where "instr_rs1 i = fld 15 5 i"
definition instr_rs2 :: "u32 \<Rightarrow> u32" where "instr_rs2 i = fld 20 5 i"
definition instr_funct7 :: "u32 \<Rightarrow> u32" where "instr_funct7 i = fld 25 7 i"
definition instr_csr :: "u32 \<Rightarrow> u32" where "instr_csr i = fld 20 12 i"

definition imm_I :: "u32 \<Rightarrow> u64" where
  "imm_I i = scast (sfld 20 12 i)"

definition imm_S :: "u32 \<Rightarrow> u64" where
  "imm_S i = scast (shl (sfld 25 7 i) 5 OR fld 7 5 i)"

definition imm_B :: "u32 \<Rightarrow> u64" where
  "imm_B i = scast (shl (sfld 31 1 i) 12 OR shl (fld 7 1 i) 11 OR shl (fld 25 6 i) 5 OR shl (fld 8 4 i) 1)"

definition imm_U :: "u32 \<Rightarrow> u64" where
  "imm_U i = shl (scast (sfld 12 20 i)) 12"

definition imm_J :: "u32 \<Rightarrow> u64" where
  "imm_J i = scast (shl (sfld 31 1 i) 20 OR shl (fld 12 8 i) 12 OR shl (fld 20 1 i) 11 OR shl (fld 21 10 i) 1)"

definition imm_DIJ :: "u32 \<Rightarrow> u64" where
  "imm_DIJ i = scast (shl (sfld 31 1 i) 22 OR shl (fld 7 1 i) 21 OR shl (fld 15 6 i) 15 OR
     shl (fld 8 4 i) 11 OR shl (fld 21 10 i) 1)"

text \<open>The three operands of the \<open>Decode\<close> structure, as the pointer arguments of the helpers.\<close>

datatype opsel = DEST | SRC1 | SRC2

fun set_op :: "opsel \<Rightarrow> operand \<Rightarrow> Decode \<Rightarrow> Decode" where
  "set_op DEST v d = d\<lparr>id_dest := v\<rparr>"
| "set_op SRC1 v d = d\<lparr>id_src1 := v\<rparr>"
| "set_op SRC2 v d = d\<lparr>id_src2 := v\<rparr>"

definition decode_op_i :: "opsel \<Rightarrow> u64 \<Rightarrow> unit exec" where
  "decode_op_i op v = upd_dec (set_op op (Imm v))"

definition decode_op_r :: "opsel \<Rightarrow> u32 \<Rightarrow> bool \<Rightarrow> unit exec" where
  "decode_op_r op v load_val =
    (if \<not> load_val \<and> v = 0 then upd_dec (set_op op Pzero_null)
     else then_m (assert_m (v < 32)) (upd_dec (set_op op (Preg (ucast v)))))"

section \<open>Operand helpers of the base formats\<close>

definition decode_I :: "unit exec" where
  "decode_I = with_instr (\<lambda>i.
     then_m (decode_op_r SRC1 (instr_rs1 i) True)
    (then_m (decode_op_i SRC2 (imm_I i))
            (decode_op_r DEST (instr_rd i) False)))"

definition decode_R :: "unit exec" where
  "decode_R = with_instr (\<lambda>i.
     then_m (decode_op_r SRC1 (instr_rs1 i) True)
    (then_m (decode_op_r SRC2 (instr_rs2 i) True)
            (decode_op_r DEST (instr_rd i) False)))"

definition decode_U :: "unit exec" where
  "decode_U = with_instr (\<lambda>i.
     then_m (decode_op_i SRC1 (imm_U i)) (decode_op_r DEST (instr_rd i) False))"

definition decode_auipc :: "unit exec" where
  "decode_auipc = then_m decode_U (upd_dec (\<lambda>d. case id_src1 d of
       Imm v \<Rightarrow> d\<lparr>id_src1 := Imm (v + dec_pc d)\<rparr> | _ \<Rightarrow> d))"

definition decode_J :: "unit exec" where
  "decode_J = with_instr (\<lambda>i. with_m (\<lambda>s.
     then_m (decode_op_i SRC1 (dec_pc (dec s) + imm_J i))
    (then_m (decode_op_r DEST (instr_rd i) False)
            (upd_dec (set_op SRC2 (Imm (dec_snpc (dec s))))))))"

definition decode_B :: "unit exec" where
  "decode_B = with_instr (\<lambda>i. with_m (\<lambda>s.
     then_m (decode_op_i DEST (dec_pc (dec s) + imm_B i))
    (then_m (decode_op_r SRC1 (instr_rs1 i) True)
            (decode_op_r SRC2 (instr_rs2 i) True))))"

definition decode_S :: "unit exec" where
  "decode_S = with_instr (\<lambda>i.
     then_m (decode_op_r SRC1 (instr_rs1 i) True)
    (then_m (decode_op_i SRC2 (imm_S i))
            (decode_op_r DEST (instr_rs2 i) True)))"

definition decode_dasicscall_j :: "unit exec" where
  "decode_dasicscall_j = with_instr (\<lambda>i. with_m (\<lambda>s.
     then_m (decode_op_i SRC1 (dec_pc (dec s) + imm_DIJ i))
    (then_m (decode_op_r DEST 1 False)
            (upd_dec (set_op SRC2 (Imm (dec_snpc (dec s))))))))"

definition decode_csr :: "unit exec" where
  "decode_csr = with_instr (\<lambda>i.
     then_m (decode_op_r SRC1 (instr_rs1 i) True)
    (then_m (decode_op_i SRC2 (ucast (instr_csr i)))
            (decode_op_r DEST (instr_rd i) False)))"

section \<open>Operand helpers of the compressed formats\<close>

definition BITMASK :: "nat \<Rightarrow> u32" where
  "BITMASK bits = shl 1 bits - 1"

definition BITS :: "u32 \<Rightarrow> nat \<Rightarrow> nat \<Rightarrow> u32" where
  "BITS x hi lo = shr x lo AND BITMASK (hi - lo + 1)"

definition SEXT :: "u32 \<Rightarrow> nat \<Rightarrow> u64" where
  "SEXT x len = signed_take_bit (len - 1) (ucast x)"

definition creg2reg :: "u32 \<Rightarrow> u32" where
  "creg2reg creg = creg + 8"

definition ror_imm :: "u32 \<Rightarrow> nat \<Rightarrow> nat \<Rightarrow> u32" where
  "ror_imm imm len r =
    (if r = 0 then imm
     else let copy = imm OR shl imm len; msk = shl (BITMASK len) r in copy AND msk)"

definition decode_op_C_imm6 :: "u32 \<Rightarrow> bool \<Rightarrow> nat \<Rightarrow> nat \<Rightarrow> unit exec" where
  "decode_op_C_imm6 imm6 sign shift rot =
     decode_op_i SRC2 (if sign then shl (SEXT imm6 6) shift else ucast (ror_imm imm6 6 rot))"

definition decode_op_C_rd_rs1 :: "bool \<Rightarrow> unit exec" where
  "decode_op_C_rd_rs1 creg = with_instr (\<lambda>i.
     let rd_rs1 = (if creg then creg2reg (BITS i 9 7) else BITS i 11 7)
     in then_m (decode_op_r SRC1 rd_rs1 True) (decode_op_r DEST rd_rs1 False))"

definition CI_imm6 :: "u32 \<Rightarrow> u32" where
  "CI_imm6 i = shl (BITS i 12 12) 5 OR BITS i 6 2"

definition decode_op_rd_rs1_imm6 :: "bool \<Rightarrow> nat \<Rightarrow> nat \<Rightarrow> bool \<Rightarrow> unit exec" where
  "decode_op_rd_rs1_imm6 sign shift rot creg = with_instr (\<lambda>i.
     then_m (decode_op_C_imm6 (CI_imm6 i) sign shift rot) (decode_op_C_rd_rs1 creg))"

definition decode_CI_simm :: "unit exec" where
  "decode_CI_simm = decode_op_rd_rs1_imm6 True 0 0 False"

text \<open>The value of \<open>id_src2->imm\<close>; reading a register operand as an immediate reads a pointer.\<close>

fun get_imm :: "operand \<Rightarrow> u64 option" where
  "get_imm (Imm v) = Some v"
| "get_imm _ = None"

definition with_src2_imm :: "(u64 \<Rightarrow> 'a exec) \<Rightarrow> 'a exec" where
  "with_src2_imm f = with_m (\<lambda>s. bind_m (lift_opt (get_imm (id_src2 (dec s)))) f)"

definition decode_CI_simm_lui :: "unit exec" where
  "decode_CI_simm_lui = then_m decode_CI_simm (with_src2_imm (\<lambda>imm. with_m (\<lambda>s.
     if cfg_share s \<and> imm = 0 then longjmp_exception EX_II
     else upd_dec (set_op SRC1 (Imm (shl imm 12))))))"

definition decode_CI_uimm :: "unit exec" where
  "decode_CI_uimm = decode_op_rd_rs1_imm6 False 0 0 False"

definition decode_C_LI :: "unit exec" where
  "decode_C_LI = then_m decode_CI_simm (decode_op_r SRC1 0 True)"

definition imm_C_ADDI16SP :: "u32 \<Rightarrow> u64" where
  "imm_C_ADDI16SP i = shl (SEXT (BITS i 12 12) 1) 9 OR ucast (shl (BITS i 4 3) 7) OR
     ucast (shl (BITS i 5 5) 6) OR ucast (shl (BITS i 2 2) 5) OR ucast (shl (BITS i 6 6) 4)"

definition decode_C_ADDI16SP :: "unit exec" where
  "decode_C_ADDI16SP = then_m (decode_op_r SRC1 2 True) (with_instr (\<lambda>i.
     let simm = imm_C_ADDI16SP i
     in then_m (with_m (\<lambda>s. if cfg_share s then (if simm = 0 then longjmp_exception EX_II else return_m ())
                            else assert_m (simm \<noteq> 0)))
       (then_m (decode_op_i SRC2 simm) (decode_op_r DEST 2 False))))"

definition decode_C_xxSP :: "u32 \<Rightarrow> nat \<Rightarrow> unit exec" where
  "decode_C_xxSP imm6 rot =
     then_m (decode_op_r SRC1 2 True) (decode_op_C_imm6 imm6 False 0 rot)"

definition decode_C_LxSP :: "nat \<Rightarrow> bool \<Rightarrow> unit exec" where
  "decode_C_LxSP rot is_fp = with_instr (\<lambda>i.
     then_m (decode_C_xxSP (CI_imm6 i) rot)
    (let rd = BITS i 11 7
     in with_m (\<lambda>s. if cfg_share s \<and> rd = 0 \<and> \<not> is_fp then longjmp_exception EX_II
                     else if is_fp then panic_m else decode_op_r DEST rd False)))"

definition decode_C_LWSP :: "unit exec" where "decode_C_LWSP = decode_C_LxSP 2 False"
definition decode_C_LDSP :: "unit exec" where "decode_C_LDSP = decode_C_LxSP 3 False"
definition decode_C_FLDSP :: "unit exec" where "decode_C_FLDSP = decode_C_LxSP 3 True"

definition decode_C_SxSP :: "nat \<Rightarrow> bool \<Rightarrow> unit exec" where
  "decode_C_SxSP rot is_fp = with_instr (\<lambda>i.
     then_m (decode_C_xxSP (BITS i 12 7) rot)
       (if is_fp then panic_m else decode_op_r DEST (BITS i 6 2) True))"

definition decode_C_SWSP :: "unit exec" where "decode_C_SWSP = decode_C_SxSP 2 False"
definition decode_C_SDSP :: "unit exec" where "decode_C_SDSP = decode_C_SxSP 3 False"
definition decode_C_FSDSP :: "unit exec" where "decode_C_FSDSP = decode_C_SxSP 3 True"

definition imm_C_ADDI4SPN :: "u32 \<Rightarrow> u32" where
  "imm_C_ADDI4SPN i = ror_imm (BITS i 12 7) 6 4 OR shl (BITS i 5 5) 3 OR shl (BITS i 6 6) 2"

definition decode_C_ADDI4SPN :: "unit exec" where
  "decode_C_ADDI4SPN = then_m (decode_op_r SRC1 2 True) (with_instr (\<lambda>i.
     let imm = imm_C_ADDI4SPN i
     in then_m (assert_m (imm \<noteq> 0))
       (then_m (decode_op_i SRC2 (ucast imm)) (decode_op_r DEST (creg2reg (BITS i 4 2)) False))))"

definition imm_C_ldst :: "u32 \<Rightarrow> nat \<Rightarrow> u32" where
  "imm_C_ldst i rot = shl (ror_imm (shl (BITS i 12 10) 2 OR BITS i 6 5) 5 rot) 1"

definition decode_C_ldst_common :: "nat \<Rightarrow> bool \<Rightarrow> bool \<Rightarrow> unit exec" where
  "decode_C_ldst_common rot is_store is_fp = with_instr (\<lambda>i.
     then_m (decode_op_r SRC1 (creg2reg (BITS i 9 7)) True)
    (then_m (decode_op_i SRC2 (ucast (imm_C_ldst i rot)))
       (if is_fp then panic_m else decode_op_r DEST (creg2reg (BITS i 4 2)) is_store)))"

definition decode_C_LW :: "unit exec" where "decode_C_LW = decode_C_ldst_common 1 False False"
definition decode_C_LD :: "unit exec" where "decode_C_LD = decode_C_ldst_common 2 False False"
definition decode_C_FLD :: "unit exec" where "decode_C_FLD = decode_C_ldst_common 2 False True"
definition decode_C_SW :: "unit exec" where "decode_C_SW = decode_C_ldst_common 1 True False"
definition decode_C_SD :: "unit exec" where "decode_C_SD = decode_C_ldst_common 2 True False"
definition decode_C_FSD :: "unit exec" where "decode_C_FSD = decode_C_ldst_common 2 True True"

definition decode_CS :: "unit exec" where
  "decode_CS = then_m (decode_op_C_rd_rs1 True)
     (with_instr (\<lambda>i. decode_op_r SRC2 (creg2reg (BITS i 4 2)) True))"

definition imm_CB :: "u32 \<Rightarrow> u64" where
  "imm_CB i = shl (SEXT (BITS i 12 12) 1) 8 OR ucast (shl (BITS i 6 5) 6) OR ucast (shl (BITS i 2 2) 5) OR
     ucast (shl (BITS i 11 10) 3) OR ucast (shl (BITS i 4 3) 1)"

definition decode_CB :: "unit exec" where
  "decode_CB = with_instr (\<lambda>i. with_m (\<lambda>s.
     then_m (decode_op_i DEST (dec_pc (dec s) + imm_CB i))
    (then_m (decode_op_r SRC1 (creg2reg (BITS i 9 7)) True) (decode_op_r SRC2 0 True))))"

definition decode_CB_shift :: "unit exec" where
  "decode_CB_shift = decode_op_rd_rs1_imm6 False 0 0 True"

definition decode_CB_andi :: "unit exec" where
  "decode_CB_andi = decode_op_rd_rs1_imm6 True 0 0 True"

definition imm_CJ :: "u32 \<Rightarrow> u64" where
  "imm_CJ i = shl (SEXT (BITS i 12 12) 1) 11 OR ucast (shl (BITS i 8 8) 10) OR
     ucast (shl (BITS i 10 9) 8) OR ucast (shl (BITS i 6 6) 7) OR ucast (shl (BITS i 7 7) 6) OR
     ucast (shl (BITS i 2 2) 5) OR ucast (shl (BITS i 11 11) 4) OR ucast (shl (BITS i 5 3) 1)"

definition decode_CJ :: "unit exec" where
  "decode_CJ = with_instr (\<lambda>i. with_m (\<lambda>s. decode_op_i SRC1 (dec_pc (dec s) + imm_CJ i)))"

definition decode_C_rs1_rs2_rd :: "bool \<Rightarrow> bool \<Rightarrow> bool \<Rightarrow> unit exec" where
  "decode_C_rs1_rs2_rd is_rs1_zero is_rs2_zero is_rd_zero = with_instr (\<lambda>i.
     then_m (decode_op_r SRC1 (if is_rs1_zero then 0 else BITS i 11 7) True)
    (then_m (decode_op_r SRC2 (if is_rs2_zero then 0 else BITS i 6 2) True)
            (decode_op_r DEST (if is_rd_zero then 0 else BITS i 11 7) False)))"

definition decode_C_JR :: "unit exec" where
  "decode_C_JR = with_instr (\<lambda>i. with_m (\<lambda>s.
     if cfg_share s \<and> BITS i 11 7 = 0 then longjmp_exception EX_II
     else decode_op_r SRC1 (BITS i 11 7) True))"

definition decode_C_MOV :: "unit exec" where
  "decode_C_MOV = with_instr (\<lambda>i.
     then_m (decode_op_r SRC1 (BITS i 6 2) True)
    (then_m (decode_op_r SRC2 0 True) (decode_op_r DEST (BITS i 11 7) False)))"

definition decode_C_ADD :: "unit exec" where
  "decode_C_ADD = decode_C_rs1_rs2_rd False False False"

definition decode_C_JALR :: "unit exec" where
  "decode_C_JALR = with_instr (\<lambda>i.
     then_m (decode_op_r SRC1 (BITS i 11 7) True)
    (then_m (decode_op_i SRC2 0) (decode_op_r DEST 1 False)))"

section \<open>Dispatch tables\<close>

text \<open>
  A table tries its patterns in order (\<open>def_INSTR_raw\<close>); the body of the first that matches is
  the result, and the value after the last pattern otherwise.
\<close>

definition def_INSTR_raw :: "string \<Rightarrow> 'a exec \<Rightarrow> 'a exec \<Rightarrow> 'a exec" where
  "def_INSTR_raw pattern body rest = with_instr (\<lambda>i. case instr_matches pattern i of
       None \<Rightarrow> panic_m | Some b \<Rightarrow> if b then body else rest)"

fun instr_table :: "(string \<times> 'a exec) list \<Rightarrow> 'a exec \<Rightarrow> 'a exec" where
  "instr_table [] final = final"
| "instr_table ((pattern, body) # es) final = def_INSTR_raw pattern body (instr_table es final)"

abbreviation (input) tab :: "exec_id \<Rightarrow> exec_id exec" where "tab \<equiv> return_m"

abbreviation (input) isa_mmu_state :: "machine \<Rightarrow> mmu_mode" where "isa_mmu_state \<equiv> get_data_mmu_state"

definition table_c_addi_dispatch :: "exec_id exec" where
  "table_c_addi_dispatch = with_src2_imm (\<lambda>imm.
     if imm = 1 then tab (PSEUDO EXEC_ID_p_inc)
     else if imm = -1 then tab (PSEUDO EXEC_ID_p_dec)
     else tab (RVC EXEC_ID_c_addi))"

definition table_c_addiw_dispatch :: "exec_id exec" where
  "table_c_addiw_dispatch = with_instr (\<lambda>i. with_m (\<lambda>s.
     if cfg_share s \<and> BITS i 11 7 = 0 then tab EXEC_ID_inv else tab (RVC EXEC_ID_c_addiw)))"

subsection \<open>Base instructions\<close>

definition table_load :: "exec_id exec" where
  "table_load = with_m (\<lambda>s.
     case isa_mmu_state s of
       MMU_DIRECT \<Rightarrow> instr_table
    [(''??????? ????? ????? 000 ????? ????? ??'', tab (LDST EXEC_ID_lb MMU_DIRECT)),
     (''??????? ????? ????? 001 ????? ????? ??'', tab (LDST EXEC_ID_lh MMU_DIRECT)),
     (''??????? ????? ????? 010 ????? ????? ??'', tab (LDST EXEC_ID_lw MMU_DIRECT)),
     (''??????? ????? ????? 011 ????? ????? ??'', tab (LDST EXEC_ID_ld MMU_DIRECT)),
     (''??????? ????? ????? 100 ????? ????? ??'', tab (LDST EXEC_ID_lbu MMU_DIRECT)),
     (''??????? ????? ????? 101 ????? ????? ??'', tab (LDST EXEC_ID_lhu MMU_DIRECT)),
     (''??????? ????? ????? 110 ????? ????? ??'', tab (LDST EXEC_ID_lwu MMU_DIRECT))]
    (tab EXEC_ID_inv)
     | MMU_TRANSLATE \<Rightarrow> instr_table
    [(''??????? ????? ????? 000 ????? ????? ??'', tab (LDST EXEC_ID_lb MMU_TRANSLATE)),
     (''??????? ????? ????? 001 ????? ????? ??'', tab (LDST EXEC_ID_lh MMU_TRANSLATE)),
     (''??????? ????? ????? 010 ????? ????? ??'', tab (LDST EXEC_ID_lw MMU_TRANSLATE)),
     (''??????? ????? ????? 011 ????? ????? ??'', tab (LDST EXEC_ID_ld MMU_TRANSLATE)),
     (''??????? ????? ????? 100 ????? ????? ??'', tab (LDST EXEC_ID_lbu MMU_TRANSLATE)),
     (''??????? ????? ????? 101 ????? ????? ??'', tab (LDST EXEC_ID_lhu MMU_TRANSLATE)),
     (''??????? ????? ????? 110 ????? ????? ??'', tab (LDST EXEC_ID_lwu MMU_TRANSLATE))]
    (tab EXEC_ID_inv)
     | MMU_DYNAMIC \<Rightarrow> panic_m)"

definition table_store :: "exec_id exec" where
  "table_store = with_m (\<lambda>s.
     case isa_mmu_state s of
       MMU_DIRECT \<Rightarrow> instr_table
    [(''??????? ????? ????? 000 ????? ????? ??'', tab (LDST EXEC_ID_sb MMU_DIRECT)),
     (''??????? ????? ????? 001 ????? ????? ??'', tab (LDST EXEC_ID_sh MMU_DIRECT)),
     (''??????? ????? ????? 010 ????? ????? ??'', tab (LDST EXEC_ID_sw MMU_DIRECT)),
     (''??????? ????? ????? 011 ????? ????? ??'', tab (LDST EXEC_ID_sd MMU_DIRECT))]
    (tab EXEC_ID_inv)
     | MMU_TRANSLATE \<Rightarrow> instr_table
    [(''??????? ????? ????? 000 ????? ????? ??'', tab (LDST EXEC_ID_sb MMU_TRANSLATE)),
     (''??????? ????? ????? 001 ????? ????? ??'', tab (LDST EXEC_ID_sh MMU_TRANSLATE)),
     (''??????? ????? ????? 010 ????? ????? ??'', tab (LDST EXEC_ID_sw MMU_TRANSLATE)),
     (''??????? ????? ????? 011 ????? ????? ??'', tab (LDST EXEC_ID_sd MMU_TRANSLATE))]
    (tab EXEC_ID_inv)
     | MMU_DYNAMIC \<Rightarrow> panic_m)"

definition table_addi_dispatch :: "exec_id exec" where
  "table_addi_dispatch = instr_table
    [(''0000000 00000 00000 ??? ????? ????? ??'', tab (PSEUDO EXEC_ID_p_li_0)),
     (''0000000 00001 00000 ??? ????? ????? ??'', tab (PSEUDO EXEC_ID_p_li_1)),
     (''??????? ????? 00000 ??? ????? ????? ??'', tab (RVC EXEC_ID_c_li)),
     (''0000000 00000 ????? ??? ????? ????? ??'', tab (RVC EXEC_ID_c_mv)),
     (''??????? ????? ????? ??? ????? ????? ??'', tab (COMPUTE EXEC_ID_addi))]
    (tab EXEC_ID_inv)"

definition table_op_imm :: "exec_id exec" where
  "table_op_imm = with_instr (\<lambda>i. instr_table
    ((if instr_rd i = instr_rs1 i then
      [(''??????? ????? ????? 000 ????? ????? ??'', table_c_addi_dispatch),
       (''??????? ????? ????? 111 ????? ????? ??'', tab (RVC EXEC_ID_c_andi)),
       (''000000? ????? ????? 001 ????? ????? ??'', tab (RVC EXEC_ID_c_slli)),
       (''010000? ????? ????? 101 ????? ????? ??'', tab (RVC EXEC_ID_c_srai)),
       (''000000? ????? ????? 101 ????? ????? ??'', tab (RVC EXEC_ID_c_srli))]
      else []) @
     [(''??????? ????? ????? 000 ????? ????? ??'', table_addi_dispatch),
      (''??????? ????? ????? 010 ????? ????? ??'', tab (COMPUTE EXEC_ID_slti)),
      (''??????? ????? ????? 011 ????? ????? ??'', tab (COMPUTE EXEC_ID_sltui)),
      (''??????? ????? ????? 100 ????? ????? ??'', tab (COMPUTE EXEC_ID_xori)),
      (''??????? ????? ????? 110 ????? ????? ??'', tab (COMPUTE EXEC_ID_ori)),
      (''??????? ????? ????? 111 ????? ????? ??'', tab (COMPUTE EXEC_ID_andi)),
      (''000000? ????? ????? 001 ????? ????? ??'', tab (COMPUTE EXEC_ID_slli)),
      (''000000? ????? ????? 101 ????? ????? ??'', tab (COMPUTE EXEC_ID_srli)),
      (''010000? ????? ????? 101 ????? ????? ??'', tab (COMPUTE EXEC_ID_srai)),
      (''001010? ????? ????? 001 ????? ????? ??'', tab (RVB EXEC_ID_bseti)),
      (''0010100 00111 ????? 101 ????? ????? ??'', tab (RVB EXEC_ID_orc_b)),
      (''010010? ????? ????? 001 ????? ????? ??'', tab (RVB EXEC_ID_bclri)),
      (''010010? ????? ????? 101 ????? ????? ??'', tab (RVB EXEC_ID_bexti)),
      (''0110000 00000 ????? 001 ????? ????? ??'', tab (RVB EXEC_ID_clz)),
      (''0110000 00001 ????? 001 ????? ????? ??'', tab (RVB EXEC_ID_ctz)),
      (''0110000 00010 ????? 001 ????? ????? ??'', tab (RVB EXEC_ID_cpop)),
      (''0110000 00100 ????? 001 ????? ????? ??'', tab (RVB EXEC_ID_sext_b)),
      (''0110000 00101 ????? 001 ????? ????? ??'', tab (RVB EXEC_ID_sext_h)),
      (''011000? ????? ????? 101 ????? ????? ??'', tab (RVB EXEC_ID_rori)),
      (''011010? ????? ????? 001 ????? ????? ??'', tab (RVB EXEC_ID_binvi)),
      (''0110101 11000 ????? 101 ????? ????? ??'', tab (RVB EXEC_ID_rev8)),
      (''0110100 00111 ????? 101 ????? ????? ??'', tab (RVB EXEC_ID_revb))])
    (tab EXEC_ID_inv))"

definition table_op_imm32 :: "exec_id exec" where
  "table_op_imm32 = with_instr (\<lambda>i. instr_table
    ((if instr_rd i = instr_rs1 i \<and> instr_rd i \<noteq> 0 then
      [(''??????? ????? ????? 000 ????? ????? ??'', table_c_addiw_dispatch)]
      else []) @
     [(''0000000 00000 ????? 000 ????? ????? ??'', tab (PSEUDO EXEC_ID_p_sext_w)),
      (''??????? ????? ????? 000 ????? ????? ??'', tab (COMPUTE EXEC_ID_addiw)),
      (''0000000 ????? ????? 001 ????? ????? ??'', tab (COMPUTE EXEC_ID_slliw)),
      (''0000000 ????? ????? 101 ????? ????? ??'', tab (COMPUTE EXEC_ID_srliw)),
      (''0100000 ????? ????? 101 ????? ????? ??'', tab (COMPUTE EXEC_ID_sraiw)),
      (''000010? ????? ????? 001 ????? ????? ??'', tab (RVB EXEC_ID_slliuw)),
      (''0110000 00000 ????? 001 ????? ????? ??'', tab (RVB EXEC_ID_clzw)),
      (''0110000 00001 ????? 001 ????? ????? ??'', tab (RVB EXEC_ID_ctzw)),
      (''0110000 00010 ????? 001 ????? ????? ??'', tab (RVB EXEC_ID_cpopw)),
      (''0110000 ????? ????? 101 ????? ????? ??'', tab (RVB EXEC_ID_roriw))])
    (tab EXEC_ID_inv))"

definition table_op :: "exec_id exec" where
  "table_op = with_instr (\<lambda>i. instr_table
    ((if instr_rd i = instr_rs1 i then
      [(''0000000 ????? ????? 000 ????? ????? ??'', tab (RVC EXEC_ID_c_add)),
       (''0100000 ????? ????? 000 ????? ????? ??'', tab (RVC EXEC_ID_c_sub)),
       (''0000000 ????? ????? 100 ????? ????? ??'', tab (RVC EXEC_ID_c_xor)),
       (''0000000 ????? ????? 110 ????? ????? ??'', tab (RVC EXEC_ID_c_or)),
       (''0000000 ????? ????? 111 ????? ????? ??'', tab (RVC EXEC_ID_c_and))]
      else []) @
     [(''0000000 ????? ????? 000 ????? ????? ??'', tab (COMPUTE EXEC_ID_add)),
      (''0000000 ????? ????? 001 ????? ????? ??'', tab (COMPUTE EXEC_ID_sll)),
      (''0000000 ????? ????? 010 ????? ????? ??'', tab (COMPUTE EXEC_ID_slt)),
      (''0000000 ????? ????? 011 ????? ????? ??'', tab (COMPUTE EXEC_ID_sltu)),
      (''0000000 ????? ????? 100 ????? ????? ??'', tab (COMPUTE EXEC_ID_xor)),
      (''0000000 ????? ????? 101 ????? ????? ??'', tab (COMPUTE EXEC_ID_srl)),
      (''0000000 ????? ????? 110 ????? ????? ??'', tab (COMPUTE EXEC_ID_or)),
      (''0000000 ????? ????? 111 ????? ????? ??'', tab (COMPUTE EXEC_ID_and)),
      (''0100000 ????? ????? 000 ????? ????? ??'', tab (COMPUTE EXEC_ID_sub)),
      (''0100000 ????? ????? 101 ????? ????? ??'', tab (COMPUTE EXEC_ID_sra)),
      (''0000101 ????? ????? 001 ????? ????? ??'', tab (RVB EXEC_ID_clmul)),
      (''0000101 ????? ????? 010 ????? ????? ??'', tab (RVB EXEC_ID_clmulr)),
      (''0000101 ????? ????? 011 ????? ????? ??'', tab (RVB EXEC_ID_clmulh)),
      (''0000101 ????? ????? 100 ????? ????? ??'', tab (RVB EXEC_ID_min)),
      (''0000101 ????? ????? 101 ????? ????? ??'', tab (RVB EXEC_ID_minu)),
      (''0000101 ????? ????? 110 ????? ????? ??'', tab (RVB EXEC_ID_max)),
      (''0000101 ????? ????? 111 ????? ????? ??'', tab (RVB EXEC_ID_maxu)),
      (''0010000 ????? ????? 010 ????? ????? ??'', tab (RVB EXEC_ID_sh1add)),
      (''0010000 ????? ????? 100 ????? ????? ??'', tab (RVB EXEC_ID_sh2add)),
      (''0010000 ????? ????? 110 ????? ????? ??'', tab (RVB EXEC_ID_sh3add)),
      (''0010100 ????? ????? 001 ????? ????? ??'', tab (RVB EXEC_ID_bset)),
      (''0100000 ????? ????? 100 ????? ????? ??'', tab (RVB EXEC_ID_xnor)),
      (''0100000 ????? ????? 110 ????? ????? ??'', tab (RVB EXEC_ID_orn)),
      (''0100000 ????? ????? 111 ????? ????? ??'', tab (RVB EXEC_ID_andn)),
      (''0100100 ????? ????? 001 ????? ????? ??'', tab (RVB EXEC_ID_bclr)),
      (''0100100 ????? ????? 101 ????? ????? ??'', tab (RVB EXEC_ID_bext)),
      (''0110000 ????? ????? 001 ????? ????? ??'', tab (RVB EXEC_ID_rol)),
      (''0110000 ????? ????? 101 ????? ????? ??'', tab (RVB EXEC_ID_ror)),
      (''0110100 ????? ????? 001 ????? ????? ??'', tab (RVB EXEC_ID_binv)),
      (''0000100 ????? ????? 100 ????? ????? ??'', tab (RVB EXEC_ID_pack)),
      (''0000100 ????? ????? 111 ????? ????? ??'', tab (RVB EXEC_ID_packh)),
      (''0010100 ????? ????? 010 ????? ????? ??'', tab (RVB EXEC_ID_xpermn)),
      (''0010100 ????? ????? 100 ????? ????? ??'', tab (RVB EXEC_ID_xpermb))])
    (tab EXEC_ID_inv))"

definition table_op32 :: "exec_id exec" where
  "table_op32 = with_instr (\<lambda>i. instr_table
    ((if instr_rd i = instr_rs1 i then
      [(''0000000 ????? ????? 000 ????? ????? ??'', tab (RVC EXEC_ID_c_addw)),
       (''0100000 ????? ????? 000 ????? ????? ??'', tab (RVC EXEC_ID_c_subw))]
      else []) @
     [(''0000000 ????? ????? 000 ????? ????? ??'', tab (COMPUTE EXEC_ID_addw)),
      (''0100000 ????? ????? 000 ????? ????? ??'', tab (COMPUTE EXEC_ID_subw)),
      (''0000000 ????? ????? 001 ????? ????? ??'', tab (COMPUTE EXEC_ID_sllw)),
      (''0000000 ????? ????? 101 ????? ????? ??'', tab (COMPUTE EXEC_ID_srlw)),
      (''0100000 ????? ????? 101 ????? ????? ??'', tab (COMPUTE EXEC_ID_sraw)),
      (''0000100 ????? ????? 000 ????? ????? ??'', tab (RVB EXEC_ID_adduw)),
      (''0010000 ????? ????? 010 ????? ????? ??'', tab (RVB EXEC_ID_sh1adduw)),
      (''0010000 ????? ????? 100 ????? ????? ??'', tab (RVB EXEC_ID_sh2adduw)),
      (''0010000 ????? ????? 110 ????? ????? ??'', tab (RVB EXEC_ID_sh3adduw)),
      (''0110000 ????? ????? 001 ????? ????? ??'', tab (RVB EXEC_ID_rolw)),
      (''0110000 ????? ????? 101 ????? ????? ??'', tab (RVB EXEC_ID_rorw)),
      (''0000100 ????? ????? 100 ????? ????? ??'', tab (RVB EXEC_ID_packw))])
    (tab EXEC_ID_inv))"

definition table_branch :: "exec_id exec" where
  "table_branch = instr_table
    [(''??????? 00000 ????? 000 ????? ????? ??'', tab (RVC EXEC_ID_c_beqz)),
     (''??????? 00000 ????? 001 ????? ????? ??'', tab (RVC EXEC_ID_c_bnez)),
     (''??????? 00000 ????? 100 ????? ????? ??'', tab (PSEUDO EXEC_ID_p_bltz)),
     (''??????? 00000 ????? 101 ????? ????? ??'', tab (PSEUDO EXEC_ID_p_bgez)),
     (''??????? ????? 00000 100 ????? ????? ??'', tab (PSEUDO EXEC_ID_p_bgtz)),
     (''??????? ????? 00000 101 ????? ????? ??'', tab (PSEUDO EXEC_ID_p_blez)),
     (''??????? ????? ????? 000 ????? ????? ??'', tab (CONTROL EXEC_ID_beq)),
     (''??????? ????? ????? 001 ????? ????? ??'', tab (CONTROL EXEC_ID_bne)),
     (''??????? ????? ????? 100 ????? ????? ??'', tab (CONTROL EXEC_ID_blt)),
     (''??????? ????? ????? 101 ????? ????? ??'', tab (CONTROL EXEC_ID_bge)),
     (''??????? ????? ????? 110 ????? ????? ??'', tab (CONTROL EXEC_ID_bltu)),
     (''??????? ????? ????? 111 ????? ????? ??'', tab (CONTROL EXEC_ID_bgeu))]
    (tab EXEC_ID_inv)"

definition table_jal_dispatch :: "exec_id exec" where
  "table_jal_dispatch = instr_table
    [(''??????? ????? ????? ??? 00000 ????? ??'', tab (RVC EXEC_ID_c_j)),
     (''??????? ????? ????? ??? 00001 ????? ??'', tab (PSEUDO EXEC_ID_p_jal)),
     (''??????? ????? ????? ??? ????? ????? ??'', tab (CONTROL EXEC_ID_jal))]
    (tab EXEC_ID_inv)"

definition table_jalr_dispatch :: "exec_id exec" where
  "table_jalr_dispatch = instr_table
    [(''0000000 00000 00001 ??? 00000 ????? ??'', tab (PSEUDO EXEC_ID_p_ret)),
     (''0000000 00000 ????? ??? 00000 ????? ??'', tab (RVC EXEC_ID_c_jr)),
     (''??????? ????? ????? 000 ????? ????? ??'', tab (CONTROL EXEC_ID_jalr))]
    (tab EXEC_ID_inv)"

definition table_mem_fence :: "exec_id exec" where
  "table_mem_fence = instr_table
    [(''??????? ????? ????? 000 ????? ????? ??'', tab EXEC_ID_fence),
     (''??????? ????? ????? 001 ????? ????? ??'', tab EXEC_ID_fence_i)]
    (tab EXEC_ID_inv)"

definition table_rvm :: "exec_id exec" where
  "table_rvm = instr_table
    [(''??????? ????? ????? 000 ????? ????? ??'', tab (RVM EXEC_ID_mul)),
     (''??????? ????? ????? 001 ????? ????? ??'', tab (RVM EXEC_ID_mulh)),
     (''??????? ????? ????? 010 ????? ????? ??'', tab (RVM EXEC_ID_mulhsu)),
     (''??????? ????? ????? 011 ????? ????? ??'', tab (RVM EXEC_ID_mulhu)),
     (''??????? ????? ????? 100 ????? ????? ??'', tab (RVM EXEC_ID_div)),
     (''??????? ????? ????? 101 ????? ????? ??'', tab (RVM EXEC_ID_divu)),
     (''??????? ????? ????? 110 ????? ????? ??'', tab (RVM EXEC_ID_rem)),
     (''??????? ????? ????? 111 ????? ????? ??'', tab (RVM EXEC_ID_remu))]
    (tab EXEC_ID_inv)"

definition table_rvm32 :: "exec_id exec" where
  "table_rvm32 = instr_table
    [(''??????? ????? ????? 000 ????? ????? ??'', tab (RVM EXEC_ID_mulw)),
     (''??????? ????? ????? 100 ????? ????? ??'', tab (RVM EXEC_ID_divw)),
     (''??????? ????? ????? 101 ????? ????? ??'', tab (RVM EXEC_ID_divuw)),
     (''??????? ????? ????? 110 ????? ????? ??'', tab (RVM EXEC_ID_remw)),
     (''??????? ????? ????? 111 ????? ????? ??'', tab (RVM EXEC_ID_remuw))]
    (tab EXEC_ID_inv)"

text \<open>The atomic table of the reference build; the stand-alone one has a single id.\<close>

definition table_atomic :: "exec_id exec" where
  "table_atomic = instr_table
    [(''00010 ?? 00000 ????? 011 ????? ????? ??'', tab (RVA EXEC_ID_lr True)),
     (''00011 ?? ????? ????? 011 ????? ????? ??'', tab (RVA EXEC_ID_sc True)),
     (''00001 ?? ????? ????? 011 ????? ????? ??'', tab (RVA EXEC_ID_amoswap True)),
     (''00000 ?? ????? ????? 011 ????? ????? ??'', tab (RVA EXEC_ID_amoadd True)),
     (''00100 ?? ????? ????? 011 ????? ????? ??'', tab (RVA EXEC_ID_amoxor True)),
     (''01100 ?? ????? ????? 011 ????? ????? ??'', tab (RVA EXEC_ID_amoand True)),
     (''01000 ?? ????? ????? 011 ????? ????? ??'', tab (RVA EXEC_ID_amoor True)),
     (''10000 ?? ????? ????? 011 ????? ????? ??'', tab (RVA EXEC_ID_amomin True)),
     (''10100 ?? ????? ????? 011 ????? ????? ??'', tab (RVA EXEC_ID_amomax True)),
     (''11000 ?? ????? ????? 011 ????? ????? ??'', tab (RVA EXEC_ID_amominu True)),
     (''11100 ?? ????? ????? 011 ????? ????? ??'', tab (RVA EXEC_ID_amomaxu True)),
     (''00010 ?? 00000 ????? 010 ????? ????? ??'', tab (RVA EXEC_ID_lr False)),
     (''00011 ?? ????? ????? 010 ????? ????? ??'', tab (RVA EXEC_ID_sc False)),
     (''00001 ?? ????? ????? 010 ????? ????? ??'', tab (RVA EXEC_ID_amoswap False)),
     (''00000 ?? ????? ????? 010 ????? ????? ??'', tab (RVA EXEC_ID_amoadd False)),
     (''00100 ?? ????? ????? 010 ????? ????? ??'', tab (RVA EXEC_ID_amoxor False)),
     (''01100 ?? ????? ????? 010 ????? ????? ??'', tab (RVA EXEC_ID_amoand False)),
     (''01000 ?? ????? ????? 010 ????? ????? ??'', tab (RVA EXEC_ID_amoor False)),
     (''10000 ?? ????? ????? 010 ????? ????? ??'', tab (RVA EXEC_ID_amomin False)),
     (''10100 ?? ????? ????? 010 ????? ????? ??'', tab (RVA EXEC_ID_amomax False)),
     (''11000 ?? ????? ????? 010 ????? ????? ??'', tab (RVA EXEC_ID_amominu False)),
     (''11100 ?? ????? ????? 010 ????? ????? ??'', tab (RVA EXEC_ID_amomaxu False))]
    (tab EXEC_ID_inv)"

definition table_atomic_any :: "exec_id exec" where
  "table_atomic_any = with_m (\<lambda>s. if cfg_share s then table_atomic else tab EXEC_ID_atomic)"

subsection \<open>Compressed instructions\<close>

definition table_c_ldst :: "exec_id exec" where
  "table_c_ldst = with_m (\<lambda>s.
     case isa_mmu_state s of
       MMU_DIRECT \<Rightarrow> instr_table
    [(''010 ??? ??? ?? ??? ??'', tab (LDST EXEC_ID_lw MMU_DIRECT)),
     (''011 ??? ??? ?? ??? ??'', tab (LDST EXEC_ID_ld MMU_DIRECT)),
     (''110 ??? ??? ?? ??? ??'', tab (LDST EXEC_ID_sw MMU_DIRECT)),
     (''111 ??? ??? ?? ??? ??'', tab (LDST EXEC_ID_sd MMU_DIRECT))]
    (tab EXEC_ID_inv)
     | MMU_TRANSLATE \<Rightarrow> instr_table
    [(''010 ??? ??? ?? ??? ??'', tab (LDST EXEC_ID_lw MMU_TRANSLATE)),
     (''011 ??? ??? ?? ??? ??'', tab (LDST EXEC_ID_ld MMU_TRANSLATE)),
     (''110 ??? ??? ?? ??? ??'', tab (LDST EXEC_ID_sw MMU_TRANSLATE)),
     (''111 ??? ??? ?? ??? ??'', tab (LDST EXEC_ID_sd MMU_TRANSLATE))]
    (tab EXEC_ID_inv)
     | MMU_DYNAMIC \<Rightarrow> panic_m)"

definition table_c_li_dispatch :: "exec_id exec" where
  "table_c_li_dispatch = instr_table
    [(''??? 0 ????? 00000 ??'', tab (PSEUDO EXEC_ID_p_li_0)),
     (''??? 0 ????? 00001 ??'', tab (PSEUDO EXEC_ID_p_li_1)),
     (''??? ? ????? ????? ??'', tab (RVC EXEC_ID_c_li))]
    (tab EXEC_ID_inv)"

definition table_rvc_Q1_lui_addi16sp :: "exec_id exec" where
  "table_rvc_Q1_lui_addi16sp = instr_table
    [(''??? ? 00010 ????? ??'', then_m decode_C_ADDI16SP (tab (RVC EXEC_ID_c_addi))),
     (''??? ? ????? ????? ??'', then_m decode_CI_simm_lui (tab (COMPUTE EXEC_ID_lui)))]
    (tab EXEC_ID_inv)"

definition table_rvc_Q1_compute_more64 :: "exec_id exec" where
  "table_rvc_Q1_compute_more64 = instr_table
    [(''??? ? ????? 00??? ??'', tab (RVC EXEC_ID_c_sub)),
     (''??? ? ????? 01??? ??'', tab (RVC EXEC_ID_c_xor)),
     (''??? ? ????? 10??? ??'', tab (RVC EXEC_ID_c_or)),
     (''??? ? ????? 11??? ??'', tab (RVC EXEC_ID_c_and))]
    (tab EXEC_ID_inv)"

definition table_rvc_Q1_compute_more32 :: "exec_id exec" where
  "table_rvc_Q1_compute_more32 = instr_table
    [(''??? ? ????? 00??? ??'', tab (RVC EXEC_ID_c_subw)),
     (''??? ? ????? 01??? ??'', tab (RVC EXEC_ID_c_addw))]
    (tab EXEC_ID_inv)"

definition table_rvc_Q1_compute_more :: "exec_id exec" where
  "table_rvc_Q1_compute_more = instr_table
    [(''??? 0 ????? ????? ??'', table_rvc_Q1_compute_more64),
     (''??? 1 ????? ????? ??'', table_rvc_Q1_compute_more32)]
    (tab EXEC_ID_inv)"

definition table_rvc_Q1_compute :: "exec_id exec" where
  "table_rvc_Q1_compute = instr_table
    [(''??? ? 00??? ????? ??'', then_m decode_CB_shift (tab (RVC EXEC_ID_c_srli))),
     (''??? ? 01??? ????? ??'', then_m decode_CB_shift (tab (RVC EXEC_ID_c_srai))),
     (''??? ? 10??? ????? ??'', then_m decode_CB_andi (tab (RVC EXEC_ID_c_andi))),
     (''??? ? 11??? ????? ??'', then_m decode_CS table_rvc_Q1_compute_more)]
    (tab EXEC_ID_inv)"

definition table_rvc_Q2_jr_mov :: "exec_id exec" where
  "table_rvc_Q2_jr_mov = instr_table
    [(''??? ? 00001 00000 ??'', then_m decode_C_JR (tab (PSEUDO EXEC_ID_p_ret))),
     (''??? ? ????? 00000 ??'', then_m decode_C_JR (tab (RVC EXEC_ID_c_jr))),
     (''??? ? ????? ????? ??'', then_m decode_C_MOV (tab (RVC EXEC_ID_c_mv)))]
    (tab EXEC_ID_inv)"

definition table_rvc_Q2_jalr_add :: "exec_id exec" where
  "table_rvc_Q2_jalr_add = instr_table
    [(''??? ? 00000 00000 ??'', tab EXEC_ID_inv),
     (''??? ? 00001 00000 ??'', then_m decode_C_JALR (tab (CONTROL EXEC_ID_jalr))),
     (''??? ? ????? 00000 ??'', then_m decode_C_JALR (tab (RVC EXEC_ID_c_jalr))),
     (''??? ? ????? ????? ??'', then_m decode_C_ADD (tab (RVC EXEC_ID_c_add)))]
    (tab EXEC_ID_inv)"

definition table_rvc_Q2_misc :: "exec_id exec" where
  "table_rvc_Q2_misc = instr_table
    [(''??? 0 ????? ????? ??'', table_rvc_Q2_jr_mov),
     (''??? 1 ????? ????? ??'', table_rvc_Q2_jalr_add)]
    (tab EXEC_ID_inv)"

definition table_rvc_Q0 :: "exec_id exec" where
  "table_rvc_Q0 = instr_table
    [(''000 00000000 ??? ??'', tab EXEC_ID_inv),
     (''000 ???????? ??? ??'', then_m decode_C_ADDI4SPN (tab (COMPUTE EXEC_ID_addi))),
     (''010 ??? ??? ?? ??? ??'', then_m decode_C_LW table_c_ldst),
     (''011 ??? ??? ?? ??? ??'', then_m decode_C_LD table_c_ldst),
     (''110 ??? ??? ?? ??? ??'', then_m decode_C_SW table_c_ldst),
     (''111 ??? ??? ?? ??? ??'', then_m decode_C_SD table_c_ldst)]
    (tab EXEC_ID_inv)"

definition table_rvc_Q1 :: "exec_id exec" where
  "table_rvc_Q1 = instr_table
    [(''000 ? ????? ????? ??'', then_m decode_CI_simm table_c_addi_dispatch),
     (''001 ? ????? ????? ??'', then_m decode_CI_simm table_c_addiw_dispatch),
     (''010 ? ????? ????? ??'', then_m decode_C_LI table_c_li_dispatch),
     (''011 ? ????? ????? ??'', table_rvc_Q1_lui_addi16sp),
     (''100 ? ????? ????? ??'', table_rvc_Q1_compute),
     (''101 ??????????? ??'', then_m decode_CJ (tab (RVC EXEC_ID_c_j))),
     (''110 ??? ??? ????? ??'', then_m decode_CB (tab (RVC EXEC_ID_c_beqz))),
     (''111 ??? ??? ????? ??'', then_m decode_CB (tab (RVC EXEC_ID_c_bnez)))]
    (tab EXEC_ID_inv)"

definition table_rvc_Q2 :: "exec_id exec" where
  "table_rvc_Q2 = instr_table
    [(''000 ? ????? ????? ??'', then_m decode_CI_uimm (tab (RVC EXEC_ID_c_slli))),
     (''010 ? ????? ????? ??'', then_m decode_C_LWSP table_c_ldst),
     (''011 ? ????? ????? ??'', then_m decode_C_LDSP table_c_ldst),
     (''100 ? ????? ????? ??'', table_rvc_Q2_misc),
     (''110 ? ????? ????? ??'', then_m decode_C_SWSP table_c_ldst),
     (''111 ? ????? ????? ??'', then_m decode_C_SDSP table_c_ldst)]
    (tab EXEC_ID_inv)"

definition table_rvc :: "exec_id exec" where
  "table_rvc = instr_table
    [(''?????????????? 00'', table_rvc_Q0),
     (''?????????????? 01'', table_rvc_Q1),
     (''?????????????? 10'', table_rvc_Q2)]
    (tab EXEC_ID_inv)"

subsection \<open>The main table and the fetch\<close>

definition table_main :: "exec_id exec" where
  "table_main = instr_table
    [(''??????? ????? ????? ??? ????? 00000 ??'', then_m decode_I table_load),
     (''??????? ????? ????? 000 ????? 00010 ??'', then_m decode_dasicscall_j (tab (CONTROL EXEC_ID_dasicscall_j))),
     (''??????? ????? ????? 001 ????? 00010 ??'', then_m decode_I (tab (CONTROL EXEC_ID_dasicscall_jr))),
     (''??????? ????? ????? ??? ????? 00011 ??'', then_m decode_I table_mem_fence),
     (''??????? ????? ????? ??? ????? 00100 ??'', then_m decode_I table_op_imm),
     (''??????? ????? ????? ??? ????? 00101 ??'', then_m decode_auipc (tab (COMPUTE EXEC_ID_auipc))),
     (''??????? ????? ????? ??? ????? 00110 ??'', then_m decode_I table_op_imm32),
     (''??????? ????? ????? ??? ????? 01000 ??'', then_m decode_S table_store),
     (''??????? ????? ????? ??? ????? 01011 ??'', then_m decode_R table_atomic_any),
     (''0000001 ????? ????? ??? ????? 01100 ??'', then_m decode_R table_rvm),
     (''??????? ????? ????? ??? ????? 01100 ??'', then_m decode_R table_op),
     (''??????? ????? ????? ??? ????? 01101 ??'', then_m decode_U (tab (COMPUTE EXEC_ID_lui))),
     (''0000001 ????? ????? ??? ????? 01110 ??'', then_m decode_R table_rvm32),
     (''??????? ????? ????? ??? ????? 01110 ??'', then_m decode_R table_op32),
     (''??????? ????? ????? ??? ????? 11000 ??'', then_m decode_B table_branch),
     (''??????? ????? ????? 000 ????? 11001 ??'', then_m decode_I table_jalr_dispatch),
     (''??????? ????? ????? ??? ????? 11010 ??'', tab EXEC_ID_nemu_trap),
     (''??????? ????? ????? ??? ????? 11011 ??'', then_m decode_J table_jal_dispatch),
     (''??????? ????? ????? ??? ????? 11100 ??'', then_m decode_csr (tab EXEC_ID_system))]
    (tab EXEC_ID_inv)"

text \<open>What \<open>isa_fetch_decode\<close> records about the control flow of the decoded instruction.\<close>

definition is_jump_id :: "exec_id \<Rightarrow> bool" where
  "is_jump_id idx \<longleftrightarrow> idx \<in> {RVC EXEC_ID_c_j, PSEUDO EXEC_ID_p_jal, CONTROL EXEC_ID_jal,
     CONTROL EXEC_ID_dasicscall_j}"

definition is_branch_id :: "exec_id \<Rightarrow> bool" where
  "is_branch_id idx \<longleftrightarrow> idx \<in> {CONTROL EXEC_ID_beq, CONTROL EXEC_ID_bne, CONTROL EXEC_ID_blt,
     CONTROL EXEC_ID_bge, CONTROL EXEC_ID_bltu, CONTROL EXEC_ID_bgeu, RVC EXEC_ID_c_beqz,
     RVC EXEC_ID_c_bnez, PSEUDO EXEC_ID_p_bltz, PSEUDO EXEC_ID_p_bgez, PSEUDO EXEC_ID_p_blez,
     PSEUDO EXEC_ID_p_bgtz}"

definition is_indirect_id :: "exec_id \<Rightarrow> bool" where
  "is_indirect_id idx \<longleftrightarrow> idx \<in> {PSEUDO EXEC_ID_p_ret, RVC EXEC_ID_c_jr, RVC EXEC_ID_c_jalr,
     CONTROL EXEC_ID_jalr, CONTROL EXEC_ID_dasicscall_jr}"

definition classify :: "exec_id \<Rightarrow> unit exec" where
  "classify idx =
     then_m (upd_dec (\<lambda>d. d\<lparr>dec_prev_is_cfi := False, dec_prev_type := CFI_NONE, dec_type := INSTR_TYPE_N\<rparr>))
    (if is_jump_id idx then with_m (\<lambda>s. bind_m (lift_opt (get_imm (id_src1 (dec s)))) (\<lambda>imm.
       upd_dec (\<lambda>d. d\<lparr>dec_prev_is_cfi := True, dec_prev_type := CFI_JUMP, dec_jnpc := imm,
         dec_type := INSTR_TYPE_J\<rparr>)))
     else if is_branch_id idx then with_m (\<lambda>s. bind_m (lift_opt (get_imm (id_dest (dec s)))) (\<lambda>imm.
       upd_dec (\<lambda>d. d\<lparr>dec_prev_is_cfi := True, dec_prev_type := CFI_BRANCH, dec_jnpc := imm,
         dec_type := INSTR_TYPE_B\<rparr>)))
     else if is_indirect_id idx then
       upd_dec (\<lambda>d. d\<lparr>dec_prev_is_cfi := True, dec_prev_type := CFI_JUMP, dec_type := INSTR_TYPE_I\<rparr>)
     else if idx = EXEC_ID_system then with_instr (\<lambda>i.
       if instr_funct3 i = 0 \<and> instr_csr i \<in> {0, 0x002, 0x102, 0x302}
       then upd_dec (\<lambda>d. d\<lparr>dec_type := INSTR_TYPE_I\<rparr>) else return_m ())
     else return_m ())"

definition fetch_half :: "u32 exec" where
  "fetch_half = with_m (\<lambda>s. bind_m (instr_fetch (dec_snpc (dec s)) 2) (\<lambda>(w, npc).
     then_m (upd_dec (\<lambda>d. d\<lparr>dec_snpc := npc\<rparr>)) (return_m w)))"

definition isa_fetch_decode :: "exec_id exec" where
  "isa_fetch_decode =
     then_m (with_m (\<lambda>s. let d = dec s in
       when_m (dec_prev_is_cfi d) (dasics_fetch_helper (dec_snpc d) (dec_prev_pc d) (dec_prev_type d))))
    (bind_m fetch_half (\<lambda>lo.
     then_m (upd_dec (\<lambda>d. d\<lparr>dec_instr := lo\<rparr>))
    (bind_m (if fld 0 2 lo \<noteq> 3 then table_rvc
             else bind_m fetch_half (\<lambda>hi.
               then_m (upd_dec (\<lambda>d. d\<lparr>dec_instr := dec_instr d OR shl hi 16\<rparr>)) table_main))
       (\<lambda>idx. then_m (classify idx) (return_m idx)))))"

end
