(* ===== verification/C_Ops.thy ===== *)
theory C_Ops
  imports Machine "HOL-Library.Signed_Division" "HOL-Library.Monad_Syntax"
begin

text \<open>
  The value level of the RTL: the C operator macros and relational operators of
  \<open>src/engine/interpreter/c_op.h\<close>, the RTL pseudo instructions of \<open>include/rtl/pseudo.h\<close> and
  the computations of the M extension's execution helpers
  (\<open>src/isa/riscv64/instr/rvm/exec.h\<close>), with their agreement with integer arithmetic. An
  operation whose C expression is undefined (division by zero, \<open>INT64_MIN / -1\<close>) or that
  fails an assertion has the value \<open>None\<close>.
\<close>

section \<open>Operator macros\<close>

abbreviation (input) c_shift_mask :: u64 where "c_shift_mask \<equiv> 0x3f"

definition c_add :: "u64 \<Rightarrow> u64 \<Rightarrow> u64" where "c_add a b = a + b"
definition c_sub :: "u64 \<Rightarrow> u64 \<Rightarrow> u64" where "c_sub a b = a - b"
definition c_and :: "u64 \<Rightarrow> u64 \<Rightarrow> u64" where "c_and a b = a AND b"
definition c_or :: "u64 \<Rightarrow> u64 \<Rightarrow> u64" where "c_or a b = a OR b"
definition c_xor :: "u64 \<Rightarrow> u64 \<Rightarrow> u64" where "c_xor a b = a XOR b"
definition c_shl :: "u64 \<Rightarrow> u64 \<Rightarrow> u64" where "c_shl a b = shl a (unat (b AND c_shift_mask))"
definition c_shr :: "u64 \<Rightarrow> u64 \<Rightarrow> u64" where "c_shr a b = shr a (unat (b AND c_shift_mask))"
definition c_sar :: "u64 \<Rightarrow> u64 \<Rightarrow> u64" where "c_sar a b = sar a (unat (b AND c_shift_mask))"
definition c_min :: "u64 \<Rightarrow> u64 \<Rightarrow> u64" where "c_min a b = (if sint a < sint b then a else b)"
definition c_max :: "u64 \<Rightarrow> u64 \<Rightarrow> u64" where "c_max a b = (if sint a > sint b then a else b)"
definition c_minu :: "u64 \<Rightarrow> u64 \<Rightarrow> u64" where "c_minu a b = (if a < b then a else b)"
definition c_maxu :: "u64 \<Rightarrow> u64 \<Rightarrow> u64" where "c_maxu a b = (if a > b then a else b)"

definition c_sext32to64 :: "u32 \<Rightarrow> u64" where "c_sext32to64 a = scast a"
definition c_addw :: "u64 \<Rightarrow> u64 \<Rightarrow> u64" where "c_addw a b = c_sext32to64 (ucast (a + b))"
definition c_subw :: "u64 \<Rightarrow> u64 \<Rightarrow> u64" where "c_subw a b = c_sext32to64 (ucast (a - b))"
definition c_shlw :: "u64 \<Rightarrow> u64 \<Rightarrow> u64" where
  "c_shlw a b = c_sext32to64 (shl (ucast a) (unat (b AND 0x1f)))"
definition c_shrw :: "u64 \<Rightarrow> u64 \<Rightarrow> u64" where
  "c_shrw a b = c_sext32to64 (shr (ucast a) (unat (b AND 0x1f)))"
definition c_sarw :: "u64 \<Rightarrow> u64 \<Rightarrow> u64" where
  "c_sarw a b = c_sext32to64 (sar (ucast a) (unat (b AND 0x1f)))"

definition c_mulu_lo :: "u64 \<Rightarrow> u64 \<Rightarrow> u64" where "c_mulu_lo a b = a * b"
definition c_mulu_hi :: "u64 \<Rightarrow> u64 \<Rightarrow> u64" where
  "c_mulu_hi a b = ucast (shr ((ucast a :: u128) * ucast b) 64)"
definition c_muls_hi :: "u64 \<Rightarrow> u64 \<Rightarrow> u64" where
  "c_muls_hi a b = ucast (sar ((scast a :: u128) * scast b) 64)"
definition c_mulw :: "u64 \<Rightarrow> u64 \<Rightarrow> u64" where "c_mulw a b = c_sext32to64 (ucast (a * b))"

definition c_divu_q :: "u64 \<Rightarrow> u64 \<Rightarrow> u64 option" where
  "c_divu_q a b = (if b = 0 then None else Some (a div b))"
definition c_divu_r :: "u64 \<Rightarrow> u64 \<Rightarrow> u64 option" where
  "c_divu_r a b = (if b = 0 then None else Some (a mod b))"
definition c_divs_q :: "u64 \<Rightarrow> u64 \<Rightarrow> u64 option" where
  "c_divs_q a b = (if b = 0 \<or> (sint a = -(2 ^ 63) \<and> sint b = -1) then None
                   else Some (word_of_int (sint a sdiv sint b)))"
definition c_divs_r :: "u64 \<Rightarrow> u64 \<Rightarrow> u64 option" where
  "c_divs_r a b = (if b = 0 \<or> (sint a = -(2 ^ 63) \<and> sint b = -1) then None
                   else Some (word_of_int (sint a smod sint b)))"

lemmas c_op_defs = c_add_def c_sub_def c_and_def c_or_def c_xor_def c_shl_def c_shr_def c_sar_def
  c_min_def c_max_def c_minu_def c_maxu_def c_sext32to64_def c_addw_def c_subw_def c_shlw_def
  c_shrw_def c_sarw_def c_mulu_lo_def c_mulu_hi_def c_muls_hi_def c_mulw_def

section \<open>Relational operators\<close>

text \<open>The encoding of \<open>include/rtl/rtl.h\<close>: unsigned 8, signed 4, equal 2, invert 1.\<close>

abbreviation (input) RELOP_FALSE :: nat where "RELOP_FALSE \<equiv> 0"
abbreviation (input) RELOP_TRUE :: nat where "RELOP_TRUE \<equiv> 1"
abbreviation (input) RELOP_EQ :: nat where "RELOP_EQ \<equiv> 2"
abbreviation (input) RELOP_NE :: nat where "RELOP_NE \<equiv> 3"
abbreviation (input) RELOP_LT :: nat where "RELOP_LT \<equiv> 4"
abbreviation (input) RELOP_LE :: nat where "RELOP_LE \<equiv> 6"
abbreviation (input) RELOP_GT :: nat where "RELOP_GT \<equiv> 7"
abbreviation (input) RELOP_GE :: nat where "RELOP_GE \<equiv> 5"
abbreviation (input) RELOP_LTU :: nat where "RELOP_LTU \<equiv> 8"
abbreviation (input) RELOP_LEU :: nat where "RELOP_LEU \<equiv> 10"
abbreviation (input) RELOP_GTU :: nat where "RELOP_GTU \<equiv> 11"
abbreviation (input) RELOP_GEU :: nat where "RELOP_GEU \<equiv> 9"

definition interpret_relop :: "nat \<Rightarrow> u64 \<Rightarrow> u64 \<Rightarrow> bool option" where
  "interpret_relop relop src1 src2 =
    (if relop = RELOP_FALSE then Some False
     else if relop = RELOP_TRUE then Some True
     else if relop = RELOP_EQ then Some (src1 = src2)
     else if relop = RELOP_NE then Some (src1 \<noteq> src2)
     else if relop = RELOP_LT then Some (sint src1 < sint src2)
     else if relop = RELOP_LE then Some (sint src1 \<le> sint src2)
     else if relop = RELOP_GT then Some (sint src1 > sint src2)
     else if relop = RELOP_GE then Some (sint src1 \<ge> sint src2)
     else if relop = RELOP_LTU then Some (src1 < src2)
     else if relop = RELOP_LEU then Some (src1 \<le> src2)
     else if relop = RELOP_GTU then Some (src1 > src2)
     else if relop = RELOP_GEU then Some (src1 \<ge> src2)
     else None)"

text \<open>\<open>rtl_setrelop\<close> and \<open>rtl_setrelopi\<close>.\<close>

definition rtl_setrelop :: "nat \<Rightarrow> u64 \<Rightarrow> u64 \<Rightarrow> u64 option" where
  "rtl_setrelop relop a b = map_option of_bool_w (interpret_relop relop a b)"

section \<open>RTL pseudo instructions\<close>

definition rtl_li :: "u64 \<Rightarrow> u64" where "rtl_li imm = c_add 0 imm"
definition rtl_mv :: "u64 \<Rightarrow> u64" where "rtl_mv src1 = c_add src1 0"
definition rtl_not :: "u64 \<Rightarrow> u64" where "rtl_not src1 = c_xor src1 (-1)"
definition rtl_neg :: "u64 \<Rightarrow> u64" where "rtl_neg src1 = c_sub 0 src1"

definition rtl_sext :: "u64 \<Rightarrow> nat \<Rightarrow> u64 option" where
  "rtl_sext src1 width =
    (if width = 8 then Some (rtl_mv src1)
     else if \<not> (width = 1 \<or> width = 2 \<or> width = 4) then None
     else let dest = c_shl src1 (of_nat ((8 - width) * 8))
          in Some (c_sar dest (of_nat ((8 - width) * 8))))"

definition rtl_zext :: "u64 \<Rightarrow> nat \<Rightarrow> u64 option" where
  "rtl_zext src1 width =
    (if width = 8 then Some (rtl_mv src1)
     else if \<not> (width = 1 \<or> width = 2 \<or> width = 4) then None
     else let dest = c_shl src1 (of_nat ((8 - width) * 8))
          in Some (c_shr dest (of_nat ((8 - width) * 8))))"

definition rtl_msb :: "u64 \<Rightarrow> nat \<Rightarrow> u64" where
  "rtl_msb src1 width =
    (let dest = c_shr src1 (of_nat (width * 8 - 1))
     in if width \<noteq> 4 then c_and dest 1 else dest)"

definition rtl_mux :: "u64 \<Rightarrow> u64 \<Rightarrow> u64 \<Rightarrow> u64 option" where
  "rtl_mux cond src1 src2 = do {
     t0 \<leftarrow> rtl_setrelop RELOP_EQ cond 0;
     let t0 = c_sub t0 1;
     let s2 = c_and src1 t0;
     let t0 = rtl_not t0;
     let t0 = c_and src2 t0;
     Some (c_or t0 s2) }"

section \<open>The M extension's computations\<close>

definition rvm_mul :: "u64 \<Rightarrow> u64 \<Rightarrow> u64" where "rvm_mul a b = c_mulu_lo a b"
definition rvm_mulh :: "u64 \<Rightarrow> u64 \<Rightarrow> u64" where "rvm_mulh a b = c_muls_hi a b"
definition rvm_mulhu :: "u64 \<Rightarrow> u64 \<Rightarrow> u64" where "rvm_mulhu a b = c_mulu_hi a b"

definition rvm_mulhsu :: "u64 \<Rightarrow> u64 \<Rightarrow> u64" where
  "rvm_mulhsu a b =
    (let s0 = c_sar a 63;
         s0 = c_and b s0;
         s1 = c_mulu_hi a b
     in c_sub s1 s0)"

definition rvm_div :: "u64 \<Rightarrow> u64 \<Rightarrow> u64 option" where
  "rvm_div a b =
    (if b = 0 then Some (rtl_li (NOT 0))
     else if a = 0x8000000000000000 \<and> b = NOT 0 then Some (rtl_mv a)
     else c_divs_q a b)"

definition rvm_divu :: "u64 \<Rightarrow> u64 \<Rightarrow> u64 option" where
  "rvm_divu a b = (if b = 0 then Some (rtl_li (NOT 0)) else c_divu_q a b)"

definition rvm_rem :: "u64 \<Rightarrow> u64 \<Rightarrow> u64 option" where
  "rvm_rem a b =
    (if b = 0 then Some (rtl_mv a)
     else if a = 0x8000000000000000 \<and> b = NOT 0 then Some (rtl_mv 0)
     else c_divs_r a b)"

definition rvm_remu :: "u64 \<Rightarrow> u64 \<Rightarrow> u64 option" where
  "rvm_remu a b = (if b = 0 then Some (rtl_mv a) else c_divu_r a b)"

definition rvm_mulw :: "u64 \<Rightarrow> u64 \<Rightarrow> u64" where "rvm_mulw a b = c_mulw a b"

definition rvm_divw :: "u64 \<Rightarrow> u64 \<Rightarrow> u64 option" where
  "rvm_divw a b = do {
     s0 \<leftarrow> rtl_sext a 4;
     s1 \<leftarrow> rtl_sext b 4;
     s0 \<leftarrow> (if s1 = 0 then Some (rtl_li (NOT 0))
            else if s0 = 0x80000000 \<and> s1 = NOT 0 then Some s0
            else c_divs_q s0 s1);
     rtl_sext s0 4 }"

definition rvm_remw :: "u64 \<Rightarrow> u64 \<Rightarrow> u64 option" where
  "rvm_remw a b = do {
     s0 \<leftarrow> rtl_sext a 4;
     s1 \<leftarrow> rtl_sext b 4;
     s0 \<leftarrow> (if s1 = 0 then Some s0
            else if s0 = 0x80000000 \<and> s1 = NOT 0 then Some (rtl_mv 0)
            else c_divs_r s0 s1);
     rtl_sext s0 4 }"

definition rvm_divuw :: "u64 \<Rightarrow> u64 \<Rightarrow> u64 option" where
  "rvm_divuw a b = do {
     s0 \<leftarrow> rtl_zext a 4;
     s1 \<leftarrow> rtl_zext b 4;
     s0 \<leftarrow> (if s1 = 0 then Some (rtl_li (NOT 0)) else c_divu_q s0 s1);
     rtl_sext s0 4 }"

definition rvm_remuw :: "u64 \<Rightarrow> u64 \<Rightarrow> u64 option" where
  "rvm_remuw a b = do {
     s0 \<leftarrow> rtl_zext a 4;
     s1 \<leftarrow> rtl_zext b 4;
     s0 \<leftarrow> (if s1 = 0 then Some s0 else c_divu_r s0 s1);
     rtl_sext s0 4 }"

section \<open>Agreement with integer arithmetic\<close>

lemma uint_ucast128: "uint (ucast (a::u64) :: u128) = uint a"
  by (simp add: uint_up_ucast is_up)
lemma sint_scast128: "sint (scast (a::u64) :: u128) = sint a"
  by (simp add: sint_up_scast is_up)

lemma sint_neg_iff_msb: "sint a < 0 \<longleftrightarrow> bit a 63" for a :: u64
  using bit_last_iff [of a] by simp

lemma sint_u64_range: "- (2 ^ 63) \<le> sint a" "sint a < 2 ^ 63" for a :: u64
  using sint_greater_eq [of a] sint_less [of a] by simp_all

lemma uint_eq_sint: "uint a = (if sint a < 0 then sint a + 2 ^ 64 else sint a)" for a :: u64
proof -
  have "(sint a + 2 ^ 64) mod 2 ^ 64 = sint a + 2 ^ 64" if "sint a < 0"
    using sint_u64_range [of a] that by (intro mod_pos_pos_trivial) simp_all
  then show ?thesis
    using sint_u64_range [of a] by (simp add: uint_sint take_bit_eq_mod)
qed

lemma c_mulu_hi_eq: "c_mulu_hi a b = word_of_int (uint a * uint b div 2 ^ 64)"
proof -
  have *: "uint a * uint b < 2 ^ 128"
  proof -
    have "uint a * uint b < 2 ^ 64 * 2 ^ 64"
      using uint_lt2p [of a] uint_lt2p [of b] by (intro mult_strict_mono') simp_all
    then show ?thesis by simp
  qed
  have "uint ((ucast a :: u128) * ucast b) = uint a * uint b"
    using * by (simp add: uint_word_ariths uint_ucast128)
  then have "uint (shr ((ucast a :: u128) * ucast b) 64) = uint a * uint b div 2 ^ 64"
    by (simp add: drop_bit_eq_div uint_div)
  then show ?thesis
    by (simp only: c_mulu_hi_def ucast_eq [where w = "shr _ _"])
qed

lemma c_muls_hi_eq: "c_muls_hi a b = word_of_int (sint a * sint b div 2 ^ 64)"
proof -
  have r: "\<bar>sint x\<bar> \<le> 2 ^ 63" for x :: u64
    using sint_u64_range [of x] by simp
  have "\<bar>sint a\<bar> * \<bar>sint b\<bar> \<le> 2 ^ 63 * 2 ^ 63"
    by (rule mult_mono [OF r r]) simp_all
  then have *: "- (2 ^ 127) \<le> sint a * sint b" "sint a * sint b < 2 ^ 127"
    by (simp_all add: abs_mult [symmetric] abs_le_iff)
  have "sint ((scast a :: u128) * scast b) = sint a * sint b"
    using * by (simp add: sint_word_ariths sint_scast128 signed_take_bit_int_eq_self_iff)
  then have "sint (sar ((scast a :: u128) * scast b) 64) = sint a * sint b div 2 ^ 64"
    by (simp add: drop_bit_eq_div sint_signed_drop_bit_eq)
  moreover have "(ucast :: u128 \<Rightarrow> u64) = scast"
    by (rule down_cast_same) (simp add: is_down)
  ultimately show ?thesis
    by (simp only: c_muls_hi_def scast_eq [where w = "sar _ _"])
qed

lemma sint_overflow_iff:
  "sint a = - (2 ^ 63) \<longleftrightarrow> a = 0x8000000000000000" "sint a = - 1 \<longleftrightarrow> a = -1" for a :: u64
  using signed_word_eqI [of a "0x8000000000000000"] signed_word_eqI [of a "-1"] by auto

lemma smod_one [simp]: "k smod 1 = (0::int)"
  by (simp add: smod_int_alt_def)

lemma rtl_sext_4: "rtl_sext a 4 = Some (scast (ucast a :: u32))"
proof -
  have "bit (sar (shl a 32) 32) n = bit (scast (ucast a :: u32) :: u64) n" if "n < 64" for n
    using that by (cases "n < 31"; cases "n = 31") (auto simp: bit_simps min_def)
  then show ?thesis
    by (auto simp: rtl_sext_def c_shl_def c_sar_def intro: bit_word_eqI)
qed

lemma rtl_sext_2: "rtl_sext a 2 = Some (scast (ucast a :: u16))"
proof -
  have "bit (sar (shl a 48) 48) n = bit (scast (ucast a :: u16) :: u64) n" if "n < 64" for n
    using that by (cases "n < 15"; cases "n = 15") (auto simp: bit_simps min_def)
  then show ?thesis
    by (auto simp: rtl_sext_def c_shl_def c_sar_def intro: bit_word_eqI)
qed

lemma rtl_sext_1: "rtl_sext a 1 = Some (scast (ucast a :: u8))"
proof -
  have "bit (sar (shl a 56) 56) n = bit (scast (ucast a :: u8) :: u64) n" if "n < 64" for n
    using that by (cases "n < 7"; cases "n = 7") (auto simp: bit_simps min_def)
  then show ?thesis
    by (auto simp: rtl_sext_def c_shl_def c_sar_def intro: bit_word_eqI)
qed

lemma rtl_zext_4: "rtl_zext a 4 = Some (ucast (ucast a :: u32))"
  by (auto simp: rtl_zext_def c_shl_def c_shr_def bit_simps intro: bit_word_eqI)

lemma sint_scast32: "sint (scast (w :: u32) :: u64) = sint w"
  by (simp add: sint_up_scast is_up)

lemma scast32_0: "(scast (w :: u32) :: u64) = 0 \<longleftrightarrow> w = 0"
  by (metis scast_0 sint_scast32 signed_word_eqI)

lemma ucast_word_of_int32: "(ucast (word_of_int k :: u64) :: u32) = word_of_int k"
  by (simp add: ucast_eq word_of_int_eq_iff uint_word_of_int_eq)

lemma ucast_scast32: "ucast (scast w :: u64) = w" for w :: u32
proof (rule bit_word_eqI)
  fix n assume "n < LENGTH(32)"
  then show "bit (ucast (scast w :: u64) :: u32) n = bit w n"
    by (cases "n = 31") (auto simp: bit_simps min_def)
qed

lemma scast_ucast32_m1: "scast (ucast (- 1 :: u64) :: u32) = (- 1 :: u64)"
  by (rule bit_word_eqI) (auto simp: bit_simps min_def)

lemma rtl_mux_eq: "rtl_mux cond src1 src2 = Some (if cond \<noteq> 0 then src1 else src2)"
  by (simp add: rtl_mux_def rtl_setrelop_def interpret_relop_def of_bool_w_def c_op_defs rtl_not_def)


lemma scast32_not_int_min: "(scast w :: u64) \<noteq> 0x80000000" for w :: u32
  using sint_less [of w] sint_scast32 [of w] by auto

lemma rvm_divw_eq:
  "rvm_divw a b = (let x = ucast a :: u32; y = ucast b :: u32 in
     Some (if y = 0 then - 1 else scast (word_of_int (sint x sdiv sint y) :: u32)))"
proof -
  have r: "- (2 ^ 31) \<le> sint w" "sint w < 2 ^ 31" for w :: u32
    using sint_greater_eq [of w] sint_less [of w] by simp_all
  have "sint w \<noteq> - (2 ^ 63)" for w :: u32
    using r [of w] by auto
  then show ?thesis
    by (simp add: rvm_divw_def scast32_not_int_min rtl_sext_4 c_divs_q_def sint_scast32 scast32_0 Let_def
       ucast_word_of_int32 scast_ucast32_m1 rtl_li_def c_add_def)
qed

lemma rvm_remw_eq:
  "rvm_remw a b = (let x = ucast a :: u32; y = ucast b :: u32 in
     Some (scast (if y = 0 then x else word_of_int (sint x smod sint y) :: u32)))"
proof -
  have r: "- (2 ^ 31) \<le> sint w" "sint w < 2 ^ 31" for w :: u32
    using sint_greater_eq [of w] sint_less [of w] by simp_all
  have "sint w \<noteq> - (2 ^ 63)" for w :: u32
    using r [of w] by auto
  then show ?thesis
    by (simp add: rvm_remw_def scast32_not_int_min rtl_sext_4 c_divs_r_def sint_scast32 scast32_0 Let_def
       ucast_word_of_int32 ucast_scast32 rtl_mv_def c_add_def)
qed

lemma zext32: "(ucast (x :: u32) :: u64) = 0 \<longleftrightarrow> x = 0"
  "ucast (ucast x div ucast y :: u64) = (x div y :: u32)" "ucast (ucast x mod ucast y :: u64) = (x mod y :: u32)"
proof -
  have u: "unat (ucast w :: u64) = unat w" "unat w < 2 ^ 32" for w :: u32
    using unsigned_less [of w, where ?'a = nat] by (simp_all add: unsigned_ucast_eq take_bit_nat_eq_self)
  show "(ucast (x :: u32) :: u64) = 0 \<longleftrightarrow> x = 0"
    using u [of x] by (metis unat_eq_zero)
  have "unat x div unat y < 2 ^ 32" "unat x mod unat y < 2 ^ 32"
    using u(2) [of x] div_le_dividend [of "unat x" "unat y"] mod_less_eq_dividend [of "unat x" "unat y"] by linarith+
  then show "ucast (ucast x div ucast y :: u64) = (x div y :: u32)" "ucast (ucast x mod ucast y :: u64) = (x mod y :: u32)"
    by (simp_all add: word_unat_eq_iff unat_div_distrib unat_mod_distrib u unsigned_ucast_eq take_bit_nat_eq_self)
qed

lemma ucast_zext32: "ucast (ucast x :: u64) = x" for x :: u32
  by (rule bit_word_eqI) (simp add: bit_simps)

lemma rvm_divuw_eq: "rvm_divuw a b = (let x = ucast a :: u32; y = ucast b :: u32 in Some (scast (if y = 0 then - 1 else x div y)))"
  by (simp add: rvm_divuw_def c_divu_q_def rtl_sext_4 rtl_zext_4 Let_def zext32 rtl_li_def c_add_def scast_ucast32_m1)

lemma rvm_remuw_eq: "rvm_remuw a b = (let x = ucast a :: u32; y = ucast b :: u32 in Some (scast (if y = 0 then x else x mod y)))"
  by (simp add: rvm_remuw_def c_divu_r_def rtl_sext_4 rtl_zext_4 Let_def zext32 ucast_zext32)

lemma rvm_mulhsu_eq: "rvm_mulhsu a b = word_of_int (sint a * uint b div 2 ^ 64)"
proof -
  have sg: "c_sar a 63 = (if sint a < 0 then - 1 else 0)"
    by (rule bit_word_eqI) (auto simp: c_sar_def sint_neg_iff_msb bit_simps min_def not_less_eq_eq)
  have "c_mulu_hi a b - (if sint a < 0 then b else 0) = word_of_int (sint a * uint b div 2 ^ 64)"
  proof (cases "sint a < 0")
    case True
    then have "uint a * uint b div 2 ^ 64 = sint a * uint b div 2 ^ 64 + uint b"
      by (simp add: distrib_right uint_eq_sint [of a])
    then show ?thesis using True by (simp add: c_mulu_hi_eq)
  next
    case False
    then show ?thesis by (simp add: c_mulu_hi_eq uint_eq_sint [of a])
  qed
  then show ?thesis
    by (simp add: rvm_mulhsu_def c_sub_def c_and_def sg Let_def split: if_splits)
qed

lemma rvm_div_rem_eq:
  "rvm_div a b = Some (if b = 0 then - 1 else word_of_int (sint a sdiv sint b))"
  "rvm_rem a b = Some (if b = 0 then a else word_of_int (sint a smod sint b))"
  "rvm_divu a b = Some (if b = 0 then - 1 else a div b)"
  "rvm_remu a b = Some (if b = 0 then a else a mod b)"
  by (auto simp: rvm_div_def rvm_rem_def rvm_divu_def rvm_remu_def c_divs_q_def c_divs_r_def c_divu_q_def c_divu_r_def
      rtl_li_def rtl_mv_def c_add_def sint_overflow_iff [simplified])

end
