(* ===== verification/Rvb.thy ===== *)
theory Rvb
  imports C_Ops
begin

text \<open>
  The bit-manipulation extension: the intrinsics of
  \<open>src/isa/riscv64/instr/rvb/rvintrin.h\<close> on 32- and 64-bit words (the C functions take and
  return signed integers of those widths, which have the same bits) and the remaining
  computations of \<open>rvb/exec.h\<close>. The GCC bit-counting builtins are part of the language.
\<close>

section \<open>Counting bits\<close>

definition bits_of :: "'a::len word \<Rightarrow> bool list" where
  "bits_of w = map (bit w) [0..<LENGTH('a)]"

definition builtin_clz :: "'a::len word \<Rightarrow> nat" where
  "builtin_clz w = length (takeWhile Not (rev (bits_of w)))"

definition builtin_ctz :: "'a::len word \<Rightarrow> nat" where
  "builtin_ctz w = length (takeWhile Not (bits_of w))"

definition builtin_popcount :: "'a::len word \<Rightarrow> nat" where
  "builtin_popcount w = length (filter id (bits_of w))"

definition rv32_clz :: "u32 \<Rightarrow> u32" where
  "rv32_clz rs1 = (if rs1 \<noteq> 0 then of_nat (builtin_clz rs1) else 32)"
definition rv64_clz :: "u64 \<Rightarrow> u64" where
  "rv64_clz rs1 = (if rs1 \<noteq> 0 then of_nat (builtin_clz rs1) else 64)"
definition rv32_ctz :: "u32 \<Rightarrow> u32" where
  "rv32_ctz rs1 = (if rs1 \<noteq> 0 then of_nat (builtin_ctz rs1) else 32)"
definition rv64_ctz :: "u64 \<Rightarrow> u64" where
  "rv64_ctz rs1 = (if rs1 \<noteq> 0 then of_nat (builtin_ctz rs1) else 64)"
definition rv32_cpop :: "u32 \<Rightarrow> u32" where "rv32_cpop rs1 = of_nat (builtin_popcount rs1)"
definition rv64_cpop :: "u64 \<Rightarrow> u64" where "rv64_cpop rs1 = of_nat (builtin_popcount rs1)"

section \<open>Extension, comparison and single bits\<close>

definition rv64_sext_b :: "u64 \<Rightarrow> u64" where "rv64_sext_b rs1 = sar (shl rs1 (64 - 8)) (64 - 8)"
definition rv64_sext_h :: "u64 \<Rightarrow> u64" where "rv64_sext_h rs1 = sar (shl rs1 (64 - 16)) (64 - 16)"
definition rv64_zext_h :: "u64 \<Rightarrow> u64" where "rv64_zext_h rs1 = shr (shl rs1 (64 - 16)) (64 - 16)"

definition rv64_min :: "u64 \<Rightarrow> u64 \<Rightarrow> u64" where
  "rv64_min rs1 rs2 = (if sint rs1 < sint rs2 then rs1 else rs2)"
definition rv64_minu :: "u64 \<Rightarrow> u64 \<Rightarrow> u64" where
  "rv64_minu rs1 rs2 = (if rs1 < rs2 then rs1 else rs2)"
definition rv64_max :: "u64 \<Rightarrow> u64 \<Rightarrow> u64" where
  "rv64_max rs1 rs2 = (if sint rs1 > sint rs2 then rs1 else rs2)"
definition rv64_maxu :: "u64 \<Rightarrow> u64 \<Rightarrow> u64" where
  "rv64_maxu rs1 rs2 = (if rs1 > rs2 then rs1 else rs2)"

definition rv64_bset :: "u64 \<Rightarrow> u64 \<Rightarrow> u64" where
  "rv64_bset rs1 rs2 = rs1 OR shl 1 (unat (rs2 AND 63))"
definition rv64_bclr :: "u64 \<Rightarrow> u64 \<Rightarrow> u64" where
  "rv64_bclr rs1 rs2 = rs1 AND NOT (shl 1 (unat (rs2 AND 63)))"
definition rv64_binv :: "u64 \<Rightarrow> u64 \<Rightarrow> u64" where
  "rv64_binv rs1 rs2 = rs1 XOR shl 1 (unat (rs2 AND 63))"
definition rv64_bext :: "u64 \<Rightarrow> u64 \<Rightarrow> u64" where
  "rv64_bext rs1 rs2 = 1 AND sar rs1 (unat (rs2 AND 63))"

section \<open>Rotation and packing\<close>

definition rv64_sll :: "u64 \<Rightarrow> u64 \<Rightarrow> u64" where "rv64_sll rs1 rs2 = shl rs1 (unat (rs2 AND 63))"
definition rv64_srl :: "u64 \<Rightarrow> u64 \<Rightarrow> u64" where "rv64_srl rs1 rs2 = shr rs1 (unat (rs2 AND 63))"
definition rv64_rol :: "u64 \<Rightarrow> u64 \<Rightarrow> u64" where
  "rv64_rol rs1 rs2 = rv64_sll rs1 rs2 OR rv64_srl rs1 (- rs2)"
definition rv64_ror :: "u64 \<Rightarrow> u64 \<Rightarrow> u64" where
  "rv64_ror rs1 rs2 = rv64_srl rs1 rs2 OR rv64_sll rs1 (- rs2)"

definition rv32_sll :: "u32 \<Rightarrow> u32 \<Rightarrow> u32" where "rv32_sll rs1 rs2 = shl rs1 (unat (rs2 AND 31))"
definition rv32_srl :: "u32 \<Rightarrow> u32 \<Rightarrow> u32" where "rv32_srl rs1 rs2 = shr rs1 (unat (rs2 AND 31))"
definition rv32_rol :: "u32 \<Rightarrow> u32 \<Rightarrow> u32" where
  "rv32_rol rs1 rs2 = rv32_sll rs1 rs2 OR rv32_srl rs1 (- rs2)"
definition rv32_ror :: "u32 \<Rightarrow> u32 \<Rightarrow> u32" where
  "rv32_ror rs1 rs2 = rv32_srl rs1 rs2 OR rv32_sll rs1 (- rs2)"

definition rv32_pack :: "u32 \<Rightarrow> u32 \<Rightarrow> u32" where
  "rv32_pack rs1 rs2 = (rs1 AND 0x0000ffff) OR shl rs2 16"
definition rv64_pack :: "u64 \<Rightarrow> u64 \<Rightarrow> u64" where
  "rv64_pack rs1 rs2 = (rs1 AND 0xffffffff) OR shl rs2 32"
definition rv64_packh :: "u64 \<Rightarrow> u64 \<Rightarrow> u64" where
  "rv64_packh rs1 rs2 = (rs1 AND 0xff) OR shl (rs2 AND 0xff) 8"

section \<open>Generalised reverse and or-combine\<close>

text \<open>
  One stage: when the shift amount asks for it, swap neighbouring groups of \<open>n\<close> bits
  (\<open>grev\<close>), or combine each with its neighbour (\<open>gorc\<close>).
\<close>

definition grev_swap :: "u64 \<Rightarrow> u64 \<Rightarrow> nat \<Rightarrow> u64 \<Rightarrow> u64" where
  "grev_swap lo hi n x = shl (x AND lo) n OR shr (x AND hi) n"

definition grev_stage :: "u64 \<Rightarrow> nat \<Rightarrow> u64 \<Rightarrow> u64 \<Rightarrow> u64 \<Rightarrow> u64" where
  "grev_stage shamt n lo hi x = (if shamt AND of_nat n \<noteq> 0 then grev_swap lo hi n x else x)"

definition gorc_stage :: "u64 \<Rightarrow> nat \<Rightarrow> u64 \<Rightarrow> u64 \<Rightarrow> u64 \<Rightarrow> u64" where
  "gorc_stage shamt n lo hi x = (if shamt AND of_nat n \<noteq> 0 then x OR grev_swap lo hi n x else x)"

definition rv64_grev :: "u64 \<Rightarrow> u64 \<Rightarrow> u64" where
  "rv64_grev rs1 rs2 = (let
     x = rs1; shamt = rs2 AND 63;
     x = grev_stage shamt 1 0x5555555555555555 0xAAAAAAAAAAAAAAAA x;
     x = grev_stage shamt 2 0x3333333333333333 0xCCCCCCCCCCCCCCCC x;
     x = grev_stage shamt 4 0x0F0F0F0F0F0F0F0F 0xF0F0F0F0F0F0F0F0 x;
     x = grev_stage shamt 8 0x00FF00FF00FF00FF 0xFF00FF00FF00FF00 x;
     x = grev_stage shamt 16 0x0000FFFF0000FFFF 0xFFFF0000FFFF0000 x;
     x = grev_stage shamt 32 0x00000000FFFFFFFF 0xFFFFFFFF00000000 x
     in x)"

definition rv64_gorc :: "u64 \<Rightarrow> u64 \<Rightarrow> u64" where
  "rv64_gorc rs1 rs2 = (let
     x = rs1; shamt = rs2 AND 63;
     x = gorc_stage shamt 1 0x5555555555555555 0xAAAAAAAAAAAAAAAA x;
     x = gorc_stage shamt 2 0x3333333333333333 0xCCCCCCCCCCCCCCCC x;
     x = gorc_stage shamt 4 0x0F0F0F0F0F0F0F0F 0xF0F0F0F0F0F0F0F0 x;
     x = gorc_stage shamt 8 0x00FF00FF00FF00FF 0xFF00FF00FF00FF00 x;
     x = gorc_stage shamt 16 0x0000FFFF0000FFFF 0xFFFF0000FFFF0000 x;
     x = gorc_stage shamt 32 0x00000000FFFFFFFF 0xFFFFFFFF00000000 x
     in x)"

definition rv_rev8 :: "u64 \<Rightarrow> u64" where "rv_rev8 rs1 = rv64_grev rs1 56"
definition rv_revb :: "u64 \<Rightarrow> u64" where "rv_revb rs1 = rv64_grev rs1 7"
definition rv_orc_b :: "u64 \<Rightarrow> u64" where "rv_orc_b rs1 = rv64_gorc rs1 7"

section \<open>Carry-less multiplication\<close>

definition xor_loop :: "(nat \<Rightarrow> bool) \<Rightarrow> (nat \<Rightarrow> 'a::len word) \<Rightarrow> nat list \<Rightarrow> 'a word \<Rightarrow> 'a word" where
  "xor_loop c g = fold (\<lambda>i x. if c i then x XOR g i else x)"

definition rv64_clmul :: "u64 \<Rightarrow> u64 \<Rightarrow> u64" where
  "rv64_clmul a b = xor_loop (\<lambda>i. shr b i AND 1 \<noteq> 0) (\<lambda>i. shl a i) [0..<64] 0"
definition rv64_clmulh :: "u64 \<Rightarrow> u64 \<Rightarrow> u64" where
  "rv64_clmulh a b = xor_loop (\<lambda>i. shr b i AND 1 \<noteq> 0) (\<lambda>i. shr a (64 - i)) [1..<64] 0"
definition rv64_clmulr :: "u64 \<Rightarrow> u64 \<Rightarrow> u64" where
  "rv64_clmulr a b = xor_loop (\<lambda>i. shr b i AND 1 \<noteq> 0) (\<lambda>i. shr a (63 - i)) [0..<64] 0"

section \<open>Crossbar permutation\<close>

text \<open>The loop steps through the multiples of the lane width below 64.\<close>

definition xperm :: "u64 \<Rightarrow> u64 \<Rightarrow> nat \<Rightarrow> u64" where
  "xperm rs1 rs2 sz_log2 = (let sz = 2 ^ sz_log2; m = shl 1 sz - 1 in
     fold (\<lambda>i r. let pos = shl (sar rs2 i AND m) sz_log2 in
                 if sint pos < 64 then r OR shl (sar rs1 (unat pos) AND m) i else r)
          (map (\<lambda>k. k * sz) [0..<64 div sz]) 0)"

definition rv64_xpermn :: "u64 \<Rightarrow> u64 \<Rightarrow> u64" where "rv64_xpermn rs1 rs2 = xperm rs1 rs2 2"
definition rv64_xpermb :: "u64 \<Rightarrow> u64 \<Rightarrow> u64" where "rv64_xpermb rs1 rs2 = xperm rs1 rs2 3"

section \<open>The remaining computations of the execution helpers\<close>

definition rv_andn :: "u64 \<Rightarrow> u64 \<Rightarrow> u64" where "rv_andn rs1 rs2 = rs1 AND NOT rs2"
definition rv_orn :: "u64 \<Rightarrow> u64 \<Rightarrow> u64" where "rv_orn rs1 rs2 = rs1 OR NOT rs2"
definition rv_xnor :: "u64 \<Rightarrow> u64 \<Rightarrow> u64" where "rv_xnor rs1 rs2 = rs1 XOR NOT rs2"

definition zext_w :: "u64 \<Rightarrow> u64" where "zext_w a = ucast (ucast a :: u32)"

definition rvb_adduw :: "u64 \<Rightarrow> u64 \<Rightarrow> u64" where "rvb_adduw a b = b + zext_w a"
definition rvb_slliuw :: "u64 \<Rightarrow> u64 \<Rightarrow> u64" where
  "rvb_slliuw a imm = shl (zext_w a) (unat (imm AND 0x1f))"
definition rvb_shadd :: "nat \<Rightarrow> u64 \<Rightarrow> u64 \<Rightarrow> u64" where "rvb_shadd k a b = shl a k + b"
definition rvb_shadduw :: "nat \<Rightarrow> u64 \<Rightarrow> u64 \<Rightarrow> u64" where "rvb_shadduw k a b = shl (zext_w a) k + b"

text \<open>The reference product the three carry-less multiplications are parts of.\<close>

definition clmul_full :: "u64 \<Rightarrow> u64 \<Rightarrow> u128" where
  "clmul_full a b = xor_loop (\<lambda>i. shr b i AND 1 \<noteq> 0) (\<lambda>i. shl (ucast a) i) [0..<64] 0"

section \<open>Lemmas on reversal, rotation and carry-less products\<close>

lemma bit_add_pow2: "bit (i + 2 ^ k) k \<longleftrightarrow> \<not> bit i k" for i :: nat
  using div_add_self2 [of "2 ^ k :: nat" i] by (simp add: bit_iff_odd)

lemma xor_pow2_unset: "\<not> bit i k \<Longrightarrow> i XOR 2 ^ k = i + 2 ^ k" for i :: nat
proof -
  assume *: "\<not> bit i k"
  then have "i XOR 2 ^ k = set_bit k i"
    by (intro bit_eqI) (auto simp: bit_simps)
  then show ?thesis using * by (simp add: set_bit_eq)
qed

lemma xor_pow2_set:
  fixes i :: nat
  assumes "bit i k"
  obtains j where "i = j + 2 ^ k" and "i XOR 2 ^ k = j" and "\<not> bit j k"
proof
  have "\<not> bit (i XOR 2 ^ k) k" using assms by (simp add: bit_simps)
  then show "\<not> bit (i XOR 2 ^ k) k" "i = (i XOR 2 ^ k) + 2 ^ k"
    using xor_pow2_unset [of "i XOR 2 ^ k" k] by (simp_all add: ac_simps flip: xor.assoc)
qed simp

lemma xor_less_64: "i < 64 \<Longrightarrow> j < 64 \<Longrightarrow> i XOR j < 64" for i j :: nat
  by (simp flip: take_bit_nat_eq_self_iff [of 6, simplified])

lemma grev_swap_bit:
  assumes lo: "\<And>i. i < 64 \<Longrightarrow> bit lo i \<longleftrightarrow> \<not> bit i k" and hi: "hi = NOT lo"
    and k: "k < 6" and n: "n < 64"
  shows "bit (grev_swap lo hi (2 ^ k) x) n = bit x (n XOR 2 ^ k)"
proof -
  have "(2::nat) ^ k < 2 ^ 6" using k by (intro power_strict_increasing) simp_all
  then have *: "n XOR 2 ^ k < 64" using n xor_less_64 by simp
  show ?thesis
  proof (cases "bit n k")
    case True
    then obtain j where j: "n = j + 2 ^ k" "n XOR 2 ^ k = j" "\<not> bit j k"
      by (rule xor_pow2_set)
    then show ?thesis
      using n lo [of n] lo [of j] lo [of "n + 2 ^ k"] bit_add_pow2 [of n k] hi True
      by (auto simp: grev_swap_def bit_simps ac_simps)
  next
    case False
    then have "\<not> bit lo (n - 2 ^ k)" if "2 ^ k \<le> n"
      using that n lo [of "n - 2 ^ k"] bit_add_pow2 [of "n - 2 ^ k" k] by simp
    with False show ?thesis
      using n lo [of "n + 2 ^ k"] bit_add_pow2 [of n k] * hi
      by (auto simp: grev_swap_def bit_simps xor_pow2_unset ac_simps)
  qed
qed

lemma all_less_64: "list_all P [0..<64] \<Longrightarrow> n < 64 \<Longrightarrow> P n"
  by (auto simp: list_all_iff)
lemma grev_masks:
  assumes "n < 64"
  shows "bit (0x5555555555555555 :: u64) n \<longleftrightarrow> \<not> bit n 0"
    "bit (0x3333333333333333 :: u64) n \<longleftrightarrow> \<not> bit n 1"
    "bit (0x0F0F0F0F0F0F0F0F :: u64) n \<longleftrightarrow> \<not> bit n 2"
    "bit (0x00FF00FF00FF00FF :: u64) n \<longleftrightarrow> \<not> bit n 3"
    "bit (0x0000FFFF0000FFFF :: u64) n \<longleftrightarrow> \<not> bit n 4"
    "bit (0x00000000FFFFFFFF :: u64) n \<longleftrightarrow> \<not> bit n 5"
  by (rule all_less_64 [OF _ assms]; code_simp)+

lemma and_63_less: "unat (w AND 63) < 64" for w :: u64
proof -
  have "w AND 63 \<le> 63" by (rule word_and_le1)
  then show ?thesis by (simp add: word_le_nat_alt)
qed

lemma grev_stage_bit:
  assumes lo: "\<And>i. i < 64 \<Longrightarrow> bit lo i \<longleftrightarrow> \<not> bit i k" and hi: "hi = NOT lo" and k: "k < 6" and n: "n < 64"
  shows "bit (grev_stage b (2 ^ k) lo hi x) n = bit x (n XOR unat (b AND 2 ^ k))"
proof -
  have "b AND 2 ^ k = (if bit b k then 2 ^ k else 0)"
    by (rule bit_word_eqI) (auto simp: bit_simps)
  moreover have "unat (2 ^ k :: u64) = 2 ^ k"
  proof -
    have "k = 0 \<or> k = 1 \<or> k = 2 \<or> k = 3 \<or> k = 4 \<or> k = 5" using k by linarith
    then show ?thesis by auto
  qed
  ultimately show ?thesis
    using grev_swap_bit [OF lo hi k n, of x] by (simp add: grev_stage_def and_pow2_nonzero)
qed

lemmas grev_stages =
  grev_stage_bit [of "0x5555555555555555" 0 "0xAAAAAAAAAAAAAAAA", OF grev_masks(1), simplified]
  grev_stage_bit [of "0x3333333333333333" 1 "0xCCCCCCCCCCCCCCCC", OF grev_masks(2), simplified]
  grev_stage_bit [of "0x0F0F0F0F0F0F0F0F" 2 "0xF0F0F0F0F0F0F0F0", OF grev_masks(3), simplified]
  grev_stage_bit [of "0x00FF00FF00FF00FF" 3 "0xFF00FF00FF00FF00", OF grev_masks(4), simplified]
  grev_stage_bit [of "0x0000FFFF0000FFFF" 4 "0xFFFF0000FFFF0000", OF grev_masks(5), simplified]
  grev_stage_bit [of "0x00000000FFFFFFFF" 5 "0xFFFFFFFF00000000", OF grev_masks(6), simplified]

lemma and_64_less: "unat (w AND m) < 64" if "m \<le> 63" for w m :: u64
proof -
  have "w AND m \<le> 63" by (rule order_trans [OF word_and_le1 that])
  then show ?thesis by (simp add: word_le_nat_alt)
qed
lemma and_63_split:
  "b AND 63 = (b AND 32) XOR (b AND 16) XOR (b AND 8) XOR (b AND 4) XOR (b AND 2) XOR (b AND 1)"
  for b :: u64
proof -
  have "(63 :: u64) = 32 XOR 16 XOR 8 XOR 4 XOR 2 XOR 1" by simp
  then show ?thesis by (simp only: bit.conj_xor_distrib)
qed

lemma bit_grev:
  assumes "n < 64"
  shows "bit (rv64_grev x shamt) n = bit x (n XOR unat (shamt AND 63))"
proof -
  have "bit (rv64_grev x shamt) n =
        bit x (n XOR unat (shamt AND 32) XOR unat (shamt AND 16) XOR unat (shamt AND 8) XOR
               unat (shamt AND 4) XOR unat (shamt AND 2) XOR unat (shamt AND 1))"
    unfolding rv64_grev_def Let_def
    by (simp add: grev_stages assms xor_less_64 and_64_less and.assoc xor.assoc)
  then show ?thesis by (simp add: and_63_split unsigned_xor_eq ac_simps)
qed

lemma unat_and_63: "unat (w AND 63) = unat w mod 64" for w :: u64
proof -
  have "w AND 63 = take_bit 6 w" by (simp add: take_bit_eq_mask mask_eq_exp_minus_1)
  then show ?thesis by (simp add: take_bit_eq_mod unat_mod)
qed

lemma unat_neg_and_63:
  "unat (- b AND 63) = (if unat (b AND 63) = 0 then 0 else 64 - unat (b AND 63))" for b :: u64
proof (cases "b = 0")
  case False
  define u where "u = unat b"
  have "unat b < 2 ^ LENGTH(64)" by (rule unsigned_less)
  then have u: "0 < u" "u < 18446744073709551616" using False by (simp_all add: u_def unat_gt_0)
  have "uint (- b) = 2 ^ 64 - uint b"
    using False uint_lt2p [of b]
    by (simp add: uint_word_ariths zmod_zminus1_eq_if uint_0_iff)
  then have "int (unat (- b)) = 18446744073709551616 - int u"
    by (simp add: u_def)
  then have "unat (- b) = 18446744073709551616 - u"
    using u by linarith
  moreover have "(18446744073709551616 - u) mod 64 = (if u mod 64 = 0 then 0 else 64 - u mod 64)"
  proof (cases "u mod 64 = 0")
    case True
    then have "18446744073709551616 - u = 64 * (288230376151711744 - u div 64)"
      using div_mult_mod_eq [of u 64] by (simp add: diff_mult_distrib2 mult.commute)
    then show ?thesis using True by simp
  next
    case False
    have "18446744073709551616 - u = (64 - u mod 64) + 64 * (288230376151711743 - u div 64)"
      using div_mult_mod_eq [of u 64] False u mod_less_divisor [of 64 u] by linarith
    then have "(18446744073709551616 - u) mod 64 = (64 - u mod 64) mod 64"
      by (simp only: mod_mult_self2)
    then show ?thesis using False by simp
  qed
  ultimately show ?thesis by (simp add: unat_and_63 u_def)
qed simp

lemma rv64_rol_eq: "rv64_rol a b = word_rotl (unat (b AND 63)) a"
proof (rule bit_word_eqI)
  fix n assume n: "n < LENGTH(64)"
  define m where "m = unat (b AND 63)"
  have m: "m < 64" by (simp add: m_def and_63_less)
  have "(n + (64 - m)) mod 64 = (if n < m then 64 + n - m else n - m)"
    using n m by (auto simp: le_mod_geq)
  then show "bit (rv64_rol a b) n = bit (word_rotl (unat (b AND 63)) a) n"
    using n m bit_imp_le_length [of a]
    by (auto simp: rv64_rol_def rv64_sll_def rv64_srl_def bit_simps unat_neg_and_63 m_def [symmetric] not_less add.commute [of n 64])
qed

lemma rv64_ror_eq: "rv64_ror a b = word_rotr (unat (b AND 63)) a"
proof (rule bit_word_eqI)
  fix n assume n: "n < LENGTH(64)"
  define m where "m = unat (b AND 63)"
  have m: "m < 64" by (simp add: m_def and_63_less)
  have "(n + m) mod 64 = (if n + m < 64 then n + m else n + m - 64)"
    using n m by (auto simp: le_mod_geq)
  moreover have "\<not> bit a k" if "64 \<le> k" for k
    using that bit_imp_le_length [of a k] by auto
  ultimately show "bit (rv64_ror a b) n = bit (word_rotr (unat (b AND 63)) a) n"
    using n m
    by (auto simp: rv64_ror_def rv64_sll_def rv64_srl_def bit_simps unat_neg_and_63 m_def [symmetric] not_less ac_simps)
qed

lemma xor_loop_linear:
  fixes f :: "'a::len word \<Rightarrow> 'b::len word"
  assumes "\<And>x y. f (x XOR y) = f x XOR f y"
  shows "f (xor_loop c g xs acc) = xor_loop c (\<lambda>i. f (g i)) xs (f acc)"
  by (induction xs arbitrary: acc) (simp_all add: xor_loop_def assms)

lemma xor_loop_cong:
  "(\<And>i. i \<in> set xs \<Longrightarrow> g i = h i) \<Longrightarrow> xor_loop c g xs acc = xor_loop c h xs acc"
  by (induction xs arbitrary: acc) (simp_all add: xor_loop_def)

lemma clmul_low: "rv64_clmul a b = ucast (clmul_full a b)"
proof -
  have "ucast (shl (ucast a :: u128) i) = shl a i" for i
    by (rule bit_word_eqI) (auto simp: bit_simps)
  moreover have "ucast (x XOR y) = (ucast x XOR ucast y :: u64)" for x y :: u128
    by (rule bit_word_eqI) (auto simp: bit_simps)
  ultimately show ?thesis
    by (simp add: rv64_clmul_def clmul_full_def xor_loop_linear [where f = ucast])
qed

lemma clmul_rev: "rv64_clmulr a b = ucast (shr (clmul_full a b) 63)"
proof -
  have "ucast (shr (shl (ucast a :: u128) i) 63) = shr a (63 - i)" if "i < 64" for i
    using that by (intro bit_word_eqI) (auto simp: bit_simps)
  moreover have "ucast (shr (x XOR y) 63) = (ucast (shr x 63) XOR ucast (shr y 63) :: u64)" for x y :: u128
    by (rule bit_word_eqI) (auto simp: bit_simps)
  ultimately show ?thesis
    using xor_loop_linear [where f = "\<lambda>w. ucast (shr w 63) :: u64" and
        c = "\<lambda>i. shr b i AND 1 \<noteq> 0" and g = "\<lambda>i. shl (ucast a :: u128) i" and xs = "[0..<64]" and acc = 0]
    by (auto simp: rv64_clmulr_def clmul_full_def intro!: xor_loop_cong)
qed

lemma clmul_high: "rv64_clmulh a b = ucast (shr (clmul_full a b) 64)"
proof -
  have *: "ucast (shr (shl (ucast a :: u128) i) 64) = (if i = 0 then 0 else shr a (64 - i))" if "i < 64" for i
    using that by (intro bit_word_eqI) (auto simp: bit_simps dest: bit_imp_le_length)
  have "[0..<64] = 0 # [1..<64]" by (simp add: upt_conv_Cons)
  then have "clmul_full a b = xor_loop (\<lambda>i. shr b i AND 1 \<noteq> 0) (\<lambda>i. shl (ucast a) i) [1..<64]
      (if b AND 1 \<noteq> 0 then ucast a else 0)"
    by (simp add: clmul_full_def xor_loop_def)
  moreover have "ucast (shr (x XOR y) 64) = (ucast (shr x 64) XOR ucast (shr y 64) :: u64)" for x y :: u128
    by (rule bit_word_eqI) (auto simp: bit_simps)
  moreover have "ucast (shr (ucast a :: u128) 64) = (0 :: u64)"
    using * [of 0] by simp
  moreover have "xor_loop c (\<lambda>i. ucast (shr (shl (ucast a :: u128) i) 64)) [1..<64] 0 =
    xor_loop c (\<lambda>i. shr a (64 - i)) [1..<64] (0::u64)" for c
    by (rule xor_loop_cong) (simp add: *)
  ultimately show ?thesis
    by (simp add: rv64_clmulh_def xor_loop_linear [where f = "\<lambda>w. ucast (shr w 64)"])
qed

section \<open>Properties\<close>

text \<open>
  C4. The six masked swap stages of \<open>_rv64_grev\<close> compute the generalised reverse: bit \<open>n\<close> of
  the result is bit \<open>n XOR shamt\<close> of the operand, so \<open>rev8\<close> reverses the bytes of a word and
  \<open>rev.b\<close> the bits of each byte.
\<close>

theorem rv64_grev_spec:
  assumes "n < 64"
  shows "bit (rv64_grev x shamt) n = bit x (n XOR unat (shamt AND 63)) \<and>
         bit (rv_rev8 x) n = bit x (n XOR 56) \<and> bit (rv_revb x) n = bit x (n XOR 7)"
  by (simp add: rv_rev8_def rv_revb_def bit_grev assms)

theorem rv64_grev_spec_witness:
  "bit (rv64_grev 0x0102030405060708 56) 8 = bit (0x0102030405060708 :: u64) (8 XOR 56)"
  using rv64_grev_spec [of 8 "0x0102030405060708" 56] by simp

text \<open>
  \<open>rol\<close> and \<open>ror\<close>, each built from two masked shifts, rotate by the low six bits of the
  amount, whatever the other bits are; hence one undoes the other.
\<close>

lemma rv64_rotate_spec:
  "rv64_rol a b = word_rotl (unat (b AND 63)) a \<and> rv64_ror a b = word_rotr (unat (b AND 63)) a \<and>
   rv64_ror (rv64_rol a b) b = a"
  by (simp add: rv64_rol_eq rv64_ror_eq)

text \<open>
  C5. The three carry-less multiplications are the low half, the high half and the middle
  part (bits 63 to 126) of one 128-bit carry-less product.
\<close>

theorem rv64_clmul_spec:
  "rv64_clmul a b = ucast (clmul_full a b) \<and>
   rv64_clmulh a b = ucast (shr (clmul_full a b) 64) \<and>
   rv64_clmulr a b = ucast (shr (clmul_full a b) 63)"
  by (intro conjI clmul_low clmul_high clmul_rev)

end
