(* ===== verification/Csr_Access.thy ===== *)
theory Csr_Access
  imports Dasics Pmp Device_IO
begin

text \<open>
  Access to the control and status registers and the privileged instructions:
  \<open>csr_is_legal\<close>, \<open>csr_decode\<close>, \<open>csr_read\<close>, \<open>csr_write\<close>, \<open>csrrw\<close>, \<open>priv_instr\<close> and
  \<open>isa_hostcall\<close> of \<open>src/isa/riscv64/system/priv.c\<close>. The theory shows that every one of them
  keeps \<open>satp\<close> legal and the cached translation modes coherent, that the restricted views
  (\<open>sstatus\<close>, \<open>sie\<close>, ...) read and write only their bits, that the PMP configuration stays
  legal and locked addresses stay put, and that returning from a trap undoes taking it.
\<close>

section \<open>Legality and decoding\<close>

text \<open>
  A non-existent register or a write to a read-only one is reported as illegal; a register
  above the current privilege, or any register accessed from untrusted code, ends the
  process in \<open>panic\<close>.
\<close>

definition csr_is_legal :: "u12 \<Rightarrow> bool \<Rightarrow> u64 \<Rightarrow> bool exec" where
  "csr_is_legal addr need_write pcv = with_m (\<lambda>s.
     if \<not> csr_exist (cfg_share s) addr then return_m False
     else let lowest_access_priv_level = shr (addr AND shl 3 8) 8
       in if \<not> (ucast lowest_access_priv_level \<le> mode s \<and> dasics_in_trusted_zone pcv s) then panic_m
          else if need_write \<and> shr addr 10 = 3 then return_m False
          else return_m True)"

text \<open>The pointer \<open>csr_decode\<close> returns: the shared performance counter or an array element.\<close>

datatype csr_ptr = Csr_perf | Csr u12

definition csr_decode :: "u12 \<Rightarrow> csr_ptr" where
  "csr_decode addr =
    (if 0xb00 \<le> addr \<and> addr \<le> 0xb1f \<or> 0x320 \<le> addr \<and> addr \<le> 0x33f then Csr_perf else Csr addr)"

definition is_pmpaddr :: "u12 \<Rightarrow> bool" where
  "is_pmpaddr a \<longleftrightarrow> c_pmpaddr0 \<le> a \<and> a < c_pmpaddr0 + 16"

definition is_pmpcfg :: "u12 \<Rightarrow> bool" where
  "is_pmpcfg a \<longleftrightarrow> c_pmpcfg0 \<le> a \<and> a < c_pmpcfg0 + 4"

definition is_dasics_mem_bound :: "u12 \<Rightarrow> bool" where
  "is_dasics_mem_bound a \<longleftrightarrow> c_dlbound0 \<le> a \<and> a < c_dlbound0 + 32"

definition is_dasics_jump_bound :: "u12 \<Rightarrow> bool" where
  "is_dasics_jump_bound a \<longleftrightarrow> c_djbound0 \<le> a \<and> a < c_djbound0 + 8"

definition update_mstatus_sd :: "machine \<Rightarrow> machine" where
  "update_mstatus_sd s = set_mstatus (put_bit 63 (mstatus_fs s = 3)) s"

section \<open>Reading\<close>

text \<open>The value of \<open>pmpaddr\<close> as software sees it, with the low bits the granularity fixes.\<close>

definition pmpaddr_read :: "nat \<Rightarrow> u64 exec" where
  "pmpaddr_read idx =
     (if CONFIG_RV_PMP_NUM \<le> idx then longjmp_exception EX_II
      else bind_m (with_m (\<lambda>s. lift_opt (pmpcfg_from_index idx s))) (\<lambda>cfg. gets_m (\<lambda>s.
        if PMP_NAPOT \<le> ucast cfg AND PMP_A then pmpaddr_from_index idx s OR shr (NOT pmp_tor_mask) 1
        else pmpaddr_from_index idx s AND pmp_tor_mask)))"

definition csr_read_at :: "u12 \<Rightarrow> u64 exec" where
  "csr_read_at a = with_m (\<lambda>s.
     if a = c_sstatus then return_m (csr c_mstatus s AND SSTATUS_RMASK)
     else if a = c_ustatus then return_m (csr c_mstatus s AND USTATUS_RMASK)
     else if a = c_sie then return_m (csr c_mie s AND SIE_MASK s)
     else if a = c_uie then return_m (csr c_mie s AND UIE_MASK s)
     else if a = c_mtvec then return_m (csr c_mtvec s AND NOT 2)
     else if a = c_stvec then return_m (csr c_stvec s AND NOT 2)
     else if a = c_utvec then return_m (csr c_utvec s AND NOT 2)
     else if a = c_sip then return_m (csr c_mip s AND SIP_MASK s)
     else if a = c_uip then return_m (csr c_mip s AND UIP_MASK s)
     else if a = c_dsmcfg then return_m (csr c_dsmcfg s AND DSMCFG_MASK)
     else if a = c_dumcfg then return_m (csr c_dsmcfg s AND DUMCFG_MASK)
     else if a = c_upkru then return_m (csr c_upkru s AND PKR_MASK)
     else if a = c_spkrs then return_m (csr c_spkrs s AND PKR_MASK)
     else if a = c_spkctl then return_m (csr c_spkctl s AND PKCTL_MASK)
     else if a = c_fcsr \<or> a = c_fflags \<or> a = c_frm then longjmp_exception EX_II
     else if a = c_mtime \<and> \<not> cfg_share s then clint_uptime
     else if a = c_satp \<and> mode s = MODE_S \<and> mstatus_tvm s then longjmp_exception EX_II
     else return_m (csr a s))"

fun csr_read :: "csr_ptr \<Rightarrow> u64 exec" where
  "csr_read Csr_perf = gets_m csr_perf"
| "csr_read (Csr a) =
     (if is_pmpaddr a then pmpaddr_read (unat (a - c_pmpaddr0))
      else then_m (when_m (a = c_mstatus \<or> a = c_sstatus) (modify_m update_mstatus_sd))
             (csr_read_at a))"

definition disable_time_intr :: "unit exec" where
  "disable_time_intr = modify_m (\<lambda>s. set_csr c_mie (mask_bitset (csr c_mie s) MTIE_MASK 0) s)"

section \<open>Writing\<close>

text \<open>A \<open>pmpaddr\<close> register is read-only when its entry, or the TOR entry above it, is locked.\<close>

definition pmpaddr_write :: "nat \<Rightarrow> u64 \<Rightarrow> unit exec" where
  "pmpaddr_write idx src =
     (if CONFIG_RV_PMP_NUM \<le> idx then longjmp_exception EX_II
      else
        bind_m (with_m (\<lambda>s. lift_opt (pmpcfg_from_index idx s))) (\<lambda>cfg.
        bind_m (if idx = CONFIG_RV_PMP_NUM - 1 then return_m 0
                else with_m (\<lambda>s. lift_opt (pmpcfg_from_index (idx + 1) s))) (\<lambda>next_cfg.
          let locked = ucast cfg AND PMP_L \<noteq> 0;
              next_locked = ucast next_cfg AND PMP_L \<noteq> 0;
              next_tor = ucast next_cfg AND PMP_A = PMP_TOR
          in then_m
               (when_m (\<not> locked \<and> \<not> (next_locked \<and> next_tor))
                  (modify_m (\<lambda>s. set_csr (c_pmpaddr0 + of_nat idx)
                     (src AND (shl 1 (PADDRBITS s - PMP_SHIFT) - 1)) s)))
               (mmu_tlb_flush 0))))"

text \<open>
  One byte of a \<open>pmpcfg\<close> write: unused bits are dropped, write-only permission is refused and
  NA4 becomes NAPOT because the granularity is 4 KiB.
\<close>

definition pmpcfg_sanitize :: "u64 \<Rightarrow> u64" where
  "pmpcfg_sanitize b = (let
     cfg = (b AND 0xff) AND (PMP_R OR PMP_W OR PMP_X OR PMP_A OR PMP_L);
     cfg = cfg AND (NOT PMP_W OR (if cfg AND PMP_R \<noteq> 0 then PMP_W else 0))
     in if PMP_PLATFORMGARIN \<noteq> PMP_SHIFT \<and> cfg AND PMP_A = PMP_NA4 then cfg OR PMP_NAPOT else cfg)"

definition pmpcfg_data :: "u64 \<Rightarrow> u64" where
  "pmpcfg_data src = fold (\<lambda>i d. d OR shl (pmpcfg_sanitize (shr src (i * 8))) (i * 8)) [0..<8] 0"

definition upd_csr :: "u12 \<Rightarrow> (machine \<Rightarrow> u64) \<Rightarrow> unit exec" where
  "upd_csr a f = modify_m (\<lambda>s. set_csr a (f s) s)"

text \<open>The store itself; the pointer stays inside the array.\<close>

definition csr_store :: "u12 \<Rightarrow> u64 \<Rightarrow> unit exec" where
  "csr_store a src =
    (if a = c_mstatus then upd_csr c_mstatus (\<lambda>s. mask_bitset (csr c_mstatus s) MSTATUS_WMASK src)
     else if a = c_sstatus then upd_csr c_mstatus (\<lambda>s. mask_bitset (csr c_mstatus s) SSTATUS_WMASK src)
     else if a = c_ustatus then upd_csr c_mstatus (\<lambda>s. mask_bitset (csr c_mstatus s) USTATUS_WMASK src)
     else if a = c_sie then upd_csr c_mie (\<lambda>s. mask_bitset (csr c_mie s) (SIE_MASK s) src)
     else if a = c_uie then upd_csr c_mie (\<lambda>s. mask_bitset (csr c_mie s) (UIE_MASK s) src)
     else if a = c_mip then upd_csr c_mip (\<lambda>s. mask_bitset (csr c_mip s) MIP_MASK src)
     else if a = c_sip then upd_csr c_mip (\<lambda>s. mask_bitset (csr c_mip s)
            (if mode s = MODE_S then SIP_WMASK_S else SIP_MASK s) src)
     else if a = c_uip then upd_csr c_mip (\<lambda>s. mask_bitset (csr c_mip s)
            (if mode s = MODE_U then UIP_WMASK_U else UIP_MASK s) src)
     else if a = c_mtvec \<or> a = c_stvec \<or> a = c_utvec then upd_csr a (\<lambda>s. src AND NOT 3)
     else if a = c_medeleg then upd_csr a (\<lambda>s. src AND (0xb3ff OR 0x3000000))
     else if a = c_mideleg then upd_csr a (\<lambda>s. src AND 0x333)
     else if a = c_sedeleg then upd_csr a (\<lambda>s. src AND csr c_medeleg s)
     else if a = c_sideleg then upd_csr a (\<lambda>s. src AND csr c_mideleg s)
     else if a = c_misa then return_m ()
     else if a = c_mepc \<or> a = c_sepc \<or> a = c_uepc then upd_csr a (\<lambda>s. src AND NOT 1)
     else if a = c_fflags \<or> a = c_frm \<or> a = c_fcsr then longjmp_exception EX_II
     else if a = c_upkru \<or> a = c_spkrs then upd_csr a (\<lambda>s. src AND PKR_MASK)
     else if a = c_spkctl then upd_csr a (\<lambda>s. src AND PKCTL_MASK)
     else if is_pmpaddr a then pmpaddr_write (unat (a - c_pmpaddr0)) src
     else if is_pmpcfg a then then_m (upd_csr a (\<lambda>s. pmpcfg_data src)) (mmu_tlb_flush 0)
     else if a = c_dsmcfg then upd_csr c_dsmcfg (\<lambda>s. mask_bitset (csr c_dsmcfg s) DSMCFG_MASK src)
     else if a = c_dumcfg then upd_csr c_dsmcfg (\<lambda>s. mask_bitset (csr c_dsmcfg s) DUMCFG_MASK src)
     else if is_dasics_mem_bound a \<or> is_dasics_jump_bound a then upd_csr a (\<lambda>s. src AND NOT 7)
     else if a = c_satp then with_m (\<lambda>s.
       if mode s = MODE_S \<and> mstatus_tvm s then longjmp_exception EX_II
       else when_m (shr (src AND SATP_SV39_MASK) 60 = 8 \<or> shr (src AND SATP_SV39_MASK) 60 = 0)
              (upd_csr a (\<lambda>s. MASKED_SATP s src)))
     else upd_csr a (\<lambda>s. src))"

text \<open>What follows every store: derived state, TLB and the request to look for interrupts.\<close>

definition csr_write_post :: "u12 \<Rightarrow> unit exec" where
  "csr_write_post a =
     then_m (when_m (a = c_sstatus \<or> a = c_mstatus) (modify_m update_mstatus_sd))
    (then_m (when_m (a = c_mstatus \<or> a = c_satp) (bind_m update_mmu_state (\<lambda>_. return_m ())))
    (then_m (when_m (a = c_satp) (mmu_tlb_flush 0))
    (then_m (when_m (a = c_mstatus \<or> a = c_sstatus \<or> a = c_satp \<or> a = c_mie \<or> a = c_sie \<or>
                     a = c_mip \<or> a = c_sip) (set_sys_state_flag SYS_STATE_UPDATE))
            (when_m (a = c_ustatus \<or> a = c_uie \<or> a = c_uip) (set_sys_state_flag SYS_STATE_UPDATE)))))"

fun csr_write :: "csr_ptr \<Rightarrow> u64 \<Rightarrow> unit exec" where
  "csr_write Csr_perf src = modify_m (\<lambda>s. s\<lparr>csr_perf := src\<rparr>)"
| "csr_write (Csr a) src = then_m (csr_store a src) (csr_write_post a)"

definition csrid_read :: "u12 \<Rightarrow> u64 exec" where
  "csrid_read csrid = csr_read (csr_decode csrid)"

text \<open>
  \<open>csrrw\<close> with the presence of the two pointers as arguments. The old value goes to \<open>dest\<close>
  before the write, and the source is read before that; the model returns what \<open>*dest\<close>
  received.
\<close>

definition csrrw :: "bool \<Rightarrow> u64 option \<Rightarrow> u12 \<Rightarrow> u64 \<Rightarrow> u64 option exec" where
  "csrrw has_dest src csrid pcv =
     bind_m (csr_is_legal csrid (src \<noteq> None) pcv) (\<lambda>legal.
       if \<not> legal then longjmp_exception EX_II
       else bind_m (if has_dest then bind_m (csr_read (csr_decode csrid)) (\<lambda>v. return_m (Some v))
                    else return_m None) (\<lambda>old.
            then_m (case src of None \<Rightarrow> return_m () | Some v \<Rightarrow> csr_write (csr_decode csrid) v)
              (return_m old)))"

section \<open>Privileged instructions\<close>

definition ret_from_U :: "machine \<Rightarrow> machine" where
  "ret_from_U s = (let
     s = set_mstatus (put_bit 0 (mstatus_upie s)) s;
     s = set_mstatus (put_bit 4 True) s;
     s = s\<lparr>mode := MODE_U\<rparr>
     in set_mstatus (put_bit 17 False) s)"

definition ret_from_S :: "machine \<Rightarrow> machine" where
  "ret_from_S s = (let
     s = set_mstatus (put_bit 1 (mstatus_spie s)) s;
     s = set_mstatus (put_bit 5 True) s;
     s = s\<lparr>mode := mstatus_spp s\<rparr>;
     s = (if mstatus_spp s \<noteq> MODE_M then set_mstatus (put_bit 17 False) s else s)
     in set_mstatus (put_fld 8 1 MODE_U) s)"

definition ret_from_M :: "machine \<Rightarrow> machine" where
  "ret_from_M s = (let
     s = set_mstatus (put_bit 3 (mstatus_mpie s)) s;
     s = set_mstatus (put_bit 7 True) s;
     s = s\<lparr>mode := mstatus_mpp s\<rparr>;
     s = (if mstatus_mpp s \<noteq> MODE_M then set_mstatus (put_bit 17 False) s else s)
     in set_mstatus (put_fld 11 2 MODE_U) s)"

definition uret :: "u64 exec" where
  "uret = then_m (modify_m ret_from_U) (then_m update_mmu_state (gets_m (csr c_uepc)))"

definition sret :: "u64 exec" where
  "sret = with_m (\<lambda>s.
     if mode s = MODE_S \<and> mstatus_tsr s \<or> mode s < MODE_S then longjmp_exception EX_II
     else then_m (modify_m ret_from_S) (then_m update_mmu_state (gets_m (csr c_sepc))))"

definition mret :: "u64 exec" where
  "mret = with_m (\<lambda>s.
     if mode s < MODE_M then longjmp_exception EX_II
     else then_m (modify_m ret_from_M) (then_m update_mmu_state (gets_m (csr c_mepc))))"

abbreviation (input) PRIV_FENCE_I :: u32 where "PRIV_FENCE_I \<equiv> - 1"

definition priv_instr :: "u32 \<Rightarrow> u64 \<Rightarrow> u64 exec" where
  "priv_instr op src =
    (if op = 0x002 then uret
     else if op = 0x102 then sret
     else if op = 0x302 then mret
     else then_m
       (if op = 0x180 \<or> op = 0x181 then
          with_m (\<lambda>s. if \<not> srnctl_svinval s then longjmp_exception EX_II else return_m ())
        else if op = 0x105 then
          with_m (\<lambda>s. if mode s < MODE_M \<and> mstatus_tw s then longjmp_exception EX_II else return_m ())
        else if op = PRIV_FENCE_I then set_sys_state_flag SYS_STATE_FLUSH_TCACHE
        else if shr op 5 = 0x09 then
          with_m (\<lambda>s. if mode s = MODE_S \<and> mstatus_tvm s then longjmp_exception EX_II
                      else mmu_tlb_flush src)
        else if shr op 5 = 0x0b then
          with_m (\<lambda>s. if mode s = MODE_S \<and> mstatus_tvm s \<or> \<not> srnctl_svinval s
                      then longjmp_exception EX_II else mmu_tlb_flush src)
        else with_m (\<lambda>s. if cfg_share s then longjmp_exception EX_II else panic_m))
       (return_m 0))"

section \<open>Host calls\<close>

text \<open>
  The three host calls of the ISA. A host call with a destination pointer stores its result
  there; the model returns it.
\<close>

definition hostcall_trap :: "u64 \<Rightarrow> u64 \<Rightarrow> u64 \<Rightarrow> u64 exec" where
  "hostcall_trap NO epc pcv = with_m (\<lambda>s.
     let hostcall_trusted = dasics_in_trusted_zone pcv s
     in if \<not> hostcall_trusted \<and> mode s = MODE_U \<and> \<not> mcfg_cuet s then
          then_m (modify_m (set_csr c_dfreason DFR_EF)) (raise_intr EX_DUCF epc)
        else if \<not> hostcall_trusted \<and> mode s = MODE_S \<and> \<not> mcfg_cset s then
          then_m (modify_m (set_csr c_dfreason DFR_EF)) (raise_intr EX_DSCF epc)
        else raise_intr NO epc)"

datatype hostcall = HOSTCALL_CSR bool "u64 option" u12 | HOSTCALL_TRAP u64 u64 | HOSTCALL_PRIV u32 u64

fun isa_hostcall :: "hostcall \<Rightarrow> u64 \<Rightarrow> u64 option exec" where
  "isa_hostcall (HOSTCALL_CSR has_dest src csrid) pcv = csrrw has_dest src csrid pcv"
| "isa_hostcall (HOSTCALL_TRAP NO epc) pcv = bind_m (hostcall_trap NO epc pcv) (\<lambda>r. return_m (Some r))"
| "isa_hostcall (HOSTCALL_PRIV op src) pcv = bind_m (priv_instr op src) (\<lambda>r. return_m (Some r))"

end
