(* ===== verification/Exec.thy ===== *)
theory Exec
  imports Decode C_Ops Rvb Csr_Access
begin

text \<open>
  The execution helpers: \<open>src/isa/riscv64/instr/{rvi,rvm,rvc,rvb,rva,priv}\<close>, \<open>pseudo.h\<close> and
  \<open>special.h\<close>, over the RTL operations with state of \<open>src/engine/interpreter/rtl-basic.h\<close>, the
  host calls of \<open>src/engine/interpreter/hostcall.c\<close> and \<open>local-include/rtl.h\<close>. The temporaries
  \<open>s0\<close>, \<open>s1\<close>, \<open>s2\<close> and \<open>t0\<close> are written before they are read in every helper, so they are
  local values here. \<open>rtl_dasics_jcheck\<close> has an empty body and \<open>rtl_priv_next\<close> is empty outside
  the performance build; SimPoint profiling and DiffTest's \<open>skip\<close> calls do not touch the machine.
\<close>

section \<open>Operands\<close>

text \<open>
  Dereferencing \<open>preg\<close>. An operand that holds an immediate is not a pointer: the host process
  would crash, which the model shows as an abort.
\<close>

fun get_preg :: "operand \<Rightarrow> machine \<Rightarrow> u64 option" where
  "get_preg (Preg r) s = Some (gpr s r)"
| "get_preg Pzero_null s = Some (zero_null s)"
| "get_preg (Imm _) s = None"

fun put_preg :: "operand \<Rightarrow> u64 \<Rightarrow> unit exec" where
  "put_preg (Preg r) v = modify_m (set_gpr r v)"
| "put_preg Pzero_null v = modify_m (\<lambda>s. s\<lparr>zero_null := v\<rparr>)"
| "put_preg (Imm _) v = panic_m"

definition load_preg :: "operand \<Rightarrow> u64 exec" where
  "load_preg op = with_m (\<lambda>s. lift_opt (get_preg op s))"

definition with_dec :: "(Decode \<Rightarrow> 'a exec) \<Rightarrow> 'a exec" where
  "with_dec f = with_m (\<lambda>s. f (dec s))"

definition dsrc1 :: "(u64 \<Rightarrow> 'a exec) \<Rightarrow> 'a exec" where
  "dsrc1 f = with_dec (\<lambda>d. bind_m (load_preg (id_src1 d)) f)"

definition dsrc2 :: "(u64 \<Rightarrow> 'a exec) \<Rightarrow> 'a exec" where
  "dsrc2 f = with_dec (\<lambda>d. bind_m (load_preg (id_src2 d)) f)"

definition ddest :: "(u64 \<Rightarrow> 'a exec) \<Rightarrow> 'a exec" where
  "ddest f = with_dec (\<lambda>d. bind_m (load_preg (id_dest d)) f)"

definition set_ddest :: "u64 \<Rightarrow> unit exec" where
  "set_ddest v = with_dec (\<lambda>d. put_preg (id_dest d) v)"

definition src1_imm :: "(u64 \<Rightarrow> 'a exec) \<Rightarrow> 'a exec" where
  "src1_imm f = with_dec (\<lambda>d. bind_m (lift_opt (get_imm (id_src1 d))) f)"

definition src2_imm :: "(u64 \<Rightarrow> 'a exec) \<Rightarrow> 'a exec" where
  "src2_imm f = with_dec (\<lambda>d. bind_m (lift_opt (get_imm (id_src2 d))) f)"

definition dest_imm :: "(u64 \<Rightarrow> 'a exec) \<Rightarrow> 'a exec" where
  "dest_imm f = with_dec (\<lambda>d. bind_m (lift_opt (get_imm (id_dest d))) f)"

text \<open>
  The shapes of \<open>def_rtl_compute_reg\<close> and \<open>def_rtl_compute_imm\<close>: destination and two sources, a
  source and an immediate, or the destination as first source.
\<close>

definition exec_r :: "(u64 \<Rightarrow> u64) \<Rightarrow> unit exec" where
  "exec_r f = dsrc1 (\<lambda>a. set_ddest (f a))"

definition exec_rr :: "(u64 \<Rightarrow> u64 \<Rightarrow> u64) \<Rightarrow> unit exec" where
  "exec_rr f = dsrc1 (\<lambda>a. dsrc2 (\<lambda>b. set_ddest (f a b)))"

definition exec_rr_opt :: "(u64 \<Rightarrow> u64 \<Rightarrow> u64 option) \<Rightarrow> unit exec" where
  "exec_rr_opt f = dsrc1 (\<lambda>a. dsrc2 (\<lambda>b. bind_m (lift_opt (f a b)) set_ddest))"

definition exec_ri :: "(u64 \<Rightarrow> u64 \<Rightarrow> u64) \<Rightarrow> unit exec" where
  "exec_ri f = dsrc1 (\<lambda>a. src2_imm (\<lambda>b. set_ddest (f a b)))"

definition exec_ri_opt :: "(u64 \<Rightarrow> u64 \<Rightarrow> u64 option) \<Rightarrow> unit exec" where
  "exec_ri_opt f = dsrc1 (\<lambda>a. src2_imm (\<lambda>b. bind_m (lift_opt (f a b)) set_ddest))"

definition exec_dr :: "(u64 \<Rightarrow> u64 \<Rightarrow> u64) \<Rightarrow> unit exec" where
  "exec_dr f = ddest (\<lambda>a. dsrc2 (\<lambda>b. set_ddest (f a b)))"

definition exec_di :: "(u64 \<Rightarrow> u64 \<Rightarrow> u64) \<Rightarrow> unit exec" where
  "exec_di f = ddest (\<lambda>a. src2_imm (\<lambda>b. set_ddest (f a b)))"

section \<open>RTL operations with state\<close>

definition record_mem_event :: "bool \<Rightarrow> operand \<Rightarrow> u64 \<Rightarrow> unit exec" where
  "record_mem_event is_load addr offset = with_m (\<lambda>s.
     when_m (cfg_share s) (bind_m (load_preg addr) (\<lambda>base. modify_m (\<lambda>s. s\<lparr>query_mem_event :=
       \<lparr>ev_pc = current_pc s, ev_access = True, ev_is_load = is_load, ev_vaddr = base + offset\<rparr>\<rparr>))))"

definition rtl_lm :: "operand \<Rightarrow> operand \<Rightarrow> u64 \<Rightarrow> nat \<Rightarrow> mmu_mode \<Rightarrow> unit exec" where
  "rtl_lm dst addr offset len mmu_mode = bind_m (load_preg addr) (\<lambda>base.
     bind_m (with_dec (\<lambda>d. vaddr_read (Some (dec_pc d)) (base + offset) len mmu_mode)) (\<lambda>v.
     then_m (put_preg dst v) (record_mem_event True addr offset)))"

definition rtl_sm :: "u64 \<Rightarrow> operand \<Rightarrow> u64 \<Rightarrow> nat \<Rightarrow> mmu_mode \<Rightarrow> unit exec" where
  "rtl_sm v addr offset len mmu_mode = bind_m (load_preg addr) (\<lambda>base.
     then_m (with_dec (\<lambda>d. vaddr_write (dec_pc d) (base + offset) len v mmu_mode))
       (record_mem_event False addr offset))"

text \<open>
  The value of \<open>rtl_lms\<close>, whose switch returns in every case, so that its last statements, which
  would record the access, are not reached.
\<close>

definition lms_sext :: "nat \<Rightarrow> u64 \<Rightarrow> u64 option" where
  "lms_sext len v =
    (if len = 4 then Some (scast (ucast v :: u32))
     else if len = 1 then Some (scast (ucast v :: u8))
     else if len = 2 then Some (scast (ucast v :: u16))
     else if len = 8 then Some v
     else None)"

definition lms_value :: "operand \<Rightarrow> u64 \<Rightarrow> nat \<Rightarrow> mmu_mode \<Rightarrow> u64 exec" where
  "lms_value addr offset len mmu_mode = bind_m (load_preg addr) (\<lambda>base.
     bind_m (with_dec (\<lambda>d. vaddr_read (Some (dec_pc d)) (base + offset) len mmu_mode)) (\<lambda>v.
     lift_opt (lms_sext len v)))"

definition rtl_lms :: "operand \<Rightarrow> operand \<Rightarrow> u64 \<Rightarrow> nat \<Rightarrow> mmu_mode \<Rightarrow> unit exec" where
  "rtl_lms dst addr offset len mmu_mode =
     bind_m (lms_value addr offset len mmu_mode) (put_preg dst)"

definition rtl_j :: "u64 \<Rightarrow> unit exec" where
  "rtl_j target = modify_m (\<lambda>s.
     if cfg_share s \<and> guided_exec s \<and> force_set_jump_target (execution_guide s) \<and>
        jump_target (execution_guide s) \<noteq> target
     then s\<lparr>pc := jump_target (execution_guide s)\<rparr>
     else s\<lparr>pc := target\<rparr>)"

definition rtl_jr :: "u64 \<Rightarrow> unit exec" where
  "rtl_jr target = modify_m (\<lambda>s.
     if cfg_share s \<and> guided_exec s \<and> force_set_jump_target (execution_guide s) \<and>
        jump_target (execution_guide s) \<noteq> target
     then s\<lparr>pc := jump_target (execution_guide s)\<rparr>
     else s\<lparr>pc := target\<rparr>)"

definition rtl_jrelop :: "nat \<Rightarrow> u64 \<Rightarrow> u64 \<Rightarrow> u64 \<Rightarrow> unit exec" where
  "rtl_jrelop relop a b target = bind_m (lift_opt (interpret_relop relop a b)) (\<lambda>is_jmp.
     with_dec (\<lambda>d. rtl_j (if is_jmp then target else dec_snpc d)))"

definition rtl_priv_jr :: "u64 \<Rightarrow> unit exec" where
  "rtl_priv_jr target = modify_m (\<lambda>s.
     if cfg_share s \<and> guided_exec s \<and> force_set_jump_target (execution_guide s) \<and>
        jump_target (execution_guide s) \<noteq> target
     then s\<lparr>pc := jump_target (execution_guide s)\<rparr>
     else s\<lparr>pc := target\<rparr>)"

definition rtl_set_dretpc :: "u64 \<Rightarrow> unit exec" where
  "rtl_set_dretpc v = then_m (with_dec (\<lambda>d. dasics_check_trusted (dec_pc d)))
     (modify_m (set_csr c_dretpc v))"

section \<open>Host calls\<close>

text \<open>
  \<open>invalid_instr\<close>; the stand-alone build fetches eight bytes for its message before it gives up.
\<close>

definition invalid_instr :: "u64 \<Rightarrow> unit exec" where
  "invalid_instr thispc = with_m (\<lambda>s.
     if cfg_share s then longjmp_exception EX_II
     else bind_m (instr_fetch thispc 4) (\<lambda>(t0, pc1). bind_m (instr_fetch pc1 4) (\<lambda>(t1, pc2).
       set_nemu_state NEMU_ABORT thispc (- 1))))"

text \<open>
  \<open>rtl_hostcall\<close> with the values its pointer arguments point to; the result is what the call
  stores through \<open>dest\<close>. The floating-point call is not part of this build.
\<close>

datatype rtl_call = HOSTCALL_EXIT u64 | HOSTCALL_INV | HOSTCALL_PIO u64 u64 u64 | HOSTCALL_ISA hostcall

fun rtl_hostcall :: "rtl_call \<Rightarrow> u64 option exec" where
  "rtl_hostcall (HOSTCALL_EXIT src1) =
     then_m (with_dec (\<lambda>d. set_nemu_state NEMU_END (dec_pc d) (ucast src1))) (return_m None)"
| "rtl_hostcall HOSTCALL_INV = then_m (with_dec (\<lambda>d. invalid_instr (dec_pc d))) (return_m None)"
| "rtl_hostcall (HOSTCALL_PIO dst src1 imm) =
    (let width = unat (imm AND 0xf); is_in = (imm AND NOT 0xf) \<noteq> 0
     in if is_in then bind_m (pio_read (ucast src1) width) (\<lambda>v. return_m (Some (ucast v)))
        else then_m (pio_write (ucast dst) width (ucast src1)) (return_m None))"
| "rtl_hostcall (HOSTCALL_ISA call) = with_dec (\<lambda>d. isa_hostcall call (dec_pc d))"

definition hostcall_value :: "hostcall \<Rightarrow> u64 exec" where
  "hostcall_value call = bind_m (rtl_hostcall (HOSTCALL_ISA call)) lift_opt"

definition rtl_trap :: "u64 \<Rightarrow> u64 \<Rightarrow> u64 exec" where
  "rtl_trap ret_pc NO = bind_m (hostcall_value (HOSTCALL_TRAP NO (rtl_li ret_pc))) (\<lambda>t0.
     then_m (rtl_priv_jr t0) (return_m t0))"

section \<open>Base instructions\<close>

fun exec_compute :: "compute_id \<Rightarrow> unit exec" where
  "exec_compute EXEC_ID_add = exec_rr c_add"
| "exec_compute EXEC_ID_sub = exec_rr c_sub"
| "exec_compute EXEC_ID_sll = exec_rr c_shl"
| "exec_compute EXEC_ID_sra = exec_rr c_sar"
| "exec_compute EXEC_ID_srl = exec_rr c_shr"
| "exec_compute EXEC_ID_slt = exec_rr_opt (rtl_setrelop RELOP_LT)"
| "exec_compute EXEC_ID_sltu = exec_rr_opt (rtl_setrelop RELOP_LTU)"
| "exec_compute EXEC_ID_xor = exec_rr c_xor"
| "exec_compute EXEC_ID_or = exec_rr c_or"
| "exec_compute EXEC_ID_and = exec_rr c_and"
| "exec_compute EXEC_ID_addi = exec_ri c_add"
| "exec_compute EXEC_ID_slli = exec_ri c_shl"
| "exec_compute EXEC_ID_srai = exec_ri c_sar"
| "exec_compute EXEC_ID_srli = exec_ri c_shr"
| "exec_compute EXEC_ID_slti = exec_ri_opt (rtl_setrelop RELOP_LT)"
| "exec_compute EXEC_ID_sltui = exec_ri_opt (rtl_setrelop RELOP_LTU)"
| "exec_compute EXEC_ID_xori = exec_ri c_xor"
| "exec_compute EXEC_ID_ori = exec_ri c_or"
| "exec_compute EXEC_ID_andi = exec_ri c_and"
| "exec_compute EXEC_ID_auipc = src1_imm (\<lambda>imm. set_ddest (rtl_li imm))"
| "exec_compute EXEC_ID_lui = src1_imm (\<lambda>imm. set_ddest (rtl_li imm))"
| "exec_compute EXEC_ID_addw = exec_rr c_addw"
| "exec_compute EXEC_ID_subw = exec_rr c_subw"
| "exec_compute EXEC_ID_sllw = exec_rr c_shlw"
| "exec_compute EXEC_ID_srlw = exec_rr c_shrw"
| "exec_compute EXEC_ID_sraw = exec_rr c_sarw"
| "exec_compute EXEC_ID_addiw = exec_ri c_addw"
| "exec_compute EXEC_ID_slliw = exec_ri c_shlw"
| "exec_compute EXEC_ID_srliw = exec_ri c_shrw"
| "exec_compute EXEC_ID_sraiw = exec_ri c_sarw"

definition branch :: "nat \<Rightarrow> unit exec" where
  "branch relop = dsrc1 (\<lambda>a. dsrc2 (\<lambda>b. dest_imm (\<lambda>target. rtl_jrelop relop a b target)))"

text \<open>The link value of an indirect jump; a guided jump links to the guide's target.\<close>

definition link_value :: "u64 exec" where
  "link_value = with_m (\<lambda>s. return_m
     (if cfg_share s \<and> guided_exec s \<and> force_set_jump_target (execution_guide s)
      then jump_target (execution_guide s) else dec_snpc (dec s)))"

fun exec_control :: "control_id \<Rightarrow> unit exec" where
  "exec_control EXEC_ID_jal = src2_imm (\<lambda>link. src1_imm (\<lambda>target.
     then_m (set_ddest (rtl_li link)) (rtl_j target)))"
| "exec_control EXEC_ID_jalr = dsrc1 (\<lambda>a. src2_imm (\<lambda>imm.
     let s0 = c_and (c_add a imm) (NOT 1)
     in bind_m link_value (\<lambda>link. then_m (set_ddest (rtl_li link)) (rtl_jr s0))))"
| "exec_control EXEC_ID_dasicscall_j = src2_imm (\<lambda>link. src1_imm (\<lambda>target.
     then_m (rtl_set_dretpc link) (then_m (set_ddest (rtl_li link)) (rtl_j target))))"
| "exec_control EXEC_ID_dasicscall_jr = dsrc1 (\<lambda>a. src2_imm (\<lambda>imm.
     let s0 = c_and (c_add a imm) (NOT 1)
     in bind_m link_value (\<lambda>link. then_m (rtl_set_dretpc link)
          (then_m (set_ddest (rtl_li link)) (rtl_jr s0)))))"
| "exec_control EXEC_ID_beq = branch RELOP_EQ"
| "exec_control EXEC_ID_bne = branch RELOP_NE"
| "exec_control EXEC_ID_blt = branch RELOP_LT"
| "exec_control EXEC_ID_bge = branch RELOP_GE"
| "exec_control EXEC_ID_bltu = branch RELOP_LTU"
| "exec_control EXEC_ID_bgeu = branch RELOP_GEU"

definition exec_lms :: "nat \<Rightarrow> mmu_mode \<Rightarrow> unit exec" where
  "exec_lms width mmu_mode = with_dec (\<lambda>d. src2_imm (\<lambda>imm.
     rtl_lms (id_dest d) (id_src1 d) imm width mmu_mode))"

definition exec_lm :: "nat \<Rightarrow> mmu_mode \<Rightarrow> unit exec" where
  "exec_lm width mmu_mode = with_dec (\<lambda>d. src2_imm (\<lambda>imm.
     rtl_lm (id_dest d) (id_src1 d) imm width mmu_mode))"

definition exec_sm :: "nat \<Rightarrow> mmu_mode \<Rightarrow> unit exec" where
  "exec_sm width mmu_mode = with_dec (\<lambda>d. src2_imm (\<lambda>imm. ddest (\<lambda>v.
     rtl_sm v (id_src1 d) imm width mmu_mode)))"

fun exec_ldst :: "ldst_id \<Rightarrow> mmu_mode \<Rightarrow> unit exec" where
  "exec_ldst EXEC_ID_ld m = exec_lms 8 m"
| "exec_ldst EXEC_ID_lw m = exec_lms 4 m"
| "exec_ldst EXEC_ID_lh m = exec_lms 2 m"
| "exec_ldst EXEC_ID_lb m = exec_lms 1 m"
| "exec_ldst EXEC_ID_lwu m = exec_lm 4 m"
| "exec_ldst EXEC_ID_lhu m = exec_lm 2 m"
| "exec_ldst EXEC_ID_lbu m = exec_lm 1 m"
| "exec_ldst EXEC_ID_sd m = exec_sm 8 m"
| "exec_ldst EXEC_ID_sw m = exec_sm 4 m"
| "exec_ldst EXEC_ID_sh m = exec_sm 2 m"
| "exec_ldst EXEC_ID_sb m = exec_sm 1 m"

definition exec_fence_i :: "unit exec" where
  "exec_fence_i = bind_m (rtl_hostcall (HOSTCALL_ISA (HOSTCALL_PRIV (- 1) 0))) (\<lambda>_. return_m ())"

definition exec_fence :: "unit exec" where
  "exec_fence = return_m ()"

section \<open>M, C and B extensions, pseudo instructions\<close>

fun exec_rvm :: "rvm_id \<Rightarrow> unit exec" where
  "exec_rvm EXEC_ID_mul = exec_rr rvm_mul"
| "exec_rvm EXEC_ID_mulh = exec_rr rvm_mulh"
| "exec_rvm EXEC_ID_mulhu = exec_rr rvm_mulhu"
| "exec_rvm EXEC_ID_mulhsu = exec_rr rvm_mulhsu"
| "exec_rvm EXEC_ID_div = exec_rr_opt rvm_div"
| "exec_rvm EXEC_ID_divu = exec_rr_opt rvm_divu"
| "exec_rvm EXEC_ID_rem = exec_rr_opt rvm_rem"
| "exec_rvm EXEC_ID_remu = exec_rr_opt rvm_remu"
| "exec_rvm EXEC_ID_mulw = exec_rr rvm_mulw"
| "exec_rvm EXEC_ID_divw = exec_rr_opt rvm_divw"
| "exec_rvm EXEC_ID_remw = exec_rr_opt rvm_remw"
| "exec_rvm EXEC_ID_divuw = exec_rr_opt rvm_divuw"
| "exec_rvm EXEC_ID_remuw = exec_rr_opt rvm_remuw"

text \<open>
  \<open>exec_c_jr\<close>: the reference build clears the least significant bit of the target, the
  stand-alone one does not.
\<close>

definition jr_target :: "u64 \<Rightarrow> u64 exec" where
  "jr_target a = with_m (\<lambda>s. return_m (if cfg_share s then c_and a (NOT 1) else a))"

definition exec_c_jr :: "unit exec" where
  "exec_c_jr = dsrc1 (\<lambda>a. bind_m (jr_target a) rtl_jr)"

definition exec_c_jalr :: "unit exec" where
  "exec_c_jalr = dsrc1 (\<lambda>a. bind_m (jr_target a) (\<lambda>t.
     with_dec (\<lambda>d. then_m (modify_m (set_gpr 1 (rtl_li (dec_snpc d))))
       (with_m (\<lambda>s. if cfg_share s then rtl_jr t else dsrc1 rtl_jr)))))"

definition branch_z :: "nat \<Rightarrow> unit exec" where
  "branch_z relop = dsrc1 (\<lambda>a. dest_imm (\<lambda>target. rtl_jrelop relop a 0 target))"

definition branch_z2 :: "nat \<Rightarrow> unit exec" where
  "branch_z2 relop = dsrc2 (\<lambda>b. dest_imm (\<lambda>target. rtl_jrelop relop 0 b target))"

fun exec_rvc :: "rvc_id \<Rightarrow> unit exec" where
  "exec_rvc EXEC_ID_c_j = src1_imm rtl_j"
| "exec_rvc EXEC_ID_c_jr = exec_c_jr"
| "exec_rvc EXEC_ID_c_jalr = exec_c_jalr"
| "exec_rvc EXEC_ID_c_beqz = branch_z RELOP_EQ"
| "exec_rvc EXEC_ID_c_bnez = branch_z RELOP_NE"
| "exec_rvc EXEC_ID_c_li = src2_imm (\<lambda>imm. set_ddest (rtl_li imm))"
| "exec_rvc EXEC_ID_c_addi = exec_di c_add"
| "exec_rvc EXEC_ID_c_addiw = exec_di c_addw"
| "exec_rvc EXEC_ID_c_slli = exec_di c_shl"
| "exec_rvc EXEC_ID_c_srli = exec_di c_shr"
| "exec_rvc EXEC_ID_c_srai = exec_di c_sar"
| "exec_rvc EXEC_ID_c_andi = exec_di c_and"
| "exec_rvc EXEC_ID_c_mv = exec_r rtl_mv"
| "exec_rvc EXEC_ID_c_add = exec_dr c_add"
| "exec_rvc EXEC_ID_c_and = exec_dr c_and"
| "exec_rvc EXEC_ID_c_or = exec_dr c_or"
| "exec_rvc EXEC_ID_c_xor = exec_dr c_xor"
| "exec_rvc EXEC_ID_c_sub = exec_dr c_sub"
| "exec_rvc EXEC_ID_c_addw = exec_dr c_addw"
| "exec_rvc EXEC_ID_c_subw = exec_dr c_subw"

fun exec_pseudo :: "pseudo_id \<Rightarrow> unit exec" where
  "exec_pseudo EXEC_ID_p_sext_w = exec_r (\<lambda>a. c_addw a 0)"
| "exec_pseudo EXEC_ID_p_blez = branch_z2 RELOP_GE"
| "exec_pseudo EXEC_ID_p_bgtz = branch_z2 RELOP_LT"
| "exec_pseudo EXEC_ID_p_bltz = branch_z RELOP_LT"
| "exec_pseudo EXEC_ID_p_bgez = branch_z RELOP_GE"
| "exec_pseudo EXEC_ID_p_jal = src2_imm (\<lambda>link. src1_imm (\<lambda>target.
     then_m (modify_m (set_gpr 1 (rtl_li link))) (rtl_j target)))"
| "exec_pseudo EXEC_ID_p_ret = with_m (\<lambda>s. bind_m (jr_target (gpr s 1)) rtl_jr)"
| "exec_pseudo EXEC_ID_p_li_0 = set_ddest (rtl_li 0)"
| "exec_pseudo EXEC_ID_p_li_1 = set_ddest (rtl_li 1)"
| "exec_pseudo EXEC_ID_p_inc = ddest (\<lambda>a. set_ddest (c_add a 1))"
| "exec_pseudo EXEC_ID_p_dec = ddest (\<lambda>a. set_ddest (c_sub a 1))"

fun exec_rvb :: "rvb_id \<Rightarrow> unit exec" where
  "exec_rvb EXEC_ID_clz = exec_r rv64_clz"
| "exec_rvb EXEC_ID_ctz = exec_r rv64_ctz"
| "exec_rvb EXEC_ID_cpop = exec_r rv64_cpop"
| "exec_rvb EXEC_ID_sext_b = exec_r rv64_sext_b"
| "exec_rvb EXEC_ID_sext_h = exec_r rv64_sext_h"
| "exec_rvb EXEC_ID_zext_h = exec_r rv64_zext_h"
| "exec_rvb EXEC_ID_rev8 = exec_r rv_rev8"
| "exec_rvb EXEC_ID_revb = exec_r rv_revb"
| "exec_rvb EXEC_ID_orc_b = exec_r rv_orc_b"
| "exec_rvb EXEC_ID_clzw = exec_r (\<lambda>a. scast (rv32_clz (ucast a)))"
| "exec_rvb EXEC_ID_ctzw = exec_r (\<lambda>a. scast (rv32_ctz (ucast a)))"
| "exec_rvb EXEC_ID_cpopw = exec_r (\<lambda>a. scast (rv32_cpop (ucast a)))"
| "exec_rvb EXEC_ID_andn = exec_rr rv_andn"
| "exec_rvb EXEC_ID_orn = exec_rr rv_orn"
| "exec_rvb EXEC_ID_xnor = exec_rr rv_xnor"
| "exec_rvb EXEC_ID_rol = exec_rr rv64_rol"
| "exec_rvb EXEC_ID_rolw = exec_rr (\<lambda>a b. scast (rv32_rol (ucast a) (ucast b)))"
| "exec_rvb EXEC_ID_ror = exec_rr rv64_ror"
| "exec_rvb EXEC_ID_rori = exec_ri rv64_ror"
| "exec_rvb EXEC_ID_rorw = exec_rr (\<lambda>a b. scast (rv32_ror (ucast a) (ucast b)))"
| "exec_rvb EXEC_ID_roriw = exec_ri (\<lambda>a b. scast (rv32_ror (ucast a) (ucast b)))"
| "exec_rvb EXEC_ID_bclr = exec_rr rv64_bclr"
| "exec_rvb EXEC_ID_bclri = exec_ri rv64_bclr"
| "exec_rvb EXEC_ID_bset = exec_rr rv64_bset"
| "exec_rvb EXEC_ID_bseti = exec_ri rv64_bset"
| "exec_rvb EXEC_ID_binv = exec_rr rv64_binv"
| "exec_rvb EXEC_ID_binvi = exec_ri rv64_binv"
| "exec_rvb EXEC_ID_bext = exec_rr rv64_bext"
| "exec_rvb EXEC_ID_bexti = exec_ri rv64_bext"
| "exec_rvb EXEC_ID_clmul = exec_rr rv64_clmul"
| "exec_rvb EXEC_ID_clmulr = exec_rr rv64_clmulr"
| "exec_rvb EXEC_ID_clmulh = exec_rr rv64_clmulh"
| "exec_rvb EXEC_ID_min = exec_rr rv64_min"
| "exec_rvb EXEC_ID_minu = exec_rr rv64_minu"
| "exec_rvb EXEC_ID_max = exec_rr rv64_max"
| "exec_rvb EXEC_ID_maxu = exec_rr rv64_maxu"
| "exec_rvb EXEC_ID_pack = exec_rr rv64_pack"
| "exec_rvb EXEC_ID_packw = exec_rr (\<lambda>a b. scast (rv32_pack (ucast a) (ucast b)))"
| "exec_rvb EXEC_ID_packh = exec_rr rv64_packh"
| "exec_rvb EXEC_ID_xpermn = exec_rr rv64_xpermn"
| "exec_rvb EXEC_ID_xpermb = exec_rr rv64_xpermb"
| "exec_rvb EXEC_ID_adduw = exec_rr rvb_adduw"
| "exec_rvb EXEC_ID_slliuw = exec_ri rvb_slliuw"
| "exec_rvb EXEC_ID_sh1add = exec_rr (rvb_shadd 1)"
| "exec_rvb EXEC_ID_sh2add = exec_rr (rvb_shadd 2)"
| "exec_rvb EXEC_ID_sh3add = exec_rr (rvb_shadd 3)"
| "exec_rvb EXEC_ID_sh1adduw = exec_rr (rvb_shadduw 1)"
| "exec_rvb EXEC_ID_sh2adduw = exec_rr (rvb_shadduw 2)"
| "exec_rvb EXEC_ID_sh3adduw = exec_rr (rvb_shadduw 3)"

section \<open>A extension\<close>

definition amo_value :: "u32 \<Rightarrow> nat \<Rightarrow> u64 \<Rightarrow> u64 \<Rightarrow> u64 option" where
  "amo_value funct5 width a b =
    (if funct5 = 0b00001 then Some (rtl_mv b)
     else if funct5 = 0b00000 then Some (c_add a b)
     else if funct5 = 0b01000 then Some (c_or a b)
     else if funct5 = 0b01100 then Some (c_and a b)
     else if funct5 = 0b00100 then Some (c_xor a b)
     else if funct5 = 0b10000 then
       Some (if (if width = 8 then sint a < sint b else sint (ucast a :: u32) < sint (ucast b :: u32))
             then a else b)
     else if funct5 = 0b10100 then
       Some (if (if width = 8 then sint a > sint b else sint (ucast a :: u32) > sint (ucast b :: u32))
             then a else b)
     else if funct5 = 0b11000 then
       Some (if (if width = 8 then a < b else (ucast a :: u32) < ucast b) then a else b)
     else if funct5 = 0b11100 then
       Some (if (if width = 8 then a > b else (ucast a :: u32) > ucast b) then a else b)
     else None)"

definition set_amo :: "bool \<Rightarrow> unit exec" where
  "set_amo b = modify_m (\<lambda>s. s\<lparr>amo := b\<rparr>)"

definition amo_lr :: "operand \<Rightarrow> operand \<Rightarrow> nat \<Rightarrow> unit exec" where
  "amo_lr dst src1 width =
     then_m (with_m (\<lambda>s. assert_m (\<not> amo s)))
    (then_m (rtl_lms dst src1 0 width MMU_DYNAMIC)
    (bind_m (load_preg src1) (\<lambda>a. modify_m (\<lambda>s. s\<lparr>lr_addr := a, lr_valid := 1\<rparr>))))"

text \<open>
  A failed \<open>sc\<close> still reports the faults of a store. The address that is checked is
  \<open>isa_mmu_translate\<close>'s result: the page base without the offset.
\<close>

definition amo_sc_fail :: "u64 \<Rightarrow> nat \<Rightarrow> unit exec" where
  "amo_sc_fail a width =
     bind_m (isa_mmu_check a width MEM_TYPE_WRITE) (\<lambda>m.
     bind_m (if m = MMU_TRANSLATE then isa_mmu_translate a width MEM_TYPE_WRITE else return_m a) (\<lambda>paddr.
     with_m (\<lambda>s. bind_m (if in_pmem paddr s
                          then lift_opt (isa_pmp_check_permission paddr width MEM_TYPE_WRITE (mode s) s)
                          else return_m False) (\<lambda>ok.
       if ok then return_m ()
       else then_m (modify_m (set_tval EX_SAF a)) (longjmp_exception EX_SAF)))))"

definition amo_sc :: "operand \<Rightarrow> operand \<Rightarrow> operand \<Rightarrow> nat \<Rightarrow> unit exec" where
  "amo_sc dst src1 src2 width =
     then_m (with_m (\<lambda>s. when_m (cfg_share s) (set_amo True)))
    (bind_m (load_preg src1) (\<lambda>a. with_m (\<lambda>s.
       let success = lr_addr s = a \<and> lr_valid s \<noteq> 0
       in then_m (if success then
                    bind_m (load_preg src2) (\<lambda>v. then_m (rtl_sm v src1 0 width MMU_DYNAMIC)
                      (modify_m (\<lambda>s. s\<lparr>lr_valid := 0\<rparr>)))
                  else amo_sc_fail a width)
         (then_m (put_preg dst (rtl_li (of_bool_w (\<not> success))))
                 (with_m (\<lambda>s. when_m (cfg_share s) (set_amo False)))))))"

definition amo_rmw :: "u32 \<Rightarrow> operand \<Rightarrow> operand \<Rightarrow> operand \<Rightarrow> nat \<Rightarrow> unit exec" where
  "amo_rmw funct5 dst src1 src2 width =
     then_m (set_amo True)
    (bind_m (lms_value src1 0 width MMU_DYNAMIC) (\<lambda>s0.
     bind_m (load_preg src2) (\<lambda>b.
     bind_m (lift_opt (amo_value funct5 width s0 b)) (\<lambda>s1.
     then_m (rtl_sm s1 src1 0 width MMU_DYNAMIC)
    (then_m (put_preg dst (rtl_mv s0))
            (set_amo False))))))"

definition rtl_amo_slow_path :: "operand \<Rightarrow> operand \<Rightarrow> operand \<Rightarrow> unit exec" where
  "rtl_amo_slow_path dst src1 src2 = with_instr (\<lambda>i.
     let funct5 = shr (instr_funct7 i) 2;
         width = (if instr_funct3 i AND 1 \<noteq> 0 then 8 else 4)
     in if funct5 = 0b00010 then amo_lr dst src1 width
        else if funct5 = 0b00011 then amo_sc dst src1 src2 width
        else amo_rmw funct5 dst src1 src2 width)"

definition exec_amo :: "unit exec" where
  "exec_amo = with_dec (\<lambda>d. rtl_amo_slow_path (id_dest d) (id_src1 d) (id_src2 d))"

section \<open>System instructions\<close>

text \<open>
  \<open>rtl_sys_slow_path\<close> for \<open>funct3 = 0\<close>: the flag that the instruction jumps and the target.
\<close>

definition sys_priv :: "u32 \<Rightarrow> operand \<Rightarrow> (bool \<times> u64) exec" where
  "sys_priv csrid src1 = with_m (\<lambda>s.
     bind_m (if (if cfg_share s then get_instr s = 0x73 else csrid = 0) then
               bind_m (rtl_trap (dec_pc (dec s)) (8 + mode s)) (\<lambda>t0. return_m (rtl_mv t0))
             else if csrid = 1 then
               bind_m (rtl_trap (dec_pc (dec s)) 3) (\<lambda>t0. return_m (rtl_mv t0))
             else bind_m (load_preg src1) (\<lambda>v. hostcall_value (HOSTCALL_PRIV csrid v)))
       (\<lambda>jpc. return_m (csrid = 0 \<or> csrid = 1 \<or> csrid = 0x102 \<or> csrid = 0x302 \<or> csrid = 0x002, jpc)))"

definition csr_operand :: "u32 \<Rightarrow> u64 \<Rightarrow> u64 \<Rightarrow> u64" where
  "csr_operand funct3 s0 s1 =
    (let op = funct3 AND 3
     in if op = 2 then c_or s0 s1 else if op = 3 then c_and s0 (rtl_not s1) else s1)"

definition sys_csr :: "u32 \<Rightarrow> u32 \<Rightarrow> operand \<Rightarrow> operand \<Rightarrow> unit exec" where
  "sys_csr funct3 csrid dst src1 =
     bind_m (hostcall_value (HOSTCALL_CSR True None (ucast csrid))) (\<lambda>s0.
     then_m (with_instr (\<lambda>i.
       if funct3 AND 2 = 0 \<or> instr_rs1 i \<noteq> 0 then
         bind_m (if funct3 AND 4 \<noteq> 0 then return_m (rtl_li (ucast (instr_rs1 i)))
                 else bind_m (load_preg src1) (\<lambda>v. return_m (rtl_mv v))) (\<lambda>s1.
         bind_m (rtl_hostcall (HOSTCALL_ISA (HOSTCALL_CSR False (Some (csr_operand funct3 s0 s1)) (ucast csrid))))
           (\<lambda>_. return_m ()))
       else return_m ()))
      (put_preg dst (rtl_mv s0)))"

definition rtl_sys_slow_path :: "operand \<Rightarrow> operand \<Rightarrow> u32 \<Rightarrow> (bool \<times> u64) exec" where
  "rtl_sys_slow_path dst src1 csrid = with_instr (\<lambda>i.
     let funct3 = instr_funct3 i
     in if funct3 = 0 then sys_priv csrid src1
        else then_m (sys_csr funct3 csrid dst src1) (return_m (False, 0)))"

definition exec_system :: "unit exec" where
  "exec_system = with_dec (\<lambda>d. src2_imm (\<lambda>imm.
     bind_m (rtl_sys_slow_path (id_dest d) (id_src1 d) (ucast imm)) (\<lambda>(jmp, s0).
       if jmp then rtl_priv_jr s0 else return_m ())))"

section \<open>Special helpers and the execution table\<close>

definition exec_inv :: "unit exec" where
  "exec_inv = longjmp_exception EX_II"

definition exec_rt_inv :: "unit exec" where
  "exec_rt_inv = longjmp_exception EX_II"

definition exec_nemu_trap :: "unit exec" where
  "exec_nemu_trap = with_m (\<lambda>s.
     if gpr s 10 = 0x100 then disable_time_intr
     else if gpr s 10 = 0x101 then
       (if \<not> profiling_started s then modify_m (\<lambda>s. s\<lparr>g_nr_guest_instr := 1, profiling_started := True\<rparr>)
        else return_m ())
     else then_m (rtl_hostcall (HOSTCALL_EXIT (gpr s 10))) (longjmp_exec NEMU_EXEC_END))"

text \<open>\<open>g_exec_table\<close>.\<close>

fun exec_table :: "exec_id \<Rightarrow> unit exec" where
  "exec_table (COMPUTE i) = exec_compute i"
| "exec_table (CONTROL i) = exec_control i"
| "exec_table (LDST i m) = exec_ldst i m"
| "exec_table (RVM i) = exec_rvm i"
| "exec_table (RVC i) = exec_rvc i"
| "exec_table (PSEUDO i) = exec_pseudo i"
| "exec_table (RVB i) = exec_rvb i"
| "exec_table (RVA _ _) = exec_amo"
| "exec_table EXEC_ID_atomic = exec_amo"
| "exec_table EXEC_ID_system = exec_system"
| "exec_table EXEC_ID_fence = exec_fence"
| "exec_table EXEC_ID_fence_i = exec_fence_i"
| "exec_table EXEC_ID_nemu_trap = exec_nemu_trap"
| "exec_table EXEC_ID_inv = exec_inv"
| "exec_table EXEC_ID_rt_inv = exec_rt_inv"

end
