(* ===== verification/Cpu_Exec.thy ===== *)
theory Cpu_Exec
  imports Exec
begin

text \<open>
  The main loop (\<open>src/cpu/cpu-exec.c\<close>, the build without the trace cache) and the polling of
  the host's events between batches (\<open>src/device/device.c\<close>). \<open>setjmp\<close> in \<open>cpu_exec\<close> is where
  both non-local exits land: the loop continues with the cause of the jump. Since a guest can
  trap for ever, the loop is a partial function whose value \<open>None\<close> is not returning.
\<close>

unbundle bit_operations_syntax

section \<open>Executing a batch\<close>

text \<open>\<open>fetch_decode\<close>: the execution helper it stores in \<open>s->EHelper\<close> is the index it returns.\<close>

definition fetch_decode :: "u64 \<Rightarrow> exec_id exec" where
  "fetch_decode pcv = then_m (upd_dec (\<lambda>d. d\<lparr>dec_pc := pcv, dec_snpc := pcv\<rparr>)) isa_fetch_decode"

text \<open>The user timer of the N extension; \<open>1 << 8\<close> is the bit \<open>UEIP\<close> of \<open>mip\<close>.\<close>

definition utimer_tick :: "machine \<Rightarrow> machine" where
  "utimer_tick s =
    (if csr c_utimer s > 1 \<and> mode s = MODE_U then set_csr c_utimer (csr c_utimer s - 1) s
     else if csr c_utimer s = 1 then set_csr c_mip (csr c_mip s OR 0x100) s
     else set_csr c_mip (csr c_mip s AND NOT 0x100) s)"

definition exec_once :: "unit exec" where
  "exec_once = with_m (\<lambda>s. bind_m (fetch_decode (pc s)) (\<lambda>idx.
     then_m (modify_m (\<lambda>s. s\<lparr>current_pc := dec_pc (dec s), dec := (dec s)\<lparr>dec_prev_pc := pc s\<rparr>,
                             pc := dec_snpc (dec s)\<rparr>))
    (then_m (exec_table idx)
            (modify_m (\<lambda>s. utimer_tick (s\<lparr>g_nr_guest_instr := g_nr_guest_instr s + 1\<rparr>))))))"

primrec execute :: "nat \<Rightarrow> nat exec" where
  "execute 0 = return_m 0"
| "execute (Suc n) = then_m exec_once (with_m (\<lambda>s.
     if nemu_state s = NEMU_STOP then return_m (Suc n) else execute n))"

section \<open>Instruction counting\<close>

definition BATCH_SIZE :: "machine \<Rightarrow> u64" where
  "BATCH_SIZE s = (if cfg_share s then 1 else 65536)"

definition n_batch :: "machine \<Rightarrow> u64" where
  "n_batch s = (if n_remain_total s \<ge> BATCH_SIZE s then BATCH_SIZE s else n_remain_total s)"

definition n_executed :: "machine \<Rightarrow> u32" where
  "n_executed s = ucast (n_batch s) - n_remain s"

definition get_abs_instr_count :: "machine \<Rightarrow> u64" where
  "get_abs_instr_count s = ucast (n_executed s) + g_nr_guest_instr s"

definition update_instr_cnt :: "machine \<Rightarrow> machine" where
  "update_instr_cnt s =
    (let executed = n_executed s; batch = n_batch s;
         total = n_remain_total s - (if n_remain_total s > ucast executed then ucast executed
                                     else n_remain_total s)
     in s\<lparr>n_remain_total := total, g_nr_guest_instr := g_nr_guest_instr s + ucast executed,
          n_remain := ucast (if batch > total then total else batch)\<rparr>)"

text \<open>\<open>monitor_statistic\<close> logs what \<open>update_instr_cnt\<close> leaves.\<close>

definition monitor_statistic :: "machine \<Rightarrow> machine" where
  "monitor_statistic s = update_instr_cnt s"

section \<open>Events of the host\<close>

text \<open>
  \<open>device_update\<close>. The alarm handler that sets the flag and the SDL window exist in the
  stand-alone emulator only; the screen update belongs to a device that is not configured.
\<close>

fun sdl_poll :: "sdl_event list \<Rightarrow> unit exec" where
  "sdl_poll [] = return_m ()"
| "sdl_poll (SDL_QUIT # es) = then_m (modify_m (\<lambda>s. s\<lparr>nemu_state := NEMU_QUIT\<rparr>)) (sdl_poll es)"
| "sdl_poll (SDL_KEYDOWN k # es) =
     then_m (with_m (\<lambda>s. send_key (key_map s) k True)) (sdl_poll es)"
| "sdl_poll (SDL_KEYUP k # es) =
     then_m (with_m (\<lambda>s. send_key (key_map s) k False)) (sdl_poll es)"
| "sdl_poll (SDL_OTHER # es) = sdl_poll es"

definition set_device_update_flag :: "machine \<Rightarrow> machine" where
  "set_device_update_flag s =
    (if \<not> cfg_share s \<and> alarm_signal s (device_polls s) then s\<lparr>device_update_flag := True\<rparr> else s)"

definition device_update :: "unit exec" where
  "device_update = then_m (modify_m set_device_update_flag) (with_m (\<lambda>s.
     then_m (modify_m (\<lambda>s. s\<lparr>device_polls := Suc (device_polls s)\<rparr>))
      (if \<not> device_update_flag s then return_m ()
       else then_m (modify_m (\<lambda>s. s\<lparr>device_update_flag := False\<rparr>))
              (when_m (\<not> cfg_share s) (sdl_poll (sdl_queue s (device_polls s)))))))"

section \<open>The loop\<close>

text \<open>The exception branch: a DASICS jump fault is charged to the jump, not to its target.\<close>

definition take_exception :: "unit exec" where
  "take_exception = with_m (\<lambda>s.
     let jump_fault = (g_ex_cause s = EX_DUCF \<or> g_ex_cause s = EX_DSCF) \<and> csr c_dfreason s = DFR_JF;
         temp_epc = (if jump_fault then dec_prev_pc (dec s) else dec_pc (dec s))
     in then_m (when_m jump_fault (upd_dec (\<lambda>d. d\<lparr>dec_prev_is_cfi := False, dec_prev_type := CFI_NONE\<rparr>)))
        (bind_m (raise_intr (g_ex_cause s) temp_epc) (\<lambda>t. modify_m (\<lambda>s. s\<lparr>pc := t, amo := False\<rparr>))))"

definition take_interrupt :: "unit exec" where
  "take_interrupt = with_m (\<lambda>s.
     let intr = (if cfg_share s then INTR_EMPTY else isa_query_intr s)
     in when_m (intr \<noteq> INTR_EMPTY)
          (bind_m (raise_intr intr (pc s)) (\<lambda>t. modify_m (\<lambda>s. s\<lparr>pc := t\<rparr>))))"

definition run_batch :: "unit exec" where
  "run_batch = with_m (\<lambda>s. let batch = n_batch s in
     bind_m (execute (unat batch)) (\<lambda>n.
       modify_m (\<lambda>s. s\<lparr>n_remain := of_nat n, n_remain_total := n_remain_total s - batch\<rparr>)))"

text \<open>
  One iteration with the value of \<open>cause\<close>. The result is the \<open>cause\<close> of the next iteration, or
  \<open>None\<close> for the \<open>break\<close> of the difftest build.
\<close>

definition cpu_exec_body :: "nat \<Rightarrow> nat option exec" where
  "cpu_exec_body cause = then_m device_update
     (if cause = NEMU_EXEC_EXCEPTION
      then then_m take_exception (with_m (\<lambda>s.
             if cfg_share s then return_m None else then_m run_batch (return_m (Some 0))))
      else then_m take_interrupt (then_m run_batch (return_m (Some cause))))"

text \<open>What \<open>cpu_exec\<close> does when \<open>setjmp\<close> returns for the second time.\<close>

definition setjmp_return :: "machine \<Rightarrow> machine" where
  "setjmp_return s = s\<lparr>n_remain := n_remain s - (ucast (dec_idx_in_bb (dec s)) - 1)\<rparr>"

partial_function (option) cpu_exec_loop :: "nat \<Rightarrow> machine \<Rightarrow> (unit outcome \<times> machine) option" where
  "cpu_exec_loop cause s =
    (if nemu_state s = NEMU_RUNNING \<and> n_remain_total s > 0 then
       (case cpu_exec_body cause s of
          (Ret (Some c), s') \<Rightarrow> cpu_exec_loop c s'
        | (Ret None, s') \<Rightarrow> Some (Ret (), s')
        | (Exn e, s') \<Rightarrow> cpu_exec_loop NEMU_EXEC_EXCEPTION (setjmp_return s')
        | (Jmp c, s') \<Rightarrow> cpu_exec_loop c (setjmp_return s')
        | (Abort, s') \<Rightarrow> Some (Abort, s'))
     else Some (Ret (), s))"

text \<open>The part of \<open>cpu_exec\<close> after the loop.\<close>

definition cpu_exec_finish :: "u64 \<Rightarrow> unit exec" where
  "cpu_exec_finish timer_start =
     then_m (modify_m (\<lambda>s. if nemu_state s = NEMU_RUNNING then s\<lparr>nemu_state := NEMU_QUIT\<rparr> else s))
    (bind_m get_time (\<lambda>timer_end.
     then_m (modify_m (\<lambda>s. s\<lparr>g_timer := g_timer s + (timer_end - timer_start)\<rparr>))
            (modify_m (\<lambda>s. case nemu_state s of
                 NEMU_RUNNING \<Rightarrow> s\<lparr>nemu_state := NEMU_STOP\<rparr>
               | NEMU_END \<Rightarrow> monitor_statistic s
               | NEMU_ABORT \<Rightarrow> monitor_statistic s
               | NEMU_QUIT \<Rightarrow> (if cfg_share s then s else monitor_statistic s)
               | NEMU_STOP \<Rightarrow> s))))"

text \<open>Sequencing with code that may not return.\<close>

definition run_then :: "'a outcome \<times> machine \<Rightarrow> ('a \<Rightarrow> machine \<Rightarrow> ('b outcome \<times> machine) option) \<Rightarrow>
    ('b outcome \<times> machine) option" where
  "run_then r k = (case r of
      (Ret x, s) \<Rightarrow> k x s | (Exn e, s) \<Rightarrow> Some (Exn e, s) | (Jmp c, s) \<Rightarrow> Some (Jmp c, s)
    | (Abort, s) \<Rightarrow> Some (Abort, s))"

definition cpu_exec :: "u64 \<Rightarrow> machine \<Rightarrow> (unit outcome \<times> machine) option" where
  "cpu_exec n s =
    (if cfg_share s \<and> \<not> n \<le> 1 then Some (Abort, s)
     else if nemu_state s = NEMU_END \<or> nemu_state s = NEMU_ABORT then Some (Ret (), s)
     else run_then (get_time (s\<lparr>nemu_state := NEMU_RUNNING\<rparr>)) (\<lambda>timer_start s.
       case cpu_exec_loop 0 (s\<lparr>n_remain_total := n\<rparr>) of
         None \<Rightarrow> None
       | Some r \<Rightarrow> run_then r (\<lambda>_ s. Some (cpu_exec_finish timer_start s))))"

end
