(* ===== verification/Boot.thy ===== *)
theory Boot
  imports Device_IO Memory Csr_Access Exec
begin

text \<open>
  Reset (\<open>src/isa/riscv64/init.c\<close>, \<open>src/device/device.c\<close>), loading an image
  (\<open>src/monitor/monitor.c\<close> copies the bytes of a file) and register names
  (\<open>src/isa/riscv64/reg.c\<close>).
\<close>

unbundle bit_operations_syntax

section \<open>Reset\<close>

abbreviation (input) RESET_VECTOR :: u64 where "RESET_VECTOR \<equiv> 0x80000000"

text \<open>The built-in image, as the bytes \<open>memcpy\<close> moves.\<close>

definition img :: "u32 list" where
  "img = [0x800002b7, 0x0002a023, 0x0002a503, 0x0000006b]"

fun copy_img :: "u64 \<Rightarrow> u32 list \<Rightarrow> (u64 \<Rightarrow> u8) \<Rightarrow> (u64 \<Rightarrow> u8)" where
  "copy_img a [] m = m"
| "copy_img a (w # ws) m = copy_img (a + 4) ws (le_write m a 4 (ucast w))"

text \<open>\<open>init_device\<close>: the difftest build configures none of the devices.\<close>

definition init_device :: "unit exec" where
  "init_device = with_m (\<lambda>s. when_m (\<not> cfg_share s)
     (then_m init_uartlite (then_m init_timer init_i8042)))"

text \<open>The macro \<open>ext\<close>, by the position of the letter.\<close>

definition ext :: "char \<Rightarrow> u64" where
  "ext e = shl 1 (of_char e - of_char CHR ''a'')"

definition misa_reset :: "u64 \<Rightarrow> u64" where
  "misa_reset v = (let
     v = put_fld 0 26 (ext CHR ''i'' OR ext CHR ''m'' OR ext CHR ''a'' OR ext CHR ''c'' OR ext CHR ''s''
                       OR ext CHR ''u'') v;
     v = put_fld 62 2 2 v
     in put_fld 0 26 (fld 0 26 v OR ext CHR ''n'') v)"

definition reset_state :: "machine \<Rightarrow> machine" where
  "reset_state s = (let
     s = s\<lparr>pc := RESET_VECTOR\<rparr>;
     s = set_gpr 0 0 s;
     s = s\<lparr>mode := MODE_M\<rparr>;
     s = set_csr c_mstatus 0xa00000000 s;
     s = set_csr c_pmpcfg0 0 s;
     s = set_csr c_pmpcfg2 0 s;
     s = set_csr c_srnctl 3 s;
     s = set_csr c_upkru 0 s;
     s = set_csr c_spkrs 0 s;
     s = set_csr c_spkctl 0 s;
     s = set_csr c_utimer 0 s;
     s = set_csr c_misa (misa_reset (csr c_misa s)) s;
     s = set_csr 0xf11 0 s;
     s = set_csr 0xf12 0 s
     in set_csr 0xf13 0xda220002 s)"

text \<open>
  \<open>init_isa\<close>; \<open>cpt\<close> tells that a checkpoint file was given. The registration of the existing
  registers by \<open>init_csr\<close> is the predicate \<open>csr_exist\<close>.
\<close>

definition init_isa :: "bool \<Rightarrow> unit exec" where
  "init_isa cpt = then_m (modify_m reset_state) (with_m (\<lambda>s.
     if cfg_share s then init_device
     else then_m (when_m (\<not> cpt) (modify_m (\<lambda>s. s\<lparr>pmem := copy_img RESET_VECTOR img (pmem s)\<rparr>)))
                 init_clint))"

section \<open>Register names\<close>

definition regsl :: "string list" where
  "regsl = [''$0'', ''ra'', ''sp'', ''gp'', ''tp'', ''t0'', ''t1'', ''t2'',
    ''s0'', ''s1'', ''a0'', ''a1'', ''a2'', ''a3'', ''a4'', ''a5'',
    ''a6'', ''a7'', ''s2'', ''s3'', ''s4'', ''s5'', ''s6'', ''s7'',
    ''s8'', ''s9'', ''s10'', ''s11'', ''t3'', ''t4'', ''t5'', ''t6'']"

fun reg_index :: "nat \<Rightarrow> string list \<Rightarrow> string \<Rightarrow> nat option" where
  "reg_index i [] s = None"
| "reg_index i (r # rs) s = (if r = s then Some i else reg_index (Suc i) rs s)"

text \<open>\<open>None\<close> is \<open>*success = false\<close>.\<close>

definition isa_reg_str2val :: "string \<Rightarrow> machine \<Rightarrow> u64 option" where
  "isa_reg_str2val str s = (case reg_index 0 regsl str of
     Some i \<Rightarrow> Some (gpr s (of_nat i))
   | None \<Rightarrow> if str = ''pc'' then Some (pc s) else None)"

end
