(* ===== verification/Difftest_Ref.thy ===== *)
theory Difftest_Ref
  imports Cpu_Exec Boot
begin

text \<open>
  The interface a hardware design under test drives the emulator with
  (\<open>src/cpu/difftest/ref.c\<close>, \<open>src/isa/riscv64/difftest/ref.c\<close>). The register buffer is the
  prefix of \<open>CPU_state\<close> that \<open>isa-def.h\<close> marks as synchronised: general and floating-point
  registers, program counter, privilege mode and the mirrored control registers, which the
  record's field \<open>shadow\<close> holds by their address.
\<close>

section \<open>Mirrored registers\<close>

abbreviation (input) "c_mscratch \<equiv> (0x340 :: u12)"
abbreviation (input) "c_sscratch \<equiv> (0x140 :: u12)"
abbreviation (input) "c_uscratch \<equiv> (0x040 :: u12)"

definition dlbounds :: "u12 list" where
  "dlbounds = map (\<lambda>i. c_dlbound0 + of_nat i) [0..<32]"

definition djbounds :: "u12 list" where
  "djbounds = map (\<lambda>i. c_djbound0 + of_nat i) [0..<8]"

definition dasics_mirror :: "u12 list" where
  "dasics_mirror = [c_dsmcfg, c_dsmbound0, c_dsmbound1, c_dumbound0, c_dumbound1, c_dlcfg0] @ dlbounds @
     [c_djcfg] @ djbounds @ [c_dmaincall, c_dretpc, c_dretpcfz, c_dfreason, c_upkru, c_spkrs, c_spkctl]"

definition mirror :: "u12 list \<Rightarrow> machine \<Rightarrow> machine" where
  "mirror as s = s\<lparr>shadow := fold (\<lambda>a sh. sh(a := csr a s)) as (shadow s)\<rparr>"

definition set_shadow :: "u12 \<Rightarrow> u64 \<Rightarrow> machine \<Rightarrow> machine" where
  "set_shadow a v s = s\<lparr>shadow := (shadow s)(a := v)\<rparr>"

text \<open>
  \<open>csr_prepare\<close>, in the order of the code: the reads of \<open>sstatus\<close> and \<open>ustatus\<close> go through
  \<open>csr_read\<close>, which refreshes \<open>mstatus.sd\<close> after \<open>mstatus\<close> has been copied.
\<close>

definition csr_prepare :: "unit exec" where
  "csr_prepare =
     then_m (modify_m (mirror [c_mstatus, c_mcause, c_mepc]))
    (bind_m (csrid_read c_sstatus) (\<lambda>v. then_m (modify_m (set_shadow c_sstatus v))
    (then_m (modify_m (mirror [c_scause, c_sepc, c_satp, c_mip, c_mie, c_mscratch, c_sscratch, c_mideleg,
       c_medeleg, c_mtval, c_stval, c_mtvec, c_stvec]))
    (bind_m (csrid_read c_ustatus) (\<lambda>v. then_m (modify_m (set_shadow c_ustatus v))
    (then_m (modify_m (mirror [c_ucause, c_uepc, c_uscratch, c_sedeleg, c_sideleg, c_utval, c_utvec]))
            (modify_m (mirror dasics_mirror))))))))"

definition written_csrs :: "u12 list" where
  "written_csrs = [c_mstatus, c_mcause, c_mepc, c_scause, c_sepc, c_ucause, c_uepc, c_satp, c_mip, c_mie,
     c_mscratch, c_sscratch, c_mideleg, c_medeleg, c_mtval, c_stval, c_mtvec, c_stvec, c_uscratch,
     c_sideleg, c_sedeleg, c_utval, c_utvec] @ dasics_mirror"

definition csr_writeback :: "unit exec" where
  "csr_writeback = modify_m (\<lambda>s. s\<lparr>csr_array := fold (\<lambda>a m. m(a := shadow s a)) written_csrs (csr_array s)\<rparr>)"

section \<open>Copying state\<close>

record dut_regs =
  dut_gpr :: "u5 \<Rightarrow> u64"
  dut_fpr :: "u5 \<Rightarrow> u64"
  dut_pc :: u64
  dut_mode :: u64
  dut_csrs :: "u12 \<Rightarrow> u64"

text \<open>\<open>isa_difftest_regcpy\<close> in its two directions.\<close>

definition regcpy_to_ref :: "dut_regs \<Rightarrow> unit exec" where
  "regcpy_to_ref dut = then_m (modify_m (\<lambda>s. s\<lparr>gpr := dut_gpr dut, fpr := dut_fpr dut, pc := dut_pc dut,
     mode := dut_mode dut, shadow := dut_csrs dut\<rparr>)) csr_writeback"

definition regcpy_to_dut :: "dut_regs exec" where
  "regcpy_to_dut = then_m csr_prepare (gets_m (\<lambda>s. \<lparr>dut_gpr = gpr s, dut_fpr = fpr s, dut_pc = pc s,
     dut_mode = mode s, dut_csrs = shadow s\<rparr>))"

definition csrcpy_to_ref :: "(u12 \<Rightarrow> u64) \<Rightarrow> unit exec" where
  "csrcpy_to_ref dut = modify_m (\<lambda>s. s\<lparr>csr_array := dut\<rparr>)"

definition csrcpy_to_dut :: "(u12 \<Rightarrow> u64) exec" where
  "csrcpy_to_dut = gets_m csr_array"

text \<open>\<open>isa_difftest_uarchstatus_cpy\<close>: \<open>lrscValid\<close>, and \<open>lrscAddr\<close> in the direction of the design.\<close>

definition uarchstatus_to_ref :: "u64 \<Rightarrow> unit exec" where
  "uarchstatus_to_ref lrscValid = modify_m (\<lambda>s. s\<lparr>lr_valid := lrscValid\<rparr>)"

definition uarchstatus_to_dut :: "(u64 \<times> u64) exec" where
  "uarchstatus_to_dut = gets_m (\<lambda>s. (lr_valid s, lr_addr s))"

section \<open>Copying memory\<close>

text \<open>
  \<open>nemu_large_memcpy\<close> (\<open>CONFIG_LARGE_COPY\<close>): doublewords that are zero in the source are not
  written.
\<close>

fun copy_bytes :: "(u64 \<Rightarrow> u8) \<Rightarrow> u64 \<Rightarrow> (u64 \<Rightarrow> u8) \<Rightarrow> u64 \<Rightarrow> nat \<Rightarrow> (u64 \<Rightarrow> u8)" where
  "copy_bytes dm d sm a 0 = dm"
| "copy_bytes dm d sm a (Suc n) = copy_bytes (dm(d := sm a)) (d + 1) sm (a + 1) n"

fun nemu_large_memcpy :: "(u64 \<Rightarrow> u8) \<Rightarrow> u64 \<Rightarrow> (u64 \<Rightarrow> u8) \<Rightarrow> u64 \<Rightarrow> nat \<Rightarrow> (u64 \<Rightarrow> u8)" where
  "nemu_large_memcpy dm d sm a n =
    (if n \<ge> 8 then
       nemu_large_memcpy (if le_read sm a 8 \<noteq> 0 then le_write dm d 8 (le_read sm a 8) else dm)
         (d + 8) sm (a + 8) (n - 8)
     else copy_bytes dm d sm a n)"

declare nemu_large_memcpy.simps [simp del]

text \<open>\<open>difftest_memcpy\<close>: \<open>buf\<close> is the memory the design's buffer lies in, at address \<open>b\<close>.\<close>

definition memcpy_to_ref :: "u64 \<Rightarrow> (u64 \<Rightarrow> u8) \<Rightarrow> u64 \<Rightarrow> nat \<Rightarrow> unit exec" where
  "memcpy_to_ref nemu_addr buf b n =
     modify_m (\<lambda>s. s\<lparr>pmem := nemu_large_memcpy (pmem s) nemu_addr buf b n\<rparr>)"

definition memcpy_to_dut :: "u64 \<Rightarrow> (u64 \<Rightarrow> u8) \<Rightarrow> u64 \<Rightarrow> nat \<Rightarrow> (u64 \<Rightarrow> u8) exec" where
  "memcpy_to_dut nemu_addr buf b n = gets_m (\<lambda>s. nemu_large_memcpy buf b (pmem s) nemu_addr n)"

definition difftest_set_ramsize :: "u64 \<Rightarrow> unit exec" where
  "difftest_set_ramsize ram_size = when_m (ram_size \<noteq> 0) (modify_m (\<lambda>s. s\<lparr>memory_size := ram_size\<rparr>))"

section \<open>Running\<close>

definition difftest_exec :: "u64 \<Rightarrow> machine \<Rightarrow> (unit outcome \<times> machine) option" where
  "difftest_exec n = cpu_exec n"

text \<open>\<open>isa_difftest_guided_exec\<close>.\<close>

definition guided_exec_step :: "execution_guide_t \<Rightarrow> machine \<Rightarrow> (unit outcome \<times> machine) option" where
  "guided_exec_step guide s =
    (case cpu_exec 1 (s\<lparr>execution_guide := guide, guided_exec := True\<rparr>) of
       None \<Rightarrow> None
     | Some r \<Rightarrow> run_then r (\<lambda>_ s. Some (Ret (), s\<lparr>guided_exec := False\<rparr>)))"

definition difftest_raise_intr :: "u64 \<Rightarrow> unit exec" where
  "difftest_raise_intr NO = with_m (\<lambda>s. bind_m (raise_intr NO (pc s)) (\<lambda>t. modify_m (\<lambda>s. s\<lparr>pc := t\<rparr>)))"

text \<open>\<open>isa_difftest_query_ref\<close>; the only query type is \<open>REF_QUERY_MEM_EVENT\<close>, 0.\<close>

definition difftest_query_ref :: "u64 \<Rightarrow> mem_event_t exec" where
  "difftest_query_ref type =
    (if type = 0 then
       then_m (modify_m (\<lambda>s. s\<lparr>query_mem_event := (query_mem_event s)\<lparr>ev_pc := current_pc s\<rparr>\<rparr>))
      (bind_m (gets_m query_mem_event) (\<lambda>r. then_m (modify_m (\<lambda>s. s\<lparr>query_mem_event :=
         \<lparr>ev_pc = 0, ev_access = False, ev_is_load = False, ev_vaddr = 0\<rparr>\<rparr>)) (return_m r)))
     else panic_m)"

definition difftest_init :: "unit exec" where
  "difftest_init = then_m init_mem (init_isa False)"

end
