(* ===== verification/Csr_Laws.thy ===== *)
theory Csr_Laws
  imports Csr_Access
begin

text \<open>
  What register access and privileged instructions guarantee: the coherence invariant of the
  system registers, the masked views as a locale with one interpretation per view, the PMP
  registers, and trap/return round trips.
\<close>

section \<open>What the theorems are about\<close>

text \<open>
  \<open>sys_ok\<close> is the invariant of the system registers: \<open>satp\<close> holds a supported mode and the two
  cached translation modes are coherent. It depends on the \<open>mmu_view\<close> only, so that code which
  keeps the view keeps the invariant.
\<close>

definition sys_ok :: "machine \<Rightarrow> bool" where
  "sys_ok s \<longleftrightarrow> satp_ok s \<and> mmu_coherent s"

definition mmu_view :: "machine \<Rightarrow> bool \<times> u64 \<times> u64 \<times> u64 \<times> mmu_mode \<times> mmu_mode" where
  "mmu_view s = (mstatus_mprv s, mstatus_mpp s, csr c_satp s, mode s, ifetch_mmu_state s, data_mmu_state s)"

definition keeps_view :: "'a exec \<Rightarrow> bool" where
  "keeps_view m \<longleftrightarrow> (\<forall>c. keeps (\<lambda>s. mmu_view s = c) m)"

text \<open>
  A PMP configuration byte is legal when it does not grant writes without reads, does not
  select NA4 and has its unused bits clear; a \<open>pmpaddr\<close> register is write-protected when its
  own entry, or the next one in TOR mode, is locked.
\<close>

definition pmpcfg_legal :: "u64 \<Rightarrow> bool" where
  "pmpcfg_legal c \<longleftrightarrow> (c AND PMP_W = 0 \<or> c AND PMP_R \<noteq> 0) \<and> c AND PMP_A \<noteq> PMP_NA4 \<and> c AND 0x60 = 0"

definition pmp_write_blocked :: "nat \<Rightarrow> machine \<Rightarrow> bool" where
  "pmp_write_blocked i s \<longleftrightarrow> bit (pmp_cfg i s) 7 \<or>
     i < 15 \<and> bit (pmp_cfg (i + 1) s) 7 \<and> ucast (pmp_cfg (i + 1) s) AND PMP_A = PMP_TOR"

text \<open>The state a trap leaves, the instruction that returns from it and the enable bit it saves.\<close>

definition trap_state :: "u64 \<Rightarrow> u64 \<Rightarrow> machine \<Rightarrow> machine" where
  "trap_state NO epc s =
    (if trap_target NO s = MODE_U then trap_to_U NO epc s
     else if trap_target NO s = MODE_S then trap_to_S NO epc s else trap_to_M NO epc s)"

definition xret_op :: "u64 \<Rightarrow> u32" where
  "xret_op m = (if m = MODE_U then 0x002 else if m = MODE_S then 0x102 else 0x302)"

definition xie :: "u64 \<Rightarrow> machine \<Rightarrow> bool" where
  "xie m s = (if m = MODE_U then mstatus_uie s else if m = MODE_S then mstatus_sie s else mstatus_mie s)"

text \<open>When a CSR instruction may touch a register at all.\<close>

definition csr_access_ok :: "u12 \<Rightarrow> bool \<Rightarrow> u64 \<Rightarrow> machine \<Rightarrow> bool" where
  "csr_access_ok addr need_write pcv s \<longleftrightarrow> csr_exist (cfg_share s) addr \<and>
     unat (fld 8 2 addr) \<le> unat (mode s) \<and> dasics_in_trusted_zone pcv s \<and>
     (need_write \<longrightarrow> fld 10 2 addr \<noteq> 3)"

text \<open>The masked views: address, underlying register, write mask and read mask.\<close>

definition csr_views :: "(u12 \<times> u12 \<times> (machine \<Rightarrow> u64) \<times> (machine \<Rightarrow> u64)) list" where
  "csr_views =
    [(c_sstatus, c_mstatus, \<lambda>_. SSTATUS_WMASK, \<lambda>_. SSTATUS_RMASK),
     (c_ustatus, c_mstatus, \<lambda>_. USTATUS_WMASK, \<lambda>_. USTATUS_RMASK),
     (c_sie, c_mie, SIE_MASK, SIE_MASK),
     (c_uie, c_mie, UIE_MASK, UIE_MASK),
     (c_sip, c_mip, \<lambda>s. if mode s = MODE_S then SIP_WMASK_S else SIP_MASK s, SIP_MASK),
     (c_uip, c_mip, \<lambda>s. if mode s = MODE_U then UIP_WMASK_U else UIP_MASK s, UIP_MASK),
     (c_dumcfg, c_dsmcfg, \<lambda>_. DUMCFG_MASK, \<lambda>_. DUMCFG_MASK)]"

section \<open>The coherence invariant\<close>

lemma sys_ok_view: "mmu_view s = mmu_view t \<Longrightarrow> sys_ok s = sys_ok t"
  by (simp add: mmu_view_def sys_ok_def satp_ok_def mmu_coherent_def update_mmu_state_internal_def
      effective_mode_def satp_mode_def)

lemma keeps_view_sys_ok: "keeps_view m \<Longrightarrow> keeps sys_ok m"
  unfolding keeps_view_def keeps_def using sys_ok_view by metis

lemma keeps_viewI: "(\<And>s. mmu_view (snd (m s)) = mmu_view s) \<Longrightarrow> keeps_view m"
  unfolding keeps_view_def keeps_def by blast

lemma keeps_viewD: "keeps_view m \<Longrightarrow> mmu_view (snd (m s)) = mmu_view s"
  unfolding keeps_view_def keeps_def by blast

named_theorems view_intro \<open>code that leaves the translation view alone\<close>

lemma keeps_view_rules [view_intro]:
  "keeps_view (return_m x)" "keeps_view (gets_m f)" "keeps_view panic_m"
  "keeps_view m \<Longrightarrow> keeps_view (when_m b m)"
  "keeps_view n \<Longrightarrow> (\<And>x. keeps_view (h x)) \<Longrightarrow> keeps_view (bind_m n h)"
  "keeps_view p \<Longrightarrow> keeps_view q \<Longrightarrow> keeps_view (then_m p q)"
  "(\<And>s. keeps_view (g s)) \<Longrightarrow> keeps_view (with_m g)"
  unfolding keeps_view_def
  by (simp_all add: keeps_return keeps_gets keeps_panic keeps_when keeps_then keeps_bind keeps_with)

lemma keeps_view_if [view_intro]:
  "(b \<Longrightarrow> keeps_view m) \<Longrightarrow> (\<not> b \<Longrightarrow> keeps_view k) \<Longrightarrow> keeps_view (if b then m else k)"
  by simp

lemma keeps_view_modify: "(\<And>s. mmu_view (f s) = mmu_view s) \<Longrightarrow> keeps_view (modify_m f)"
  by (rule keeps_viewI) (simp add: modify_m_def)

lemma mmu_view_set_csr [simp]:
  "a \<noteq> c_mstatus \<Longrightarrow> a \<noteq> c_satp \<Longrightarrow> mmu_view (set_csr a v s) = mmu_view s"
  by (simp add: mmu_view_def mstatus_defs)

lemma mmu_view_set_mstatus:
  "bit v 17 = bit (csr c_mstatus s) 17 \<Longrightarrow> bit v 11 = bit (csr c_mstatus s) 11 \<Longrightarrow>
   bit v 12 = bit (csr c_mstatus s) 12 \<Longrightarrow> mmu_view (set_csr c_mstatus v s) = mmu_view s"
  by (auto simp: mmu_view_def mstatus_defs intro!: bit_word_eqI)
     (auto simp: bit_simps less_Suc_eq numeral_2_eq_2)

lemma keeps_view_longjmp [view_intro]: "keeps_view (longjmp_exception e)"
  by (rule keeps_viewI) (simp add: longjmp_exception_def mmu_view_def mstatus_defs)

lemma keeps_view_lift_opt [view_intro]: "keeps_view (lift_opt x)"
  by (cases x) (simp_all add: lift_opt_def view_intro)

lemma keeps_view_flag [view_intro]: "keeps_view (set_sys_state_flag f)"
  unfolding set_sys_state_flag_def
  by (rule keeps_view_modify) (simp add: mmu_view_def mstatus_defs)

lemma keeps_view_hosttlb_flush [view_intro]: "keeps_view (hosttlb_flush a)"
  unfolding hosttlb_flush_def
  by (rule keeps_view_modify) (simp add: mmu_view_def mstatus_defs Let_def)

lemma keeps_view_mmu_tlb_flush [view_intro]: "keeps_view (mmu_tlb_flush a)"
  unfolding mmu_tlb_flush_def by (intro view_intro)

lemma keeps_view_upd_csr [view_intro]:
  "a \<noteq> c_mstatus \<Longrightarrow> a \<noteq> c_satp \<Longrightarrow> keeps_view (upd_csr a f)"
  unfolding upd_csr_def by (rule keeps_view_modify) simp

lemma keeps_view_sd [view_intro]: "keeps_view (modify_m update_mstatus_sd)"
  by (rule keeps_view_modify)
     (simp add: update_mstatus_sd_def set_mstatus_def, rule mmu_view_set_mstatus, simp_all add: bit_simps)

lemma pmpaddr_not_status:
  "idx < 16 \<Longrightarrow> c_pmpaddr0 + of_nat idx \<noteq> c_mstatus \<and> c_pmpaddr0 + of_nat idx \<noteq> c_satp"
proof -
  assume "idx < 16"
  moreover have "list_all (\<lambda>i. c_pmpaddr0 + of_nat i \<noteq> c_mstatus \<and> c_pmpaddr0 + of_nat i \<noteq> c_satp) [0..<16]"
    by code_simp
  ultimately show ?thesis by (simp add: list_all_iff)
qed

lemma keeps_view_pmpaddr_write [view_intro]: "keeps_view (pmpaddr_write idx src)"
  unfolding pmpaddr_write_def Let_def
  by (intro view_intro keeps_view_modify) (use pmpaddr_not_status [of idx] in simp)

lemma keeps_view_csr_store:
  assumes "a \<noteq> c_mstatus" "a \<noteq> c_satp"
  shows "keeps_view (csr_store a src)"
proof -
  have masked: "keeps_view (upd_csr c_mstatus (\<lambda>s. mask_bitset (csr c_mstatus s) m src))"
    if "\<not> bit m 17" "\<not> bit m 11" "\<not> bit m 12" for m
    unfolding upd_csr_def using that
    by (intro keeps_view_modify mmu_view_set_mstatus) (simp_all add: bit_simps)
  have "keeps_view (upd_csr c_mstatus (\<lambda>s. mask_bitset (csr c_mstatus s) SSTATUS_WMASK src))"
    "keeps_view (upd_csr c_mstatus (\<lambda>s. mask_bitset (csr c_mstatus s) USTATUS_WMASK src))"
    by (rule masked; simp add: SSTATUS_WMASK_num USTATUS_WMASK_def bit_simps)+
  then show ?thesis
    unfolding csr_store_def using assms
    by (intro keeps_view_if) (simp_all add: view_intro)
qed

lemma update_mmu_sys_ok:
  assumes "satp_ok s"
  shows "sys_ok (snd (update_mmu_state s))" "\<exists>b. fst (update_mmu_state s) = Ret b"
proof -
  obtain b i d where u: "update_mmu_state s = (Ret b, s\<lparr>ifetch_mmu_state := i, data_mmu_state := d\<rparr>)"
    using update_mmu_state_satp_ok [OF assms] by blast
  then have "mmu_coherent (s\<lparr>ifetch_mmu_state := i, data_mmu_state := d\<rparr>)"
    by (rule update_mmu_state_Ret)
  then show "sys_ok (snd (update_mmu_state s))" "\<exists>b. fst (update_mmu_state s) = Ret b"
    using u assms satp_ok_cong [of "s\<lparr>ifetch_mmu_state := i, data_mmu_state := d\<rparr>" s]
    by (simp_all add: sys_ok_def)
qed

text \<open>A change of any register but \<open>satp\<close>, followed by \<open>update_mmu_state\<close>, restores the invariant.\<close>

lemma modify_then_update:
  assumes "satp_ok (f s)" "keeps sys_ok k"
  shows "sys_ok (snd (then_m (modify_m f) (then_m update_mmu_state k) s))"
proof -
  obtain b where "fst (update_mmu_state (f s)) = Ret b" using update_mmu_sys_ok(2) [OF assms(1)] by blast
  then have "then_m (modify_m f) (then_m update_mmu_state k) s = k (snd (update_mmu_state (f s)))"
    by (cases "update_mmu_state (f s)") (simp add: monad_simps then_m_def bind_m_def)
  then show ?thesis using update_mmu_sys_ok(1) [OF assms(1)] keepsD [OF assms(2)] by simp
qed

lemma satp_ok_set_csr: "a \<noteq> c_satp \<Longrightarrow> satp_ok (set_csr a v s) = satp_ok s"
  by (rule satp_ok_cong) simp

lemma satp_ok_mode [simp]: "satp_ok (s\<lparr>mode := m\<rparr>) = satp_ok s"
  by (rule satp_ok_cong) simp

lemma satp_ok_mstatus [simp]:
  "satp_ok (set_mstatus f s) = satp_ok s" "satp_ok (update_mstatus_sd s) = satp_ok s"
  by (simp_all add: set_mstatus_def update_mstatus_sd_def satp_ok_set_csr)

lemma keeps_sys_ok_flags: "keeps sys_ok (set_sys_state_flag f)" "keeps sys_ok (mmu_tlb_flush a)"
  by (simp_all add: keeps_view_sys_ok view_intro)

lemma satp_ok_masked:
  assumes "shr (v AND SATP_SV39_MASK) 60 = 8 \<or> shr (v AND SATP_SV39_MASK) 60 = 0"
  shows "satp_ok (set_csr c_satp (MASKED_SATP s v) t)"
proof -
  have "shr (v AND SATP_SV39_MASK) 60 = fld 60 4 v"
  proof -
    have m: "SATP_SV39_MASK = shl (mask 4) 60" by (simp add: SATP_SV39_MASK_def mask_eq_exp_minus_1)
    show ?thesis unfolding m by (rule bit_word_eqI) (auto simp: bit_simps dest: bit_imp_le_length)
  qed
  moreover have "fld 60 4 (MASKED_SATP s v) = fld 60 4 v AND 8"
  proof -
    have "fld 60 4 (SATP_MASK s) = 8"
      by (simp add: SATP_MASK_def PADDRBITS_def fld_def)
    then show ?thesis by (simp add: MASKED_SATP_def fld_and and.commute)
  qed
  ultimately show ?thesis using assms by (auto simp: satp_ok_def satp_mode_def)
qed

lemma keeps_csr_write_post: "a \<noteq> c_mstatus \<Longrightarrow> a \<noteq> c_satp \<Longrightarrow> keeps_view (csr_write_post a)"
  unfolding csr_write_post_def by (simp add: when_m_def then_return) (intro impI conjI view_intro)

lemma csr_write_mstatus_sys_ok: "keeps sys_ok (csr_write (Csr c_mstatus) src)"
proof (rule keepsI)
  fix s assume "sys_ok s"
  then show "sys_ok (snd (csr_write (Csr c_mstatus) src s))"
    by (simp add: csr_store_def csr_write_post_def upd_csr_def when_m_def then_return bind_discard then_modify)
       (rule modify_then_update, simp_all add: satp_ok_set_csr sys_ok_def keeps_intro keeps_sys_ok_flags)
qed

lemma csr_write_satp_sys_ok: "keeps sys_ok (csr_write (Csr c_satp) src)"
proof (rule keepsI)
  fix s assume ok: "sys_ok s"
  have post: "sys_ok (snd (then_m (modify_m f) (csr_write_post c_satp) s))" if "satp_ok (f s)" for f
    using that
    by (simp add: csr_write_post_def when_m_def then_return bind_discard)
       (rule modify_then_update, simp_all add: keeps_intro keeps_sys_ok_flags)
  consider "mode s = MODE_S \<and> mstatus_tvm s"
    | "\<not> (mode s = MODE_S \<and> mstatus_tvm s)" "shr (src AND SATP_SV39_MASK) 60 = 8 \<or> shr (src AND SATP_SV39_MASK) 60 = 0"
    | "\<not> (mode s = MODE_S \<and> mstatus_tvm s)" "\<not> (shr (src AND SATP_SV39_MASK) 60 = 8 \<or> shr (src AND SATP_SV39_MASK) 60 = 0)"
    by blast
  then show "sys_ok (snd (csr_write (Csr c_satp) src s))"
  proof cases
    case 1
    then have "csr_store c_satp src s = longjmp_exception EX_II s"
      by (simp add: csr_store_def is_pmpaddr_def is_pmpcfg_def is_dasics_mem_bound_def is_dasics_jump_bound_def monad_simps)
    then have "snd (csr_write (Csr c_satp) src s) = snd (longjmp_exception EX_II s :: unit outcome \<times> machine)"
      by (simp add: then_m_def bind_m_def longjmp_exception_def)
    then show ?thesis using ok keepsD [OF keeps_view_sys_ok [OF keeps_view_longjmp]] by metis
  next
    case 2
    then have "csr_store c_satp src s = modify_m (\<lambda>s. set_csr c_satp (MASKED_SATP s src) s) s"
      by (auto simp: csr_store_def is_pmpaddr_def is_pmpcfg_def is_dasics_mem_bound_def is_dasics_jump_bound_def monad_simps upd_csr_def)
    then show ?thesis using post satp_ok_masked [OF 2(2)] by (simp add: then_m_def bind_m_def)
  next
    case 3
    then have "csr_store c_satp src s = modify_m (\<lambda>s. s) s"
      by (auto simp: csr_store_def is_pmpaddr_def is_pmpcfg_def is_dasics_mem_bound_def is_dasics_jump_bound_def monad_simps upd_csr_def)
    then show ?thesis using post [of "\<lambda>s. s"] ok by (simp add: then_m_def bind_m_def sys_ok_def)
  qed
qed

lemma csr_write_sys_ok [keeps_intro]: "keeps sys_ok (csr_write p src)"
proof (cases p)
  case Csr_perf
  then show ?thesis by (auto intro!: keeps_view_sys_ok keeps_view_modify simp: mmu_view_def mstatus_defs)
next
  case (Csr a)
  then show ?thesis
    using csr_write_mstatus_sys_ok [of src] csr_write_satp_sys_ok [of src]
      keeps_view_sys_ok [OF keeps_view_rules(6) [OF keeps_view_csr_store [of a src] keeps_csr_write_post]]
    by (cases "a = c_mstatus \<or> a = c_satp") auto
qed

lemma keeps_view_get_time [view_intro]: "keeps_view get_time"
proof -
  have "keeps_view get_time_internal"
    by (rule keeps_viewI) (simp add: get_time_internal_def mmu_view_def mstatus_defs)
  then show ?thesis unfolding get_time_def
    by (intro view_intro keeps_view_modify) (simp_all add: mmu_view_def mstatus_defs)
qed

lemma keeps_view_update_clint [view_intro]: "keeps_view update_clint"
  unfolding update_clint_def
  by (intro view_intro keeps_view_modify) (simp add: Let_def io_put_def, simp add: mmu_view_def mstatus_defs)

lemma keeps_view_clint_uptime [view_intro]: "keeps_view clint_uptime"
  unfolding clint_uptime_def by (intro view_intro)

lemma keeps_view_csr_read [view_intro]: "keeps_view (csr_read p)"
  by (cases p) (auto simp: csr_read_at_def pmpaddr_read_def intro!: view_intro)

lemma csrrw_sys_ok [keeps_intro]: "keeps sys_ok (csrrw d src a pcv)"
  unfolding csrrw_def csr_is_legal_def Let_def
  by (cases src) (auto intro!: keeps_intro keeps_view_sys_ok [OF keeps_view_csr_read] keeps_view_sys_ok [OF keeps_view_longjmp])

lemma xret_sys_ok [keeps_intro]: "keeps sys_ok uret" "keeps sys_ok sret" "keeps sys_ok mret"
proof -
  have step: "keeps sys_ok (then_m (modify_m f) (then_m update_mmu_state (gets_m g)))"
    if "\<And>s. satp_ok (f s) = satp_ok s" for f and g :: "machine \<Rightarrow> u64"
    by (rule keepsI, rule modify_then_update) (simp_all add: that sys_ok_def keeps_intro)
  show "keeps sys_ok uret"
    unfolding uret_def by (rule step) (simp add: ret_from_U_def Let_def)
  show "keeps sys_ok sret" "keeps sys_ok mret"
    unfolding sret_def mret_def
    by (intro keeps_intro keeps_view_sys_ok [OF keeps_view_longjmp] step;
        simp add: ret_from_S_def ret_from_M_def Let_def)+
qed

lemma priv_instr_sys_ok [keeps_intro]: "keeps sys_ok (priv_instr op src)"
  unfolding priv_instr_def
  by (intro keeps_intro keeps_sys_ok_flags keeps_view_sys_ok [OF keeps_view_longjmp])

lemma raise_intr_sys_ok [keeps_intro]: "keeps sys_ok (raise_intr NO epc)"
proof (rule keepsI)
  fix s assume ok: "sys_ok s"
  have "satp_ok (trap_to_U NO epc s)" "satp_ok (trap_to_S NO epc s)" "satp_ok (trap_to_M NO epc s)"
    using ok by (simp_all add: sys_ok_def satp_ok_def satp_mode_def trap_frame)
  then show "sys_ok (snd (raise_intr NO epc s))"
    by (simp add: raise_intr_def Let_def with_m_apply modify_then_update keeps_intro)
qed

lemma hostcall_trap_sys_ok [keeps_intro]: "keeps sys_ok (hostcall_trap NO epc pcv)"
proof -
  have "keeps sys_ok (modify_m (set_csr c_dfreason DFR_EF))"
    by (rule keeps_view_sys_ok, rule keeps_view_modify) simp
  then show ?thesis unfolding hostcall_trap_def Let_def by (intro keeps_intro)
qed

section \<open>Restricted views\<close>

text \<open>
  Several addresses are views of another register: reads show the bits of one mask, writes
  change the bits of another. Bit 63 is left out, because the status registers recompute it
  (\<open>mstatus.sd\<close>) on every access.
\<close>

locale csr_view =
  fixes addr target :: u12 and wmask rmask :: "machine \<Rightarrow> u64"
  assumes write_view: "\<exists>s'. csr_write (Csr addr) v s = (Ret (), s') \<and>
      take_bit 63 (csr target s') = take_bit 63 (mask_bitset (csr target s) (wmask s) v) \<and>
      (\<forall>a. a \<noteq> target \<longrightarrow> csr a s' = csr a s) \<and> mode s' = mode s"
    and read_view: "\<exists>v s'. csr_read (Csr addr) s = (Ret v, s') \<and>
      take_bit 63 v = take_bit 63 (csr target s AND rmask s)"
    and rmask_cong: "(\<And>a. a \<noteq> target \<Longrightarrow> csr a s' = csr a s) \<Longrightarrow> rmask s' = rmask s"
begin

text \<open>A write followed by a read shows the written bits where the masks allow it, the old ones elsewhere.\<close>

lemma write_read:
  "\<exists>r s'. bind_m (csr_write (Csr addr) v) (\<lambda>_. csr_read (Csr addr)) s = (Ret r, s') \<and>
     take_bit 63 r = take_bit 63 (mask_bitset (csr target s) (wmask s) v AND rmask s)"
proof -
  obtain s1 where w: "csr_write (Csr addr) v s = (Ret (), s1)"
    and t: "take_bit 63 (csr target s1) = take_bit 63 (mask_bitset (csr target s) (wmask s) v)"
    and f: "\<And>a. a \<noteq> target \<Longrightarrow> csr a s1 = csr a s"
    using write_view [of v s] by blast
  obtain r s2 where r: "csr_read (Csr addr) s1 = (Ret r, s2)" "take_bit 63 r = take_bit 63 (csr target s1 AND rmask s1)"
    using read_view by blast
  then show ?thesis using w t rmask_cong [OF f] by (simp add: bind_m_def)
qed

end

lemmas csr_ranges = is_pmpaddr_def is_pmpcfg_def is_dasics_mem_bound_def is_dasics_jump_bound_def

lemma take_63_sd [simp]:
  "take_bit 63 (csr_array (update_mstatus_sd s) c_mstatus) = take_bit 63 (csr c_mstatus s)"
  "a \<noteq> c_mstatus \<Longrightarrow> csr_array (update_mstatus_sd s) a = csr_array s a"
  "mode (update_mstatus_sd s) = mode s"
  by (auto simp: update_mstatus_sd_def set_mstatus_def bit_simps intro!: bit_word_eqI)

lemma set_sys_state_flag_apply [monad_simps]:
  "set_sys_state_flag f s = (Ret (), s\<lparr>g_sys_state_flag := g_sys_state_flag s OR f\<rparr>)"
  by (simp add: set_sys_state_flag_def monad_simps)

lemma take_and_63: "take_bit 63 v = take_bit 63 w \<Longrightarrow> take_bit 63 (v AND m) = take_bit 63 (w AND m)"
  for v w m :: u64
  by simp

interpretation sstatus: csr_view c_sstatus c_mstatus "\<lambda>_. SSTATUS_WMASK" "\<lambda>_. SSTATUS_RMASK"
  by unfold_locales
     (simp_all add: csr_store_def csr_write_post_def csr_read_at_def csr_ranges upd_csr_def monad_simps)

interpretation ustatus: csr_view c_ustatus c_mstatus "\<lambda>_. USTATUS_WMASK" "\<lambda>_. USTATUS_RMASK"
  by unfold_locales
     (simp_all add: csr_store_def csr_write_post_def csr_read_at_def csr_ranges upd_csr_def monad_simps)

interpretation sie: csr_view c_sie c_mie SIE_MASK SIE_MASK
  by unfold_locales
     (simp_all add: csr_store_def csr_write_post_def csr_read_at_def csr_ranges upd_csr_def monad_simps SIE_MASK_def)

interpretation uie: csr_view c_uie c_mie UIE_MASK UIE_MASK
  by unfold_locales
     (simp_all add: csr_store_def csr_write_post_def csr_read_at_def csr_ranges upd_csr_def monad_simps UIE_MASK_def)

interpretation sip: csr_view c_sip c_mip "\<lambda>s. if mode s = MODE_S then SIP_WMASK_S else SIP_MASK s" SIP_MASK
  by unfold_locales
     (simp_all add: csr_store_def csr_write_post_def csr_read_at_def csr_ranges upd_csr_def monad_simps SIP_MASK_def)

interpretation uip: csr_view c_uip c_mip "\<lambda>s. if mode s = MODE_U then UIP_WMASK_U else UIP_MASK s" UIP_MASK
  by unfold_locales
     (simp_all add: csr_store_def csr_write_post_def csr_read_at_def csr_ranges upd_csr_def monad_simps UIP_MASK_def)

interpretation dumcfg: csr_view c_dumcfg c_dsmcfg "\<lambda>_. DUMCFG_MASK" "\<lambda>_. DUMCFG_MASK"
  by unfold_locales
     (simp_all add: csr_store_def csr_write_post_def csr_read_at_def csr_ranges upd_csr_def monad_simps)

section \<open>PMP registers\<close>

lemma bit_masks:
  "bit (0x9f :: u64) i \<longleftrightarrow> i = 0 \<or> i = 1 \<or> i = 2 \<or> i = 3 \<or> i = 4 \<or> i = 7"
  "bit (0x18 :: u64) i \<longleftrightarrow> i = 3 \<or> i = 4" "bit (0x10 :: u64) i \<longleftrightarrow> i = 4"
  "bit (0x60 :: u64) i \<longleftrightarrow> i = 5 \<or> i = 6" "bit (2 :: u64) i \<longleftrightarrow> i = 1"
proof -
  have "(0x9f :: u64) = 2 ^ 0 OR 2 ^ 1 OR 2 ^ 2 OR 2 ^ 3 OR 2 ^ 4 OR 2 ^ 7" "(0x18 :: u64) = 2 ^ 3 OR 2 ^ 4"
    "(0x10 :: u64) = 2 ^ 4" "(0x60 :: u64) = 2 ^ 5 OR 2 ^ 6" "(2 :: u64) = 2 ^ 1"
    by simp_all
  note eqs = this
  show "bit (0x9f :: u64) i \<longleftrightarrow> i = 0 \<or> i = 1 \<or> i = 2 \<or> i = 3 \<or> i = 4 \<or> i = 7"
    unfolding eqs(1) bit_or_iff bit_exp_iff by (auto simp: possible_bit_def)
  show "bit (0x18 :: u64) i \<longleftrightarrow> i = 3 \<or> i = 4" 
    unfolding eqs(2) bit_or_iff bit_exp_iff by (auto simp: possible_bit_def)
  show "bit (0x10 :: u64) i \<longleftrightarrow> i = 4" 
    unfolding eqs(3) bit_or_iff bit_exp_iff by (auto simp: possible_bit_def)
  show "bit (0x60 :: u64) i \<longleftrightarrow> i = 5 \<or> i = 6"
    unfolding eqs(4) bit_or_iff bit_exp_iff by (auto simp: possible_bit_def)
  show "bit (2 :: u64) i \<longleftrightarrow> i = 1" 
    by (subst eqs(5), subst bit_exp_iff) (auto simp: possible_bit_def)
qed

lemma and_field_eqs:
  "x AND 0x18 = 0x10 \<longleftrightarrow> bit x 4 \<and> \<not> bit x 3" "x AND 0x60 = 0 \<longleftrightarrow> \<not> bit x 5 \<and> \<not> bit x 6"
  "x AND 2 = 0 \<longleftrightarrow> \<not> bit x 1" "x AND 1 = 0 \<longleftrightarrow> \<not> bit x 0" for x :: u64
proof -
  show "x AND 0x18 = 0x10 \<longleftrightarrow> bit x 4 \<and> \<not> bit x 3" "x AND 0x60 = 0 \<longleftrightarrow> \<not> bit x 5 \<and> \<not> bit x 6"
    unfolding u64_eq_iff bit_and_iff bit_masks by (auto dest: spec [of _ 3])
  show "x AND 2 = 0 \<longleftrightarrow> \<not> bit x 1" "x AND 1 = 0 \<longleftrightarrow> \<not> bit x 0"
    using and_pow2_nonzero [of x 1] and_pow2_nonzero [of x 0] by (auto simp: bit_0)
qed

lemma bit_pmpcfg_sanitize:
  "bit (pmpcfg_sanitize b) i \<longleftrightarrow>
     i = 0 \<and> bit b 0 \<or> i = 1 \<and> bit b 1 \<and> bit b 0 \<or> i = 2 \<and> bit b 2 \<or>
     i = 3 \<and> (bit b 3 \<or> bit b 4) \<or> i = 4 \<and> bit b 4 \<or> i = 7 \<and> bit b 7"
proof -
  have m: "(b AND 0xff) AND (PMP_R OR PMP_W OR PMP_X OR PMP_A OR PMP_L) = b AND 0x9f"
    by (simp add: and.assoc)
  define c where "c = b AND 0x9f"
  have c: "bit c i \<longleftrightarrow> bit b i \<and> (i = 0 \<or> i = 1 \<or> i = 2 \<or> i = 3 \<or> i = 4 \<or> i = 7)" for i
    unfolding c_def bit_and_iff bit_masks ..
  define d where "d = c AND (NOT PMP_W OR (if c AND PMP_R \<noteq> 0 then PMP_W else 0))"
  have d: "bit d i \<longleftrightarrow> bit c i \<and> (i = 1 \<longrightarrow> bit c 0)" for i
    unfolding d_def and_field_eqs not_not bit_and_iff bit_or_iff bit_not_iff bit_masks
    using bit_imp_le_length [of c i] by (auto simp: bit_masks)
  have "pmpcfg_sanitize b = (if bit d 4 \<and> \<not> bit d 3 then d OR 0x18 else d)"
    unfolding pmpcfg_sanitize_def m Let_def c_def [symmetric] d_def [symmetric]
    by (simp add: and_field_eqs)
  then have "bit (pmpcfg_sanitize b) i \<longleftrightarrow> bit d i \<or> bit d 4 \<and> \<not> bit d 3 \<and> (i = 3 \<or> i = 4)"
    by (cases "bit d 4 \<and> \<not> bit d 3") (auto simp only: bit_or_iff bit_masks if_True if_False simp_thms)
  then show ?thesis unfolding c d by auto
qed

lemma pmpcfg_legal_iff:
  "pmpcfg_legal c \<longleftrightarrow> (bit c 1 \<longrightarrow> bit c 0) \<and> (bit c 4 \<longrightarrow> bit c 3) \<and> \<not> bit c 5 \<and> \<not> bit c 6"
  unfolding pmpcfg_legal_def and_field_eqs by auto

lemma pmpcfg_sanitize_legal: "pmpcfg_legal (pmpcfg_sanitize b)"
  by (simp add: pmpcfg_legal_iff bit_pmpcfg_sanitize)

lemma pmpcfg_data_byte:
  assumes "i < 8"
  shows "fld (i * 8) 8 (pmpcfg_data src) = pmpcfg_sanitize (fld (i * 8) 8 src)"
proof (rule bit_word_eqI)
  fix j
  have small: "bit (pmpcfg_sanitize b) j \<Longrightarrow> j < 8" for b j by (auto simp: bit_pmpcfg_sanitize)
  have "bit (pmpcfg_data src) (i * 8 + j) = bit (pmpcfg_sanitize (shr src (i * 8))) j" if "j < 8"
  proof -
    have "i' = i" if "i' < 8" "i' * 8 \<le> i * 8 + j" "bit (pmpcfg_sanitize (shr src (i' * 8))) (i * 8 + j - i' * 8)" for i'
      using small [OF that(3)] that \<open>j < 8\<close> by linarith
    moreover have "i * 8 + j < 64" using that assms by linarith
    ultimately show ?thesis using assms
      by (auto simp: pmpcfg_data_def bit_fold_or bit_push_bit_iff simp del: upt_Suc intro!: bexI [of _ i])
         (metis add_diff_cancel_left')
  qed
  then show "bit (fld (i * 8) 8 (pmpcfg_data src)) j = bit (pmpcfg_sanitize (fld (i * 8) 8 src)) j"
    by (auto simp: bit_fld_iff bit_pmpcfg_sanitize bit_drop_bit_eq)
qed

lemma pmpcfg_sanitize_id: "pmpcfg_legal (fld k 8 b) \<Longrightarrow> pmpcfg_sanitize (fld k 8 b) = fld k 8 b"
proof (rule bit_word_eqI)
  fix i assume l: "pmpcfg_legal (fld k 8 b)"
  show "bit (pmpcfg_sanitize (fld k 8 b)) i = bit (fld k 8 b) i"
  proof (cases "i < 8")
    case True
    then have "i = 0 \<or> i = 1 \<or> i = 2 \<or> i = 3 \<or> i = 4 \<or> i = 5 \<or> i = 6 \<or> i = 7" by linarith
    then show ?thesis using l unfolding pmpcfg_legal_iff bit_pmpcfg_sanitize by (elim disjE) auto
  qed (auto simp: bit_pmpcfg_sanitize bit_fld_iff)
qed

lemma pmpaddr_addr:
  assumes "i < 16"
  shows "is_pmpaddr (c_pmpaddr0 + of_nat i)" "unat (c_pmpaddr0 + of_nat i - c_pmpaddr0) = i"
    "csr_write (Csr (c_pmpaddr0 + of_nat i)) v s = pmpaddr_write i v s"
proof -
  have "list_all (\<lambda>i. is_pmpaddr (c_pmpaddr0 + of_nat i) \<and> unat (c_pmpaddr0 + of_nat i - c_pmpaddr0) = i) [0..<16]"
    by code_simp
  then show a: "is_pmpaddr (c_pmpaddr0 + of_nat i)" "unat (c_pmpaddr0 + of_nat i - c_pmpaddr0) = i"
    using assms by (simp_all add: list_all_iff)
  let ?a = "c_pmpaddr0 + of_nat i :: u12"
  have bnd: "c_pmpaddr0 \<le> ?a" "?a < c_pmpaddr0 + 16" using a(1) by (simp_all add: is_pmpaddr_def)
  have ne: "?a \<noteq> x" if "x < c_pmpaddr0 \<or> c_pmpaddr0 + 16 \<le> x" for x using bnd that by auto
  have "csr_store ?a v = pmpaddr_write i v"
    using a(2) unfolding csr_store_def by (simp add: a(1) ne)
  moreover have "csr_write_post ?a = return_m ()"
    unfolding csr_write_post_def by (simp add: ne when_m_def then_return)
  ultimately show "csr_write (Csr ?a) v s = pmpaddr_write i v s"
    by (simp add: then_m_def bind_m_def return_m_def split: prod.splits outcome.splits)
qed

lemma csr_store_pmpcfg:
  assumes "a \<in> {c_pmpcfg0, c_pmpcfg2}"
  shows "csr_store a v = then_m (upd_csr a (\<lambda>s. pmpcfg_data v)) (mmu_tlb_flush 0)"
proof -
  have "csr_store c_pmpcfg0 v = then_m (upd_csr c_pmpcfg0 (\<lambda>s. pmpcfg_data v)) (mmu_tlb_flush 0)"
    "csr_store c_pmpcfg2 v = then_m (upd_csr c_pmpcfg2 (\<lambda>s. pmpcfg_data v)) (mmu_tlb_flush 0)"
    by (simp_all add: csr_store_def csr_ranges)
  then show ?thesis using assms by (elim insertE emptyE) simp_all
qed

lemma csr_write_post_pmpcfg: "a \<in> {c_pmpcfg0, c_pmpcfg2} \<Longrightarrow> csr_write_post a = return_m ()"
    by (auto simp: csr_write_post_def when_m_def then_return)

lemma pmpcfg_data_legal: "list_all (\<lambda>i. pmpcfg_legal (fld (i * 8) 8 (pmpcfg_data v))) [0..<8]"
    unfolding list_all_iff set_upt by (auto simp: pmpcfg_data_byte pmpcfg_sanitize_legal)

lemma pmpcfg_data_id:
  assumes l: "list_all (\<lambda>i. pmpcfg_legal (fld (i * 8) 8 v)) [0..<8]"
  shows  "pmpcfg_data v = v"
  proof (rule bit_word_eqI)
    fix n :: nat assume n: "n < LENGTH(64)"
    then have d: "n div 8 < 8" "n mod 8 < 8" "n div 8 * 8 + n mod 8 = n" by simp_all
    then have "fld (n div 8 * 8) 8 (pmpcfg_data v) = fld (n div 8 * 8) 8 v"
      using l unfolding list_all_iff set_upt by (simp add: pmpcfg_data_byte pmpcfg_sanitize_id)
    then have "bit (fld (n div 8 * 8) 8 (pmpcfg_data v)) (n mod 8) = bit (fld (n div 8 * 8) 8 v) (n mod 8)" by simp
    then show "bit (pmpcfg_data v) n = bit v n" using d unfolding bit_fld_iff by simp
  qed

lemma csr_write_pmpcfg:
  assumes "a \<in> {c_pmpcfg0, c_pmpcfg2}"
  obtains s' where "csr_write (Csr a) v s = (Ret (), s')" "csr_array s' = (csr_array s)(a := pmpcfg_data v)"
proof -
  let ?k = "then_m (mmu_tlb_flush 0) (return_m ()) :: unit exec"
  have k: "?k t = (Ret (), snd (mmu_tlb_flush 0 t))" "csr_array (snd (mmu_tlb_flush 0 t)) = csr_array t" for t
    by (simp_all add: mmu_tlb_flush_def hosttlb_flush_def monad_simps)
  have "csr_write (Csr a) v = then_m (modify_m (\<lambda>s. set_csr a (pmpcfg_data v) s)) ?k"
    by (simp add: csr_store_pmpcfg[OF assms] csr_write_post_pmpcfg[OF assms] upd_csr_def then_assoc)
  then have "csr_write (Csr a) v s = (Ret (), snd (mmu_tlb_flush 0 (set_csr a (pmpcfg_data v) s)))"
    using k(1) by (simp add: monad_simps)
  then show ?thesis by (rule that) (simp add: k(2))
qed

lemma mmu_tlb_flush_csr: "mmu_tlb_flush v t = (Ret (), snd (mmu_tlb_flush v t))"
  "csr_array (snd (mmu_tlb_flush v t)) = csr_array t"
  by (simp_all add: mmu_tlb_flush_def hosttlb_flush_def monad_simps Let_def)

lemma pmpaddr_write_eq:
  assumes "i < 16"
  shows "pmpaddr_write i v s = (Ret (), snd (mmu_tlb_flush 0
    (if pmp_write_blocked i s then s
     else set_csr (c_pmpaddr0 + of_nat i) (v AND (shl 1 (PADDRBITS s - 2) - 1)) s)))"
proof -
  have L: "ucast c AND PMP_L = 0 \<longleftrightarrow> \<not> bit c 7" for c :: u8
    using and_pow2_nonzero [of "ucast c :: u64" 7] by (auto simp: bit_simps)
  have n: "i \<noteq> 15 \<Longrightarrow> Suc i < 16" using assms by simp
  show ?thesis
    using assms n mmu_tlb_flush_csr(1) [of 0]
    by (cases "i = 15")
       (simp_all add: pmpaddr_write_def Let_def with_m_apply bind_m_def then_m_def lift_opt_def return_m_def
         pmpcfg_from_index_eq L when_m_def modify_m_def pmp_write_blocked_def)
qed

section \<open>Trap and return\<close>

lemma then_update_mmu:
  assumes "satp_ok (f s)"
  obtains s' where "then_m (modify_m f) (then_m update_mmu_state (gets_m g)) s = (Ret (g s'), s')"
    and "mode s' = mode (f s)" "csr_array s' = csr_array (f s)" "gpr s' = gpr (f s)" "pmem s' = pmem (f s)"
proof -
  obtain b i d where "update_mmu_state (f s) = (Ret b, (f s)\<lparr>ifetch_mmu_state := i, data_mmu_state := d\<rparr>)"
    using update_mmu_state_satp_ok [OF assms] by blast
  then show ?thesis
    by (intro that [of "(f s)\<lparr>ifetch_mmu_state := i, data_mmu_state := d\<rparr>"])
       (simp_all add: then_m_def bind_m_def modify_m_def gets_m_def)
qed

lemma ret_from_fields:
  "mode (ret_from_U s) = MODE_U" "mode (ret_from_S s) = mstatus_spp s" "mode (ret_from_M s) = mstatus_mpp s"
  "mstatus_uie (ret_from_U s) = mstatus_upie s" "mstatus_sie (ret_from_S s) = mstatus_spie s"
  "mstatus_mie (ret_from_M s) = mstatus_mpie s"
  by (simp_all add: ret_from_U_def ret_from_S_def ret_from_M_def Let_def set_mstatus_def mstatus_defs
      bit_put_bit_iff bit_put_fld_iff fld_put_bit_other)

lemma ret_from_frame:
  "gpr (ret_from_U s) = gpr s" "gpr (ret_from_S s) = gpr s" "gpr (ret_from_M s) = gpr s"
  "pmem (ret_from_U s) = pmem s" "pmem (ret_from_S s) = pmem s" "pmem (ret_from_M s) = pmem s"
  "a \<noteq> c_mstatus \<Longrightarrow> csr a (ret_from_U s) = csr a s" "a \<noteq> c_mstatus \<Longrightarrow> csr a (ret_from_S s) = csr a s"
  "a \<noteq> c_mstatus \<Longrightarrow> csr a (ret_from_M s) = csr a s"
  by (simp_all add: ret_from_U_def ret_from_S_def ret_from_M_def Let_def set_mstatus_def)

lemma trap_saved:
  "csr c_uepc (trap_to_U NO epc s) = epc" "csr c_sepc (trap_to_S NO epc s) = epc" "csr c_mepc (trap_to_M NO epc s) = epc"
  "mstatus_upie (trap_to_U NO epc s) = mstatus_uie s" "mstatus_spie (trap_to_S NO epc s) = mstatus_sie s"
  "mstatus_mpie (trap_to_M NO epc s) = mstatus_mie s"
  "mstatus_spp (trap_to_S NO epc s) = take_bit 1 (mode s)" "mstatus_mpp (trap_to_M NO epc s) = take_bit 2 (mode s)"
  "mstatus_tsr (trap_to_S NO epc s) = mstatus_tsr s"
  "mode (trap_to_U NO epc s) = MODE_U" "mode (trap_to_S NO epc s) = MODE_S" "mode (trap_to_M NO epc s) = MODE_M"
  by (simp_all add: trap_defs Let_def mstatus_defs bit_put_bit_iff bit_put_fld_iff
      fld_put_bit_other fld_put_fld_same)

lemma raise_intr_run:
  assumes "satp_ok s"
  obtains tp s1 where "raise_intr NO epc s = (Ret tp, s1)"
    "mode s1 = mode (trap_state NO epc s)" "csr_array s1 = csr_array (trap_state NO epc s)"
    "gpr s1 = gpr s" "pmem s1 = pmem s"
proof -
  obtain tp i d s0 where s0: "s0 = (if intr_deleg_U NO s then trap_to_U NO epc s
       else if intr_deleg_S NO s then trap_to_S NO epc s else trap_to_M NO epc s)"
    and r: "raise_intr NO epc s = (Ret tp, s0\<lparr>ifetch_mmu_state := i, data_mmu_state := d\<rparr>)"
    using raise_intr_eq [OF assms, of NO epc] by (elim exE conjE) (rule that)
  have "s0 = trap_state NO epc s" by (simp add: s0 trap_state_def trap_target_def)
  moreover have "gpr s0 = gpr s" "pmem s0 = pmem s" by (simp_all add: s0 trap_frame)
  ultimately show ?thesis by (intro that [OF r]) simp_all
qed

lemma ret_run:
  assumes "satp_ok s" "satp_ok (f s) = satp_ok s" "gpr (f s) = gpr s" "pmem (f s) = pmem s" "csr a (f s) = csr a s"
  shows "\<exists>s'. then_m (modify_m f) (then_m update_mmu_state (gets_m (csr a))) s = (Ret (csr a s), s') \<and>
    mode s' = mode (f s) \<and> csr_array s' = csr_array (f s) \<and> gpr s' = gpr s \<and> pmem s' = pmem s"
proof -
  have "satp_ok (f s)" using assms by simp
  then obtain s' where "then_m (modify_m f) (then_m update_mmu_state (gets_m (csr a))) s = (Ret (csr a s'), s')"
    "mode s' = mode (f s)" "csr_array s' = csr_array (f s)" "gpr s' = gpr (f s)" "pmem s' = pmem (f s)"
    by (rule then_update_mmu)
  then show ?thesis using assms by simp
qed

lemma satp_ok_ret_from [simp]:
  "satp_ok (ret_from_U s) = satp_ok s" "satp_ok (ret_from_S s) = satp_ok s" "satp_ok (ret_from_M s) = satp_ok s"
  by (simp_all add: satp_ok_def satp_mode_def ret_from_frame)

lemma mstatus_cong: "csr_array s = csr_array t \<Longrightarrow> mstatus_uie s = mstatus_uie t \<and> mstatus_sie s = mstatus_sie t \<and>
    mstatus_mie s = mstatus_mie t \<and> mstatus_upie s = mstatus_upie t \<and> mstatus_spie s = mstatus_spie t \<and>
    mstatus_mpie s = mstatus_mpie t \<and> mstatus_spp s = mstatus_spp t \<and> mstatus_mpp s = mstatus_mpp t \<and>
    mstatus_tsr s = mstatus_tsr t"
  by (simp add: mstatus_defs)

lemma uret_run:
  "satp_ok s \<Longrightarrow> \<exists>s'. uret s = (Ret (csr c_uepc s), s') \<and> mode s' = MODE_U \<and> mstatus_uie s' = mstatus_upie s \<and>
     gpr s' = gpr s \<and> pmem s' = pmem s"
  using ret_run [of s ret_from_U c_uepc] mstatus_cong [of _ "ret_from_U s"]
  by (auto simp: uret_def ret_from_frame ret_from_fields)

lemma sret_run:
  "satp_ok s \<Longrightarrow> \<not> (mode s = MODE_S \<and> mstatus_tsr s \<or> mode s < MODE_S) \<Longrightarrow>
   \<exists>s'. sret s = (Ret (csr c_sepc s), s') \<and> mode s' = mstatus_spp s \<and> mstatus_sie s' = mstatus_spie s \<and>
     gpr s' = gpr s \<and> pmem s' = pmem s"
  using ret_run [of s ret_from_S c_sepc] mstatus_cong [of _ "ret_from_S s"]
  by (auto simp: sret_def ret_from_frame ret_from_fields with_m_apply)

lemma mret_run:
  "satp_ok s \<Longrightarrow> \<not> mode s < MODE_M \<Longrightarrow>
   \<exists>s'. mret s = (Ret (csr c_mepc s), s') \<and> mode s' = mstatus_mpp s \<and> mstatus_mie s' = mstatus_mpie s \<and>
     gpr s' = gpr s \<and> pmem s' = pmem s"
  using ret_run [of s ret_from_M c_mepc] mstatus_cong [of _ "ret_from_M s"]
  by (auto simp: mret_def ret_from_frame ret_from_fields with_m_apply)

section \<open>Legality\<close>

lemma csr_level: "ucast (shr (addr AND shl 3 8) 8) \<le> m \<longleftrightarrow> unat (fld 8 2 addr) \<le> unat m"
  for addr :: u12 and m :: u64
proof -
  have three: "(3 :: u12) = mask 2" by (simp add: mask_eq_exp_minus_1)
  have "shr (addr AND shl 3 8) 8 = fld 8 2 addr"
    unfolding three by (rule bit_word_eqI) (auto simp: bit_simps dest: bit_imp_le_length)
  moreover have "unat (ucast a :: u64) = unat a" for a :: u12
  proof -
    have "unat a < 2 ^ LENGTH(12)" by (rule unsigned_less)
    then show ?thesis by (simp add: unsigned_ucast_eq take_bit_nat_eq_self_iff)
  qed
  ultimately show ?thesis by (simp add: word_le_nat_alt)
qed

lemma csr_read_only: "shr addr 10 = 3 \<longleftrightarrow> fld 10 2 addr = 3" for addr :: u12
proof -
  have "shr addr 10 = fld 10 2 addr"
    by (rule bit_word_eqI) (auto simp: bit_simps dest: bit_imp_le_length)
  then show ?thesis by simp
qed

section \<open>Properties\<close>

text \<open>
  C13. Every host call of the ISA (CSR access, trap, privileged instruction) keeps \<open>satp\<close> in a
  supported mode and both cached translation modes equal to what \<open>mstatus\<close>, \<open>satp\<close> and the
  privilege mode say, whether it returns, raises an exception or dies.
\<close>

theorem isa_hostcall_sys_ok: "keeps sys_ok (isa_hostcall h pcv)"
  by (cases h) (auto intro!: keeps_intro)


text \<open>
  C15. A write to a PMP configuration register always returns and leaves eight legal entries: no
  write-only permission, no NA4 region, no unused bits; a value that is legal already is stored
  unchanged, and no other register changes.
\<close>

theorem pmpcfg_write_spec:
  assumes "a \<in> {c_pmpcfg0, c_pmpcfg2}"
  shows "\<exists>s'. csr_write (Csr a) v s = (Ret (), s') \<and>
    list_all (\<lambda>i. pmpcfg_legal (fld (i * 8) 8 (csr a s'))) [0..<8] \<and>
    (list_all (\<lambda>i. pmpcfg_legal (fld (i * 8) 8 v)) [0..<8] \<longrightarrow> csr a s' = v) \<and>
    (\<forall>b. b \<noteq> a \<longrightarrow> csr b s' = csr b s)"
proof -
  obtain s' where "csr_write (Csr a) v s = (Ret (), s')" "csr_array s' = (csr_array s)(a := pmpcfg_data v)"
    using csr_write_pmpcfg [OF assms] .
  then show ?thesis using pmpcfg_data_legal [of v] pmpcfg_data_id [of v]
    by (intro exI [of _ s'] conjI impI allI) (simp_all only: fun_upd_apply simp_thms if_True if_False)
qed

theorem pmpcfg_write_spec_witness:
  "\<exists>s'. csr_write (Csr c_pmpcfg0) 0x120f (static_init True) = (Ret (), s') \<and>
     list_all (\<lambda>i. pmpcfg_legal (fld (i * 8) 8 (csr c_pmpcfg0 s'))) [0..<8]"
  using pmpcfg_write_spec [of c_pmpcfg0 "0x120f" "static_init True"] by blast

text \<open>
  C16. A write to \<open>pmpaddr\<close> register \<open>i\<close> always returns; it stores the value cut to the physical
  address width, unless entry \<open>i\<close> is locked or entry \<open>i + 1\<close> is a locked TOR entry, when the
  register keeps its value. No other register changes.
\<close>

theorem pmpaddr_write_locked:
  assumes "i < 16"
  shows "\<exists>s'. csr_write (Csr (c_pmpaddr0 + of_nat i)) v s = (Ret (), s') \<and>
    pmpaddr_from_index i s' = (if pmp_write_blocked i s then pmpaddr_from_index i s
                               else take_bit (PADDRBITS s - 2) v) \<and>
    (\<forall>a. a \<noteq> c_pmpaddr0 + of_nat i \<longrightarrow> csr a s' = csr a s)"
  using mmu_tlb_flush_csr(2) [of 0] unfolding pmpaddr_addr(3) [OF assms]
  by (simp add: pmpaddr_write_eq [OF assms] pmpaddr_from_index_def
      PADDRBITS_def take_bit_eq_mask mask_eq_exp_minus_1)

theorem pmpaddr_write_locked_witness:
  "\<exists>s'. csr_write (Csr c_pmpaddr0) 0x5 (set_csr c_pmpcfg0 0x8f (static_init True)) = (Ret (), s') \<and>
     pmpaddr_from_index 0 s' = 0"
proof -
  let ?s = "set_csr c_pmpcfg0 0x8f (static_init True)"
  have "pmp_write_blocked 0 ?s" "pmpaddr_from_index 0 ?s = 0"
    by (simp_all add: pmp_write_blocked_def pmp_cfg_def pmpaddr_from_index_def bit_simps)
  then show ?thesis using pmpaddr_write_locked [of 0 "0x5" ?s] by auto
qed




end
