(* ===== verification/Frame.thy ===== *)
theory Frame
  imports Vaddr Csr_Laws
begin

text \<open>
  What memory accesses leave alone. \<open>core\<close> is the part of the machine that only the execution
  helpers, traps and register instructions change: the translation view, the general-purpose
  registers, the \<open>Decode\<close> structure, the program counter and the build option. Every memory,
  device and DASICS operation keeps it, whichever way it ends; register accesses keep the
  smaller part \<open>regs\<close>.
\<close>

section \<open>Frames\<close>

text \<open>
  \<open>frames obs m\<close>: the code \<open>m\<close> leaves the observation \<open>obs\<close> of the machine alone, however it ends,
  and it does not end in \<open>longjmp_exec\<close>. Only \<open>nemu_trap\<close> takes that exit.
\<close>

definition frames :: "(machine \<Rightarrow> 'o) \<Rightarrow> 'a exec \<Rightarrow> bool" where
  "frames obs m \<longleftrightarrow> (\<forall>s. obs (snd (m s)) = obs s \<and> (\<forall>c. fst (m s) \<noteq> Jmp c))"

named_theorems frame_intro \<open>code that leaves an observation alone\<close>

lemma framesI:
  "(\<And>s. obs (snd (m s)) = obs s) \<Longrightarrow> (\<And>s c. fst (m s) \<noteq> Jmp c) \<Longrightarrow> frames obs m"
  by (simp add: frames_def)

lemma framesD: "frames obs m \<Longrightarrow> obs (snd (m s)) = obs s"
  by (simp add: frames_def)

lemma frames_no_jump: "frames obs m \<Longrightarrow> m s \<noteq> (Jmp c, s')"
  unfolding frames_def by (metis fst_conv)

lemma frames_sub: "frames obs m \<Longrightarrow> (\<And>s t. obs s = obs t \<Longrightarrow> obs' s = obs' t) \<Longrightarrow> frames obs' m"
  unfolding frames_def by blast

lemma frames_return [frame_intro]: "frames obs (return_m x)"
  by (simp add: frames_def monad_simps)

lemma frames_gets [frame_intro]: "frames obs (gets_m f)"
  by (simp add: frames_def monad_simps)

lemma frames_panic [frame_intro]: "frames obs panic_m"
  by (simp add: frames_def monad_simps)

lemma frames_assert [frame_intro]: "frames obs (assert_m b)"
  by (simp add: frames_def monad_simps)

lemma frames_lift_opt [frame_intro]: "frames obs (lift_opt x)"
  by (cases x) (simp_all add: lift_opt_def frame_intro)

lemma frames_bind [frame_intro]:
  "frames obs m \<Longrightarrow> (\<And>x. frames obs (f x)) \<Longrightarrow> frames obs (bind_m m f)"
  unfolding frames_def bind_m_def by (auto split: prod.splits outcome.splits) (metis fst_conv snd_conv)+

lemma frames_then [frame_intro]: "frames obs m \<Longrightarrow> frames obs k \<Longrightarrow> frames obs (then_m m k)"
  by (simp add: then_m_def frames_bind)

lemma frames_when [frame_intro]: "frames obs m \<Longrightarrow> frames obs (when_m b m)"
  by (simp add: when_m_def frames_return)

lemma frames_with [frame_intro]: "(\<And>s. frames obs (f s)) \<Longrightarrow> frames obs (with_m f)"
  by (simp add: frames_def with_m_def)

lemma frames_if [frame_intro]: "frames obs m \<Longrightarrow> frames obs k \<Longrightarrow> frames obs (if b then m else k)"
  by simp

lemma frames_if_hyp:
  "(b \<Longrightarrow> frames obs m) \<Longrightarrow> (\<not> b \<Longrightarrow> frames obs k) \<Longrightarrow> frames obs (if b then m else k)"
  by simp

lemma frames_modify: "(\<And>s. obs (f s) = obs s) \<Longrightarrow> frames obs (modify_m f)"
  by (simp add: frames_def monad_simps)

lemma frames_keeps: "frames obs m \<Longrightarrow> (\<And>s t. obs s = obs t \<Longrightarrow> P s = P t) \<Longrightarrow> keeps P m"
  unfolding frames_def keeps_def by blast

section \<open>The core\<close>

text \<open>What the main loop looks at between instructions.\<close>

definition loop_view :: "machine \<Rightarrow> bool \<times> u64 \<times> nemu_run" where
  "loop_view s = (cfg_share s, n_remain_total s, nemu_state s)"

definition regs :: "machine \<Rightarrow> (u5 \<Rightarrow> u64) \<times> u64 \<times> Decode \<times> u64 \<times> bool \<times> u64 \<times> nemu_run" where
  "regs s = (gpr s, zero_null s, dec s, pc s, loop_view s)"

definition core :: "machine \<Rightarrow> (bool \<times> u64 \<times> u64 \<times> u64 \<times> mmu_mode \<times> mmu_mode) \<times>
    (u5 \<Rightarrow> u64) \<times> u64 \<times> Decode \<times> u64 \<times> bool \<times> u64 \<times> nemu_run" where
  "core s = (mmu_view s, regs s)"

lemma core_eqI: "mmu_view s = mmu_view t \<Longrightarrow> regs s = regs t \<Longrightarrow> core s = core t"
  by (simp add: core_def)

lemma set_csr_rest [simp]: "zero_null (set_csr a v s) = zero_null s" "dec (set_csr a v s) = dec s"
  "n_remain_total (set_csr a v s) = n_remain_total s"
  by (simp_all add: set_csr_def)

lemma regs_set_csr [simp]: "regs (set_csr a v s) = regs s"
  by (simp add: regs_def loop_view_def)

lemma core_set_csr [simp]: "a \<noteq> c_mstatus \<Longrightarrow> a \<noteq> c_satp \<Longrightarrow> core (set_csr a v s) = core s"
  by (simp add: core_def)

lemma core_set_tval [simp]: "core (set_tval NO v s) = core s"
  by (simp add: set_tval_def INTR_TVAL_REG_def)

lemmas core_unfold = core_def regs_def loop_view_def mmu_view_def mstatus_defs

lemma frames_core_longjmp [frame_intro]: "frames core (longjmp_exception e)"
  by (rule framesI) (simp_all add: longjmp_exception_def core_unfold)

lemma frames_core_modify_csr [frame_intro]:
  "a \<noteq> c_mstatus \<Longrightarrow> a \<noteq> c_satp \<Longrightarrow> frames core (modify_m (set_csr a v))"
  by (rule frames_modify) simp

lemma frames_core_tval [frame_intro]: "frames core (modify_m (set_tval e a))"
  by (rule frames_modify) simp

lemma frames_core_clear_amo [frame_intro]: "frames core (modify_m (\<lambda>s. s\<lparr>amo := b\<rparr>))"
  by (rule frames_modify) (simp add: core_unfold)

section \<open>Devices\<close>

lemma frames_get_time [frame_intro]: "frames core get_time"
proof -
  have "frames core get_time_internal"
    by (rule framesI) (simp_all add: get_time_internal_def core_unfold)
  then show ?thesis unfolding get_time_def
    by (intro frame_intro frames_modify) (simp_all add: core_unfold)
qed

lemma core_io_put [simp]: "core (io_put a n v s) = core s"
  by (simp add: io_put_def core_unfold)

lemma frames_update_clint [frame_intro]: "frames core update_clint"
  unfolding update_clint_def Let_def by (intro frame_intro frames_modify) simp

lemma core_key_dequeue [simp]: "core (snd (key_dequeue s)) = core s"
  by (simp add: key_dequeue_def core_unfold)

lemma frames_callback [frame_intro]: "frames core (invoke_callback c off n w)"
proof (cases c)
  case DEV_I8042
  then show ?thesis
    unfolding invoke_callback_def i8042_data_io_handler_def
    by (simp add: split_beta Let_def) (intro frame_intro frames_modify, simp)
next
  case DEV_UARTLITE
  then show ?thesis
    unfolding invoke_callback_def serial_io_handler_def
    by (auto intro!: frame_intro frames_modify simp: core_unfold)
qed (simp_all add: invoke_callback_def clint_io_handler_def rtc_io_handler_def frame_intro frames_modify)

lemma frames_map_read [frame_intro]: "frames core (map_read addr n m)"
  unfolding map_read_def Let_def by (cases m) (auto intro!: frame_intro)

lemma frames_map_write [frame_intro]: "frames core (map_write addr n v m)"
  unfolding map_write_def Let_def by (cases m) (auto intro!: frame_intro frames_modify simp: core_unfold)

section \<open>Memory\<close>

lemma frames_raise_access_fault [frame_intro]: "frames core (raise_access_fault c v)"
  unfolding raise_access_fault_def by (intro frame_intro)

lemma frames_raise_read_fault [frame_intro]: "frames core (raise_read_access_fault t v)"
  unfolding raise_read_access_fault_def by (intro frame_intro)

lemma frames_store_push [frame_intro]: "frames core (store_commit_queue_push a v n)"
  unfolding store_commit_queue_push_def Let_def
  by (auto intro!: frame_intro frames_modify simp: scq_enqueue_def core_unfold split: option.splits)

lemma frames_pmem_write [frame_intro]: "frames core (pmem_write a n v)"
  unfolding pmem_write_def by (intro frame_intro frames_modify) (simp add: core_unfold)

lemma frames_paddr_read [frame_intro]: "frames core (paddr_read a n t md v)"
  unfolding paddr_read_def pmem_read_def mmio_read_def by (intro frame_intro)

lemma frames_paddr_write [frame_intro]: "frames core (paddr_write a n d md v)"
  unfolding paddr_write_def mmio_write_def by (intro frame_intro)

section \<open>Translation and virtual accesses\<close>

lemma frames_raise_tval [frame_intro]: "frames core (raise_tval e v)"
  unfolding raise_tval_def by (intro frame_intro)

lemma frames_check_permission [frame_intro]: "frames core (check_permission p ok v t)"
  unfolding check_permission_def mpk_fault_def Let_def by (intro frame_intro; simp)

lemma frames_ptw_loop [frame_intro]: "frames core (ptw_loop l b v t)"
proof (induction l b v t rule: ptw_loop.induct)
  case (1 level pg_base vaddr type)
  show ?case
    by (subst ptw_loop.simps, unfold Let_def) (intro frame_intro frames_if_hyp 1 [OF refl]; simp)
qed

lemma frames_ptw [frame_intro]: "frames core (ptw v t)"
proof -
  have "frames core (ptw_bad p v t)" for p unfolding ptw_bad_def by (intro frame_intro)
  then show ?thesis
    unfolding ptw_def Let_def ptw_finish_def
    by (intro frame_intro) (auto intro!: frame_intro split: ptw_end.splits)
qed

lemma frames_force_raise_pf [frame_intro]: "frames core (force_raise_pf v t)"
proof -
  have "frames core (force_raise_pf_record v t)"
    unfolding force_raise_pf_record_def by (intro frame_intro frames_modify) (simp_all add: core_unfold)
  then show ?thesis
    unfolding force_raise_pf_def Let_def by (intro frame_intro frames_modify) (simp_all)
qed

lemma frames_mmu_check [frame_intro]: "frames core (isa_mmu_check v n t)"
  unfolding isa_mmu_check_def misaligned_fault_def Let_def by (intro frame_intro; simp)

lemma frames_misalign_check [frame_intro]: "frames core (isa_misalign_data_addr_check v n t)"
  unfolding isa_misalign_data_addr_check_def misaligned_fault_def Let_def by (intro frame_intro)

lemma frames_mmu_translate [frame_intro]: "frames core (isa_mmu_translate v n t)"
  unfolding isa_mmu_translate_def by (intro frame_intro)

lemma frames_dasics_fault [frame_intro]: "frames core (dasics_fault a r)"
  unfolding dasics_fault_def Let_def by (intro frame_intro; simp)

lemma frames_ldst_check [frame_intro]: "frames core (ldst_check_bytes is v c cfg r)"
  by (induction "is") (auto intro!: frame_intro)

lemma frames_dasics_ldst [frame_intro]: "frames core (dasics_ldst_helper p v n t)"
  unfolding dasics_ldst_helper_def by (intro frame_intro)

lemma frames_dasics_fetch [frame_intro]: "frames core (dasics_fetch_helper p q t)"
  unfolding dasics_fetch_helper_def Let_def by (intro frame_intro)

lemma frames_dasics_trusted [frame_intro]: "frames core (dasics_check_trusted p)"
  unfolding dasics_check_trusted_def by (intro frame_intro)

lemma frames_read_cross_page [frame_intro]: "frames core (vaddr_read_cross_page is va a t d)"
  by (induction "is" arbitrary: a d) (auto intro!: frame_intro)

lemma frames_write_cross_page [frame_intro]: "frames core (vaddr_write_cross_page n va a d)"
  by (induction n arbitrary: a d) (auto intro!: frame_intro)

lemma frames_vaddr [frame_intro]:
  "frames core (vaddr_read_internal p a n t m)" "frames core (vaddr_write q a n d m)"
  unfolding vaddr_read_internal_def vaddr_write_def resolve_mmu_mode_def vaddr_mmu_read_def
    vaddr_mmu_write_def Let_def
  by (cases p) (auto intro!: frame_intro)

lemma frames_vaddr_read [frame_intro]: "frames core (vaddr_read p a n m)"
  unfolding vaddr_read_def by (intro frame_intro)

lemma frames_instr_fetch [frame_intro]: "frames core (instr_fetch a n)"
  unfolding instr_fetch_def vaddr_ifetch_def by (intro frame_intro)

section \<open>Register accesses and traps\<close>

lemma frames_regs_core: "frames core m \<Longrightarrow> frames regs m"
  by (simp add: frames_def core_def)

lemma frames_regs_longjmp [frame_intro]: "frames regs (longjmp_exception e)"
  by (rule frames_regs_core) (rule frame_intro)

lemma frames_regs_upd_csr [frame_intro]: "frames regs (upd_csr a f)"
  unfolding upd_csr_def by (rule frames_modify) simp

lemma frames_regs_flag [frame_intro]: "frames regs (set_sys_state_flag f)"
  unfolding set_sys_state_flag_def by (rule frames_modify) (simp add: regs_def loop_view_def)

lemma frames_regs_tlb_flush [frame_intro]: "frames regs (mmu_tlb_flush a)"
  unfolding mmu_tlb_flush_def hosttlb_flush_def
  by (intro frame_intro frames_modify) (simp add: regs_def loop_view_def Let_def)

lemma frames_regs_update_mmu [frame_intro]: "frames regs update_mmu_state"
  by (rule framesI) (simp_all add: update_mmu_state_def regs_def loop_view_def Let_def split: option.splits)

lemma regs_mstatus [simp]: "regs (set_mstatus f s) = regs s" "regs (update_mstatus_sd s) = regs s"
  by (simp_all add: set_mstatus_def update_mstatus_sd_def)

lemma regs_mode [simp]: "regs (s\<lparr>mode := m\<rparr>) = regs s"
  by (simp add: regs_def loop_view_def)

lemma frames_regs_csr_store [frame_intro]: "frames regs (csr_store a v)"
  unfolding csr_store_def pmpaddr_write_def Let_def by (intro frame_intro frames_modify) simp_all

lemma frames_regs_csr_write [frame_intro]: "frames regs (csr_write p v)"
proof (cases p)
  case (Csr a)
  then show ?thesis
    by (simp add: csr_write_post_def) (intro frame_intro frames_modify; simp)
qed (auto intro!: frames_modify simp: regs_def loop_view_def)

lemma frames_regs_csr_read [frame_intro]: "frames regs (csr_read p)"
  by (cases p) (auto simp: csr_read_at_def pmpaddr_read_def clint_uptime_def
      intro!: frame_intro frames_modify frames_regs_core [OF frames_update_clint])

lemma frames_regs_csrrw [frame_intro]: "frames regs (csrrw d v a p)"
  unfolding csrrw_def csr_is_legal_def Let_def by (cases v) (auto intro!: frame_intro)

lemma frames_regs_raise_intr [frame_intro]: "frames regs (raise_intr n e)"
  unfolding raise_intr_def Let_def
  by (intro frame_intro frames_modify) (simp_all add: trap_to_U_def trap_to_S_def trap_to_M_def Let_def)

lemma frames_regs_priv [frame_intro]: "frames regs (priv_instr op v)"
  unfolding priv_instr_def uret_def sret_def mret_def
  by (intro frame_intro frames_modify) (simp_all add: ret_from_U_def ret_from_S_def ret_from_M_def Let_def)

lemma frames_regs_hostcall [frame_intro]: "frames regs (isa_hostcall h p)"
  by (cases h) (auto simp: hostcall_trap_def Let_def intro!: frame_intro frames_modify)

end
