(* ===== verification/Exec_Laws.thy ===== *)
theory Exec_Laws
  imports Exec Frame
begin

text \<open>
  What decoding and executing an instruction guarantee: the decoder hands every helper operands
  of the kinds it dereferences, computations never abort, and no instruction disturbs the zero
  register or the coherence of the translation state.
\<close>

section \<open>Operand shapes\<close>

text \<open>
  \<open>W\<close>: the destination is a register pointer that is not the zero register (a write to it goes
  to \<open>zero_null\<close>); the other letters say which operands are register pointers or immediates.
\<close>

fun wdest :: "operand \<Rightarrow> bool" where
  "wdest (Preg r) = (r \<noteq> 0)"
| "wdest Pzero_null = True"
| "wdest (Imm _) = False"

fun is_imm :: "operand \<Rightarrow> bool" where
  "is_imm (Imm _) = True"
| "is_imm _ = False"

datatype shape = Shape_R | Shape_I | Shape_U | Shape_J | Shape_B | Shape_S | Shape_MV | Shape_CJ | Shape_JR | Shape_0

fun shape_ok :: "shape \<Rightarrow> Decode \<Rightarrow> bool" where
  "shape_ok Shape_R d \<longleftrightarrow> wdest (id_dest d) \<and> \<not> is_imm (id_src1 d) \<and> \<not> is_imm (id_src2 d)"
| "shape_ok Shape_I d \<longleftrightarrow> wdest (id_dest d) \<and> \<not> is_imm (id_src1 d) \<and> is_imm (id_src2 d)"
| "shape_ok Shape_U d \<longleftrightarrow> wdest (id_dest d) \<and> is_imm (id_src1 d)"
| "shape_ok Shape_J d \<longleftrightarrow> wdest (id_dest d) \<and> is_imm (id_src1 d) \<and> is_imm (id_src2 d)"
| "shape_ok Shape_B d \<longleftrightarrow> is_imm (id_dest d) \<and> \<not> is_imm (id_src1 d) \<and> \<not> is_imm (id_src2 d)"
| "shape_ok Shape_S d \<longleftrightarrow> \<not> is_imm (id_dest d) \<and> \<not> is_imm (id_src1 d) \<and> is_imm (id_src2 d)"
| "shape_ok Shape_MV d \<longleftrightarrow> wdest (id_dest d) \<and> \<not> is_imm (id_src1 d)"
| "shape_ok Shape_CJ d \<longleftrightarrow> is_imm (id_src1 d)"
| "shape_ok Shape_JR d \<longleftrightarrow> \<not> is_imm (id_src1 d)"
| "shape_ok Shape_0 d \<longleftrightarrow> True"

definition compute_imm :: "compute_id \<Rightarrow> bool" where
  "compute_imm i \<longleftrightarrow> i \<in> {EXEC_ID_addi, EXEC_ID_slli, EXEC_ID_srai, EXEC_ID_srli, EXEC_ID_slti,
     EXEC_ID_sltui, EXEC_ID_xori, EXEC_ID_ori, EXEC_ID_andi, EXEC_ID_addiw, EXEC_ID_slliw,
     EXEC_ID_srliw, EXEC_ID_sraiw}"

definition is_store :: "ldst_id \<Rightarrow> bool" where
  "is_store i \<longleftrightarrow> i \<in> {EXEC_ID_sd, EXEC_ID_sw, EXEC_ID_sh, EXEC_ID_sb}"

definition rvb_imm :: "rvb_id \<Rightarrow> bool" where
  "rvb_imm i \<longleftrightarrow> i \<in> {EXEC_ID_rori, EXEC_ID_roriw, EXEC_ID_bclri, EXEC_ID_bseti, EXEC_ID_binvi,
     EXEC_ID_bexti, EXEC_ID_slliuw}"

definition rvb_unary :: "rvb_id \<Rightarrow> bool" where
  "rvb_unary i \<longleftrightarrow> i \<in> {EXEC_ID_clz, EXEC_ID_ctz, EXEC_ID_cpop, EXEC_ID_sext_b, EXEC_ID_sext_h,
     EXEC_ID_zext_h, EXEC_ID_rev8, EXEC_ID_revb, EXEC_ID_orc_b, EXEC_ID_clzw, EXEC_ID_ctzw,
     EXEC_ID_cpopw}"

fun shape_of :: "exec_id \<Rightarrow> shape" where
  "shape_of (COMPUTE i) = (if i = EXEC_ID_lui \<or> i = EXEC_ID_auipc then Shape_U
                           else if compute_imm i then Shape_I else Shape_R)"
| "shape_of (CONTROL i) = (if i = EXEC_ID_jal \<or> i = EXEC_ID_dasicscall_j then Shape_J
                           else if i = EXEC_ID_jalr \<or> i = EXEC_ID_dasicscall_jr then Shape_I
                           else Shape_B)"
| "shape_of (LDST i m) = (if is_store i then Shape_S else Shape_I)"
| "shape_of (RVM i) = Shape_R"
| "shape_of (RVC i) = (case i of EXEC_ID_c_j \<Rightarrow> Shape_CJ | EXEC_ID_c_jr \<Rightarrow> Shape_JR
      | EXEC_ID_c_beqz \<Rightarrow> Shape_B | EXEC_ID_c_bnez \<Rightarrow> Shape_B | EXEC_ID_c_mv \<Rightarrow> Shape_MV
      | EXEC_ID_c_jalr \<Rightarrow> Shape_I | EXEC_ID_c_li \<Rightarrow> Shape_I | EXEC_ID_c_addi \<Rightarrow> Shape_I
      | EXEC_ID_c_addiw \<Rightarrow> Shape_I | EXEC_ID_c_slli \<Rightarrow> Shape_I | EXEC_ID_c_srli \<Rightarrow> Shape_I
      | EXEC_ID_c_srai \<Rightarrow> Shape_I | EXEC_ID_c_andi \<Rightarrow> Shape_I | _ \<Rightarrow> Shape_R)"
| "shape_of (PSEUDO i) = (case i of EXEC_ID_p_ret \<Rightarrow> Shape_0 | EXEC_ID_p_jal \<Rightarrow> Shape_J
      | EXEC_ID_p_blez \<Rightarrow> Shape_B | EXEC_ID_p_bgtz \<Rightarrow> Shape_B | EXEC_ID_p_bltz \<Rightarrow> Shape_B
      | EXEC_ID_p_bgez \<Rightarrow> Shape_B | _ \<Rightarrow> Shape_I)"
| "shape_of (RVB i) = (if rvb_imm i then Shape_I else if rvb_unary i then Shape_MV else Shape_R)"
| "shape_of (RVA _ _) = Shape_R"
| "shape_of EXEC_ID_atomic = Shape_R"
| "shape_of EXEC_ID_system = Shape_I"
| "shape_of _ = Shape_0"

definition ops_ok :: "exec_id \<Rightarrow> Decode \<Rightarrow> bool" where
  "ops_ok idx d = shape_ok (shape_of idx) d"

section \<open>The decoder respects the shapes\<close>

text \<open>
  \<open>ensures P m Q\<close>: run on a machine whose \<open>Decode\<close> structure satisfies \<open>P\<close>, code that returns
  leaves one that satisfies \<open>Q\<close>.
\<close>

definition ensures :: "(Decode \<Rightarrow> bool) \<Rightarrow> 'a exec \<Rightarrow> ('a \<Rightarrow> Decode \<Rightarrow> bool) \<Rightarrow> bool" where
  "ensures P m Q \<longleftrightarrow> (\<forall>s x s'. P (dec s) \<longrightarrow> m s = (Ret x, s') \<longrightarrow> Q x (dec s'))"

named_theorems ensures_intro \<open>rules for decoding\<close>

lemma ensures_return [ensures_intro]: "(\<And>d. P d \<Longrightarrow> Q x d) \<Longrightarrow> ensures P (return_m x) Q"
  by (simp add: ensures_def monad_simps)

lemma ensures_return_iff: "ensures P (return_m x) Q \<longleftrightarrow> (\<forall>s :: machine. P (dec s) \<longrightarrow> Q x (dec s))"
  by (auto simp: ensures_def monad_simps)

lemma ensures_then:
  "ensures P m (\<lambda>_. R) \<Longrightarrow> ensures R k Q \<Longrightarrow> ensures P (then_m m k) Q"
  unfolding ensures_def then_m_def by (blast elim: bind_m_RetD)

lemma ensures_with [ensures_intro]: "(\<And>s. ensures P (f s) Q) \<Longrightarrow> ensures P (with_m f) Q"
  by (simp add: ensures_def with_m_def)

lemma ensures_instr [ensures_intro]: "(\<And>i. ensures P (f i) Q) \<Longrightarrow> ensures P (with_instr f) Q"
  unfolding with_instr_def by (intro ensures_intro)

lemma ensures_if [ensures_intro]:
  "ensures P m Q \<Longrightarrow> ensures P k Q \<Longrightarrow> ensures P (if b then m else k) Q"
  by simp

lemma ensures_weaken: "ensures R m Q \<Longrightarrow> (\<And>d. P d \<Longrightarrow> R d) \<Longrightarrow> ensures P m Q"
  unfolding ensures_def by blast

lemma ensures_src2_imm [ensures_intro]: "(\<And>v. ensures P (f v) Q) \<Longrightarrow> ensures P (with_src2_imm f) Q"
  unfolding ensures_def with_src2_imm_def by (auto simp: monad_simps lift_opt_def bind_m_def
      split: option.splits)

lemma ensures_table:
  assumes "list_all (\<lambda>e. ensures P (snd e) Q) es" "ensures P final Q"
  shows "ensures P (instr_table es final) Q"
  using assms
proof (induction es)
  case (Cons e es)
  obtain pat body where e: "e = (pat, body)" by (cases e)
  have b: "ensures P body Q" and r: "ensures P (instr_table es final) Q"
    using Cons by (simp_all add: e)
  have "ensures P (case instr_matches pat i of None \<Rightarrow> panic_m
      | Some b \<Rightarrow> if b then body else instr_table es final) Q" for i
    using b r by (cases "instr_matches pat i") (simp_all add: ensures_def panic_m_def)
  then show ?case unfolding e instr_table.simps def_INSTR_raw_def by (rule ensures_instr)
qed simp

lemma u5_nonzero: "v < 32 \<Longrightarrow> v \<noteq> 0 \<Longrightarrow> (ucast v :: u5) \<noteq> 0" for v :: u32
proof
  assume v: "v < 32" "v \<noteq> 0" and z: "(ucast v :: u5) = 0"
  have "unat v < 32" using v(1) by (simp add: word_less_nat_alt)
  moreover have "unat (ucast v :: u5) = unat v mod 32"
    by (simp add: unsigned_ucast_eq take_bit_eq_mod)
  ultimately show False using z v(2) by (simp add: unat_eq_0)
qed

lemma decode_op_r_apply [monad_simps]:
  "decode_op_r op v lv s =
    (if \<not> lv \<and> v = 0 then (Ret (), s\<lparr>dec := set_op op Pzero_null (dec s)\<rparr>)
     else if v < 32 then (Ret (), s\<lparr>dec := set_op op (Preg (ucast v)) (dec s)\<rparr>)
     else (Abort, s))"
  by (simp add: decode_op_r_def upd_dec_def then_m_def bind_m_def monad_simps)

lemma decode_op_i_apply [monad_simps]:
  "decode_op_i op v s = (Ret (), s\<lparr>dec := set_op op (Imm v) (dec s)\<rparr>)"
  by (simp add: decode_op_i_def upd_dec_def monad_simps)

lemma upd_dec_apply [monad_simps]: "upd_dec f s = (Ret (), s\<lparr>dec := f (dec s)\<rparr>)"
  by (simp add: upd_dec_def monad_simps)

lemma with_instr_apply [monad_simps]: "with_instr f s = f (get_instr s) s"
  by (simp add: with_instr_def monad_simps)

lemmas run_simps = monad_simps then_m_def bind_m_def Let_def ensures_def

lemma ensures_base [ensures_intro]:
  "ensures (\<lambda>_. True) decode_I (\<lambda>_. shape_ok Shape_I)"
  "ensures (\<lambda>_. True) decode_R (\<lambda>_. shape_ok Shape_R)"
  "ensures (\<lambda>_. True) decode_U (\<lambda>_. shape_ok Shape_U)"
  "ensures (\<lambda>_. True) decode_auipc (\<lambda>_. shape_ok Shape_U)"
  "ensures (\<lambda>_. True) decode_J (\<lambda>_. shape_ok Shape_J)"
  "ensures (\<lambda>_. True) decode_B (\<lambda>_. shape_ok Shape_B)"
  "ensures (\<lambda>_. True) decode_S (\<lambda>_. shape_ok Shape_S)"
  "ensures (\<lambda>_. True) decode_dasicscall_j (\<lambda>_. shape_ok Shape_J)"
  "ensures (\<lambda>_. True) decode_csr (\<lambda>_. shape_ok Shape_I)"
  unfolding decode_I_def decode_R_def decode_U_def decode_auipc_def decode_J_def decode_B_def
    decode_S_def decode_dasicscall_j_def decode_csr_def
  by (auto simp: run_simps u5_nonzero split: if_splits)

lemma ensures_compressed [ensures_intro]:
  "ensures (\<lambda>_. True) decode_CI_simm (\<lambda>_. shape_ok Shape_I)"
  "ensures (\<lambda>_. True) decode_CI_uimm (\<lambda>_. shape_ok Shape_I)"
  "ensures (\<lambda>_. True) decode_C_LI (\<lambda>_. shape_ok Shape_I)"
  "ensures (\<lambda>_. True) decode_C_ADDI4SPN (\<lambda>_. shape_ok Shape_I)"
  "ensures (\<lambda>_. True) decode_CS (\<lambda>_. shape_ok Shape_R)"
  "ensures (\<lambda>_. True) decode_CB (\<lambda>_. shape_ok Shape_B)"
  "ensures (\<lambda>_. True) decode_CB_shift (\<lambda>_. shape_ok Shape_I)"
  "ensures (\<lambda>_. True) decode_CB_andi (\<lambda>_. shape_ok Shape_I)"
  "ensures (\<lambda>_. True) decode_CJ (\<lambda>_. shape_ok Shape_CJ)"
  "ensures (\<lambda>_. True) decode_C_MOV (\<lambda>_. shape_ok Shape_R)"
  "ensures (\<lambda>_. True) decode_C_ADD (\<lambda>_. shape_ok Shape_R)"
  "ensures (\<lambda>_. True) decode_C_JALR (\<lambda>_. shape_ok Shape_I)"
  unfolding decode_CI_simm_def decode_CI_uimm_def decode_C_LI_def decode_C_ADDI4SPN_def decode_CS_def
    decode_CB_def decode_CB_shift_def decode_CB_andi_def decode_CJ_def decode_C_MOV_def decode_C_ADD_def
    decode_C_JALR_def decode_op_rd_rs1_imm6_def decode_op_C_imm6_def decode_op_C_rd_rs1_def
    decode_C_rs1_rs2_rd_def
  by (auto simp: run_simps u5_nonzero split: if_splits)

lemma ensures_C_ADDI16SP [ensures_intro]:
  "ensures (\<lambda>_. True) decode_C_ADDI16SP (\<lambda>_. shape_ok Shape_I)"
  unfolding decode_C_ADDI16SP_def
  by (auto simp: run_simps u5_nonzero longjmp_exception_def split: if_splits)

lemma ensures_C_JR [ensures_intro]: "ensures (\<lambda>_. True) decode_C_JR (\<lambda>_. shape_ok Shape_JR)"
  unfolding decode_C_JR_def by (auto simp: run_simps longjmp_exception_def split: if_splits)

lemma ensures_lui [ensures_intro]: "ensures (\<lambda>_. True) decode_CI_simm_lui (\<lambda>_. shape_ok Shape_U)"
proof -
  have "ensures (shape_ok Shape_I) (with_src2_imm (\<lambda>imm. with_m (\<lambda>s.
     if cfg_share s \<and> imm = 0 then longjmp_exception EX_II
     else upd_dec (set_op SRC1 (Imm (shl imm 12)))))) (\<lambda>_. shape_ok Shape_U)"
    by (intro ensures_intro) (auto simp: run_simps longjmp_exception_def)
  then show ?thesis unfolding decode_CI_simm_lui_def by (rule ensures_then [OF ensures_compressed(1)])
qed

text \<open>The load and store formats also keep the instruction word, which the shared table looks at again.\<close>

lemma ensures_C_ldst:
  "ensures (\<lambda>d. R (dec_instr d)) (decode_C_ldst_common rot False False) (\<lambda>_ d. shape_ok Shape_I d \<and> R (dec_instr d))"
  "ensures (\<lambda>d. R (dec_instr d)) (decode_C_ldst_common rot True False) (\<lambda>_ d. shape_ok Shape_S d \<and> R (dec_instr d))"
  "ensures (\<lambda>d. R (dec_instr d)) (decode_C_LxSP rot False) (\<lambda>_ d. shape_ok Shape_I d \<and> R (dec_instr d))"
  "ensures (\<lambda>d. R (dec_instr d)) (decode_C_SxSP rot False) (\<lambda>_ d. shape_ok Shape_S d \<and> R (dec_instr d))"
  unfolding decode_C_ldst_common_def decode_C_LxSP_def decode_C_SxSP_def decode_C_xxSP_def decode_op_C_imm6_def
  by (auto simp: run_simps u5_nonzero longjmp_exception_def split: if_splits)

lemmas shape_defs = ops_ok_def compute_imm_def is_store_def rvb_imm_def rvb_unary_def

lemma ensures_tables [ensures_intro]:
  "ensures (shape_ok Shape_I) table_addi_dispatch ops_ok"
  "ensures (shape_ok Shape_B) table_branch ops_ok"
  "ensures (shape_ok Shape_J) table_jal_dispatch ops_ok"
  "ensures (shape_ok Shape_I) table_jalr_dispatch ops_ok"
  "ensures (shape_ok Shape_I) table_mem_fence ops_ok"
  "ensures (shape_ok Shape_R) table_rvm ops_ok"
  "ensures (shape_ok Shape_R) table_rvm32 ops_ok"
  "ensures (shape_ok Shape_R) table_atomic ops_ok"
  "ensures (shape_ok Shape_I) table_c_li_dispatch ops_ok"
  "ensures (shape_ok Shape_R) table_rvc_Q1_compute_more64 ops_ok"
  "ensures (shape_ok Shape_R) table_rvc_Q1_compute_more32 ops_ok"
  unfolding table_addi_dispatch_def table_branch_def table_jal_dispatch_def table_jalr_dispatch_def
    table_mem_fence_def table_rvm_def table_rvm32_def table_atomic_def table_c_li_dispatch_def
    table_rvc_Q1_compute_more64_def table_rvc_Q1_compute_more32_def
  by (rule ensures_table; simp add: ensures_return_iff shape_defs)+

lemma ensures_dispatch [ensures_intro]:
  "ensures (shape_ok Shape_I) table_c_addi_dispatch ops_ok"
  "ensures (shape_ok Shape_I) table_c_addiw_dispatch ops_ok"
  "ensures (shape_ok Shape_R) table_atomic_any ops_ok"
  "ensures (shape_ok Shape_R) table_rvc_Q1_compute_more ops_ok"
  unfolding table_c_addi_dispatch_def table_c_addiw_dispatch_def table_atomic_any_def
    table_rvc_Q1_compute_more_def
  by (intro ensures_intro ensures_table; simp add: shape_defs ensures_return_iff ensures_tables)+

lemma ensures_mmu_table:
  assumes "ensures P m Q" "ensures P k Q"
  shows "ensures P (case x of MMU_DIRECT \<Rightarrow> m | MMU_TRANSLATE \<Rightarrow> k | MMU_DYNAMIC \<Rightarrow> panic_m) Q"
  using assms by (cases x) (simp_all add: ensures_def panic_m_def)

lemma ensures_load_store [ensures_intro]:
  "ensures (shape_ok Shape_I) table_load ops_ok"
  "ensures (shape_ok Shape_S) table_store ops_ok"
  unfolding table_load_def table_store_def
  by (intro ensures_with ensures_mmu_table ensures_table; simp add: ensures_return_iff shape_defs)+

lemma ensures_op [ensures_intro]:
  "ensures (shape_ok Shape_I) table_op_imm ops_ok"
  "ensures (shape_ok Shape_I) table_op_imm32 ops_ok"
  "ensures (shape_ok Shape_R) table_op ops_ok"
  "ensures (shape_ok Shape_R) table_op32 ops_ok"
  unfolding table_op_imm_def table_op_imm32_def table_op_def table_op32_def
  by (intro ensures_instr ensures_table; simp add: ensures_return_iff ensures_tables ensures_dispatch shape_defs)+

lemma ensures_then_table:
  "ensures (\<lambda>_. True) m (\<lambda>_. R) \<Longrightarrow> ensures R k Q \<Longrightarrow> ensures P (then_m m k) Q"
  by (rule ensures_then [OF ensures_weaken]) simp_all

lemmas decode_then = ensures_base [THEN ensures_then_table] ensures_compressed [THEN ensures_then_table]
  ensures_C_ADDI16SP [THEN ensures_then_table] ensures_C_JR [THEN ensures_then_table]
  ensures_lui [THEN ensures_then_table]

lemmas table_ensures = ensures_return_iff ensures_tables ensures_dispatch ensures_load_store ensures_op
  decode_then

lemma ensures_main: "ensures P table_main ops_ok"
  unfolding table_main_def by (rule ensures_table; simp add: table_ensures shape_defs)

text \<open>
  The table of compressed loads and stores looks at the upper three bits again, so that a
  decoder of loads (bit 15 clear) meets the load helpers only.
\<close>

lemma ensures_table_match:
  assumes "list_all (\<lambda>e. ensures (\<lambda>d. P d \<and> instr_matches (fst e) (dec_instr d) = Some True) (snd e) Q) es"
    and "ensures P final Q"
  shows "ensures P (instr_table es final) Q"
  using assms
proof (induction es)
  case (Cons e es)
  obtain pat body where e: "e = (pat, body)" by (cases e)
  have b: "ensures (\<lambda>d. P d \<and> instr_matches pat (dec_instr d) = Some True) body Q"
    and r: "ensures P (instr_table es final) Q"
    using Cons by (simp_all add: e)
  show ?case
    unfolding e instr_table.simps def_INSTR_raw_def
  proof (subst ensures_def, intro allI impI)
    fix s x s'
    assume P: "P (dec s)" and run: "with_instr (\<lambda>i. case instr_matches pat i of None \<Rightarrow> panic_m
      | Some b \<Rightarrow> if b then body else instr_table es final) s = (Ret x, s')"
    then show "Q x (dec s')"
      using b r by (auto simp: ensures_def with_instr_apply get_instr_def panic_m_def
          split: option.splits if_splits)
  qed
qed simp

text \<open>Evaluation of a match on a literal pattern: a conjunction of bits.\<close>

lemmas match_eval = instr_matches_holds pattern_valid_def pattern_chars_def pattern_holds_def
  numeral_2_eq_2 [symmetric]

lemma match_bit15:
  "instr_matches ''010 ??? ??? ?? ??? ??'' i = Some True \<Longrightarrow> \<not> bit i 15"
  "instr_matches ''011 ??? ??? ?? ??? ??'' i = Some True \<Longrightarrow> \<not> bit i 15"
  "instr_matches ''110 ??? ??? ?? ??? ??'' i = Some True \<Longrightarrow> bit i 15"
  "instr_matches ''111 ??? ??? ?? ??? ??'' i = Some True \<Longrightarrow> bit i 15"
  "instr_matches ''010 ? ????? ????? ??'' i = Some True \<Longrightarrow> \<not> bit i 15"
  "instr_matches ''011 ? ????? ????? ??'' i = Some True \<Longrightarrow> \<not> bit i 15"
  "instr_matches ''110 ? ????? ????? ??'' i = Some True \<Longrightarrow> bit i 15"
  "instr_matches ''111 ? ????? ????? ??'' i = Some True \<Longrightarrow> bit i 15"
  by (simp_all add: match_eval)

lemma ensures_c_ldst:
  "ensures (\<lambda>d. shape_ok Shape_I d \<and> \<not> bit (dec_instr d) 15) table_c_ldst ops_ok"
  "ensures (\<lambda>d. shape_ok Shape_S d \<and> bit (dec_instr d) 15) table_c_ldst ops_ok"
  unfolding table_c_ldst_def
  by (intro ensures_with ensures_mmu_table ensures_table_match;
      auto simp: ensures_return_iff shape_defs dest: match_bit15)+

lemma ensures_then_match:
  assumes "ensures (\<lambda>d. R (dec_instr d)) m (\<lambda>_ d. Q' d \<and> R (dec_instr d))"
    and "ensures (\<lambda>d. Q' d \<and> R (dec_instr d)) k Q"
    and "\<And>i. instr_matches pat i = Some True \<Longrightarrow> R i"
  shows "ensures (\<lambda>d. P d \<and> instr_matches pat (dec_instr d) = Some True) (then_m m k) Q"
  by (rule ensures_then [OF ensures_weaken [OF assms(1)] assms(2)]) (simp add: assms(3))

lemma ensures_then_any: "ensures (\<lambda>_. True) m Q \<Longrightarrow> ensures P m Q"
  by (rule ensures_weaken) simp_all

lemma ensures_rvc_sub:
  "ensures P table_rvc_Q1_lui_addi16sp ops_ok" "ensures P table_rvc_Q1_compute ops_ok"
  "ensures P table_rvc_Q2_jr_mov ops_ok" "ensures P table_rvc_Q2_jalr_add ops_ok"
  unfolding table_rvc_Q1_lui_addi16sp_def table_rvc_Q1_compute_def table_rvc_Q2_jr_mov_def
    table_rvc_Q2_jalr_add_def
  by (rule ensures_table; simp add: table_ensures shape_defs)+

lemma ensures_rvc_Q1: "ensures P table_rvc_Q1 ops_ok"
  unfolding table_rvc_Q1_def by (rule ensures_table; simp add: table_ensures ensures_rvc_sub shape_defs)

lemma ensures_rvc_Q2_misc: "ensures P table_rvc_Q2_misc ops_ok"
  unfolding table_rvc_Q2_misc_def by (rule ensures_table; simp add: table_ensures ensures_rvc_sub shape_defs)

lemmas c_load_match = ensures_then_match
  [OF ensures_C_ldst(1) [where R = "\<lambda>i. \<not> bit i 15"] ensures_c_ldst(1)]
  ensures_then_match [OF ensures_C_ldst(3) [where R = "\<lambda>i. \<not> bit i 15"] ensures_c_ldst(1)]

lemmas c_store_match = ensures_then_match
  [OF ensures_C_ldst(2) [where R = "\<lambda>i. bit i 15"] ensures_c_ldst(2)]
  ensures_then_match [OF ensures_C_ldst(4) [where R = "\<lambda>i. bit i 15"] ensures_c_ldst(2)]

lemmas c_ldst_match = c_load_match(1) [OF match_bit15(1)] c_load_match(1) [OF match_bit15(2)]
  c_store_match(1) [OF match_bit15(3)] c_store_match(1) [OF match_bit15(4)]
  c_load_match(2) [OF match_bit15(5)] c_load_match(2) [OF match_bit15(6)]
  c_store_match(2) [OF match_bit15(7)] c_store_match(2) [OF match_bit15(8)]

lemma ensures_rvc_Q0: "ensures P table_rvc_Q0 ops_ok"
  unfolding table_rvc_Q0_def decode_C_LW_def decode_C_LD_def decode_C_SW_def decode_C_SD_def
  by (rule ensures_table_match;
      simp add: table_ensures shape_defs c_ldst_match)

lemma ensures_rvc_Q2: "ensures P table_rvc_Q2 ops_ok"
  unfolding table_rvc_Q2_def decode_C_LWSP_def decode_C_LDSP_def decode_C_SWSP_def decode_C_SDSP_def
  by (rule ensures_table_match;
      simp add: table_ensures shape_defs c_ldst_match ensures_rvc_Q2_misc)

lemma ensures_rvc: "ensures P table_rvc ops_ok"
  unfolding table_rvc_def
  by (rule ensures_table; simp add: ensures_rvc_Q0 ensures_rvc_Q1 ensures_rvc_Q2 table_ensures shape_defs)

lemma ensures_bind:
  "ensures P m R \<Longrightarrow> (\<And>x. ensures (R x) (f x) Q) \<Longrightarrow> ensures P (bind_m m f) Q"
  unfolding ensures_def by (blast elim: bind_m_RetD)

lemma ensures_any: "ensures P m (\<lambda>_ _. True)"
  by (simp add: ensures_def)

definition same_ops :: "Decode \<Rightarrow> Decode \<Rightarrow> bool" where
  "same_ops d e \<longleftrightarrow> id_dest d = id_dest e \<and> id_src1 d = id_src1 e \<and> id_src2 d = id_src2 e"

lemma ops_ok_same: "same_ops d e \<Longrightarrow> ops_ok idx d = ops_ok idx e"
  unfolding ops_ok_def same_ops_def by (cases "shape_of idx") auto

lemma classify_same_ops: "same_ops (dec (snd (classify idx s))) (dec s)"
  unfolding classify_def
  by (auto simp: run_simps lift_opt_def same_ops_def split: option.splits)

lemma ensures_classify: "ensures (ops_ok idx) (classify idx) (\<lambda>_. ops_ok idx)"
  unfolding ensures_def
proof (intro allI impI)
  fix s x s' assume "ops_ok idx (dec s)" "classify idx s = (Ret x, s')"
  then show "ops_ok idx (dec s')"
    using classify_same_ops [of idx s] ops_ok_same by auto
qed

lemma ensures_fetch_decode: "ensures P isa_fetch_decode ops_ok"
proof -
  have "ensures (\<lambda>_. True) (bind_m fetch_half (\<lambda>hi.
      then_m (upd_dec (\<lambda>d. d\<lparr>dec_instr := dec_instr d OR shl hi 16\<rparr>)) table_main)) ops_ok"
    by (intro ensures_bind [OF ensures_any] ensures_then [OF ensures_any] ensures_main)
  then have body: "ensures (\<lambda>_. True) (if b then table_rvc else bind_m fetch_half (\<lambda>hi.
      then_m (upd_dec (\<lambda>d. d\<lparr>dec_instr := dec_instr d OR shl hi 16\<rparr>)) table_main)) ops_ok" for b
    by (simp add: ensures_rvc)
  have last: "ensures (ops_ok idx) (then_m (classify idx) (return_m idx)) ops_ok" for idx
    by (rule ensures_then [OF ensures_classify]) (rule ensures_return)
  show ?thesis
    unfolding isa_fetch_decode_def
    by (intro ensures_then [OF ensures_any] ensures_bind [OF ensures_any] ensures_bind [OF body last])
qed

section \<open>Running the helpers\<close>

definition preg_val :: "operand \<Rightarrow> machine \<Rightarrow> u64" where
  "preg_val op s = (case op of Preg r \<Rightarrow> gpr s r | Pzero_null \<Rightarrow> zero_null s | Imm v \<Rightarrow> v)"

definition preg_set :: "operand \<Rightarrow> u64 \<Rightarrow> machine \<Rightarrow> machine" where
  "preg_set op v s = (case op of Preg r \<Rightarrow> set_gpr r v s | Pzero_null \<Rightarrow> s\<lparr>zero_null := v\<rparr> | Imm _ \<Rightarrow> s)"

definition imm_val :: "operand \<Rightarrow> u64" where
  "imm_val op = (case op of Imm v \<Rightarrow> v | _ \<Rightarrow> 0)"

named_theorems helper_simps \<open>helpers run on operands of the right shape\<close>

lemma load_preg_apply [helper_simps]: "\<not> is_imm op \<Longrightarrow> load_preg op s = (Ret (preg_val op s), s)"
  by (cases op) (simp_all add: load_preg_def lift_opt_def preg_val_def monad_simps)

lemma put_preg_apply [helper_simps]: "wdest op \<Longrightarrow> put_preg op v s = (Ret (), preg_set op v s)"
  by (cases op) (simp_all add: preg_set_def monad_simps)

lemma wdest_not_imm [simp]: "wdest op \<Longrightarrow> \<not> is_imm op"
  by (cases op) simp_all

lemma dsrc_apply [helper_simps]:
  "\<not> is_imm (id_src1 (dec s)) \<Longrightarrow> dsrc1 f s = f (preg_val (id_src1 (dec s)) s) s"
  "\<not> is_imm (id_src2 (dec s)) \<Longrightarrow> dsrc2 f s = f (preg_val (id_src2 (dec s)) s) s"
  "\<not> is_imm (id_dest (dec s)) \<Longrightarrow> ddest f s = f (preg_val (id_dest (dec s)) s) s"
  by (simp_all add: dsrc1_def dsrc2_def ddest_def with_dec_def monad_simps load_preg_apply)

lemma imm_apply [helper_simps]:
  "is_imm (id_src1 (dec s)) \<Longrightarrow> src1_imm f s = f (imm_val (id_src1 (dec s))) s"
  "is_imm (id_src2 (dec s)) \<Longrightarrow> src2_imm f s = f (imm_val (id_src2 (dec s))) s"
  "is_imm (id_dest (dec s)) \<Longrightarrow> dest_imm f s = f (imm_val (id_dest (dec s))) s"
  by (cases "id_src1 (dec s)"; cases "id_src2 (dec s)"; cases "id_dest (dec s)";
      simp add: src1_imm_def src2_imm_def dest_imm_def with_dec_def imm_val_def lift_opt_def monad_simps)+

lemma set_ddest_apply [helper_simps]:
  "wdest (id_dest (dec s)) \<Longrightarrow> set_ddest v s = (Ret (), preg_set (id_dest (dec s)) v s)"
  by (simp add: set_ddest_def with_dec_def monad_simps put_preg_apply)

lemma with_dec_apply [helper_simps]: "with_dec f s = f (dec s) s"
  by (simp add: with_dec_def monad_simps)

lemma lift_Some [helper_simps]: "lift_opt (Some v) s = (Ret v, s)"
  by (simp add: lift_opt_def monad_simps)

lemma dec_preg_set [simp]: "dec (preg_set op v s) = dec s"
  by (simp add: preg_set_def set_gpr_def split: operand.split)

lemma relop_Some:
  "r \<in> {RELOP_EQ, RELOP_NE, RELOP_LT, RELOP_GE, RELOP_LTU, RELOP_GEU} \<Longrightarrow> \<exists>b. interpret_relop r x y = Some b"
  by (auto simp: interpret_relop_def)

lemma rvm_Some:
  "\<exists>v. rvm_div x y = Some v" "\<exists>v. rvm_divu x y = Some v" "\<exists>v. rvm_rem x y = Some v"
  "\<exists>v. rvm_remu x y = Some v" "\<exists>v. rvm_divw x y = Some v" "\<exists>v. rvm_remw x y = Some v"
  "\<exists>v. rvm_divuw x y = Some v" "\<exists>v. rvm_remuw x y = Some v"
  by (auto simp: rvm_div_def rvm_divu_def rvm_rem_def rvm_remu_def c_divs_q_def c_divs_r_def
      c_divu_q_def c_divu_r_def sint_overflow_iff [simplified] rvm_divw_eq rvm_remw_eq rvm_divuw_def
      rvm_remuw_def rtl_zext_4 rtl_sext_4 Let_def)

end
