(* ===== verification/Step_Laws.thy ===== *)
theory Step_Laws
  imports Exec_Laws
begin

text \<open>
  One instruction: decoded computations do not abort, and no instruction breaks the invariant
  of the machine (the zero register reads zero, the cached translation modes are coherent).
\<close>

section \<open>Computations do not abort\<close>

fun computational :: "exec_id \<Rightarrow> bool" where
  "computational (COMPUTE _) = True"
| "computational (CONTROL _) = True"
| "computational (RVM _) = True"
| "computational (RVC _) = True"
| "computational (PSEUDO _) = True"
| "computational (RVB _) = True"
| "computational _ = False"

lemma rtl_jumps_apply [helper_simps]:
  "\<exists>s'. rtl_j t s = (Ret (), s')" "\<exists>s'. rtl_jr t s = (Ret (), s')"
  by (simp_all add: rtl_j_def rtl_jr_def monad_simps)

lemma fst_jumps [simp]: "fst (rtl_j t s) = Ret ()" "fst (rtl_jr t s) = Ret ()"
  by (simp_all add: rtl_j_def rtl_jr_def monad_simps)

lemmas exec_shape_defs = exec_r_def exec_rr_def exec_rr_opt_def exec_ri_def exec_ri_opt_def
  exec_dr_def exec_di_def branch_def branch_z_def branch_z2_def

lemma rtl_setrelop_Some:
  "rtl_setrelop RELOP_LT x y = Some (of_bool_w (sint x < sint y))"
  "rtl_setrelop RELOP_LTU x y = Some (of_bool_w (x < y))"
  by (simp_all add: rtl_setrelop_def interpret_relop_def)

lemma compute_returns:
  "ops_ok (COMPUTE i) (dec s) \<Longrightarrow> fst (exec_compute i s) = Ret ()"
  by (cases i) (simp_all add: shape_defs exec_shape_defs helper_simps then_m_def bind_m_def rtl_setrelop_Some)

lemma bind_Some: "\<exists>v. x = Some v \<Longrightarrow> bind_m (lift_opt x) f s = f (the x) s"
  by (auto simp: bind_m_def lift_Some)

lemma rvm_returns: "ops_ok (RVM i) (dec s) \<Longrightarrow> fst (exec_rvm i s) = Ret ()"
  by (cases i) (simp_all add: shape_defs exec_shape_defs helper_simps bind_Some rvm_Some)

lemma rvb_returns: "ops_ok (RVB i) (dec s) \<Longrightarrow> fst (exec_rvb i s) = Ret ()"
  by (cases i) (simp_all add: shape_defs exec_shape_defs helper_simps)

lemma jrelop_returns:
  "r \<in> {RELOP_EQ, RELOP_NE, RELOP_LT, RELOP_GE, RELOP_LTU, RELOP_GEU} \<Longrightarrow>
   fst (rtl_jrelop r x y t s) = Ret ()"
  by (simp add: rtl_jrelop_def bind_Some relop_Some helper_simps)

lemma jr_target_apply [monad_simps]:
  "jr_target a s = (Ret (if cfg_share s then c_and a (NOT 1) else a), s)"
  by (simp add: jr_target_def monad_simps)

lemma rvc_returns: "ops_ok (RVC i) (dec s) \<Longrightarrow> fst (exec_rvc i s) = Ret ()"
  by (cases i) (auto simp: shape_defs exec_shape_defs helper_simps jrelop_returns exec_c_jr_def
      exec_c_jalr_def bind_m_def then_m_def monad_simps set_gpr_def)

lemma pseudo_returns: "ops_ok (PSEUDO i) (dec s) \<Longrightarrow> fst (exec_pseudo i s) = Ret ()"
  by (cases i) (auto simp: shape_defs exec_shape_defs helper_simps jrelop_returns
      bind_m_def then_m_def monad_simps)

lemma link_value_apply [monad_simps]: "\<exists>v. link_value s = (Ret v, s)"
  by (simp add: link_value_def monad_simps)

lemma set_dretpc_no_abort: "fst (rtl_set_dretpc v s) \<noteq> Abort"
  by (simp add: rtl_set_dretpc_def dasics_check_trusted_def helper_simps then_m_def bind_m_def monad_simps
      longjmp_exception_def)

lemma dec_set_dretpc: "rtl_set_dretpc v s = (Ret (), s') \<Longrightarrow> dec s' = dec s"
  by (auto simp: rtl_set_dretpc_def dasics_check_trusted_def helper_simps then_m_def bind_m_def monad_simps
      longjmp_exception_def split: if_splits)

lemma then_no_abort:
  "fst (m s) \<noteq> Abort \<Longrightarrow> (\<And>x s'. m s = (Ret x, s') \<Longrightarrow> fst (k s') \<noteq> Abort) \<Longrightarrow> fst (then_m m k s) \<noteq> Abort"
  by (auto simp: then_m_def bind_m_def split: prod.splits outcome.splits)

lemma dasicscall_no_abort:
  assumes "wdest (id_dest (dec s))"
  shows "fst (then_m (rtl_set_dretpc l) (then_m (set_ddest v) (rtl_j t)) s) \<noteq> Abort"
    and "fst (then_m (rtl_set_dretpc l) (then_m (set_ddest v) (rtl_jr t)) s) \<noteq> Abort"
  using assms dec_set_dretpc [of l s]
  by (intro then_no_abort set_dretpc_no_abort; simp add: helper_simps)+

lemma control_no_abort: "ops_ok (CONTROL i) (dec s) \<Longrightarrow> fst (exec_control i s) \<noteq> Abort"
proof (cases i)
  case EXEC_ID_dasicscall_j
  then show "ops_ok (CONTROL i) (dec s) \<Longrightarrow> ?thesis"
    using dasicscall_no_abort(1) by (auto simp: shape_defs helper_simps)
next
  case EXEC_ID_dasicscall_jr
  obtain v where v: "link_value s = (Ret v, s)" using link_value_apply by blast
  show "ops_ok (CONTROL i) (dec s) \<Longrightarrow> ?thesis"
    unfolding EXEC_ID_dasicscall_jr using dasicscall_no_abort(2)
    by (auto simp: shape_defs helper_simps Let_def bind_m_apply(1) [of link_value, OF v])
next
  case EXEC_ID_jalr
  obtain v where v: "link_value s = (Ret v, s)" using link_value_apply by blast
  show "ops_ok (CONTROL i) (dec s) \<Longrightarrow> ?thesis"
    unfolding EXEC_ID_jalr
    by (auto simp: shape_defs helper_simps Let_def v then_m_def bind_m_def)
qed (auto simp: shape_defs exec_shape_defs helper_simps jrelop_returns then_m_def bind_m_def)

text \<open>
  C30. An instruction that the decoder has accepted as an integer, multiplication, bit
  manipulation, branch or jump instruction, compressed or not, never aborts when it is executed:
  the helper dereferences register operands and reads immediates only where the decoder put
  them, and no division is undefined.
\<close>

theorem decoded_computation_no_abort:
  assumes "isa_fetch_decode s = (Ret idx, s')" and "computational idx"
  shows "fst (exec_table idx s') \<noteq> Abort"
proof -
  have "ops_ok idx (dec s')"
    using ensures_fetch_decode [of "\<lambda>_. True"] assms(1) by (simp add: ensures_def)
  then show ?thesis
    using assms(2) compute_returns rvm_returns rvb_returns rvc_returns pseudo_returns control_no_abort
    by (cases idx) auto
qed

text \<open>Fetching \<open>c.add a0, a1\<close> (0x952e) at the reset vector and executing it.\<close>

definition add_example :: machine where
  "add_example = (static_init True)\<lparr>mode := MODE_M,
     pmem := ((\<lambda>_. 0)(0x80000000 := 0x2e, 0x80000001 := 0x95)),
     dec := (dec (static_init True))\<lparr>dec_pc := 0x80000000, dec_snpc := 0x80000000\<rparr>\<rparr>"

theorem decoded_computation_no_abort_witness:
  "fst (isa_fetch_decode add_example) = Ret (RVC EXEC_ID_c_add) \<and>
   fst (exec_table (RVC EXEC_ID_c_add) (snd (isa_fetch_decode add_example))) \<noteq> Abort"
proof -
  have run: "fst (isa_fetch_decode add_example) = Ret (RVC EXEC_ID_c_add)" by code_simp
  then have "isa_fetch_decode add_example =
      (Ret (RVC EXEC_ID_c_add), snd (isa_fetch_decode add_example))"
    by (metis prod.collapse)
  from run decoded_computation_no_abort [OF this computational.simps(4) [THEN iffD2, OF TrueI]]
  show ?thesis by (rule conjI)
qed

section \<open>The machine invariant\<close>

definition machine_ok :: "machine \<Rightarrow> bool" where
  "machine_ok s \<longleftrightarrow> sys_ok s \<and> gpr s 0 = 0"

text \<open>The invariant together with a destination that is not the zero register.\<close>

definition machine_ok_w :: "machine \<Rightarrow> bool" where
  "machine_ok_w s \<longleftrightarrow> machine_ok s \<and> id_dest (dec s) \<noteq> Preg 0"

lemma core_keeps: "frames core m \<Longrightarrow> keeps machine_ok m" "frames core m \<Longrightarrow> keeps machine_ok_w m"
proof -
  have "machine_ok s = machine_ok t" "machine_ok_w s = machine_ok_w t" if "core s = core t" for s t
    using that sys_ok_view [of s t] by (simp_all add: core_def regs_def machine_ok_w_def machine_ok_def)
  then show "frames core m \<Longrightarrow> keeps machine_ok m" "frames core m \<Longrightarrow> keeps machine_ok_w m"
    by (blast intro: frames_keeps)+
qed

lemma regs_keeps:
  assumes "frames regs m" "keeps sys_ok m"
  shows "keeps machine_ok m" "keeps machine_ok_w m"
  using assms unfolding machine_ok_w_def machine_ok_def frames_def keeps_def regs_def by auto

lemma mmu_view_upd [simp]:
  "mmu_view (s\<lparr>pc := v\<rparr>) = mmu_view s" "mmu_view (s\<lparr>zero_null := v\<rparr>) = mmu_view s"
  "mmu_view (set_gpr r v s) = mmu_view s" "mmu_view (s\<lparr>query_mem_event := q\<rparr>) = mmu_view s"
  "mmu_view (s\<lparr>dec := d\<rparr>) = mmu_view s" "mmu_view (s\<lparr>lr_addr := v\<rparr>) = mmu_view s"
  "mmu_view (s\<lparr>lr_valid := w\<rparr>) = mmu_view s" "mmu_view (s\<lparr>amo := b\<rparr>) = mmu_view s"
  "mmu_view (s\<lparr>g_nr_guest_instr := v, profiling_started := b\<rparr>) = mmu_view s"
  "mmu_view (s\<lparr>nemu_state := n, halt_pc := v, halt_ret := h\<rparr>) = mmu_view s"
  by (simp_all add: mmu_view_def mstatus_defs set_gpr_def)

lemma dec_set_gpr [simp]: "dec (set_gpr r v s) = dec s"
  by (simp add: set_gpr_def)

lemma machine_okI:
  "mmu_view t = mmu_view s \<Longrightarrow> gpr t 0 = 0 \<Longrightarrow> machine_ok s \<Longrightarrow> machine_ok t"
  by (simp add: machine_ok_def sys_ok_view [of t s])

lemma machine_ok_wI:
  "mmu_view t = mmu_view s \<Longrightarrow> gpr t 0 = 0 \<Longrightarrow> dec t = dec s \<Longrightarrow> machine_ok_w s \<Longrightarrow> machine_ok_w t"
  by (simp add: machine_ok_w_def machine_ok_def sys_ok_view [of t s])

lemma ok_modify [keeps_intro]:
  assumes "\<And>s. mmu_view (f s) = mmu_view s" "\<And>s. gpr s 0 = 0 \<Longrightarrow> gpr (f s) 0 = 0" "\<And>s. dec (f s) = dec s"
  shows "keeps machine_ok (modify_m f)" "keeps machine_ok_w (modify_m f)"
  using assms machine_okI machine_ok_wI
  by (auto intro!: keeps_modify simp: machine_ok_w_def machine_ok_def)

text \<open>Code that holds the \<open>Decode\<close> structure may use that its destination is not the zero register.\<close>

lemma ok_with_dec:
  "(\<And>d. keeps machine_ok (f d)) \<Longrightarrow> keeps machine_ok (with_dec f)"
  "(\<And>d. id_dest d \<noteq> Preg 0 \<Longrightarrow> keeps machine_ok_w (f d)) \<Longrightarrow> keeps machine_ok_w (with_dec f)"
  unfolding with_dec_def by (auto simp: keeps_def with_m_def machine_ok_w_def)

lemma ok_lift_opt [keeps_intro]: "keeps P (lift_opt x)"
  by (cases x) (simp_all add: lift_opt_def keeps_intro)

lemma ok_load_preg [keeps_intro]: "keeps P (load_preg op)"
  unfolding load_preg_def by (intro keeps_intro)

lemma ok_put_preg [keeps_intro]:
  "op \<noteq> Preg 0 \<Longrightarrow> keeps machine_ok (put_preg op v)" "op \<noteq> Preg 0 \<Longrightarrow> keeps machine_ok_w (put_preg op v)"
  by (cases op; simp; (rule ok_modify keeps_panic)?; simp)+

lemmas ok_operands [keeps_intro] =
  ok_with_dec(1) ok_with_dec(2)

lemma ok_src [keeps_intro]:
  "(\<And>v. keeps machine_ok (f v)) \<Longrightarrow> keeps machine_ok (dsrc1 f)"
  "(\<And>v. keeps machine_ok (f v)) \<Longrightarrow> keeps machine_ok (dsrc2 f)"
  "(\<And>v. keeps machine_ok (f v)) \<Longrightarrow> keeps machine_ok (ddest f)"
  "(\<And>v. keeps machine_ok (f v)) \<Longrightarrow> keeps machine_ok (src1_imm f)"
  "(\<And>v. keeps machine_ok (f v)) \<Longrightarrow> keeps machine_ok (src2_imm f)"
  "(\<And>v. keeps machine_ok (f v)) \<Longrightarrow> keeps machine_ok (dest_imm f)"
  unfolding dsrc1_def dsrc2_def ddest_def src1_imm_def src2_imm_def dest_imm_def
  by (intro keeps_intro; assumption)+

lemma ok_src_w [keeps_intro]:
  "(\<And>v. keeps machine_ok_w (f v)) \<Longrightarrow> keeps machine_ok_w (dsrc1 f)"
  "(\<And>v. keeps machine_ok_w (f v)) \<Longrightarrow> keeps machine_ok_w (dsrc2 f)"
  "(\<And>v. keeps machine_ok_w (f v)) \<Longrightarrow> keeps machine_ok_w (ddest f)"
  "(\<And>v. keeps machine_ok_w (f v)) \<Longrightarrow> keeps machine_ok_w (src1_imm f)"
  "(\<And>v. keeps machine_ok_w (f v)) \<Longrightarrow> keeps machine_ok_w (src2_imm f)"
  "(\<And>v. keeps machine_ok_w (f v)) \<Longrightarrow> keeps machine_ok_w (dest_imm f)"
  unfolding dsrc1_def dsrc2_def ddest_def src1_imm_def src2_imm_def dest_imm_def
  by (intro keeps_intro; assumption)+

lemma ok_set_ddest [keeps_intro]: "keeps machine_ok_w (set_ddest v)"
  unfolding set_ddest_def by (intro keeps_intro)

lemma ok_jumps [keeps_intro]:
  "keeps machine_ok (rtl_j t)" "keeps machine_ok (rtl_jr t)" "keeps machine_ok (rtl_priv_jr t)"
  "keeps machine_ok_w (rtl_j t)" "keeps machine_ok_w (rtl_jr t)" "keeps machine_ok_w (rtl_priv_jr t)"
  unfolding rtl_j_def rtl_jr_def rtl_priv_jr_def by (rule ok_modify; simp)+

lemma ok_jrelop [keeps_intro]: "keeps machine_ok (rtl_jrelop r a b t)"
  unfolding rtl_jrelop_def by (intro keeps_intro)

lemma ok_exec_shapes [keeps_intro]:
  "keeps machine_ok_w (exec_r f)" "keeps machine_ok_w (exec_rr g)" "keeps machine_ok_w (exec_ri g)"
  "keeps machine_ok_w (exec_rr_opt h)" "keeps machine_ok_w (exec_ri_opt h)"
  "keeps machine_ok_w (exec_dr g)" "keeps machine_ok_w (exec_di g)"
  "keeps machine_ok (branch r)" "keeps machine_ok (branch_z r)" "keeps machine_ok (branch_z2 r)"
  unfolding exec_shape_defs by (intro keeps_intro)+

lemmas ok_memory [keeps_intro] = frames_vaddr_read [THEN core_keeps(1)] frames_vaddr_read [THEN core_keeps(2)]
  frames_vaddr(2) [THEN core_keeps(1)] frames_vaddr(2) [THEN core_keeps(2)]
  frames_mmu_check [THEN core_keeps(2)] frames_mmu_translate [THEN core_keeps(2)]
  frames_core_longjmp [THEN core_keeps(1)] frames_core_longjmp [THEN core_keeps(2)]
  frames_core_tval [THEN core_keeps(2)] frames_dasics_trusted [THEN core_keeps(2)]

lemma ok_mem_event [keeps_intro]: "keeps machine_ok (record_mem_event l a f)" "keeps machine_ok_w (record_mem_event l a f)"
  unfolding record_mem_event_def by (intro keeps_intro; simp)+

lemma ok_loads [keeps_intro]:
  "op \<noteq> Preg 0 \<Longrightarrow> keeps machine_ok_w (rtl_lm op a f n m)"
  "keeps machine_ok_w (lms_value a f n m)"
  unfolding rtl_lm_def lms_value_def by (intro keeps_intro; assumption)+

lemma ok_lms [keeps_intro]: "op \<noteq> Preg 0 \<Longrightarrow> keeps machine_ok_w (rtl_lms op a f n m)"
  unfolding rtl_lms_def by (intro keeps_intro; assumption)

lemma ok_sm [keeps_intro]: "keeps machine_ok (rtl_sm v a f n m)" "keeps machine_ok_w (rtl_sm v a f n m)"
  unfolding rtl_sm_def by (intro keeps_intro)+

lemma ok_compute: "keeps machine_ok_w (exec_compute i)"
  by (cases i) (simp_all add: keeps_intro)

lemma ok_rvm: "keeps machine_ok_w (exec_rvm i)"
  by (cases i) (simp_all add: keeps_intro)

lemma ok_rvb: "keeps machine_ok_w (exec_rvb i)"
  by (cases i) (simp_all add: keeps_intro)

lemma ok_jr_target [keeps_intro]: "keeps P (jr_target a)" "keeps P link_value"
  unfolding jr_target_def link_value_def by (intro keeps_intro)+

lemma ok_link [keeps_intro]:
  "keeps machine_ok (modify_m (set_gpr 1 v))" "keeps machine_ok_w (modify_m (set_gpr 1 v))"
  by (rule ok_modify; simp)+

lemma ok_c_jumps: "keeps machine_ok exec_c_jr" "keeps machine_ok exec_c_jalr"
  unfolding exec_c_jr_def exec_c_jalr_def by (intro keeps_intro)+

definition writes_dest :: "shape \<Rightarrow> bool" where
  "writes_dest sh \<longleftrightarrow> sh \<in> {Shape_R, Shape_I, Shape_U, Shape_J, Shape_MV}"

text \<open>The two ways a helper keeps the invariant: outright, or because its destination is writable.\<close>

definition helper_ok :: "exec_id \<Rightarrow> bool" where
  "helper_ok idx \<longleftrightarrow> keeps machine_ok (exec_table idx) \<or>
     writes_dest (shape_of idx) \<and> keeps machine_ok_w (exec_table idx)"

lemma helper_ok_rvc: "helper_ok (RVC i)"
  unfolding helper_ok_def writes_dest_def
  by (cases i) (simp_all add: keeps_intro ok_c_jumps)

lemma helper_ok_pseudo: "helper_ok (PSEUDO i)"
  unfolding helper_ok_def writes_dest_def
  by (cases i) (simp_all add: keeps_intro)

lemma ok_dretpc [keeps_intro]: "keeps machine_ok_w (rtl_set_dretpc v)"
  unfolding rtl_set_dretpc_def
  by (intro keeps_intro core_keeps(2) [OF frames_core_modify_csr]) simp_all

lemma helper_ok_control: "helper_ok (CONTROL i)"
  unfolding helper_ok_def writes_dest_def
  by (cases i) (simp_all add: keeps_intro)

lemma ok_ldst [keeps_intro]:
  "keeps machine_ok_w (exec_lms n m)" "keeps machine_ok_w (exec_lm n m)" "keeps machine_ok (exec_sm n m)"
  unfolding exec_lms_def exec_lm_def exec_sm_def by (intro keeps_intro; assumption)+

lemma helper_ok_ldst: "helper_ok (LDST i m)"
  unfolding helper_ok_def writes_dest_def
  by (cases i) (simp_all add: keeps_intro is_store_def)

section \<open>Atomic and system instructions\<close>

lemma ok_set_amo [keeps_intro]: "keeps machine_ok_w (set_amo b)"
  unfolding set_amo_def by (rule ok_modify; simp)

lemma ok_amo:
  assumes "dst \<noteq> Preg 0"
  shows "keeps machine_ok_w (rtl_amo_slow_path dst src1 src2)"
proof -
  have lr: "keeps machine_ok_w (amo_lr dst src1 w)" for w
    unfolding amo_lr_def by (intro keeps_intro assms; simp)
  have fail: "keeps machine_ok_w (amo_sc_fail a w)" for a w
    unfolding amo_sc_fail_def by (intro keeps_intro)
  have sc: "keeps machine_ok_w (amo_sc dst src1 src2 w)" for w
    unfolding amo_sc_def by (intro keeps_intro fail assms; simp)
  have "keeps machine_ok_w (amo_rmw f dst src1 src2 w)" for f w
    unfolding amo_rmw_def by (intro keeps_intro assms)
  with lr sc show ?thesis unfolding rtl_amo_slow_path_def with_instr_def by (intro keeps_intro)
qed

lemma ok_exec_amo: "keeps machine_ok_w exec_amo"
  unfolding exec_amo_def by (intro keeps_intro ok_amo)

lemma isa_hostcall_keeps: "keeps sys_ok (isa_hostcall h p)"
  by (cases h) (auto intro!: keeps_intro)

lemmas ok_isa_hostcall [keeps_intro] = regs_keeps [OF frames_regs_hostcall isa_hostcall_keeps]

lemma ok_hostcall_value [keeps_intro]:
  "keeps machine_ok_w (rtl_hostcall (HOSTCALL_ISA h))" "keeps machine_ok_w (hostcall_value h)"
  "keeps machine_ok (rtl_hostcall (HOSTCALL_ISA h))"
proof -
  show w: "keeps machine_ok_w (rtl_hostcall (HOSTCALL_ISA h))" "keeps machine_ok (rtl_hostcall (HOSTCALL_ISA h))"
    by (simp_all add: keeps_intro)
  show "keeps machine_ok_w (hostcall_value h)"
    unfolding hostcall_value_def by (intro keeps_bind w ok_lift_opt)
qed

lemma ok_trap [keeps_intro]: "keeps machine_ok_w (rtl_trap a n)"
  unfolding rtl_trap_def by (intro keeps_intro)

lemma ok_system: "keeps machine_ok_w exec_system"
proof -
  have priv: "keeps machine_ok_w (sys_priv i src1)" for i src1
    unfolding sys_priv_def by (intro keeps_intro)
  have csr: "keeps machine_ok_w (sys_csr f i dst src1)" if "dst \<noteq> Preg 0" for f i dst src1
    unfolding sys_csr_def with_instr_def by (intro keeps_intro that)
  have path: "keeps machine_ok_w (rtl_sys_slow_path dst src1 i)" if "dst \<noteq> Preg 0" for dst src1 i
    unfolding rtl_sys_slow_path_def with_instr_def by (intro keeps_intro priv csr that)
  show ?thesis
    unfolding exec_system_def by (intro keeps_intro path; simp add: split_beta keeps_intro)
qed

lemma ok_nemu_trap: "keeps machine_ok exec_nemu_trap"
proof -
  have "keeps machine_ok (longjmp_exec c)" for c by (simp add: keeps_def longjmp_exec_def)
  moreover have "keeps machine_ok disable_time_intr"
    unfolding disable_time_intr_def by (rule ok_modify; simp)
  moreover have "keeps machine_ok (rtl_hostcall (HOSTCALL_EXIT v))" for v
    by (simp add: set_nemu_state_def) (intro keeps_intro; simp)
  ultimately show ?thesis unfolding exec_nemu_trap_def by (intro keeps_intro; simp)
qed

lemma helper_ok_dest:
  "helper_ok (COMPUTE c)" "helper_ok (RVM m)" "helper_ok (RVB r)" "helper_ok (RVA o' w)"
  "helper_ok EXEC_ID_atomic" "helper_ok EXEC_ID_system"
  by (simp_all add: helper_ok_def writes_dest_def ok_compute ok_rvm ok_rvb ok_exec_amo ok_system)

lemma helper_ok_special:
  "helper_ok EXEC_ID_nemu_trap" "helper_ok EXEC_ID_inv" "helper_ok EXEC_ID_rt_inv"
  "helper_ok EXEC_ID_fence" "helper_ok EXEC_ID_fence_i"
  by (simp_all add: helper_ok_def ok_nemu_trap exec_inv_def exec_rt_inv_def exec_fence_def exec_fence_i_def
      keeps_intro del: rtl_hostcall.simps)

lemma helper_ok_all: "helper_ok idx"
  by (cases idx) (simp_all only: helper_ok_rvc helper_ok_pseudo helper_ok_control helper_ok_ldst
      helper_ok_dest helper_ok_special)

lemma exec_keeps_ok:
  assumes "machine_ok s" "ops_ok idx (dec s)"
  shows "machine_ok (snd (exec_table idx s))"
proof -
  have "writes_dest (shape_of idx) \<Longrightarrow> wdest (id_dest (dec s))"
    using assms(2) by (cases "shape_of idx") (auto simp: writes_dest_def ops_ok_def)
  then have "writes_dest (shape_of idx) \<Longrightarrow> machine_ok_w s"
    using assms(1) by (auto simp: machine_ok_w_def)
  then show ?thesis
    using helper_ok_all [of idx] assms(1)
    by (auto simp: helper_ok_def dest: keepsD) (auto simp: keeps_def machine_ok_w_def)
qed

section \<open>Fetching and decoding\<close>

text \<open>
  Fetching and decoding leave registers, program counter, translation state and the address of the
  instruction alone; the address of the next one stays even or odd.
\<close>

definition dcore :: "machine \<Rightarrow> (bool \<times> u64 \<times> u64 \<times> u64 \<times> mmu_mode \<times> mmu_mode) \<times> (u5 \<Rightarrow> u64) \<times> u64 \<times>
    (bool \<times> u64 \<times> nemu_run) \<times> u64 \<times> bool" where
  "dcore s = (mmu_view s, gpr s, pc s, loop_view s, dec_pc (dec s), bit (dec_snpc (dec s)) 0)"

lemma frames_dcore_core: "frames core m \<Longrightarrow> frames dcore m"
  unfolding frames_def by (simp add: core_def regs_def dcore_def)

lemma dcore_upd_dec [frame_intro]:
  "(\<And>d. dec_pc (f d) = dec_pc d \<and> dec_snpc (f d) = dec_snpc d) \<Longrightarrow> frames dcore (upd_dec f)"
  by (rule framesI) (simp_all add: upd_dec_apply dcore_def loop_view_def)

lemma dec_pc_set_op [simp]: "dec_pc (set_op op x d) = dec_pc d" "dec_snpc (set_op op x d) = dec_snpc d"
  by (cases op, simp_all)+

lemma dcore_op [frame_intro]:
  "frames dcore (decode_op_i op v)" "frames dcore (decode_op_r op r l)"
  unfolding decode_op_i_def decode_op_r_def by (intro frame_intro; simp)+

lemma dcore_longjmp [frame_intro]: "frames dcore (longjmp_exception e)"
  by (rule frames_dcore_core) (rule frame_intro)

lemma frames_instr [frame_intro]: "(\<And>i. frames obs (f i)) \<Longrightarrow> frames obs (with_instr f)"
  unfolding with_instr_def by (intro frame_intro)

lemma frames_src2_imm [frame_intro]: "(\<And>v. frames obs (f v)) \<Longrightarrow> frames obs (with_src2_imm f)"
  unfolding with_src2_imm_def by (intro frame_intro)

lemma frames_mmu_case [frame_intro]:
  "frames obs m \<Longrightarrow> frames obs k \<Longrightarrow>
   frames obs (case x of MMU_DIRECT \<Rightarrow> m | MMU_TRANSLATE \<Rightarrow> k | MMU_DYNAMIC \<Rightarrow> panic_m)"
  by (cases x) (simp_all add: frame_intro)

lemma frames_table:
  "list_all (\<lambda>e. frames obs (snd e)) es \<Longrightarrow> frames obs final \<Longrightarrow> frames obs (instr_table es final)"
proof (induction es)
  case (Cons e es)
  obtain pat body where e: "e = (pat, body)" by (cases e)
  have "frames obs (case instr_matches pat i of None \<Rightarrow> panic_m
      | Some b \<Rightarrow> if b then body else instr_table es final)" for i
    using Cons by (cases "instr_matches pat i") (simp_all add: e frame_intro)
  then show ?case unfolding e instr_table.simps def_INSTR_raw_def by (rule frames_instr)
qed simp

lemma dcore_base_formats [frame_intro]:
  "frames dcore decode_I" "frames dcore decode_R" "frames dcore decode_U" "frames dcore decode_auipc"
  "frames dcore decode_J" "frames dcore decode_B" "frames dcore decode_S"
  "frames dcore decode_dasicscall_j" "frames dcore decode_csr"
  unfolding decode_I_def decode_R_def decode_U_def decode_auipc_def decode_J_def decode_B_def
    decode_S_def decode_dasicscall_j_def decode_csr_def
  by (intro frame_intro; simp split: operand.split)+

lemma dcore_ci [frame_intro]: "frames dcore (decode_op_rd_rs1_imm6 sg sh r c)"
  unfolding decode_op_rd_rs1_imm6_def decode_op_C_imm6_def decode_op_C_rd_rs1_def Let_def
  by (intro frame_intro)

lemma dcore_compressed [frame_intro]:
  "frames dcore decode_CI_simm" "frames dcore decode_CI_uimm" "frames dcore decode_C_LI"
  "frames dcore decode_C_ADDI4SPN" "frames dcore decode_C_ADDI16SP" "frames dcore decode_CS"
  "frames dcore decode_CB" "frames dcore decode_CB_shift" "frames dcore decode_CB_andi"
  "frames dcore decode_CJ" "frames dcore decode_C_MOV" "frames dcore decode_C_ADD"
  "frames dcore decode_C_JALR" "frames dcore decode_C_JR" "frames dcore decode_CI_simm_lui"
  "frames dcore (decode_C_ldst_common r a b)" "frames dcore (decode_C_LxSP r b)" "frames dcore (decode_C_SxSP r b)"
  unfolding decode_CI_simm_lui_def decode_CI_simm_def decode_CI_uimm_def decode_C_LI_def
    decode_C_ADDI4SPN_def decode_C_ADDI16SP_def decode_CS_def decode_CB_def decode_CB_shift_def
    decode_CB_andi_def decode_CJ_def decode_C_MOV_def decode_C_ADD_def decode_C_JALR_def decode_C_JR_def
    decode_C_rs1_rs2_rd_def decode_op_C_rd_rs1_def decode_C_ldst_common_def decode_C_LxSP_def
    decode_C_SxSP_def decode_C_xxSP_def decode_op_C_imm6_def decode_CI_simm_def Let_def
  by (intro frame_intro; simp)+

lemma dcore_tables [frame_intro]:
  "frames dcore table_addi_dispatch" "frames dcore table_branch" "frames dcore table_jal_dispatch"
  "frames dcore table_jalr_dispatch" "frames dcore table_mem_fence" "frames dcore table_rvm"
  "frames dcore table_rvm32" "frames dcore table_atomic" "frames dcore table_c_li_dispatch"
  "frames dcore table_rvc_Q1_compute_more64" "frames dcore table_rvc_Q1_compute_more32"
  unfolding table_addi_dispatch_def table_branch_def table_jal_dispatch_def table_jalr_dispatch_def
    table_mem_fence_def table_rvm_def table_rvm32_def table_atomic_def table_c_li_dispatch_def
    table_rvc_Q1_compute_more64_def table_rvc_Q1_compute_more32_def
  by (rule frames_table; simp add: frames_return)+

lemma dcore_dispatch [frame_intro]:
  "frames dcore table_c_addi_dispatch" "frames dcore table_c_addiw_dispatch"
  "frames dcore table_atomic_any" "frames dcore table_rvc_Q1_compute_more"
  unfolding table_c_addi_dispatch_def table_c_addiw_dispatch_def table_atomic_any_def
    table_rvc_Q1_compute_more_def
  by (intro frame_intro frames_table; simp add: frames_return dcore_tables)+

lemma dcore_mmu_tables [frame_intro]:
  "frames dcore table_load" "frames dcore table_store" "frames dcore table_c_ldst"
  unfolding table_load_def table_store_def table_c_ldst_def
  by (intro frames_with frames_mmu_case frames_table; simp add: frames_return)+

lemma dcore_op_tables [frame_intro]:
  "frames dcore table_op_imm" "frames dcore table_op_imm32" "frames dcore table_op" "frames dcore table_op32"
  unfolding table_op_imm_def table_op_imm32_def table_op_def table_op32_def
  by (intro frames_instr frames_table; simp add: frames_return dcore_tables dcore_dispatch)+

lemmas dcore_entries = frames_return frames_then dcore_tables dcore_dispatch dcore_mmu_tables dcore_op_tables
  dcore_base_formats dcore_compressed

lemma dcore_main: "frames dcore table_main"
  unfolding table_main_def by (rule frames_table; simp add: dcore_entries)

lemma dcore_rvc_sub:
  "frames dcore table_rvc_Q1_lui_addi16sp" "frames dcore table_rvc_Q1_compute"
  "frames dcore table_rvc_Q2_jr_mov" "frames dcore table_rvc_Q2_jalr_add"
  unfolding table_rvc_Q1_lui_addi16sp_def table_rvc_Q1_compute_def table_rvc_Q2_jr_mov_def
    table_rvc_Q2_jalr_add_def
  by (rule frames_table; simp add: dcore_entries)+

lemma dcore_rvc_misc: "frames dcore table_rvc_Q2_misc"
  unfolding table_rvc_Q2_misc_def by (rule frames_table; simp add: dcore_entries dcore_rvc_sub)

lemma dcore_rvc: "frames dcore table_rvc"
proof -
  have "frames dcore table_rvc_Q0" "frames dcore table_rvc_Q1" "frames dcore table_rvc_Q2"
    unfolding table_rvc_Q0_def table_rvc_Q1_def table_rvc_Q2_def decode_C_LW_def decode_C_LD_def
      decode_C_SW_def decode_C_SD_def decode_C_LWSP_def decode_C_LDSP_def decode_C_SWSP_def decode_C_SDSP_def
    by (rule frames_table; simp add: dcore_entries dcore_rvc_sub dcore_rvc_misc)+
  then show ?thesis unfolding table_rvc_def by (intro frames_table) (simp_all add: frames_return)
qed

lemma dcore_fetch_half [frame_intro]: "frames dcore fetch_half"
proof (rule framesI)
  fix s :: machine and c
  let ?m = "instr_fetch (dec_snpc (dec s)) 2"
  obtain r s' where run: "?m s = (r, s')" by fastforce
  then have core: "core s' = core s" using framesD [OF frames_instr_fetch, of "dec_snpc (dec s)" 2 s] by simp
  then have d: "dcore s' = dcore s" "dec s' = dec s" by (simp_all add: core_def regs_def dcore_def)
  have npc: "r = Ret (w, npc) \<Longrightarrow> npc = dec_snpc (dec s) + 2" for w npc
    using run unfolding instr_fetch_def by (auto elim!: bind_m_RetD simp: monad_simps)
  have "dcore (s'\<lparr>dec := (dec s')\<lparr>dec_snpc := dec_snpc (dec s) + 2\<rparr>\<rparr>) = dcore s'"
    by (simp add: dcore_def loop_view_def d(2) bit_0)
  then show "dcore (snd (fetch_half s)) = dcore s" using run npc d(1)
    by (cases r) (auto simp: fetch_half_def run_simps split: prod.splits)
  show "fst (fetch_half s) \<noteq> Jmp c" using run frames_no_jump [OF frames_instr_fetch, of _ _ s]
    by (cases r) (auto simp: fetch_half_def run_simps split: prod.splits)
qed

lemma dcore_fetch_decode: "frames dcore isa_fetch_decode"
proof -
  have "frames dcore (classify idx)" for idx
    unfolding classify_def by (intro frame_intro; simp)
  then show ?thesis
    unfolding isa_fetch_decode_def Let_def
    by (intro frame_intro dcore_rvc dcore_main frames_dcore_core [OF frames_dasics_fetch]; simp)
qed

text \<open>
  C31. No instruction breaks the machine invariant. Whatever is at the program counter, fetching,
  decoding and executing it, whichever way that ends (normally, in an exception or by leaving
  the emulator), keeps the zero register zero, keeps \<open>satp\<close> in a supported mode and keeps the two
  cached translation modes in step with the privilege state.
\<close>

theorem instruction_keeps_machine_ok: "keeps machine_ok (bind_m isa_fetch_decode exec_table)"
proof (rule keepsI)
  fix s assume ok: "machine_ok s"
  obtain r s1 where run: "isa_fetch_decode s = (r, s1)" by (cases "isa_fetch_decode s")
  have "dcore s1 = dcore s" using framesD [OF dcore_fetch_decode, of s] run by simp
  then have ok1: "machine_ok s1"
    using ok sys_ok_view [of s1 s] by (simp add: dcore_def machine_ok_def)
  show "machine_ok (snd (bind_m isa_fetch_decode exec_table s))"
  proof (cases r)
    case (Ret idx)
    then have "ops_ok idx (dec s1)"
      using ensures_fetch_decode [of "\<lambda>_. True"] run by (simp add: ensures_def)
    with ok1 show ?thesis using Ret run exec_keeps_ok by (simp add: bind_m_def)
  qed (simp_all add: bind_m_def run ok1)
qed

end
