(* ===== verification/Cpu_Laws.thy ===== *)
theory Cpu_Laws
  imports Step_Laws Cpu_Exec
begin

text \<open>
  The main loop: which instruction leaves it, the machine invariant over whole runs, and that
  a step of the difftest build always comes back.
\<close>

section \<open>Only \<open>nemu_trap\<close> leaves the loop\<close>

abbreviation stays :: "'a exec \<Rightarrow> bool" where
  "stays \<equiv> frames loop_view"

named_theorems stay_intro \<open>code that keeps the build option and does not take \<open>longjmp_exec\<close>\<close>

lemmas stay_prims [stay_intro] = frames_return frames_gets frames_panic frames_assert frames_lift_opt frames_bind
  frames_then frames_when frames_with frames_if

lemma stay_prod [stay_intro]: "(\<And>a b. stays (f a b)) \<Longrightarrow> stays (case p of (a, b) \<Rightarrow> f a b)"
  by (cases p) simp

lemma stay_modify [stay_intro]: "(\<And>s. loop_view (f s) = loop_view s) \<Longrightarrow> stays (modify_m f)"
  by (rule frames_modify)

lemma stay_sub:
  "frames core m \<Longrightarrow> stays m" "frames regs m \<Longrightarrow> stays m" "frames dcore m \<Longrightarrow> stays m"
  by (erule frames_sub, simp add: core_def regs_def dcore_def)+

lemmas stay_memory [stay_intro] = frames_core_longjmp [THEN stay_sub(1)] frames_vaddr_read [THEN stay_sub(1)]
  frames_vaddr(2) [THEN stay_sub(1)] frames_mmu_check [THEN stay_sub(1)] frames_mmu_translate [THEN stay_sub(1)]
  frames_dasics_trusted [THEN stay_sub(1)] frames_regs_hostcall [THEN stay_sub(2)]
  frames_regs_raise_intr [THEN stay_sub(2)] frames_get_time [THEN stay_sub(1)]
  dcore_fetch_decode [THEN stay_sub(3)] frames_map_read [THEN stay_sub(1)]
  frames_map_write [THEN stay_sub(1)] frames_regs_priv [THEN stay_sub(2)]

lemma loop_view_upd [simp]:
  "loop_view (set_gpr r v s) = loop_view s" "loop_view (set_csr a v s) = loop_view s"
  "loop_view (s\<lparr>pc := v\<rparr>) = loop_view s" "loop_view (s\<lparr>zero_null := v\<rparr>) = loop_view s"
  "loop_view (s\<lparr>amo := b\<rparr>) = loop_view s" "loop_view (s\<lparr>lr_addr := v\<rparr>) = loop_view s"
  "loop_view (s\<lparr>lr_valid := v\<rparr>) = loop_view s" "loop_view (s\<lparr>query_mem_event := q\<rparr>) = loop_view s"
  by (simp_all add: loop_view_def set_gpr_def)

lemma loop_view_set_tval [simp]: "loop_view (set_tval e v s) = loop_view s"
  by (simp add: set_tval_def)

lemma stay_upd_dec [stay_intro]: "stays (upd_dec f)"
  unfolding upd_dec_def by (intro stay_intro) (simp add: loop_view_def)

lemma stay_load_preg [stay_intro]: "stays (load_preg op)"
  unfolding load_preg_def by (intro stay_intro)

lemma stay_put_preg [stay_intro]: "stays (put_preg op v)"
  by (cases op) (simp_all add: stay_intro)

lemma stay_operands [stay_intro]:
  "(\<And>d. stays (g d)) \<Longrightarrow> stays (with_dec g)" "(\<And>i. stays (h i)) \<Longrightarrow> stays (with_instr h)"
  unfolding with_dec_def with_instr_def by (intro stay_intro; assumption)+

lemma stay_src [stay_intro]:
  "(\<And>v. stays (f v)) \<Longrightarrow> stays (dsrc1 f)" "(\<And>v. stays (f v)) \<Longrightarrow> stays (dsrc2 f)"
  "(\<And>v. stays (f v)) \<Longrightarrow> stays (ddest f)" "(\<And>v. stays (f v)) \<Longrightarrow> stays (src1_imm f)"
  "(\<And>v. stays (f v)) \<Longrightarrow> stays (src2_imm f)" "(\<And>v. stays (f v)) \<Longrightarrow> stays (dest_imm f)"
  "stays (set_ddest v)"
  unfolding dsrc1_def dsrc2_def ddest_def src1_imm_def src2_imm_def dest_imm_def set_ddest_def
  by (intro stay_intro; assumption)+

lemma stay_rtl [stay_intro]:
  "stays (rtl_j t)" "stays (rtl_jr t)" "stays (rtl_priv_jr t)" "stays (rtl_jrelop r x y t)"
  "stays (rtl_lm op a f n m)" "stays (rtl_lms op a f n m)" "stays (rtl_sm v w f n m)"
  "stays (lms_value a f n m)" "stays (jr_target x)" "stays link_value"
  unfolding rtl_j_def rtl_jr_def rtl_priv_jr_def rtl_jrelop_def rtl_lm_def rtl_lms_def rtl_sm_def
    lms_value_def record_mem_event_def jr_target_def link_value_def
  by (intro stay_intro; simp)+

lemma stay_shapes [stay_intro]:
  "stays (exec_r f)" "stays (exec_rr g)" "stays (exec_ri g)" "stays (exec_rr_opt h)" "stays (exec_ri_opt h)"
  "stays (exec_dr g)" "stays (exec_di g)" "stays (branch r)" "stays (branch_z r)" "stays (branch_z2 r)"
  unfolding exec_shape_defs by (intro stay_intro)+

lemma stay_computations: "stays (exec_compute i)" "stays (exec_rvm m)" "stays (exec_rvb b)"
  subgoal by (cases i) (simp_all add: stay_intro)
  subgoal by (cases m) (simp_all add: stay_intro)
  subgoal by (cases b) (simp_all add: stay_intro)
  done

lemma stay_c_jumps [stay_intro]: "stays exec_c_jr" "stays exec_c_jalr" "stays (rtl_set_dretpc v)"
  unfolding exec_c_jr_def exec_c_jalr_def rtl_set_dretpc_def by (intro stay_intro; simp)+

lemma stay_ldst [stay_intro]: "stays (exec_lms n m)" "stays (exec_lm n m)" "stays (exec_sm n m)"
  unfolding exec_lms_def exec_lm_def exec_sm_def by (intro stay_intro)+

lemma stay_groups: "stays (exec_rvc i)" "stays (exec_pseudo p)" "stays (exec_control c)" "stays (exec_ldst l m)"
  subgoal by (cases i) (simp_all add: stay_intro)
  subgoal by (cases p) (simp_all add: stay_intro)
  subgoal by (cases c) (simp_all add: stay_intro Let_def)
  subgoal by (cases l) (simp_all add: stay_intro)
  done

lemma stay_amo: "stays exec_amo"
  unfolding exec_amo_def rtl_amo_slow_path_def amo_lr_def amo_sc_fail_def amo_sc_def amo_rmw_def set_amo_def Let_def
  by (intro stay_intro; simp)

lemma stay_system: "stays exec_system"
  unfolding exec_system_def rtl_sys_slow_path_def sys_priv_def sys_csr_def rtl_trap_def hostcall_value_def
    rtl_hostcall.simps Let_def
  by (intro stay_intro)

lemma stay_exec_table: "idx \<noteq> EXEC_ID_nemu_trap \<Longrightarrow> stays (exec_table idx)"
  by (cases idx) (simp_all add: stay_computations stay_groups stay_amo stay_system exec_inv_def exec_rt_inv_def
      exec_fence_def exec_fence_i_def stay_intro)

text \<open>Running code leaves the loop's variables alone, and it jumps only with the emulator ended.\<close>

fun ended_at :: "machine \<Rightarrow> 'a outcome \<times> machine \<Rightarrow> bool" where
  "ended_at s (Ret x, s') = (loop_view s' = loop_view s)"
| "ended_at s (Exn e, s') = (loop_view s' = loop_view s)"
| "ended_at s (Jmp c, s') = (nemu_state s' = NEMU_END)"
| "ended_at s (Abort, s') = (loop_view s' = loop_view s)"

definition exits_ended :: "'a exec \<Rightarrow> bool" where
  "exits_ended m \<longleftrightarrow> (\<forall>s. ended_at s (m s))"

lemma exits_endedD: "exits_ended m \<Longrightarrow> m s = r \<Longrightarrow> ended_at s r"
  unfolding exits_ended_def by blast

lemma ended_stays: "stays m \<Longrightarrow> exits_ended m"
  unfolding exits_ended_def
proof
  fix s assume m: "stays m"
  obtain r s' where r: "m s = (r, s')" by (cases "m s")
  then show "ended_at s (m s)" using framesD [OF m, of s] frames_no_jump [OF m, of s] by (cases r) auto
qed

lemma ended_at_trans: "loop_view s1 = loop_view s \<Longrightarrow> ended_at s1 p \<Longrightarrow> ended_at s p"
  by (cases "(s1, p)" rule: ended_at.cases) auto

lemma ended_bind:
  assumes "exits_ended m" "\<And>x. exits_ended (f x)"
  shows "exits_ended (bind_m m f)"
  unfolding exits_ended_def
proof
  fix s
  obtain r s1 where r: "m s = (r, s1)" by (cases "m s")
  then have "ended_at s (r, s1)" "ended_at s1 (f x s1)" for x
    using assms exits_endedD by metis+
  with r show "ended_at s (bind_m m f s)"
    by (cases r) (auto simp: bind_m_def intro: ended_at_trans)
qed

lemma ended_then: "exits_ended m \<Longrightarrow> exits_ended k \<Longrightarrow> exits_ended (then_m m k)"
  by (simp add: then_m_def ended_bind)

lemma ended_with: "(\<And>s. exits_ended (f s)) \<Longrightarrow> exits_ended (with_m f)"
  by (simp add: exits_ended_def with_m_def)

lemma nemu_trap_ended: "exits_ended exec_nemu_trap"
  unfolding exits_ended_def
  by (simp add: exec_nemu_trap_def disable_time_intr_def set_nemu_state_def with_dec_def longjmp_exec_def
      then_m_def bind_m_def monad_simps loop_view_def)

lemma ended_exec_table: "exits_ended (exec_table idx)"
  by (cases "idx = EXEC_ID_nemu_trap") (auto intro: nemu_trap_ended ended_stays stay_exec_table)

lemma ended_exec_once: "exits_ended exec_once"
proof -
  have "stays (fetch_decode p)" for p unfolding fetch_decode_def by (intro stay_intro)
  then show ?thesis
    unfolding exec_once_def
    by (intro ended_with ended_bind ended_then ended_exec_table ended_stays stay_modify;
        simp add: loop_view_def utimer_tick_def set_csr_def)
qed
section \<open>A step of the difftest build\<close>

text \<open>
  What one call of \<open>cpu_exec(1)\<close> amounts to in the difftest build: one instruction, and the trap
  it raises if it raises one.
\<close>

definition difftest_step :: "unit exec" where
  "difftest_step s = (case then_m device_update exec_once s of
     (Ret _, s') \<Rightarrow> (Ret (), s'\<lparr>n_remain := 0, n_remain_total := 0\<rparr>)
   | (Exn _, s') \<Rightarrow> then_m device_update take_exception (setjmp_return s')
   | (Jmp _, s') \<Rightarrow> (Ret (), setjmp_return s')
   | (Abort, s') \<Rightarrow> (Abort, s'))"

lemma device_update_share:
  assumes "cfg_share s"
  obtains s' where "device_update s = (Ret (), s')" "loop_view s' = loop_view s"
proof -
  from assms have "\<exists>s'. device_update s = (Ret (), s') \<and> loop_view s' = loop_view s"
    by (simp add: device_update_def set_device_update_flag_def then_m_def bind_m_def monad_simps when_m_def loop_view_def)
  then show ?thesis using that by blast
qed

text \<open>Taking a trap returns or aborts; it never raises another exception.\<close>

definition no_exn :: "'a exec \<Rightarrow> bool" where
  "no_exn m \<longleftrightarrow> (\<forall>s. (\<exists>x s'. m s = (Ret x, s')) \<or> (\<exists>s'. m s = (Abort, s')))"

named_theorems no_exn_intro \<open>code that returns or aborts\<close>

lemma no_exn_prims [no_exn_intro]: "no_exn (modify_m f)" "no_exn (gets_m g)" "no_exn (return_m x)"
  by (simp_all add: no_exn_def monad_simps)

lemma no_exn_bind [no_exn_intro]:
  assumes "no_exn m" "\<And>x. no_exn (f x)" shows "no_exn (bind_m m f)"
  unfolding no_exn_def
proof
  fix s
  show "(\<exists>x s'. bind_m m f s = (Ret x, s')) \<or> (\<exists>s'. bind_m m f s = (Abort, s'))"
    using assms(1) [unfolded no_exn_def, rule_format, of s] assms(2) [unfolded no_exn_def, rule_format]
    by (elim disjE exE) (simp_all add: bind_m_def)
qed

lemma no_exn_rules [no_exn_intro]:
  "no_exn m \<Longrightarrow> no_exn k \<Longrightarrow> no_exn (then_m m k)" "(\<And>s. no_exn (h s)) \<Longrightarrow> no_exn (with_m h)"
  "no_exn u \<Longrightarrow> no_exn (when_m b u)" "no_exn m' \<Longrightarrow> no_exn k' \<Longrightarrow> no_exn (if b then m' else k')"
  by (simp_all add: then_m_def when_m_def no_exn_intro) (simp add: no_exn_def with_m_def)

lemma no_exn_raise_intr [no_exn_intro]: "no_exn (raise_intr n e)"
proof -
  have "no_exn update_mmu_state"
    by (simp add: no_exn_def update_mmu_state_def Let_def split: option.splits)
  then show ?thesis unfolding raise_intr_def Let_def by (intro no_exn_intro)
qed

lemma no_exn_take_exception: "no_exn take_exception"
  unfolding take_exception_def upd_dec_def Let_def by (intro no_exn_intro)

lemma get_time_Ret: "\<exists>t s'. get_time s = (Ret t, s')"
  by (cases "util_boot_time s = 0")
    (simp_all add: get_time_def get_time_internal_def then_m_def bind_m_def monad_simps when_m_def)

lemma n_batch_one: "cfg_share s \<Longrightarrow> n_remain_total s = 1 \<Longrightarrow> n_batch s = 1"
  by (simp add: n_batch_def BATCH_SIZE_def)

lemma loop_view_eq: "loop_view s = (b, n, r) \<longleftrightarrow> cfg_share s = b \<and> n_remain_total s = n \<and> nemu_state s = r"
  by (simp add: loop_view_def)

text \<open>The iteration after an exception takes the trap and leaves the loop.\<close>

lemma loop_exception:
  assumes "loop_view s = (True, 1, NEMU_RUNNING)"
  shows "cpu_exec_loop NEMU_EXEC_EXCEPTION s = Some (then_m device_update take_exception s)"
proof -
  from assms have v: "cfg_share s" "n_remain_total s = 1" "nemu_state s = NEMU_RUNNING"
    by (simp_all add: loop_view_eq)
  obtain s1 where s1: "device_update s = (Ret (), s1)" "loop_view s1 = loop_view s"
    using device_update_share [OF v(1)] .
  have "(\<exists>s2. take_exception s1 = (Ret (), s2) \<and> cfg_share s2) \<or> (\<exists>s2. take_exception s1 = (Abort, s2))"
  proof -
    have "stays take_exception"
      unfolding take_exception_def Let_def
      by (intro stay_intro frames_modify) (simp add: loop_view_def)
    from framesD [OF this, of s1] have "cfg_share (snd (take_exception s1))"
      using s1 assms by (simp add: loop_view_def)
    then show ?thesis using no_exn_take_exception [unfolded no_exn_def, rule_format, of s1] by auto
  qed
  then show ?thesis
    by (auto simp: cpu_exec_loop.simps [of _ s] cpu_exec_body_def v s1 then_m_def bind_m_def monad_simps)
qed

lemma difftest_loop:
  assumes "loop_view s = (True, 1, NEMU_RUNNING)"
  shows "cpu_exec_loop 0 s = Some (difftest_step s)"
proof -
  from assms have v: "cfg_share s" "n_remain_total s = 1" "nemu_state s = NEMU_RUNNING"
    by (simp_all add: loop_view_eq)
  obtain s1 where s1: "device_update s = (Ret (), s1)" "loop_view s1 = loop_view s"
    using device_update_share [OF v(1)] .
  then have v1: "cfg_share s1" "n_remain_total s1 = 1" "nemu_state s1 = NEMU_RUNNING" "n_batch s1 = 1"
    using assms n_batch_one by (simp_all add: loop_view_eq)
  obtain r s2 where s2: "exec_once s1 = (r, s2)" by (cases "exec_once s1")
  have e: "ended_at s1 (r, s2)" using exits_endedD [OF ended_exec_once s2] .
  have body: "cpu_exec_body 0 s = (case (r, s2) of
      (Ret _, s') \<Rightarrow> (Ret (Some 0), s'\<lparr>n_remain := 0, n_remain_total := 0\<rparr>)
    | (Exn c, s') \<Rightarrow> (Exn c, s') | (Jmp c, s') \<Rightarrow> (Jmp c, s') | (Abort, s') \<Rightarrow> (Abort, s'))"
    using e v1
    by (cases r) (auto simp: cpu_exec_body_def s1 take_interrupt_def run_batch_def Let_def then_m_def
        bind_m_def monad_simps when_m_def s2 loop_view_def)
  have step: "difftest_step s = (case (r, s2) of
      (Ret _, s') \<Rightarrow> (Ret (), s'\<lparr>n_remain := 0, n_remain_total := 0\<rparr>)
    | (Exn _, s') \<Rightarrow> then_m device_update take_exception (setjmp_return s')
    | (Jmp _, s') \<Rightarrow> (Ret (), setjmp_return s') | (Abort, s') \<Rightarrow> (Abort, s'))"
    by (simp add: difftest_step_def then_m_def bind_m_def s1 s2 split: outcome.splits)
  have "loop_view (setjmp_return s2) = loop_view s2" "nemu_state (setjmp_return s2) = nemu_state s2"
    by (simp_all add: setjmp_return_def loop_view_def)
  with e s1(2) assms loop_exception [of "setjmp_return s2"] show ?thesis
    by (cases r) (simp_all add: cpu_exec_loop.simps [of 0 s] cpu_exec_loop.simps v body step loop_view_eq)
qed
text \<open>
  C34. A step of the difftest reference always comes back. In that build \<open>cpu_exec(1)\<close>, whose loop
  is left only through its conditions, a \<open>break\<close> and the return of \<open>setjmp\<close>, executes exactly one
  instruction; if that raises an exception it takes the trap, and no second instruction is
  started on any path, whether the instruction returns, traps or ends the emulator.
\<close>

theorem difftest_cpu_exec_step:
  assumes "cfg_share s" and "nemu_state s \<notin> {NEMU_END, NEMU_ABORT}"
  shows "cpu_exec 1 s = Some (bind_m get_time (\<lambda>timer_start.
     then_m (modify_m (\<lambda>s. s\<lparr>n_remain_total := 1\<rparr>))
    (then_m difftest_step (cpu_exec_finish timer_start))) (s\<lparr>nemu_state := NEMU_RUNNING\<rparr>))"
proof -
  obtain t s1 where t: "get_time (s\<lparr>nemu_state := NEMU_RUNNING\<rparr>) = (Ret t, s1)"
    using get_time_Ret by blast
  have "stays get_time" by (intro stay_intro)
  from framesD [OF this, of "s\<lparr>nemu_state := NEMU_RUNNING\<rparr>"]
  have "loop_view (s1\<lparr>n_remain_total := 1\<rparr>) = (True, 1, NEMU_RUNNING)"
    using assms(1) by (simp add: t loop_view_def)
  from difftest_loop [OF this] show ?thesis
    using assms
    by (simp add: cpu_exec_def run_then_def t bind_m_def then_m_def monad_simps split: prod.splits outcome.splits)
qed


text \<open>A fetch outside memory: the step takes the access fault to the machine-mode handler.\<close>

definition fault_example :: machine where
  "fault_example = set_csr c_mtvec 0x80000100 ((static_init True)\<lparr>mode := MODE_M, pc := 0x1000\<rparr>)"

theorem difftest_cpu_exec_step_witness:
  "cfg_share fault_example \<and> nemu_state fault_example \<notin> {NEMU_END, NEMU_ABORT} \<and>
   map_option (\<lambda>(r, s'). (r, pc s', csr c_mcause s', csr c_mepc s')) (cpu_exec 1 fault_example) =
     Some (Ret (), 0x80000100, EX_IAF, 0x1000)"
proof -
  have h: "cfg_share fault_example" "nemu_state fault_example \<notin> {NEMU_END, NEMU_ABORT}"
    by (simp_all add: fault_example_def)
  have "map_option (\<lambda>(r, s'). (r, pc s', csr c_mcause s', csr c_mepc s'))
      (Some (bind_m get_time (\<lambda>timer_start. then_m (modify_m (\<lambda>s. s\<lparr>n_remain_total := 1\<rparr>))
        (then_m difftest_step (cpu_exec_finish timer_start))) (fault_example\<lparr>nemu_state := NEMU_RUNNING\<rparr>))) =
     Some (Ret (), 0x80000100, EX_IAF, 0x1000)"
    by code_simp
  with h show ?thesis by (simp only: difftest_cpu_exec_step [OF h] simp_thms)
qed

section \<open>The machine invariant over a run\<close>

lemma fetch_decode_ok:
  assumes "machine_ok s" and "fetch_decode p s = (r, s1)"
  shows "machine_ok s1" and "r = Ret idx \<Longrightarrow> ops_ok idx (dec s1)"
proof -
  define s0 where "s0 = s\<lparr>dec := (dec s)\<lparr>dec_pc := p, dec_snpc := p\<rparr>\<rparr>"
  have run: "isa_fetch_decode s0 = (r, s1)"
    using assms(2) by (simp add: fetch_decode_def upd_dec_def then_m_def bind_m_def monad_simps s0_def)
  have "machine_ok s0" using assms(1) machine_okI [of s0 s] by (simp add: s0_def machine_ok_def)
  moreover have "dcore s1 = dcore s0" using framesD [OF dcore_fetch_decode, of s0] run by simp
  ultimately show "machine_ok s1" using machine_okI [of s1 s0] by (simp add: dcore_def machine_ok_def)
  show "r = Ret idx \<Longrightarrow> ops_ok idx (dec s1)"
    using ensures_fetch_decode [of "\<lambda>_. True"] run by (simp add: ensures_def)
qed

lemma ops_ok_prev_pc [simp]: "ops_ok idx (d\<lparr>dec_prev_pc := v\<rparr>) = ops_ok idx d"
  by (cases "shape_of idx") (simp_all add: ops_ok_def)

lemma utimer_tick_ok: "machine_ok s \<Longrightarrow> machine_ok (utimer_tick (s\<lparr>g_nr_guest_instr := v\<rparr>))"
  by (rule machine_okI [of _ s]) (simp_all add: utimer_tick_def mmu_view_def mstatus_defs machine_ok_def)

lemma exec_once_ok: "keeps machine_ok exec_once"
proof (rule keepsI)
  fix s assume ok: "machine_ok s"
  obtain r s1 where run: "fetch_decode (pc s) s = (r, s1)" by (cases "fetch_decode (pc s) s")
  note ok1 = fetch_decode_ok [OF ok run]
  show "machine_ok (snd (exec_once s))"
  proof (cases r)
    case (Ret idx)
    let ?s2 = "s1\<lparr>current_pc := dec_pc (dec s1), dec := (dec s1)\<lparr>dec_prev_pc := pc s1\<rparr>, pc := dec_snpc (dec s1)\<rparr>"
    have "machine_ok ?s2"
      using ok1(1) machine_okI [of ?s2 s1] by (simp add: mmu_view_def mstatus_defs machine_ok_def)
    then have ok3: "machine_ok (snd (exec_table idx ?s2))"
      using exec_keeps_ok ok1(2) Ret by simp
    obtain r3 s3 where "exec_table idx ?s2 = (r3, s3)" by (cases "exec_table idx ?s2")
    with ok3 show ?thesis
      using run Ret utimer_tick_ok [of s3]
      by (cases r3) (simp_all add: exec_once_def then_m_def bind_m_def monad_simps)
  qed (use run ok1 in \<open>simp_all add: exec_once_def bind_m_def monad_simps\<close>)
qed

lemma execute_ok [keeps_intro]: "keeps machine_ok (execute n)"
proof (induction n)
  case (Suc n)
  then show ?case unfolding execute.simps by (intro keeps_intro exec_once_ok)
qed (simp add: keeps_intro)

lemma raise_intr_ok [keeps_intro]: "keeps machine_ok (raise_intr n e)"
  by (rule regs_keeps(1) [OF frames_regs_raise_intr raise_intr_sys_ok])

lemma ok_upd:
  "(\<And>s. mmu_view (f s) = mmu_view s \<and> gpr (f s) = gpr s) \<Longrightarrow> keeps machine_ok (modify_m f)"
  by (rule keeps_modify) (metis machine_okI machine_ok_def)

lemmas view_upd = mmu_view_def mstatus_defs set_gpr_def

lemma sdl_poll_ok: "keeps machine_ok (sdl_poll es)"
proof (induction es rule: sdl_poll.induct)
  case (2 es)
  then show ?case unfolding sdl_poll.simps by (intro keeps_intro ok_upd) (simp_all add: view_upd)
qed (auto simp: send_key_def key_enqueue_def view_upd intro!: keeps_intro ok_upd)

lemma device_update_ok: "keeps machine_ok device_update"
  unfolding device_update_def
  by (intro keeps_then keeps_with keeps_if keeps_when keeps_return sdl_poll_ok ok_upd)
    (simp_all add: view_upd set_device_update_flag_def)

lemma take_traps_ok: "keeps machine_ok take_exception" "keeps machine_ok take_interrupt"
  unfolding take_exception_def take_interrupt_def upd_dec_def Let_def
  by (intro keeps_then keeps_bind keeps_with keeps_when raise_intr_ok ok_upd; simp add: view_upd)+

lemma cpu_exec_body_ok: "keeps machine_ok (cpu_exec_body c)"
proof -
  have "keeps machine_ok run_batch"
    unfolding run_batch_def Let_def
    by (intro keeps_with keeps_bind execute_ok ok_upd) (simp add: view_upd)
  then show ?thesis
    unfolding cpu_exec_body_def
    by (intro keeps_then keeps_with keeps_if keeps_return device_update_ok take_traps_ok)
qed

lemma setjmp_return_ok: "machine_ok s \<Longrightarrow> machine_ok (setjmp_return s)"
  by (rule machine_okI [of _ s]) (simp_all add: setjmp_return_def view_upd machine_ok_def)

lemma cpu_exec_loop_ok:
  assumes "cpu_exec_loop c s = Some r" shows "machine_ok s \<longrightarrow> machine_ok (snd r)"
proof (rule cpu_exec_loop.raw_induct [of "\<lambda>c s r. machine_ok s \<longrightarrow> machine_ok (snd r)", OF _ assms], intro impI)
  fix loop c s r
  assume IH: "\<And>c s r. loop c s = Some r \<Longrightarrow> machine_ok s \<longrightarrow> machine_ok (snd r)"
    and run: "(if nemu_state s = NEMU_RUNNING \<and> n_remain_total s > 0 then
       (case cpu_exec_body c s of
          (Ret (Some c), s') \<Rightarrow> loop c s' | (Ret None, s') \<Rightarrow> Some (Ret (), s')
        | (Exn e, s') \<Rightarrow> loop NEMU_EXEC_EXCEPTION (setjmp_return s') | (Jmp c, s') \<Rightarrow> loop c (setjmp_return s')
        | (Abort, s') \<Rightarrow> Some (Abort, s'))
     else Some (Ret (), s)) = Some r" and ok: "machine_ok s"
  obtain q s1 where q: "cpu_exec_body c s = (q, s1)" by (cases "cpu_exec_body c s")
  have "machine_ok s1" "machine_ok (setjmp_return s1)"
    using keepsD [OF cpu_exec_body_ok ok, of c] setjmp_return_ok by (simp_all add: q)
  with run ok IH [of _ s1] IH [of _ "setjmp_return s1"] show "machine_ok (snd r)"
    by (cases q) (auto simp: q split: if_splits option.splits)
qed

lemma cpu_exec_finish_ok: "keeps machine_ok (cpu_exec_finish t)"
  unfolding cpu_exec_finish_def monitor_statistic_def update_instr_cnt_def Let_def
  by (intro keeps_then keeps_bind ok_upd core_keeps(1) [OF frames_get_time])
    (simp_all add: view_upd split: nemu_run.splits)

lemma cpu_exec_ok:
  assumes "cpu_exec n s = Some (r, s')" and "machine_ok s"
  shows "machine_ok s'"
proof -
  let ?s0 = "s\<lparr>nemu_state := NEMU_RUNNING\<rparr>"
  obtain t s1 where t: "get_time ?s0 = (Ret t, s1)" using get_time_Ret by blast
  have upd: "machine_ok (s1\<lparr>n_remain_total := n\<rparr>)"
  proof -
    have "machine_ok ?s0" using assms(2) machine_okI [of ?s0 s] by (simp add: view_upd machine_ok_def)
    then have "machine_ok s1" using keepsD [OF core_keeps(1) [OF frames_get_time], of ?s0] t by simp
    then show ?thesis
      using machine_okI [of "s1\<lparr>n_remain_total := n\<rparr>" s1] by (simp add: view_upd machine_ok_def)
  qed
  show ?thesis
  proof (cases "cpu_exec_loop 0 (s1\<lparr>n_remain_total := n\<rparr>)")
    case None
    then show ?thesis using assms by (auto simp: cpu_exec_def run_then_def t split: if_splits)
  next
    case (Some p)
    moreover obtain q s2 where "p = (q, s2)" by (cases p)
    ultimately show ?thesis
      using assms upd cpu_exec_loop_ok [OF Some] keepsD [OF cpu_exec_finish_ok, of s2 t]
      by (cases q) (auto simp: cpu_exec_def run_then_def t split: if_splits)
  qed
qed

end
