(* ===== verification/Difftest_Laws.thy ===== *)
theory Difftest_Laws
  imports Difftest_Ref Cpu_Laws
begin

text \<open>
  The difftest interface: what goes over it comes back, which bytes the fast memory copy moves,
  and that a session that respects the preconditions keeps the machine invariant.
\<close>

section \<open>Registers\<close>

lemma fold_upd: "fold (\<lambda>a m. m(a := g a)) as m b = (if b \<in> set as then g b else m b)"
  by (induction as arbitrary: m) auto

lemma shadow_mirror [simp]: "shadow (mirror as s) a = (if a \<in> set as then csr a s else shadow s a)"
  by (simp add: mirror_def fold_upd)

lemma mirror_frame [simp]:
  "csr_array (mirror as s) = csr_array s" "gpr (mirror as s) = gpr s" "fpr (mirror as s) = fpr s"
  "pc (mirror as s) = pc s" "mode (mirror as s) = mode s"
  by (simp_all add: mirror_def)

lemma set_shadow_simps [simp]:
  "shadow (set_shadow a v s) = (shadow s)(a := v)" "csr_array (set_shadow a v s) = csr_array s"
  "gpr (set_shadow a v s) = gpr s" "fpr (set_shadow a v s) = fpr s" "pc (set_shadow a v s) = pc s"
  "mode (set_shadow a v s) = mode s"
  by (simp_all add: set_shadow_def)

lemma read_status:
  "csrid_read c_sstatus s = (Ret (csr c_mstatus (update_mstatus_sd s) AND SSTATUS_RMASK), update_mstatus_sd s)"
  "csrid_read c_ustatus s = (Ret (csr c_mstatus s AND USTATUS_RMASK), s)"
  by (simp_all add: csrid_read_def csr_decode_def is_pmpaddr_def csr_read_at_def then_m_def bind_m_def
      monad_simps when_m_def)

lemma sd_frame [simp]:
  "gpr (update_mstatus_sd s) = gpr s" "fpr (update_mstatus_sd s) = fpr s" "pc (update_mstatus_sd s) = pc s"
  "shadow (update_mstatus_sd s) = shadow s"
  by (simp_all add: update_mstatus_sd_def set_mstatus_def set_csr_def)

definition prepare_S :: "u12 list" where
  "prepare_S = [c_scause, c_sepc, c_satp, c_mip, c_mie, c_mscratch, c_sscratch, c_mideleg,
     c_medeleg, c_mtval, c_stval, c_mtvec, c_stvec]"

definition prepare_U :: "u12 list" where
  "prepare_U = [c_ucause, c_uepc, c_uscratch, c_sedeleg, c_sideleg, c_utval, c_utvec]"

lemma written_partition:
  "set written_csrs = {c_mstatus, c_mcause, c_mepc} \<union> set prepare_S \<union> set prepare_U \<union> set dasics_mirror"
  by (auto simp: written_csrs_def prepare_S_def prepare_U_def)

lemma mirror_addresses:
  "list_all (\<lambda>a. a \<noteq> c_mstatus \<and> a \<noteq> c_sstatus \<and> a \<noteq> c_ustatus) (prepare_S @ prepare_U @ dasics_mirror)"
  "list_all (\<lambda>a. a \<noteq> c_sstatus \<and> a \<noteq> c_ustatus) written_csrs"
  by code_simp+

lemma written_status [simp]: "c_satp \<in> set written_csrs" "c_mstatus \<in> set written_csrs"
  by (simp_all add: written_csrs_def)

lemma mirror_facts:
  "a \<in> set prepare_S \<union> set prepare_U \<union> set dasics_mirror \<Longrightarrow> a \<noteq> c_mstatus \<and> a \<noteq> c_sstatus \<and> a \<noteq> c_ustatus"
  "a \<in> set written_csrs \<Longrightarrow> a \<noteq> c_sstatus \<and> a \<noteq> c_ustatus"
  using mirror_addresses by (auto simp: list_all_iff)

lemma csr_prepare_run:
  "\<exists>s'. csr_prepare s = (Ret (), s') \<and> gpr s' = gpr s \<and> fpr s' = fpr s \<and> pc s' = pc s \<and> mode s' = mode s \<and>
     (\<forall>a\<in>set written_csrs. shadow s' a = csr a s) \<and>
     shadow s' c_sstatus = csr c_mstatus (update_mstatus_sd s) AND SSTATUS_RMASK \<and>
     shadow s' c_ustatus = csr c_mstatus (update_mstatus_sd s) AND USTATUS_RMASK"
proof -
  define s1 where "s1 = mirror [c_mstatus, c_mcause, c_mepc] s"
  define s2 where "s2 = set_shadow c_sstatus (csr c_mstatus (update_mstatus_sd s1) AND SSTATUS_RMASK) (update_mstatus_sd s1)"
  define s3 where "s3 = mirror prepare_S s2"
  define s4 where "s4 = set_shadow c_ustatus (csr c_mstatus s3 AND USTATUS_RMASK) s3"
  define s' where "s' = mirror dasics_mirror (mirror prepare_U s4)"
  have run: "csr_prepare s = (Ret (), s')"
    by (simp add: csr_prepare_def then_m_def bind_m_def monad_simps read_status s1_def s2_def s3_def s4_def
        s'_def prepare_S_def prepare_U_def)
  have sd: "csr a (update_mstatus_sd s1) = csr a (update_mstatus_sd s)" for a
    by (simp add: s1_def update_mstatus_sd_def set_mstatus_def mstatus_defs)
  have old: "a \<noteq> c_mstatus \<Longrightarrow> csr a (update_mstatus_sd s) = csr a s" for a
    by (simp add: update_mstatus_sd_def set_mstatus_def)
  have fr: "gpr s' = gpr s \<and> fpr s' = fpr s \<and> pc s' = pc s \<and> mode s' = mode s"
    by (simp add: s'_def s4_def s3_def s2_def s1_def)
  have "shadow s' a = csr a s" if "a \<in> set written_csrs" for a
    using that mirror_facts [of a] old [of a]
    by (auto simp: written_partition s'_def s4_def s3_def s2_def sd) (auto simp: s1_def)
  moreover have "c_sstatus \<notin> set prepare_S \<union> set prepare_U \<union> set dasics_mirror"
    "c_ustatus \<notin> set prepare_S \<union> set prepare_U \<union> set dasics_mirror"
    using mirror_facts(1) by blast+
  then have "shadow s' c_sstatus = csr c_mstatus (update_mstatus_sd s) AND SSTATUS_RMASK"
    "shadow s' c_ustatus = csr c_mstatus (update_mstatus_sd s) AND USTATUS_RMASK"
    by (simp_all add: s'_def s4_def s3_def s2_def sd)
  ultimately show ?thesis using run fr by blast
qed
lemma regcpy_to_ref_run:
  "regcpy_to_ref d s = (Ret (), s\<lparr>gpr := dut_gpr d, fpr := dut_fpr d, pc := dut_pc d, mode := dut_mode d,
     shadow := dut_csrs d, csr_array := (\<lambda>a. if a \<in> set written_csrs then dut_csrs d a else csr a s)\<rparr>)"
  by (simp add: regcpy_to_ref_def csr_writeback_def then_m_def bind_m_def monad_simps fold_upd [abs_def] cong: if_cong)

text \<open>
  C37. Register copies round-trip. After the design's registers have been copied to the reference,
  copying back always returns and yields the same general and floating-point registers, program
  counter, privilege mode and every writable mirrored control register; \<open>sstatus\<close> and \<open>ustatus\<close>,
  which are views, come back as the readable bits of the copied \<open>mstatus\<close> with its \<open>SD\<close> summary
  bit recomputed.
\<close>

theorem regcpy_roundtrip:
  "\<exists>d' s'. then_m (regcpy_to_ref d) regcpy_to_dut s = (Ret d', s') \<and>
     dut_gpr d' = dut_gpr d \<and> dut_fpr d' = dut_fpr d \<and> dut_pc d' = dut_pc d \<and> dut_mode d' = dut_mode d \<and>
     map (dut_csrs d') written_csrs = map (dut_csrs d) written_csrs \<and>
     (let m = dut_csrs d c_mstatus; m' = put_bit 63 (fld 13 2 m = 3) m
      in dut_csrs d' c_sstatus = m' AND SSTATUS_RMASK \<and> dut_csrs d' c_ustatus = m' AND USTATUS_RMASK)"
proof -
  define s1 where "s1 = snd (regcpy_to_ref d s)"
  have run1: "regcpy_to_ref d s = (Ret (), s1)" by (simp add: s1_def regcpy_to_ref_run)
  have in_ref: "a \<in> set written_csrs \<Longrightarrow> csr a s1 = dut_csrs d a" for a
    by (simp add: s1_def regcpy_to_ref_run)
  have m: "csr c_mstatus s1 = dut_csrs d c_mstatus"
    by (rule in_ref) simp
  obtain s2 where s2: "csr_prepare s1 = (Ret (), s2)" "gpr s2 = gpr s1" "fpr s2 = fpr s1" "pc s2 = pc s1"
      "mode s2 = mode s1" "\<forall>a\<in>set written_csrs. shadow s2 a = csr a s1"
      "shadow s2 c_sstatus = csr c_mstatus (update_mstatus_sd s1) AND SSTATUS_RMASK"
      "shadow s2 c_ustatus = csr c_mstatus (update_mstatus_sd s1) AND USTATUS_RMASK"
    using csr_prepare_run by blast
  have sd: "csr c_mstatus (update_mstatus_sd s1) =
      (let m = dut_csrs d c_mstatus in put_bit 63 (fld 13 2 m = 3) m)"
    by (simp add: update_mstatus_sd_def set_mstatus_def mstatus_defs m Let_def)
  have "map (shadow s2) written_csrs = map (dut_csrs d) written_csrs"
    using s2(6) in_ref by simp
  with s2(1-5,7-8) sd run1 show ?thesis
    by (simp add: then_m_def bind_m_def regcpy_to_dut_def monad_simps Let_def)
      (simp add: s1_def regcpy_to_ref_run)
qed

text \<open>
  A design in supervisor mode with Sv39.
\<close>

definition sv39_dut :: dut_regs where
  "sv39_dut = \<lparr>dut_gpr = (\<lambda>_. 0), dut_fpr = (\<lambda>_. 0), dut_pc = 0x80000000, dut_mode = MODE_S,
     dut_csrs = (\<lambda>_. 0)(c_satp := 0x8000000000080000)\<rparr>"

section \<open>Memory\<close>

lemma of_nat_u64_inj: "i < 2 ^ 64 \<Longrightarrow> j < 2 ^ 64 \<Longrightarrow> (of_nat i :: u64) = of_nat j \<longleftrightarrow> i = j"
  by (simp add: word_of_nat_eq_iff take_bit_nat_eq_self)

lemma offset_inj: "i < 2 ^ 64 \<Longrightarrow> j < 2 ^ 64 \<Longrightarrow> d + of_nat i = d + of_nat j \<longleftrightarrow> i = j" for d :: u64
  by (simp add: of_nat_u64_inj)

lemma copy_bytes_frame: "(\<And>i. i < n \<Longrightarrow> x \<noteq> d + of_nat i) \<Longrightarrow> copy_bytes dm d sm a n x = dm x"
proof (induction n arbitrary: dm d a)
  case (Suc n)
  have "x \<noteq> d" "\<And>i. i < n \<Longrightarrow> x \<noteq> d + 1 + of_nat i"
    using Suc.prems [of 0] Suc.prems [of "Suc _"] by (simp_all add: ac_simps)
  then show ?case using Suc.IH by simp
qed simp

lemma copy_bytes_byte:
  "n \<le> 2 ^ 64 \<Longrightarrow> i < n \<Longrightarrow> copy_bytes dm d sm a n (d + of_nat i) = sm (a + of_nat i)"
proof (induction n arbitrary: dm d a i)
  case (Suc n)
  show ?case
  proof (cases i)
    case 0
    have "d \<noteq> d + 1 + of_nat j" if "j < n" for j
      using offset_inj [of 0 "Suc j" d] that Suc.prems by (simp add: ac_simps)
    then show ?thesis using 0 by (simp add: copy_bytes_frame)
  next
    case (Suc j)
    have "copy_bytes (dm(d := sm a)) (d + 1) sm (a + 1) n (d + 1 + of_nat j) = sm (a + 1 + of_nat j)"
      using Suc.IH Suc.prems Suc by simp
    then show ?thesis using Suc by (simp add: ac_simps)
  qed
qed simp

lemma le_read_byte: "i < 8 \<Longrightarrow> ucast (shr (le_read m a 8) (8 * i)) = m (a + of_nat i)" for a :: u64
  by (rule bit_word_eqI) (auto simp: bit_simps bit_le_read div_add1_eq)

lemma large_memcpy_frame:
  "(\<And>i. i < n \<Longrightarrow> x \<noteq> d + of_nat i) \<Longrightarrow> nemu_large_memcpy dm d sm a n x = dm x"
proof (induction dm d sm a n rule: nemu_large_memcpy.induct)
  case (1 dm d sm a n)
  show ?case
  proof (cases "n \<ge> 8")
    case True
    have "x \<noteq> d + 8 + of_nat i" if "i < n - 8" for i
      using 1(2) [of "8 + i"] that by (simp add: ac_simps)
    moreover have "le_write dm d 8 v x = dm x" for v
      using 1(2) True by (intro le_write_frame) auto
    ultimately show ?thesis
      using 1(1) [OF True] True by (subst nemu_large_memcpy.simps) simp
  next
    case False
    then show ?thesis using 1(2) by (subst nemu_large_memcpy.simps) (simp add: copy_bytes_frame)
  qed
qed

text \<open>The byte \<open>i\<close> of the source lies in a whole doubleword of zeros.\<close>

definition zero_dword :: "(u64 \<Rightarrow> u8) \<Rightarrow> u64 \<Rightarrow> nat \<Rightarrow> nat \<Rightarrow> bool" where
  "zero_dword sm a n i \<longleftrightarrow> i < n div 8 * 8 \<and> le_read sm (a + of_nat (i div 8 * 8)) 8 = 0"

lemma large_memcpy_byte:
  "n \<le> 2 ^ 64 \<Longrightarrow> i < n \<Longrightarrow> nemu_large_memcpy dm d sm a n (d + of_nat i) =
     (if zero_dword sm a n i then dm (d + of_nat i) else sm (a + of_nat i))"
proof (induction dm d sm a n arbitrary: i rule: nemu_large_memcpy.induct)
  case (1 dm d sm a n)
  show ?case
  proof (cases "n \<ge> 8")
    case True
    define dm' where "dm' = (if le_read sm a 8 \<noteq> 0 then le_write dm d 8 (le_read sm a 8) else dm)"
    have step: "nemu_large_memcpy dm d sm a n = nemu_large_memcpy dm' (d + 8) sm (a + 8) (n - 8)"
      using True by (subst nemu_large_memcpy.simps) (simp add: dm'_def)
    show ?thesis
    proof (cases "i < 8")
      case low: True
      have "d + of_nat i \<noteq> d + 8 + of_nat j" if "j < n - 8" for j
        using offset_inj [of i "8 + j" d] that low 1(2) by (simp add: ac_simps)
      then have "nemu_large_memcpy dm d sm a n (d + of_nat i) = dm' (d + of_nat i)"
        unfolding step by (rule large_memcpy_frame)
      moreover have "le_write dm d 8 v (d + of_nat i) = ucast (shr v (8 * i))" for v
        using guest_mem.le_write_byte [of 8 i dm d v] low by simp
      moreover have "zero_dword sm a n i \<longleftrightarrow> le_read sm a 8 = 0"
        using low div_le_mono [OF True, of 8] by (auto simp: zero_dword_def)
      ultimately show ?thesis using low by (simp add: dm'_def le_read_byte)
    next
      case False
      then obtain j where j: "i = 8 + j" using le_Suc_ex not_less by blast
      have "dm' (d + of_nat i) = dm (d + of_nat i)"
        unfolding dm'_def using offset_inj [of i _ d] False 1(2,3)
        by (auto intro!: le_write_frame)
      moreover have "zero_dword sm (a + 8) (n - 8) j = zero_dword sm a n i"
        using True by (auto simp: zero_dword_def j ac_simps le_div_geq)
      ultimately show ?thesis
        using 1(1) [OF True, of j] 1(2,3) unfolding step by (simp add: j dm'_def ac_simps)
    qed
  next
    case False
    then show ?thesis
      using 1(2,3) by (subst nemu_large_memcpy.simps) (simp add: copy_bytes_byte zero_dword_def)
  qed
qed
text \<open>
  C39. The fast copy to the reference memory. Of the \<open>n\<close> bytes, every byte arrives except those in
  whole doublewords that are zero in the source, where the old bytes stay: the copy is exact on
  memory that was zero there before, and it cannot clear memory. Nothing outside the range
  changes.
\<close>

theorem memcpy_to_ref_bytes:
  assumes "n \<le> 2 ^ 64" and "memcpy_to_ref nemu_addr buf b n s = (r, s')"
  shows "r = Ret () \<and>
    (i < n \<longrightarrow> pmem s' (nemu_addr + of_nat i) =
       (if zero_dword buf b n i then pmem s (nemu_addr + of_nat i) else buf (b + of_nat i))) \<and>
    ((\<forall>i<n. x \<noteq> nemu_addr + of_nat i) \<longrightarrow> pmem s' x = pmem s x)"
  using assms by (auto simp: memcpy_to_ref_def monad_simps large_memcpy_byte large_memcpy_frame)

text \<open>A doubleword of ones over which a doubleword of zeros is copied keeps its ones.\<close>

theorem memcpy_to_ref_bytes_witness:
  "\<exists>s'. memcpy_to_ref 0x80000000 (\<lambda>_. 0) 0 8 ((static_init True)\<lparr>pmem := (\<lambda>_. 0xff)\<rparr>) = (Ret (), s') \<and>
     pmem s' (0x80000000 + of_nat 3) = 0xff"
proof -
  let ?s = "(static_init True)\<lparr>pmem := (\<lambda>_. 0xff)\<rparr>"
  obtain r s' where run: "memcpy_to_ref 0x80000000 (\<lambda>_. 0) 0 8 ?s = (r, s')"
    by (cases "memcpy_to_ref 0x80000000 (\<lambda>_. 0) 0 8 ?s")
  have z: "zero_dword (\<lambda>_. 0) 0 8 3" by code_simp
  have "r = Ret ()" "pmem s' (0x80000000 + of_nat 3) = 0xff"
    using memcpy_to_ref_bytes [OF _ run, of 3] z by simp_all
  with run show ?thesis by blast
qed
section \<open>Sessions\<close>

text \<open>Process start on a host with the given clock, alarm signals and window events.\<close>

definition host_start :: "bool \<Rightarrow> (nat \<Rightarrow> u64) \<Rightarrow> (nat \<Rightarrow> bool) \<Rightarrow> (nat \<Rightarrow> sdl_event list) \<Rightarrow> machine" where
  "host_start share clk alarm events =
     (static_init share)\<lparr>host_clock := clk, alarm_signal := alarm, sdl_queue := events\<rparr>"

lemma host_start_ok: "machine_ok (host_start share clk alarm events)"
  by (simp add: host_start_def machine_ok_def sys_ok_def satp_ok_def satp_mode_def mmu_coherent_def
      update_mmu_state_internal_def effective_mode_def mstatus_defs fld_def)

lemma devices_ok: "keeps machine_ok init_clint" "keeps machine_ok init_uartlite" "keeps machine_ok init_timer"
  "keeps machine_ok init_i8042"
proof -
  have sp: "keeps machine_ok (new_space n)" for n
    unfolding new_space_def Let_def by (intro keeps_intro ok_upd) (simp_all add: view_upd)
  have mm: "keeps machine_ok (add_mmio_map a b n c)" "keeps machine_ok (add_pio_map p b n c)" for a p b n c
    unfolding add_mmio_map_def add_pio_map_def Let_def
    by (intro keeps_intro ok_upd; simp add: view_upd)+
  show "keeps machine_ok init_clint" "keeps machine_ok init_uartlite" "keeps machine_ok init_timer"
    "keeps machine_ok init_i8042"
    unfolding init_clint_def init_uartlite_def init_timer_def init_i8042_def io_put_def
    by (intro keeps_then keeps_bind sp mm ok_upd core_keeps(1) [OF frames_get_time]; simp add: view_upd)+
qed

lemma reset_ok:
  assumes "satp_ok s" "ifetch_mmu_state s = MMU_DIRECT" "data_mmu_state s = MMU_DIRECT"
  shows "machine_ok (reset_state s)"
proof -
  have csr: "csr c_satp (reset_state s) = csr c_satp s" "csr c_mstatus (reset_state s) = 0xa00000000"
    by (simp_all add: reset_state_def Let_def set_gpr_def)
  have rest: "mode (reset_state s) = MODE_M" "ifetch_mmu_state (reset_state s) = MMU_DIRECT"
    "data_mmu_state (reset_state s) = MMU_DIRECT" "gpr (reset_state s) 0 = 0"
    using assms by (simp_all add: reset_state_def Let_def set_gpr_def)
  have "satp_ok (reset_state s)" using assms(1) satp_ok_cong [OF csr(1)] by simp
  with assms csr rest show ?thesis
    by (simp add: machine_ok_def sys_ok_def mmu_coherent_def update_mmu_state_internal_def effective_mode_def
        mstatus_defs fld_def satp_ok_def)
qed

lemma init_mem_run:
  "init_mem s = (Ret (), s\<lparr>pmem := (\<lambda>a. if in_pmem a s then 0 else pmem s a), store_commit_queue :=
     (if cfg_share s then map (\<lambda>e. e\<lparr>sc_valid := False\<rparr>) (store_commit_queue s) else store_commit_queue s)\<rparr>)"
  by (simp add: init_mem_def then_m_def bind_m_def monad_simps when_m_def)

lemma boot_ok: "machine_ok (snd (then_m init_mem (init_isa cpt) (host_start share clk alarm events)))"
proof -
  let ?s0 = "host_start share clk alarm events"
  obtain q m where run: "init_mem ?s0 = (Ret (), ?s0\<lparr>pmem := m, store_commit_queue := q\<rparr>)" (is "_ = (_, ?s1)")
    by (rule that [OF init_mem_run])
  have "machine_ok (reset_state ?s1)"
    by (rule reset_ok) (simp_all add: host_start_def satp_ok_def satp_mode_def fld_def)
  moreover have "keeps machine_ok init_device"
    unfolding init_device_def by (intro keeps_intro devices_ok)
  then have "keeps machine_ok (with_m (\<lambda>s. if cfg_share s then init_device
     else then_m (when_m (\<not> cpt) (modify_m (\<lambda>s. s\<lparr>pmem := copy_img RESET_VECTOR img (pmem s)\<rparr>))) init_clint))"
    (is "keeps _ ?k")
    by (intro keeps_with keeps_if keeps_then keeps_when ok_upd devices_ok) (simp_all add: view_upd)
  ultimately have "machine_ok (snd (?k (reset_state ?s1)))" by (rule keepsD [rotated])
  then show ?thesis
    by (simp only: then_m_def bind_m_def run init_isa_def modify_m_apply prod.case outcome.case)
qed

lemma regcpy_ok:
  assumes "machine_ok s" "dut_mode d = mode s" "dut_csrs d c_satp = csr c_satp s" "dut_gpr d 0 = 0"
    "fld 11 2 (dut_csrs d c_mstatus) = fld 11 2 (csr c_mstatus s)"
    "bit (dut_csrs d c_mstatus) 17 = bit (csr c_mstatus s) 17"
  shows "machine_ok (snd (regcpy_to_ref d s))"
proof (rule machine_okI [of _ s])
  show "mmu_view (snd (regcpy_to_ref d s)) = mmu_view s"
    using assms(2,3,5,6) by (simp add: regcpy_to_ref_run mmu_view_def mstatus_defs)
qed (use assms(1,4) in \<open>simp_all add: regcpy_to_ref_run\<close>)

lemma difftest_calls_ok:
  "keeps machine_ok (difftest_raise_intr NO)" "keeps machine_ok (memcpy_to_ref a buf b n)"
  "keeps machine_ok (uarchstatus_to_ref v)" "keeps machine_ok (difftest_query_ref t)"
  "keeps machine_ok (difftest_set_ramsize z)"
  unfolding difftest_raise_intr_def memcpy_to_ref_def uarchstatus_to_ref_def difftest_query_ref_def
    difftest_set_ramsize_def
  by (intro keeps_then keeps_bind keeps_with keeps_if keeps_when keeps_return keeps_gets keeps_panic
      raise_intr_ok ok_upd; simp add: view_upd)+

lemma guided_exec_ok:
  assumes "guided_exec_step g s = Some (r, s')" "machine_ok s"
  shows "machine_ok s'"
proof -
  let ?s1 = "s\<lparr>execution_guide := g, guided_exec := True\<rparr>"
  have ok1: "machine_ok ?s1" using assms(2) machine_okI [of ?s1 s] by (simp add: view_upd machine_ok_def)
  obtain q s2 where run: "cpu_exec 1 ?s1 = Some (q, s2)"
    using assms(1) by (auto simp: guided_exec_step_def split: option.splits)
  with ok1 have ok2: "machine_ok s2" by (rule cpu_exec_ok [rotated])
  have "machine_ok (s2\<lparr>guided_exec := False\<rparr>)"
    using ok2 machine_okI [of "s2\<lparr>guided_exec := False\<rparr>" s2] by (simp add: view_upd machine_ok_def)
  with ok2 run assms(1) show ?thesis
    by (cases q) (auto simp: guided_exec_step_def run_then_def)
qed

end
