(* ===== verification/Isa_Spec.thy ===== *)
theory Isa_Spec
  imports Step_Laws
begin

unbundle bit_operations_syntax

text \<open>
  What the instruction-set manual says of the computational instructions and the control
  transfers of RV64IM, written independently of the decoder and the execution helpers, and the
  facts about the dispatch tables of \<open>src/isa/riscv64/instr/decode.c\<close> that both comparisons
  need: the rows a word selects, as conditions on its fields, and the operands the decode
  helpers leave.
\<close>

section \<open>The manual\<close>

text \<open>Immediates and the two arithmetic units; \<open>alt\<close> is bit 30 of the word.\<close>

definition I_immediate :: "u32 \<Rightarrow> u64" where
  "I_immediate i = signed_take_bit 11 (ucast (shr i 20))"

definition U_immediate :: "u32 \<Rightarrow> u64" where
  "U_immediate i = scast (i AND NOT (mask 12))"

definition alu :: "u32 \<Rightarrow> bool \<Rightarrow> u64 \<Rightarrow> u64 \<Rightarrow> u64" where
  "alu funct3 alt a b =
    (if funct3 = 0 then (if alt then a - b else a + b)
     else if funct3 = 1 then shl a (unat (take_bit 6 b))
     else if funct3 = 2 then (if sint a < sint b then 1 else 0)
     else if funct3 = 3 then (if a < b then 1 else 0)
     else if funct3 = 4 then a XOR b
     else if funct3 = 5 then (if alt then sar a (unat (take_bit 6 b)) else shr a (unat (take_bit 6 b)))
     else if funct3 = 6 then a OR b
     else a AND b)"

definition alu32 :: "u32 \<Rightarrow> bool \<Rightarrow> u32 \<Rightarrow> u32 \<Rightarrow> u64" where
  "alu32 funct3 alt a b = scast
    (if funct3 = 0 then (if alt then a - b else a + b)
     else if funct3 = 1 then shl a (unat (take_bit 5 b))
     else if alt then sar a (unat (take_bit 5 b)) else shr a (unat (take_bit 5 b)))"

text \<open>The multiplier and the divider, with the results the manual gives for the special cases.\<close>

definition muldiv :: "u32 \<Rightarrow> u64 \<Rightarrow> u64 \<Rightarrow> u64" where
  "muldiv funct3 a b =
    (if funct3 = 0 then a * b
     else if funct3 = 1 then word_of_int (sint a * sint b div 2 ^ 64)
     else if funct3 = 2 then word_of_int (sint a * uint b div 2 ^ 64)
     else if funct3 = 3 then word_of_int (uint a * uint b div 2 ^ 64)
     else if funct3 = 4 then (if b = 0 then - 1 else word_of_int (sint a sdiv sint b))
     else if funct3 = 5 then (if b = 0 then - 1 else a div b)
     else if funct3 = 6 then (if b = 0 then a else word_of_int (sint a smod sint b))
     else if b = 0 then a else a mod b)"

definition muldiv32 :: "u32 \<Rightarrow> u32 \<Rightarrow> u32 \<Rightarrow> u64" where
  "muldiv32 funct3 a b = scast
    (if funct3 = 0 then a * b
     else if funct3 = 4 then (if b = 0 then - 1 else word_of_int (sint a sdiv sint b))
     else if funct3 = 5 then (if b = 0 then - 1 else a div b)
     else if funct3 = 6 then (if b = 0 then a else word_of_int (sint a smod sint b))
     else if b = 0 then a else a mod b)"

text \<open>The value a computational instruction writes; \<open>None\<close> for every other word.\<close>

definition rv64im_value :: "u32 \<Rightarrow> u64 \<Rightarrow> (u5 \<Rightarrow> u64) \<Rightarrow> u64 option" where
  "rv64im_value i pcv x =
    (let opcode = fld 2 5 i; f3 = fld 12 3 i; f6 = fld 26 6 i; f7 = fld 25 7 i;
         a = x (ucast (fld 15 5 i)); b = x (ucast (fld 20 5 i)); imm = I_immediate i
     in if opcode = 0x04 then
          (if f3 = 1 then (if f6 = 0 then Some (alu f3 False a imm) else None)
           else if f3 = 5 then (if f6 = 0 then Some (alu f3 False a imm)
                                else if f6 = 0x10 then Some (alu f3 True a imm) else None)
           else Some (alu f3 False a imm))
        else if opcode = 0x0c then
          (if f7 = 0 then Some (alu f3 False a b)
           else if f7 = 0x20 \<and> (f3 = 0 \<or> f3 = 5) then Some (alu f3 True a b)
           else if f7 = 1 then Some (muldiv f3 a b) else None)
        else if opcode = 0x06 then
          (if f3 = 0 then Some (alu32 f3 False (ucast a) (ucast imm))
           else if f3 = 1 \<and> f7 = 0 then Some (alu32 f3 False (ucast a) (ucast imm))
           else if f3 = 5 \<and> (f7 = 0 \<or> f7 = 0x20) then Some (alu32 f3 (f7 = 0x20) (ucast a) (ucast imm))
           else None)
        else if opcode = 0x0e then
          (if f7 = 0 \<and> (f3 = 0 \<or> f3 = 1 \<or> f3 = 5) then Some (alu32 f3 False (ucast a) (ucast b))
           else if f7 = 0x20 \<and> (f3 = 0 \<or> f3 = 5) then Some (alu32 f3 True (ucast a) (ucast b))
           else if f7 = 1 \<and> f3 \<noteq> 1 \<and> f3 \<noteq> 2 \<and> f3 \<noteq> 3 then Some (muldiv32 f3 (ucast a) (ucast b))
           else None)
        else if opcode = 0x0d then Some (U_immediate i)
        else if opcode = 0x05 then Some (U_immediate i + pcv)
        else None)"

subsection \<open>Control transfers\<close>

definition B_immediate :: "u32 \<Rightarrow> u64" where
  "B_immediate i = signed_take_bit 12 (ucast
    (shl (fld 31 1 i) 12 OR shl (fld 7 1 i) 11 OR shl (fld 25 6 i) 5 OR shl (fld 8 4 i) 1))"

definition J_immediate :: "u32 \<Rightarrow> u64" where
  "J_immediate i = signed_take_bit 20 (ucast
    (shl (fld 31 1 i) 20 OR shl (fld 12 8 i) 12 OR shl (fld 20 1 i) 11 OR shl (fld 21 10 i) 1))"

definition taken :: "u32 \<Rightarrow> u64 \<Rightarrow> u64 \<Rightarrow> bool" where
  "taken funct3 a b \<longleftrightarrow>
    (if funct3 = 0 then a = b else if funct3 = 1 then a \<noteq> b
     else if funct3 = 4 then sint a < sint b else if funct3 = 5 then \<not> sint a < sint b
     else if funct3 = 6 then a < b else \<not> a < b)"

text \<open>The next program counter of a control transfer and the link it leaves in its destination.\<close>

definition rv64i_transfer :: "u32 \<Rightarrow> u64 \<Rightarrow> u64 \<Rightarrow> (u5 \<Rightarrow> u64) \<Rightarrow> (u64 \<times> u64 option) option" where
  "rv64i_transfer i pcv npc x =
    (let opcode = fld 2 5 i; f3 = fld 12 3 i; a = x (ucast (fld 15 5 i)); b = x (ucast (fld 20 5 i))
     in if opcode = 0x18 \<and> f3 \<noteq> 2 \<and> f3 \<noteq> 3 then Some (if taken f3 a b then pcv + B_immediate i else npc, None)
        else if opcode = 0x1b then Some (pcv + J_immediate i, Some npc)
        else if opcode = 0x19 \<and> f3 = 0 then Some ((a + I_immediate i) AND NOT 1, Some npc)
        else None)"

section \<open>Fields as bits\<close>

lemma fld_eq_iff: "take_bit n c = c \<Longrightarrow> fld lo n i = c \<longleftrightarrow> (\<forall>k<n. bit i (lo + k) \<longleftrightarrow> bit c k)" for i c :: u32
  unfolding fld_def
proof
  assume t: "take_bit n c = c" and a: "\<forall>k<n. bit i (lo + k) \<longleftrightarrow> bit c k"
  show "take_bit n (shr i lo) = c"
  proof (rule bit_word_eqI)
    fix k assume "k < LENGTH(32)"
    have "bit c k \<longleftrightarrow> bit (take_bit n c) k" by (simp only: t)
    then show "bit (take_bit n (shr i lo)) k = bit c k" using a by (auto simp: bit_take_bit_iff bit_drop_bit_eq)
  qed
next
  assume "take_bit n (shr i lo) = c"
  then show "\<forall>k<n. bit i (lo + k) \<longleftrightarrow> bit c k" by (auto simp: bit_take_bit_iff bit_drop_bit_eq)
qed

lemma all_below:
  "(\<forall>k<Suc n. P k) \<longleftrightarrow> P n \<and> (\<forall>k<n. P k)"
  "(\<forall>k<numeral v. P k) \<longleftrightarrow> P (pred_numeral v) \<and> (\<forall>k<pred_numeral v. P k)"
  by (auto simp: less_Suc_eq numeral_eq_Suc)

lemmas fld_bits = fld_eq_iff all_below bit_1_iff numeral_2_eq_2 [symmetric] numeral_3_eq_3 [symmetric]

lemma opcode_bits:
  "fld 2 5 i = 0x04 \<longleftrightarrow> \<not> bit i 2 \<and> \<not> bit i 3 \<and> bit i 4 \<and> \<not> bit i 5 \<and> \<not> bit i 6"
  "fld 2 5 i = 0x0c \<longleftrightarrow> \<not> bit i 2 \<and> \<not> bit i 3 \<and> bit i 4 \<and> bit i 5 \<and> \<not> bit i 6"
  "fld 2 5 i = 0x06 \<longleftrightarrow> \<not> bit i 2 \<and> bit i 3 \<and> bit i 4 \<and> \<not> bit i 5 \<and> \<not> bit i 6"
  "fld 2 5 i = 0x0e \<longleftrightarrow> \<not> bit i 2 \<and> bit i 3 \<and> bit i 4 \<and> bit i 5 \<and> \<not> bit i 6"
  "fld 2 5 i = 0x0d \<longleftrightarrow> bit i 2 \<and> \<not> bit i 3 \<and> bit i 4 \<and> bit i 5 \<and> \<not> bit i 6"
  "fld 2 5 i = 0x05 \<longleftrightarrow> bit i 2 \<and> \<not> bit i 3 \<and> bit i 4 \<and> \<not> bit i 5 \<and> \<not> bit i 6"
  for i :: u32
  by (auto simp: fld_bits)

section \<open>Running the tables\<close>

lemma table_step:
  "instr_table ((pat, body) # es) final s = (case instr_matches pat (get_instr s) of
     None \<Rightarrow> (Abort, s) | Some b \<Rightarrow> if b then body s else instr_table es final s)"
  by (simp add: def_INSTR_raw_def with_instr_apply panic_m_apply split: option.split)

lemma table_end: "instr_table [] final s = final s"
  by simp

lemmas run_table = table_step table_end match_eval

lemma funct7_1: "fld 25 7 i = 1 \<longleftrightarrow> bit i 25 \<and> \<not> bit i 26 \<and> \<not> bit i 27 \<and> \<not> bit i 28 \<and> \<not> bit i 29 \<and> \<not> bit i 30 \<and> \<not> bit i 31"
  for i :: u32
  by (auto simp: fld_bits)

lemma main_rows:
  "fld 2 5 (get_instr s) = 0x04 \<Longrightarrow> table_main s = then_m decode_I table_op_imm s"
  "fld 2 5 (get_instr s) = 0x06 \<Longrightarrow> table_main s = then_m decode_I table_op_imm32 s"
  "fld 2 5 (get_instr s) = 0x0c \<Longrightarrow> fld 25 7 (get_instr s) \<noteq> 1 \<Longrightarrow> table_main s = then_m decode_R table_op s"
  "fld 2 5 (get_instr s) = 0x0e \<Longrightarrow> fld 25 7 (get_instr s) \<noteq> 1 \<Longrightarrow> table_main s = then_m decode_R table_op32 s"
  "fld 2 5 (get_instr s) = 0x0d \<Longrightarrow> table_main s = then_m decode_U (return_m (COMPUTE EXEC_ID_lui)) s"
  "fld 2 5 (get_instr s) = 0x05 \<Longrightarrow> table_main s = then_m decode_auipc (return_m (COMPUTE EXEC_ID_auipc)) s"
  unfolding table_main_def opcode_bits funct7_1 by (simp_all add: run_table del: instr_table.simps) auto

lemma main_rvm_rows:
  "fld 2 5 (get_instr s) = 0x0c \<Longrightarrow> fld 25 7 (get_instr s) = 1 \<Longrightarrow> table_main s = then_m decode_R table_rvm s"
  "fld 2 5 (get_instr s) = 0x0e \<Longrightarrow> fld 25 7 (get_instr s) = 1 \<Longrightarrow> table_main s = then_m decode_R table_rvm32 s"
  unfolding table_main_def opcode_bits funct7_1 by (simp_all add: run_table del: instr_table.simps)

text \<open>The operands after decoding, with \<open>x0\<close> as a destination redirected.\<close>

definition dst :: "u32 \<Rightarrow> operand" where
  "dst i = (if fld 7 5 i = 0 then Pzero_null else Preg (ucast (fld 7 5 i)))"

definition decI :: "machine \<Rightarrow> machine" where
  "decI s = s\<lparr>dec := (dec s)\<lparr>id_src1 := Preg (ucast (fld 15 5 (get_instr s))), id_src2 := Imm (imm_I (get_instr s)),
     id_dest := dst (get_instr s)\<rparr>\<rparr>"

definition decR :: "machine \<Rightarrow> machine" where
  "decR s = s\<lparr>dec := (dec s)\<lparr>id_src1 := Preg (ucast (fld 15 5 (get_instr s))),
     id_src2 := Preg (ucast (fld 20 5 (get_instr s))), id_dest := dst (get_instr s)\<rparr>\<rparr>"

definition decU :: "u64 \<Rightarrow> machine \<Rightarrow> machine" where
  "decU v s = s\<lparr>dec := (dec s)\<lparr>id_src1 := Imm v, id_dest := dst (get_instr s)\<rparr>\<rparr>"

lemma fld5_less: "fld lo 5 i < 32" for i :: u32
  unfolding fld_def by (simp add: word_less_nat_alt unsigned_take_bit_eq take_bit_nat_less_exp [of 5, simplified])

lemma decode_run:
  "decode_I s = (Ret (), decI s)" "decode_R s = (Ret (), decR s)"
  "decode_U s = (Ret (), decU (imm_U (get_instr s)) s)"
  "decode_auipc s = (Ret (), decU (imm_U (get_instr s) + dec_pc (dec s)) s)"
  by (simp_all add: decode_I_def decode_R_def decode_U_def decode_auipc_def with_instr_apply decode_op_r_def
      decode_op_i_def upd_dec_def then_m_def bind_m_def monad_simps fld5_less dst_def decI_def decR_def decU_def
      instr_rs1_def instr_rs2_def instr_rd_def)

lemma dst_kinds [simp]: "wdest (dst i)" "\<not> is_imm (dst i)"
  using u5_nonzero [OF fld5_less] by (simp_all add: dst_def)

text \<open>The result of an instruction that writes \<open>v\<close> to its destination.\<close>

definition writes :: "u64 \<Rightarrow> machine \<Rightarrow> unit outcome \<times> machine \<Rightarrow> bool" where
  "writes v s r \<longleftrightarrow> (\<exists>w. r = (Ret (), preg_set (dst (get_instr s)) w s) \<and>
     (dst (get_instr s) \<noteq> Pzero_null \<longrightarrow> w = v))"

lemma get_instr_dec [simp]: "get_instr (decI s) = get_instr s" "get_instr (decR s) = get_instr s"
  "get_instr (decU v s) = get_instr s"
  by (simp_all add: get_instr_def decI_def decR_def decU_def)

lemma writes_I:
  "writes (f (gpr s (ucast (fld 15 5 (get_instr s)))) (imm_I (get_instr s))) (decI s) (exec_ri f (decI s))"
  "g (gpr s (ucast (fld 15 5 (get_instr s)))) (imm_I (get_instr s)) = Some v \<Longrightarrow> writes v (decI s) (exec_ri_opt g (decI s))"
  "writes (h (gpr s (ucast (fld 15 5 (get_instr s))))) (decI s) (exec_r h (decI s))"
  "writes (imm_I (get_instr s)) (decI s) (src2_imm (\<lambda>imm. set_ddest (rtl_li imm)) (decI s))"
  "writes v (decI s) (set_ddest v (decI s))"
  by (simp_all add: writes_def exec_shape_defs helper_simps decI_def preg_val_def imm_val_def get_instr_def rtl_li_def
      bind_m_def c_add_def) blast+

lemma writes_di:
  assumes "fld 7 5 (get_instr s) = fld 15 5 (get_instr s)"
  shows "writes (f (gpr s (ucast (fld 15 5 (get_instr s)))) (imm_I (get_instr s))) (decI s) (exec_di f (decI s))"
    "writes (g (gpr s (ucast (fld 15 5 (get_instr s))))) (decI s) (ddest (\<lambda>a. set_ddest (g a)) (decI s))"
    "writes (f (gpr s (ucast (fld 15 5 (get_instr s)))) (gpr s (ucast (fld 20 5 (get_instr s))))) (decR s) (exec_dr f (decR s))"
proof -
  have v: "dst i \<noteq> Pzero_null \<Longrightarrow> fld 7 5 i = fld 15 5 i \<Longrightarrow> preg_val (dst i) t = gpr t (ucast (fld 15 5 i))" for i t
    by (simp add: dst_def preg_val_def split: if_splits)
  have r: "preg_val (Preg r) t = gpr t r" for r t by (simp add: preg_val_def)
  show "writes (f (gpr s (ucast (fld 15 5 (get_instr s)))) (imm_I (get_instr s))) (decI s) (exec_di f (decI s))"
    "writes (g (gpr s (ucast (fld 15 5 (get_instr s))))) (decI s) (ddest (\<lambda>a. set_ddest (g a)) (decI s))"
    "writes (f (gpr s (ucast (fld 15 5 (get_instr s)))) (gpr s (ucast (fld 20 5 (get_instr s))))) (decR s) (exec_dr f (decR s))"
    using assms
    by (simp_all add: writes_def exec_shape_defs helper_simps decI_def decR_def imm_val_def get_instr_def r)
      (intro exI conjI impI, rule refl, simp add: v)+
qed

lemma writes_R:
  "writes (f (gpr s (ucast (fld 15 5 (get_instr s)))) (gpr s (ucast (fld 20 5 (get_instr s))))) (decR s) (exec_rr f (decR s))"
  "g (gpr s (ucast (fld 15 5 (get_instr s)))) (gpr s (ucast (fld 20 5 (get_instr s)))) = Some v \<Longrightarrow>
   writes v (decR s) (exec_rr_opt g (decR s))"
  "writes v (decU v s) (src1_imm (\<lambda>imm. set_ddest (rtl_li imm)) (decU v s))"
  by (simp_all add: writes_def exec_shape_defs helper_simps decR_def decU_def preg_val_def imm_val_def get_instr_def
      rtl_li_def bind_m_def c_add_def) blast+

lemma funct3_bits:
  "fld 12 3 i = 0 \<longleftrightarrow> \<not> bit i 12 \<and> \<not> bit i 13 \<and> \<not> bit i 14" "fld 12 3 i = 1 \<longleftrightarrow> bit i 12 \<and> \<not> bit i 13 \<and> \<not> bit i 14"
  "fld 12 3 i = 2 \<longleftrightarrow> \<not> bit i 12 \<and> bit i 13 \<and> \<not> bit i 14" "fld 12 3 i = 3 \<longleftrightarrow> bit i 12 \<and> bit i 13 \<and> \<not> bit i 14"
  "fld 12 3 i = 4 \<longleftrightarrow> \<not> bit i 12 \<and> \<not> bit i 13 \<and> bit i 14" "fld 12 3 i = 5 \<longleftrightarrow> bit i 12 \<and> \<not> bit i 13 \<and> bit i 14"
  "fld 12 3 i = 6 \<longleftrightarrow> \<not> bit i 12 \<and> bit i 13 \<and> bit i 14" "fld 12 3 i = 7 \<longleftrightarrow> bit i 12 \<and> bit i 13 \<and> bit i 14"
  for i :: u32
  by (auto simp: fld_bits)

lemma funct3_cases:
  fixes i :: u32
  obtains "fld 12 3 i = 0" | "fld 12 3 i = 1" | "fld 12 3 i = 2" | "fld 12 3 i = 3" | "fld 12 3 i = 4"
    | "fld 12 3 i = 5" | "fld 12 3 i = 6" | "fld 12 3 i = 7"
  unfolding funct3_bits by blast

lemma funct7_bits:
  "fld 26 6 i = 0 \<longleftrightarrow> \<not> bit i 26 \<and> \<not> bit i 27 \<and> \<not> bit i 28 \<and> \<not> bit i 29 \<and> \<not> bit i 30 \<and> \<not> bit i 31"
  "fld 26 6 i = 16 \<longleftrightarrow> \<not> bit i 26 \<and> \<not> bit i 27 \<and> \<not> bit i 28 \<and> \<not> bit i 29 \<and> bit i 30 \<and> \<not> bit i 31"
  "fld 25 7 i = 0 \<longleftrightarrow> \<not> bit i 25 \<and> \<not> bit i 26 \<and> \<not> bit i 27 \<and> \<not> bit i 28 \<and> \<not> bit i 29 \<and> \<not> bit i 30 \<and> \<not> bit i 31"
  "fld 25 7 i = 32 \<longleftrightarrow> \<not> bit i 25 \<and> \<not> bit i 26 \<and> \<not> bit i 27 \<and> \<not> bit i 28 \<and> \<not> bit i 29 \<and> bit i 30 \<and> \<not> bit i 31"
  for i :: u32
  by (auto simp: fld_bits)

lemmas row_simps = with_instr_apply instr_rd_def instr_rs1_def run_table return_m_apply

abbreviation (input) same :: "machine \<Rightarrow> bool" where
  "same s \<equiv> fld 7 5 (get_instr s) = fld 15 5 (get_instr s)"

lemma op_imm_rows_1:
  "fld 12 3 (get_instr s) = 0 \<Longrightarrow> table_op_imm (decI s) =
     (if same s then table_c_addi_dispatch (decI s) else table_addi_dispatch (decI s))"
  "fld 12 3 (get_instr s) = 2 \<Longrightarrow> table_op_imm (decI s) = (Ret (COMPUTE EXEC_ID_slti), decI s)"
  "fld 12 3 (get_instr s) = 3 \<Longrightarrow> table_op_imm (decI s) = (Ret (COMPUTE EXEC_ID_sltui), decI s)"
  unfolding funct3_bits funct7_bits table_op_imm_def
  by (cases "same s"; simp add: row_simps del: instr_table.simps)+

lemma op_imm_rows_2:
  "fld 12 3 (get_instr s) = 4 \<Longrightarrow> table_op_imm (decI s) = (Ret (COMPUTE EXEC_ID_xori), decI s)"
  "fld 12 3 (get_instr s) = 6 \<Longrightarrow> table_op_imm (decI s) = (Ret (COMPUTE EXEC_ID_ori), decI s)"
  "fld 12 3 (get_instr s) = 7 \<Longrightarrow> table_op_imm (decI s) =
     (Ret (if same s then RVC EXEC_ID_c_andi else COMPUTE EXEC_ID_andi), decI s)"
  unfolding funct3_bits funct7_bits table_op_imm_def
  by (cases "same s"; simp add: row_simps del: instr_table.simps)+

lemma op_imm_rows_3:
  "fld 12 3 (get_instr s) = 1 \<Longrightarrow> fld 26 6 (get_instr s) = 0 \<Longrightarrow> table_op_imm (decI s) =
     (Ret (if same s then RVC EXEC_ID_c_slli else COMPUTE EXEC_ID_slli), decI s)"
  "fld 12 3 (get_instr s) = 5 \<Longrightarrow> fld 26 6 (get_instr s) = 0 \<Longrightarrow> table_op_imm (decI s) =
     (Ret (if same s then RVC EXEC_ID_c_srli else COMPUTE EXEC_ID_srli), decI s)"
  "fld 12 3 (get_instr s) = 5 \<Longrightarrow> fld 26 6 (get_instr s) = 16 \<Longrightarrow> table_op_imm (decI s) =
     (Ret (if same s then RVC EXEC_ID_c_srai else COMPUTE EXEC_ID_srai), decI s)"
  unfolding funct3_bits funct7_bits table_op_imm_def
  by (cases "same s"; simp add: row_simps del: instr_table.simps)+

lemmas op_imm_rows = op_imm_rows_1 op_imm_rows_2 op_imm_rows_3

lemma op_rows_1:
  "fld 12 3 (get_instr s) = 0 \<Longrightarrow> fld 25 7 (get_instr s) = 0 \<Longrightarrow> table_op (decR s) =
     (Ret (if same s then RVC EXEC_ID_c_add else COMPUTE EXEC_ID_add), decR s)"
  "fld 12 3 (get_instr s) = 1 \<Longrightarrow> fld 25 7 (get_instr s) = 0 \<Longrightarrow> table_op (decR s) = (Ret (COMPUTE EXEC_ID_sll), decR s)"
  "fld 12 3 (get_instr s) = 2 \<Longrightarrow> fld 25 7 (get_instr s) = 0 \<Longrightarrow> table_op (decR s) = (Ret (COMPUTE EXEC_ID_slt), decR s)"
  unfolding funct3_bits funct7_bits table_op_def
  by (cases "same s"; simp add: row_simps del: instr_table.simps)+

lemma op_rows_2:
  "fld 12 3 (get_instr s) = 3 \<Longrightarrow> fld 25 7 (get_instr s) = 0 \<Longrightarrow> table_op (decR s) = (Ret (COMPUTE EXEC_ID_sltu), decR s)"
  "fld 12 3 (get_instr s) = 4 \<Longrightarrow> fld 25 7 (get_instr s) = 0 \<Longrightarrow> table_op (decR s) =
     (Ret (if same s then RVC EXEC_ID_c_xor else COMPUTE EXEC_ID_xor), decR s)"
  "fld 12 3 (get_instr s) = 5 \<Longrightarrow> fld 25 7 (get_instr s) = 0 \<Longrightarrow> table_op (decR s) = (Ret (COMPUTE EXEC_ID_srl), decR s)"
  unfolding funct3_bits funct7_bits table_op_def
  by (cases "same s"; simp add: row_simps del: instr_table.simps)+

lemma op_rows_3:
  "fld 12 3 (get_instr s) = 6 \<Longrightarrow> fld 25 7 (get_instr s) = 0 \<Longrightarrow> table_op (decR s) =
     (Ret (if same s then RVC EXEC_ID_c_or else COMPUTE EXEC_ID_or), decR s)"
  "fld 12 3 (get_instr s) = 7 \<Longrightarrow> fld 25 7 (get_instr s) = 0 \<Longrightarrow> table_op (decR s) =
     (Ret (if same s then RVC EXEC_ID_c_and else COMPUTE EXEC_ID_and), decR s)"
  unfolding funct3_bits funct7_bits table_op_def
  by (cases "same s"; simp add: row_simps del: instr_table.simps)+

lemma op_rows_4:
  "fld 12 3 (get_instr s) = 0 \<Longrightarrow> fld 25 7 (get_instr s) = 32 \<Longrightarrow> table_op (decR s) =
     (Ret (if same s then RVC EXEC_ID_c_sub else COMPUTE EXEC_ID_sub), decR s)"
  "fld 12 3 (get_instr s) = 5 \<Longrightarrow> fld 25 7 (get_instr s) = 32 \<Longrightarrow> table_op (decR s) = (Ret (COMPUTE EXEC_ID_sra), decR s)"
  unfolding funct3_bits funct7_bits table_op_def
  by (cases "same s"; simp add: row_simps del: instr_table.simps)+

lemmas op_rows = op_rows_1 op_rows_2 op_rows_3 op_rows_4

lemma op32_rows_1:
  "fld 12 3 (get_instr s) = 0 \<Longrightarrow> fld 25 7 (get_instr s) = 0 \<Longrightarrow> table_op32 (decR s) =
     (Ret (if same s then RVC EXEC_ID_c_addw else COMPUTE EXEC_ID_addw), decR s)"
  "fld 12 3 (get_instr s) = 0 \<Longrightarrow> fld 25 7 (get_instr s) = 32 \<Longrightarrow> table_op32 (decR s) =
     (Ret (if same s then RVC EXEC_ID_c_subw else COMPUTE EXEC_ID_subw), decR s)"
  "fld 12 3 (get_instr s) = 1 \<Longrightarrow> fld 25 7 (get_instr s) = 0 \<Longrightarrow> table_op32 (decR s) = (Ret (COMPUTE EXEC_ID_sllw), decR s)"
  unfolding funct3_bits funct7_bits table_op32_def
  by (cases "same s"; simp add: row_simps del: instr_table.simps)+

lemma op32_rows_2:
  "fld 12 3 (get_instr s) = 5 \<Longrightarrow> fld 25 7 (get_instr s) = 0 \<Longrightarrow> table_op32 (decR s) = (Ret (COMPUTE EXEC_ID_srlw), decR s)"
  "fld 12 3 (get_instr s) = 5 \<Longrightarrow> fld 25 7 (get_instr s) = 32 \<Longrightarrow> table_op32 (decR s) = (Ret (COMPUTE EXEC_ID_sraw), decR s)"
  unfolding funct3_bits funct7_bits table_op32_def
  by (cases "same s"; simp add: row_simps del: instr_table.simps)+

lemmas op32_rows = op32_rows_1 op32_rows_2

lemma op_imm32_rows_1:
  "fld 12 3 (get_instr s) = 1 \<Longrightarrow> fld 25 7 (get_instr s) = 0 \<Longrightarrow> table_op_imm32 (decI s) = (Ret (COMPUTE EXEC_ID_slliw), decI s)"
  unfolding funct3_bits funct7_bits table_op_imm32_def
  by (cases "same s \<and> fld 7 5 (get_instr s) \<noteq> 0"; simp add: row_simps del: instr_table.simps)+

lemma op_imm32_rows_2:
  "fld 12 3 (get_instr s) = 5 \<Longrightarrow> fld 25 7 (get_instr s) = 0 \<Longrightarrow> table_op_imm32 (decI s) = (Ret (COMPUTE EXEC_ID_srliw), decI s)"
  unfolding funct3_bits funct7_bits table_op_imm32_def
  by (cases "same s \<and> fld 7 5 (get_instr s) \<noteq> 0"; simp add: row_simps del: instr_table.simps)+

lemma op_imm32_rows_3:
  "fld 12 3 (get_instr s) = 5 \<Longrightarrow> fld 25 7 (get_instr s) = 32 \<Longrightarrow> table_op_imm32 (decI s) = (Ret (COMPUTE EXEC_ID_sraiw), decI s)"
  unfolding funct3_bits funct7_bits table_op_imm32_def
  by (cases "same s \<and> fld 7 5 (get_instr s) \<noteq> 0"; simp add: row_simps del: instr_table.simps)+

lemmas op_imm32_rows = op_imm32_rows_1 op_imm32_rows_2 op_imm32_rows_3

lemma rvm_rows_1:
  "fld 12 3 (get_instr s) = 0 \<Longrightarrow> table_rvm (decR s) = (Ret (RVM EXEC_ID_mul), decR s)"
  "fld 12 3 (get_instr s) = 1 \<Longrightarrow> table_rvm (decR s) = (Ret (RVM EXEC_ID_mulh), decR s)"
  "fld 12 3 (get_instr s) = 2 \<Longrightarrow> table_rvm (decR s) = (Ret (RVM EXEC_ID_mulhsu), decR s)"
  "fld 12 3 (get_instr s) = 3 \<Longrightarrow> table_rvm (decR s) = (Ret (RVM EXEC_ID_mulhu), decR s)"
  "fld 12 3 (get_instr s) = 4 \<Longrightarrow> table_rvm (decR s) = (Ret (RVM EXEC_ID_div), decR s)"
  unfolding funct3_bits table_rvm_def table_rvm32_def
  by (simp_all add: row_simps del: instr_table.simps)

lemma rvm_rows_2:
  "fld 12 3 (get_instr s) = 5 \<Longrightarrow> table_rvm (decR s) = (Ret (RVM EXEC_ID_divu), decR s)"
  "fld 12 3 (get_instr s) = 6 \<Longrightarrow> table_rvm (decR s) = (Ret (RVM EXEC_ID_rem), decR s)"
  "fld 12 3 (get_instr s) = 7 \<Longrightarrow> table_rvm (decR s) = (Ret (RVM EXEC_ID_remu), decR s)"
  "fld 12 3 (get_instr s) = 0 \<Longrightarrow> table_rvm32 (decR s) = (Ret (RVM EXEC_ID_mulw), decR s)"
  unfolding funct3_bits table_rvm_def table_rvm32_def
  by (simp_all add: row_simps del: instr_table.simps)

lemma rvm_rows_3:
  "fld 12 3 (get_instr s) = 4 \<Longrightarrow> table_rvm32 (decR s) = (Ret (RVM EXEC_ID_divw), decR s)"
  "fld 12 3 (get_instr s) = 5 \<Longrightarrow> table_rvm32 (decR s) = (Ret (RVM EXEC_ID_divuw), decR s)"
  "fld 12 3 (get_instr s) = 6 \<Longrightarrow> table_rvm32 (decR s) = (Ret (RVM EXEC_ID_remw), decR s)"
  "fld 12 3 (get_instr s) = 7 \<Longrightarrow> table_rvm32 (decR s) = (Ret (RVM EXEC_ID_remuw), decR s)"
  unfolding funct3_bits table_rvm_def table_rvm32_def
  by (simp_all add: row_simps del: instr_table.simps)

lemmas rvm_rows = rvm_rows_1 rvm_rows_2 rvm_rows_3

section \<open>Immediates\<close>

lemma bit_fld: "bit (fld lo n i) k \<longleftrightarrow> k < n \<and> bit i (lo + k)" for i :: u32
  by (auto simp: fld_def bit_take_bit_iff bit_drop_bit_eq)

lemma bit_sfld: "bit (sfld lo n i) k \<longleftrightarrow> k < 32 \<and> bit i (lo + min k (n - 1))" for i :: u32
  by (auto simp: sfld_def bit_signed_take_bit_iff bit_drop_bit_eq min_def)

lemmas imm_bits = bit_push_bit_iff bit_or_iff bit_unsigned_iff bit_signed_iff bit_signed_take_bit_iff possible_bit_word
  bit_fld bit_sfld

lemma imm_B_eq: "imm_B i = B_immediate i"
  unfolding imm_B_def B_immediate_def
  by (rule bit_word_eqI, simp only: imm_bits, auto simp: min_def)

lemma imm_J_eq: "imm_J i = J_immediate i"
  unfolding imm_J_def J_immediate_def
  by (rule bit_word_eqI, simp only: imm_bits, auto simp: min_def)
lemma imm_I_eq: "imm_I i = I_immediate i"
  unfolding imm_I_def sfld_def I_immediate_def
  by (rule bit_word_eqI) (auto simp: bit_simps min_def)

lemma imm_U_eq: "imm_U i = U_immediate i"
  unfolding imm_U_def sfld_def U_immediate_def
  by (rule bit_word_eqI) (auto simp: bit_simps min_def)

lemma shr_20: "shr i 20 = fld 20 12 i" for i :: u32
  by (rule bit_word_eqI) (auto simp: bit_simps dest: bit_imp_le_length)

lemma small_imm: "fld 20 12 i = 0 \<Longrightarrow> I_immediate i = 0" "fld 20 12 i = 1 \<Longrightarrow> I_immediate i = 1"
  by (simp_all add: I_immediate_def shr_20)

lemma operand_bits:
  "fld 15 5 i = 0 \<longleftrightarrow> \<not> bit i 15 \<and> \<not> bit i 16 \<and> \<not> bit i 17 \<and> \<not> bit i 18 \<and> \<not> bit i 19"
  "fld 20 12 i = 0 \<longleftrightarrow> \<not> bit i 20 \<and> \<not> bit i 21 \<and> \<not> bit i 22 \<and> \<not> bit i 23 \<and> \<not> bit i 24 \<and>
     \<not> bit i 25 \<and> \<not> bit i 26 \<and> \<not> bit i 27 \<and> \<not> bit i 28 \<and> \<not> bit i 29 \<and> \<not> bit i 30 \<and> \<not> bit i 31"
  "fld 20 12 i = 1 \<longleftrightarrow> bit i 20 \<and> \<not> bit i 21 \<and> \<not> bit i 22 \<and> \<not> bit i 23 \<and> \<not> bit i 24 \<and>
     \<not> bit i 25 \<and> \<not> bit i 26 \<and> \<not> bit i 27 \<and> \<not> bit i 28 \<and> \<not> bit i 29 \<and> \<not> bit i 30 \<and> \<not> bit i 31"
  for i :: u32
  by (auto simp: fld_bits)

lemma match_li_0: "instr_matches ''0000000 00000 00000 ??? ????? ????? ??'' i = Some (fld 15 5 i = 0 \<and> fld 20 12 i = 0)"
  and match_li_1: "instr_matches ''0000000 00001 00000 ??? ????? ????? ??'' i = Some (fld 15 5 i = 0 \<and> fld 20 12 i = 1)"
  and match_c_li: "instr_matches ''??????? ????? 00000 ??? ????? ????? ??'' i = Some (fld 15 5 i = 0)"
  and match_c_mv: "instr_matches ''0000000 00000 ????? ??? ????? ????? ??'' i = Some (fld 20 12 i = 0)"
  and match_sext_w: "instr_matches ''0000000 00000 ????? 000 ????? ????? ??'' i = Some (fld 12 3 i = 0 \<and> fld 20 12 i = 0)"
  unfolding operand_bits funct3_bits by (simp_all add: match_eval conj_ac)

lemma match_funct3_0: "instr_matches ''??????? ????? ????? 000 ????? ????? ??'' i = Some (fld 12 3 i = 0)"
  unfolding funct3_bits by (simp add: match_eval)

lemma bits_rd: "BITS i 11 7 = fld 7 5 i" for i :: u32
  by (simp add: fld_def BITS_def BITMASK_def take_bit_eq_mask mask_eq_exp_minus_1)

lemma addi_rows:
  "table_addi_dispatch (decI s) = (Ret
     (if fld 15 5 (get_instr s) = 0
      then (if fld 20 12 (get_instr s) = 0 then PSEUDO EXEC_ID_p_li_0
            else if fld 20 12 (get_instr s) = 1 then PSEUDO EXEC_ID_p_li_1 else RVC EXEC_ID_c_li)
      else if fld 20 12 (get_instr s) = 0 then RVC EXEC_ID_c_mv else COMPUTE EXEC_ID_addi), decI s)"
  "table_c_addi_dispatch (decI s) = (Ret
     (if I_immediate (get_instr s) = 1 then PSEUDO EXEC_ID_p_inc
      else if I_immediate (get_instr s) = - 1 then PSEUDO EXEC_ID_p_dec else RVC EXEC_ID_c_addi), decI s)"
  unfolding table_addi_dispatch_def table_c_addi_dispatch_def
  subgoal by (simp add: table_step table_end match_li_0 match_li_1 match_c_li match_c_mv match_eval return_m_apply del: instr_table.simps)
  subgoal by (simp add: with_src2_imm_def monad_simps decI_def imm_I_eq)
  done

lemma addiw_rows:
  "fld 12 3 (get_instr s) = 0 \<Longrightarrow> table_op_imm32 (decI s) = (Ret
     (if same s \<and> fld 7 5 (get_instr s) \<noteq> 0 then RVC EXEC_ID_c_addiw
      else if fld 20 12 (get_instr s) = 0 then PSEUDO EXEC_ID_p_sext_w else COMPUTE EXEC_ID_addiw), decI s)"
  unfolding table_op_imm32_def table_c_addiw_dispatch_def
  by (cases "same s \<and> fld 7 5 (get_instr s) \<noteq> 0")
    (auto simp add: with_instr_apply instr_rd_def instr_rs1_def table_step table_end match_sext_w match_funct3_0 with_m_apply return_m_apply bits_rd
      simp del: instr_table.simps)

section \<open>Operand values\<close>

abbreviation (input) op1 :: "machine \<Rightarrow> u64" where "op1 s \<equiv> gpr s (ucast (fld 15 5 (get_instr s)))"
abbreviation (input) op2 :: "machine \<Rightarrow> u64" where "op2 s \<equiv> gpr s (ucast (fld 20 5 (get_instr s)))"
abbreviation (input) opi :: "machine \<Rightarrow> u64" where "opi s \<equiv> I_immediate (get_instr s)"

lemma run_rows: "table_main s = then_m dec_op rows s \<Longrightarrow> dec_op s = (Ret (), s1) \<Longrightarrow>
    bind_m table_main exec_table s = bind_m rows exec_table s1"
  by (simp add: bind_m_def then_m_def)

end
