(* ===== verification/Isa_Compute.thy ===== *)
theory Isa_Compute
  imports Isa_Spec
begin

unbundle bit_operations_syntax

text \<open>
  The computational instructions of RV64IM against the manual: the operator macros compute the
  manual's arithmetic, each opcode's table selects a helper that applies the right operator to
  the right operands, and together the decoder and the helpers write the manual's value.
\<close>

section \<open>The values\<close>


lemma shift_amount:
  "b AND 0x3f = take_bit 6 b" "b AND 0x1f = take_bit 5 b" "unat (take_bit 5 (ucast b :: u32)) = unat (take_bit 5 b)"
  for b :: u64
  subgoal by (simp add: take_bit_eq_mask mask_eq_exp_minus_1)
  subgoal by (simp add: take_bit_eq_mask mask_eq_exp_minus_1)
  subgoal by (simp add: unsigned_take_bit_eq unsigned_ucast_eq)
  done

lemma low32: "(word_of_int (k mod 18446744073709551616) :: u32) = word_of_int k"
  by (simp add: word_of_int_eq_iff take_bit_eq_mod mod_mod_cancel)
lemma ucast_arith:
  "ucast (a + b) = (ucast a + ucast b :: u32)" "ucast (a - b) = (ucast a - ucast b :: u32)"
  "ucast (a * b) = (ucast a * ucast b :: u32)"
  for a b :: u64
proof -
  have "(word_of_int (uint (a + b)) :: u32) = word_of_int (uint a + uint b)"
    "(word_of_int (uint (a - b)) :: u32) = word_of_int (uint a - uint b)"
    "(word_of_int (uint (a * b)) :: u32) = word_of_int (uint a * uint b)"
    unfolding uint_word_ariths by (simp_all only: len_of_numeral_defs power_numeral) (simp_all add: low32)
  then show "ucast (a + b) = (ucast a + ucast b :: u32)" "ucast (a - b) = (ucast a - ucast b :: u32)"
    "ucast (a * b) = (ucast a * ucast b :: u32)"
    by (simp_all only: ucast_eq wi_hom_add wi_hom_sub wi_hom_mult)
qed

lemma alu_ops:
  "alu 0 False a b = c_add a b" "alu 0 True a b = c_sub a b" "alu 1 k a b = c_shl a b"
  "rtl_setrelop RELOP_LT a b = Some (alu 2 k a b)" "rtl_setrelop RELOP_LTU a b = Some (alu 3 k a b)"
  "alu 4 k a b = c_xor a b" "alu 5 False a b = c_shr a b" "alu 5 True a b = c_sar a b"
  "alu 6 k a b = c_or a b" "alu 7 k a b = c_and a b"
  by (simp_all add: alu_def c_op_defs shift_amount rtl_setrelop_def interpret_relop_def of_bool_w_def)

lemma alu32_ops:
  "alu32 0 False (ucast a) (ucast b) = c_addw a b" "alu32 0 True (ucast a) (ucast b) = c_subw a b"
  "alu32 1 k (ucast a) (ucast b) = c_shlw a b" "alu32 5 False (ucast a) (ucast b) = c_shrw a b"
  "alu32 5 True (ucast a) (ucast b) = c_sarw a b"
  by (simp_all add: alu32_def c_op_defs shift_amount ucast_arith)

lemma muldiv_ops:
  "muldiv 0 a b = rvm_mul a b" "muldiv 1 a b = rvm_mulh a b" "muldiv 2 a b = rvm_mulhsu a b" "muldiv 3 a b = rvm_mulhu a b"
  "rvm_div a b = Some (muldiv 4 a b)" "rvm_divu a b = Some (muldiv 5 a b)" "rvm_rem a b = Some (muldiv 6 a b)"
  "rvm_remu a b = Some (muldiv 7 a b)"
  by (simp_all add: muldiv_def rvm_mul_def rvm_mulh_def rvm_mulhu_def c_mulu_lo_def c_muls_hi_eq c_mulu_hi_eq
      rvm_mulhsu_eq rvm_div_rem_eq)

lemma muldiv32_ops:
  "muldiv32 0 (ucast a) (ucast b) = rvm_mulw a b" "rvm_divw a b = Some (muldiv32 4 (ucast a) (ucast b))"
  "rvm_divuw a b = Some (muldiv32 5 (ucast a) (ucast b))" "rvm_remw a b = Some (muldiv32 6 (ucast a) (ucast b))"
  "rvm_remuw a b = Some (muldiv32 7 (ucast a) (ucast b))"
  by (simp_all add: muldiv32_def rvm_mulw_def c_mulw_def c_sext32to64_def ucast_arith rvm_divw_eq rvm_remw_eq
      rvm_divuw_eq rvm_remuw_eq Let_def)

lemma addi_writes:
  assumes "gpr s 0 = 0" and "fld 12 3 (get_instr s) = 0"
  shows "writes (alu 0 False (op1 s) (opi s)) (decI s) (bind_m table_op_imm exec_table (decI s))"
proof (cases "same s")
  case True
  then show ?thesis
    using assms writes_di(1) [OF True, of c_add] writes_di(2) [OF True, of "\<lambda>a. c_add a 1"]
      writes_di(2) [OF True, of "\<lambda>a. c_sub a 1"]
    by (simp add: op_imm_rows(1) addi_rows bind_m_def imm_I_eq alu_ops) (simp add: c_op_defs)
next
  case False
  then show ?thesis
    using assms writes_I(1) [of c_add s] writes_I(3) [of rtl_mv s] writes_I(4) [of s] writes_I(5) [of "rtl_li 0" s]
      writes_I(5) [of "rtl_li 1" s] small_imm [of "get_instr s"]
    by (auto simp add: op_imm_rows(1) addi_rows bind_m_def imm_I_eq alu_ops rtl_li_def rtl_mv_def c_op_defs)
qed

lemma set_lt_writes:
  "writes (alu 2 False (op1 s) (opi s)) (decI s) (exec_ri_opt (rtl_setrelop RELOP_LT) (decI s))"
  "writes (alu 3 False (op1 s) (opi s)) (decI s) (exec_ri_opt (rtl_setrelop RELOP_LTU) (decI s))"
  "writes (alu 2 False (op1 s) (op2 s)) (decR s) (exec_rr_opt (rtl_setrelop RELOP_LT) (decR s))"
  "writes (alu 3 False (op1 s) (op2 s)) (decR s) (exec_rr_opt (rtl_setrelop RELOP_LTU) (decR s))"
  by (rule writes_I(2) writes_R(2); simp only: imm_I_eq alu_ops(4) [of _ _ False] alu_ops(5) [of _ _ False])+

lemmas row_run = bind_m_def alu_ops(1-3,6-10) alu32_ops set_lt_writes writes_I(1) [unfolded imm_I_eq]
  writes_di [unfolded imm_I_eq] writes_R(1)

lemma op_imm_writes:
  "fld 12 3 (get_instr s) = 1 \<Longrightarrow> fld 26 6 (get_instr s) = 0 \<Longrightarrow>
   writes (alu 1 False (op1 s) (opi s)) (decI s) (bind_m table_op_imm exec_table (decI s))"
  "fld 12 3 (get_instr s) = 2 \<Longrightarrow> writes (alu 2 False (op1 s) (opi s)) (decI s) (bind_m table_op_imm exec_table (decI s))"
  "fld 12 3 (get_instr s) = 3 \<Longrightarrow> writes (alu 3 False (op1 s) (opi s)) (decI s) (bind_m table_op_imm exec_table (decI s))"
  "fld 12 3 (get_instr s) = 4 \<Longrightarrow> writes (alu 4 False (op1 s) (opi s)) (decI s) (bind_m table_op_imm exec_table (decI s))"
  "fld 12 3 (get_instr s) = 5 \<Longrightarrow> fld 26 6 (get_instr s) = 0 \<Longrightarrow>
   writes (alu 5 False (op1 s) (opi s)) (decI s) (bind_m table_op_imm exec_table (decI s))"
  "fld 12 3 (get_instr s) = 5 \<Longrightarrow> fld 26 6 (get_instr s) = 16 \<Longrightarrow>
   writes (alu 5 True (op1 s) (opi s)) (decI s) (bind_m table_op_imm exec_table (decI s))"
  "fld 12 3 (get_instr s) = 6 \<Longrightarrow> writes (alu 6 False (op1 s) (opi s)) (decI s) (bind_m table_op_imm exec_table (decI s))"
  "fld 12 3 (get_instr s) = 7 \<Longrightarrow> writes (alu 7 False (op1 s) (opi s)) (decI s) (bind_m table_op_imm exec_table (decI s))"
  by (cases "same s"; simp add: op_imm_rows row_run)+

lemma op_writes:
  "fld 12 3 (get_instr s) = f3 \<Longrightarrow> fld 25 7 (get_instr s) = 0 \<Longrightarrow>
   writes (alu f3 False (op1 s) (op2 s)) (decR s) (bind_m table_op exec_table (decR s))"
  "fld 12 3 (get_instr s) = 0 \<Longrightarrow> fld 25 7 (get_instr s) = 32 \<Longrightarrow>
   writes (alu 0 True (op1 s) (op2 s)) (decR s) (bind_m table_op exec_table (decR s))"
  "fld 12 3 (get_instr s) = 5 \<Longrightarrow> fld 25 7 (get_instr s) = 32 \<Longrightarrow>
   writes (alu 5 True (op1 s) (op2 s)) (decR s) (bind_m table_op exec_table (decR s))"
  subgoal
    by (cases "same s"; cases rule: funct3_cases [of "get_instr s"]; simp add: op_rows row_run)
  by (cases "same s"; simp add: op_rows row_run)+

lemma op32_writes:
  "fld 12 3 (get_instr s) = 0 \<Longrightarrow> fld 25 7 (get_instr s) = 0 \<Longrightarrow>
   writes (alu32 0 False (ucast (op1 s)) (ucast (op2 s))) (decR s) (bind_m table_op32 exec_table (decR s))"
  "fld 12 3 (get_instr s) = 0 \<Longrightarrow> fld 25 7 (get_instr s) = 32 \<Longrightarrow>
   writes (alu32 0 True (ucast (op1 s)) (ucast (op2 s))) (decR s) (bind_m table_op32 exec_table (decR s))"
  "fld 12 3 (get_instr s) = 1 \<Longrightarrow> fld 25 7 (get_instr s) = 0 \<Longrightarrow>
   writes (alu32 1 False (ucast (op1 s)) (ucast (op2 s))) (decR s) (bind_m table_op32 exec_table (decR s))"
  "fld 12 3 (get_instr s) = 5 \<Longrightarrow> fld 25 7 (get_instr s) = 0 \<Longrightarrow>
   writes (alu32 5 False (ucast (op1 s)) (ucast (op2 s))) (decR s) (bind_m table_op32 exec_table (decR s))"
  "fld 12 3 (get_instr s) = 5 \<Longrightarrow> fld 25 7 (get_instr s) = 32 \<Longrightarrow>
   writes (alu32 5 True (ucast (op1 s)) (ucast (op2 s))) (decR s) (bind_m table_op32 exec_table (decR s))"
  by (cases "same s"; simp add: op32_rows row_run)+

lemma rvm_opt_writes:
  "writes (muldiv 4 (op1 s) (op2 s)) (decR s) (exec_rr_opt rvm_div (decR s))"
  "writes (muldiv 5 (op1 s) (op2 s)) (decR s) (exec_rr_opt rvm_divu (decR s))"
  "writes (muldiv 6 (op1 s) (op2 s)) (decR s) (exec_rr_opt rvm_rem (decR s))"
  "writes (muldiv 7 (op1 s) (op2 s)) (decR s) (exec_rr_opt rvm_remu (decR s))"
  "writes (muldiv32 4 (ucast (op1 s)) (ucast (op2 s))) (decR s) (exec_rr_opt rvm_divw (decR s))"
  "writes (muldiv32 5 (ucast (op1 s)) (ucast (op2 s))) (decR s) (exec_rr_opt rvm_divuw (decR s))"
  "writes (muldiv32 6 (ucast (op1 s)) (ucast (op2 s))) (decR s) (exec_rr_opt rvm_remw (decR s))"
  "writes (muldiv32 7 (ucast (op1 s)) (ucast (op2 s))) (decR s) (exec_rr_opt rvm_remuw (decR s))"
  by (rule writes_R(2), simp only: muldiv_ops muldiv32_ops)+

lemmas rvm_run = rvm_rows bind_m_def rvm_opt_writes writes_R(1) muldiv_ops(1-4) muldiv32_ops(1)

lemma rvm_writes:
  "fld 12 3 (get_instr s) = f3 \<Longrightarrow>
   writes (muldiv f3 (op1 s) (op2 s)) (decR s) (bind_m table_rvm exec_table (decR s))"
  "fld 12 3 (get_instr s) = f3 \<Longrightarrow> f3 \<noteq> 1 \<and> f3 \<noteq> 2 \<and> f3 \<noteq> 3 \<Longrightarrow>
   writes (muldiv32 f3 (ucast (op1 s)) (ucast (op2 s))) (decR s) (bind_m table_rvm32 exec_table (decR s))"
  by (cases rule: funct3_cases [of "get_instr s"]; simp add: rvm_run)+

lemma op_imm32_writes:
  "fld 12 3 (get_instr s) = 0 \<Longrightarrow>
   writes (alu32 0 False (ucast (op1 s)) (ucast (opi s))) (decI s) (bind_m table_op_imm32 exec_table (decI s))"
  "fld 12 3 (get_instr s) = 1 \<Longrightarrow> fld 25 7 (get_instr s) = 0 \<Longrightarrow>
   writes (alu32 1 False (ucast (op1 s)) (ucast (opi s))) (decI s) (bind_m table_op_imm32 exec_table (decI s))"
  "fld 12 3 (get_instr s) = 5 \<Longrightarrow> fld 25 7 (get_instr s) = 0 \<Longrightarrow>
   writes (alu32 5 False (ucast (op1 s)) (ucast (opi s))) (decI s) (bind_m table_op_imm32 exec_table (decI s))"
  "fld 12 3 (get_instr s) = 5 \<Longrightarrow> fld 25 7 (get_instr s) = 32 \<Longrightarrow>
   writes (alu32 5 True (ucast (op1 s)) (ucast (opi s))) (decI s) (bind_m table_op_imm32 exec_table (decI s))"
  subgoal
    using writes_I(3) [of "\<lambda>a. c_addw a 0" s] writes_I(1) [of c_addw s] small_imm(1) [of "get_instr s"]
    by (cases "same s"; cases "fld 15 5 (get_instr s) = 0"; simp add: addiw_rows row_run imm_I_eq)
  by (simp add: op_imm32_rows row_run)+

lemma rv64im_writes:
  assumes "gpr s 0 = 0" and v: "rv64im_value (get_instr s) (dec_pc (dec s)) (gpr s) = Some v"
  obtains s1 where "writes v s1 (bind_m table_main exec_table s)" and "get_instr s1 = get_instr s" and "\<exists>d. s1 = s\<lparr>dec := d\<rparr>"
proof -
  let ?i = "get_instr s"
  note run = run_rows
  have d: "\<exists>d. decI s = s\<lparr>dec := d\<rparr>" "\<exists>d. decR s = s\<lparr>dec := d\<rparr>" "\<exists>d. decU u s = s\<lparr>dec := d\<rparr>" for u
    by (auto simp: decI_def decR_def decU_def)
  consider (imm) "fld 2 5 ?i = 0x04" | (reg) "fld 2 5 ?i = 0x0c" | (imm32) "fld 2 5 ?i = 0x06" | (reg32) "fld 2 5 ?i = 0x0e"
    | (lui) "fld 2 5 ?i = 0x0d" | (auipc) "fld 2 5 ?i = 0x05"
    using v by (fastforce simp: rv64im_value_def Let_def split: if_splits)
  then show ?thesis
  proof cases
    case imm
    have "writes v (decI s) (bind_m table_op_imm exec_table (decI s))"
      using v imm assms(1) addi_writes [of s] op_imm_writes [of s]
      by (cases rule: funct3_cases [of ?i]; simp add: rv64im_value_def Let_def split: if_splits)
    then show ?thesis using that [of "decI s"] run [OF main_rows(1) [OF imm] decode_run(1)] d by simp
  next
    case reg
    show ?thesis
    proof (cases "fld 25 7 ?i = 1")
      case True
      then show ?thesis
        using that [of "decR s"] run [OF main_rvm_rows(1) [OF reg True] decode_run(2)] d v reg rvm_writes(1) [of s]
        by (simp add: rv64im_value_def Let_def)
    next
      case False
      then have "writes v (decR s) (bind_m table_op exec_table (decR s))"
        using v reg op_writes [of s] by (auto simp: rv64im_value_def Let_def split: if_splits)
      then show ?thesis using that [of "decR s"] run [OF main_rows(3) [OF reg False] decode_run(2)] d by simp
    qed
  next
    case imm32
    have "writes v (decI s) (bind_m table_op_imm32 exec_table (decI s))"
      using v imm32 op_imm32_writes [of s]
      by (auto simp: rv64im_value_def Let_def split: if_splits)
    then show ?thesis using that [of "decI s"] run [OF main_rows(2) [OF imm32] decode_run(1)] d by simp
  next
    case reg32
    show ?thesis
    proof (cases "fld 25 7 ?i = 1")
      case True
      then have "writes v (decR s) (bind_m table_rvm32 exec_table (decR s))"
        using v reg32 rvm_writes(2) [of s] by (simp add: rv64im_value_def Let_def split: if_splits)
      then show ?thesis using that [of "decR s"] run [OF main_rvm_rows(2) [OF reg32 True] decode_run(2)] d by simp
    next
      case False
      then have "writes v (decR s) (bind_m table_op32 exec_table (decR s))"
        using v reg32 op32_writes [of s] by (auto simp: rv64im_value_def Let_def split: if_splits)
      then show ?thesis using that [of "decR s"] run [OF main_rows(4) [OF reg32 False] decode_run(2)] d by simp
    qed
  next
    case lui
    then show ?thesis
      using that [of "decU v s"] run [OF main_rows(5) decode_run(3)] d v writes_R(3) [of v s]
      by (simp add: rv64im_value_def Let_def imm_U_eq bind_m_def return_m_apply)
  next
    case auipc
    then show ?thesis
      using that [of "decU v s"] run [OF main_rows(6) decode_run(4)] d v writes_R(3) [of v s]
      by (simp add: rv64im_value_def Let_def imm_U_eq bind_m_def return_m_apply)
  qed
qed

text \<open>
  C1. Decoding a computational instruction of RV64I or the M extension with the dispatch tables
  and running the helper they select writes the value the instruction-set manual gives to the
  destination register, for every encoding, whichever specialised helper the tables choose (load
  immediate, move, increment, register-equal forms); a destination x0 stays zero, and nothing
  but the destination, the decode record and the write-only sink of x0 changes.
\<close>

theorem rv64im_computation:
  assumes "gpr s 0 = 0" and "rv64im_value (get_instr s) (dec_pc (dec s)) (gpr s) = Some v"
  shows "\<exists>d z. bind_m table_main exec_table s = (Ret (), s\<lparr>dec := d, zero_null := z,
    gpr := (gpr s)(ucast (fld 7 5 (get_instr s)) := if fld 7 5 (get_instr s) = 0 then 0 else v)\<rparr>)"
proof -
  let ?i = "get_instr s"
  obtain s1 d where w: "writes v s1 (bind_m table_main exec_table s)" and i: "get_instr s1 = ?i" and s1: "s1 = s\<lparr>dec := d\<rparr>"
    using rv64im_writes [OF assms] by metis
  from w obtain u where run: "bind_m table_main exec_table s = (Ret (), preg_set (dst ?i) u s1)"
      and u: "dst ?i \<noteq> Pzero_null \<longrightarrow> u = v"
    by (auto simp: writes_def i)
  show ?thesis
  proof (cases "fld 7 5 ?i = 0")
    case True
    have "(gpr s)(0 := 0) = gpr s" using assms(1) by (rule fun_upd_idem)
    then show ?thesis using True run by (auto simp: dst_def preg_set_def s1 intro!: exI [of _ d] exI [of _ u])
  next
    case False
    then show ?thesis
      using run u by (auto simp: dst_def preg_set_def set_gpr_def s1 intro!: exI [of _ d] exI [of _ "zero_null s"])
  qed
qed

text \<open>\<open>mul a0, a0, a1\<close> on 6 and 7.\<close>

definition mul_example :: machine where
  "mul_example = (static_init True)\<lparr>gpr := (\<lambda>_. 0)(10 := 6, 11 := 7),
     dec := (dec (static_init True))\<lparr>dec_pc := 0x80000000, dec_instr := 0x02b50533\<rparr>\<rparr>"

theorem rv64im_computation_witness:
  "gpr mul_example 0 = 0 \<and>
   rv64im_value (get_instr mul_example) (dec_pc (dec mul_example)) (gpr mul_example) = Some 42 \<and>
   (\<exists>d z. bind_m table_main exec_table mul_example = (Ret (), mul_example\<lparr>dec := d, zero_null := z,
      gpr := (gpr mul_example)(10 := 42)\<rparr>))"
proof -
  have h: "gpr mul_example 0 = 0"
    "rv64im_value (get_instr mul_example) (dec_pc (dec mul_example)) (gpr mul_example) = Some 42"
    by code_simp+
  have "fld 7 5 (get_instr mul_example) = 10" by code_simp
  then show ?thesis using h rv64im_computation [OF h] by simp
qed

end
