(* ===== verification/Isa_Control.thy ===== *)
theory Isa_Control
  imports Isa_Spec
begin

unbundle bit_operations_syntax

text \<open>
  The control transfers of RV64I against the manual: conditional branches with their
  specialised comparisons against zero, jumps and indirect jumps with their link values.
\<close>

section \<open>Rows\<close>

lemma branch_bits:
  "fld 20 5 i = 0 \<longleftrightarrow> \<not> bit i 20 \<and> \<not> bit i 21 \<and> \<not> bit i 22 \<and> \<not> bit i 23 \<and> \<not> bit i 24"
  "fld 7 5 i = 0 \<longleftrightarrow> \<not> bit i 7 \<and> \<not> bit i 8 \<and> \<not> bit i 9 \<and> \<not> bit i 10 \<and> \<not> bit i 11"
  "fld 7 5 i = 1 \<longleftrightarrow> bit i 7 \<and> \<not> bit i 8 \<and> \<not> bit i 9 \<and> \<not> bit i 10 \<and> \<not> bit i 11"
  "fld 15 5 i = 1 \<longleftrightarrow> bit i 15 \<and> \<not> bit i 16 \<and> \<not> bit i 17 \<and> \<not> bit i 18 \<and> \<not> bit i 19"
  "fld 2 5 i = 0x18 \<longleftrightarrow> \<not> bit i 2 \<and> \<not> bit i 3 \<and> \<not> bit i 4 \<and> bit i 5 \<and> bit i 6"
  "fld 2 5 i = 0x19 \<longleftrightarrow> bit i 2 \<and> \<not> bit i 3 \<and> \<not> bit i 4 \<and> bit i 5 \<and> bit i 6"
  "fld 2 5 i = 0x1b \<longleftrightarrow> bit i 2 \<and> bit i 3 \<and> \<not> bit i 4 \<and> bit i 5 \<and> bit i 6"
  for i :: u32
  by (auto simp: fld_bits)

lemma match_branch:
  "instr_matches ''??????? 00000 ????? 000 ????? ????? ??'' i = Some (fld 20 5 i = 0 \<and> fld 12 3 i = 0)"
  "instr_matches ''??????? 00000 ????? 001 ????? ????? ??'' i = Some (fld 20 5 i = 0 \<and> fld 12 3 i = 1)"
  "instr_matches ''??????? 00000 ????? 100 ????? ????? ??'' i = Some (fld 20 5 i = 0 \<and> fld 12 3 i = 4)"
  "instr_matches ''??????? 00000 ????? 101 ????? ????? ??'' i = Some (fld 20 5 i = 0 \<and> fld 12 3 i = 5)"
  "instr_matches ''??????? ????? 00000 100 ????? ????? ??'' i = Some (fld 15 5 i = 0 \<and> fld 12 3 i = 4)"
  "instr_matches ''??????? ????? 00000 101 ????? ????? ??'' i = Some (fld 15 5 i = 0 \<and> fld 12 3 i = 5)"
  "instr_matches ''??????? ????? ????? 000 ????? ????? ??'' i = Some (fld 12 3 i = 0)"
  "instr_matches ''??????? ????? ????? 001 ????? ????? ??'' i = Some (fld 12 3 i = 1)"
  "instr_matches ''??????? ????? ????? 100 ????? ????? ??'' i = Some (fld 12 3 i = 4)"
  "instr_matches ''??????? ????? ????? 101 ????? ????? ??'' i = Some (fld 12 3 i = 5)"
  "instr_matches ''??????? ????? ????? 110 ????? ????? ??'' i = Some (fld 12 3 i = 6)"
  "instr_matches ''??????? ????? ????? 111 ????? ????? ??'' i = Some (fld 12 3 i = 7)"
  unfolding branch_bits operand_bits funct3_bits by (simp_all add: match_eval conj_ac)

lemma match_jump:
  "instr_matches ''??????? ????? ????? ??? 00000 ????? ??'' i = Some (fld 7 5 i = 0)"
  "instr_matches ''??????? ????? ????? ??? 00001 ????? ??'' i = Some (fld 7 5 i = 1)"
  "instr_matches ''??????? ????? ????? ??? ????? ????? ??'' i = Some True"
  "instr_matches ''0000000 00000 00001 ??? 00000 ????? ??'' i = Some (fld 7 5 i = 0 \<and> fld 15 5 i = 1 \<and> fld 20 12 i = 0)"
  "instr_matches ''0000000 00000 ????? ??? 00000 ????? ??'' i = Some (fld 7 5 i = 0 \<and> fld 20 12 i = 0)"
  unfolding branch_bits operand_bits by (simp_all add: match_eval conj_ac)

lemma main_transfer_rows:
  "fld 2 5 (get_instr s) = 0x18 \<Longrightarrow> table_main s = then_m decode_B table_branch s"
  "fld 2 5 (get_instr s) = 0x1b \<Longrightarrow> table_main s = then_m decode_J table_jal_dispatch s"
  "fld 2 5 (get_instr s) = 0x19 \<Longrightarrow> fld 12 3 (get_instr s) = 0 \<Longrightarrow> table_main s = then_m decode_I table_jalr_dispatch s"
  unfolding table_main_def branch_bits funct3_bits by (simp_all add: run_table del: instr_table.simps)

section \<open>Transfers\<close>

definition decB :: "machine \<Rightarrow> machine" where
  "decB s = s\<lparr>dec := (dec s)\<lparr>id_src1 := Preg (ucast (fld 15 5 (get_instr s))), id_src2 := Preg (ucast (fld 20 5 (get_instr s))),
     id_dest := Imm (dec_pc (dec s) + B_immediate (get_instr s))\<rparr>\<rparr>"

definition decJ :: "machine \<Rightarrow> machine" where
  "decJ s = s\<lparr>dec := (dec s)\<lparr>id_src1 := Imm (dec_pc (dec s) + J_immediate (get_instr s)), id_src2 := Imm (dec_snpc (dec s)),
     id_dest := dst (get_instr s)\<rparr>\<rparr>"

lemma decode_transfer: "decode_B s = (Ret (), decB s)" "decode_J s = (Ret (), decJ s)"
  by (simp_all add: decode_B_def decode_J_def with_instr_apply decode_op_r_def decode_op_i_def upd_dec_def then_m_def
      bind_m_def monad_simps fld5_less dst_def decB_def decJ_def instr_rs1_def instr_rs2_def instr_rd_def imm_B_eq imm_J_eq
      get_instr_def)

definition unguided :: "machine \<Rightarrow> bool" where
  "unguided s \<longleftrightarrow> \<not> (cfg_share s \<and> guided_exec s \<and> force_set_jump_target (execution_guide s))"

lemma jump_apply:
  "unguided s \<Longrightarrow> rtl_j t s = (Ret (), s\<lparr>pc := t\<rparr>)" "unguided s \<Longrightarrow> rtl_jr t s = (Ret (), s\<lparr>pc := t\<rparr>)"
  by (auto simp: unguided_def rtl_j_def rtl_jr_def modify_m_apply)

lemma link_apply: "unguided s \<Longrightarrow> link_value s = (Ret (dec_snpc (dec s)), s)"
  by (auto simp: unguided_def link_value_def monad_simps)

lemma get_instr_decBJ [simp]: "get_instr (decB s) = get_instr s" "get_instr (decJ s) = get_instr s"
  by (simp_all add: get_instr_def decB_def decJ_def)

lemma branch_run:
  assumes "unguided s" and "interpret_relop relop (op1 s) (op2 s) = Some c"
  shows "branch relop (decB s) =
    (Ret (), (decB s)\<lparr>pc := if c then dec_pc (dec s) + B_immediate (get_instr s) else dec_snpc (dec s)\<rparr>)"
    "op2 s = 0 \<Longrightarrow> branch_z relop (decB s) =
    (Ret (), (decB s)\<lparr>pc := if c then dec_pc (dec s) + B_immediate (get_instr s) else dec_snpc (dec s)\<rparr>)"
    "op1 s = 0 \<Longrightarrow> branch_z2 relop (decB s) =
    (Ret (), (decB s)\<lparr>pc := if c then dec_pc (dec s) + B_immediate (get_instr s) else dec_snpc (dec s)\<rparr>)"
  using assms
  by (simp_all add: branch_def branch_z_def branch_z2_def helper_simps rtl_jrelop_def bind_m_def lift_opt_def monad_simps
      decB_def preg_val_def imm_val_def jump_apply unguided_def)

lemma relop_taken:
  "interpret_relop RELOP_EQ a b = Some (taken 0 a b)" "interpret_relop RELOP_NE a b = Some (taken 1 a b)"
  "interpret_relop RELOP_LT a b = Some (taken 4 a b)" "interpret_relop RELOP_GE a b = Some (taken 5 a b)"
  "interpret_relop RELOP_LTU a b = Some (taken 6 a b)" "interpret_relop RELOP_GEU a b = Some (taken 7 a b)"
  by (simp_all add: interpret_relop_def taken_def not_less)

lemma table_branch_run:
  assumes "gpr s 0 = 0" and "unguided s" and "fld 12 3 (get_instr s) \<noteq> 2" and "fld 12 3 (get_instr s) \<noteq> 3"
  shows "bind_m table_branch exec_table (decB s) = (Ret (), (decB s)\<lparr>pc :=
    if taken (fld 12 3 (get_instr s)) (op1 s) (op2 s) then dec_pc (dec s) + B_immediate (get_instr s)
    else dec_snpc (dec s)\<rparr>)"
proof -
  note table = table_branch_def table_step table_end match_branch bind_m_def return_m_apply
  let ?f3 = "fld 12 3 (get_instr s)"
  consider "?f3 = 0" | "?f3 = 1" | "?f3 = 4" | "?f3 = 5" | "?f3 = 6" | "?f3 = 7"
    using assms(3,4) funct3_cases [of "get_instr s"] by metis
  then show ?thesis
  proof cases
    case 1
    then show ?thesis using assms(1) branch_run [OF assms(2) relop_taken(1)]
      by (cases "fld 20 5 (get_instr s) = 0"; cases "fld 15 5 (get_instr s) = 0";
          simp add: table del: instr_table.simps)
  next
    case 2
    then show ?thesis using assms(1) branch_run [OF assms(2) relop_taken(2)]
      by (cases "fld 20 5 (get_instr s) = 0"; cases "fld 15 5 (get_instr s) = 0";
          simp add: table del: instr_table.simps)
  next
    case 3
    then show ?thesis using assms(1) branch_run [OF assms(2) relop_taken(3)]
      by (cases "fld 20 5 (get_instr s) = 0"; cases "fld 15 5 (get_instr s) = 0";
          simp add: table del: instr_table.simps)
  next
    case 4
    then show ?thesis using assms(1) branch_run [OF assms(2) relop_taken(4)]
      by (cases "fld 20 5 (get_instr s) = 0"; cases "fld 15 5 (get_instr s) = 0";
          simp add: table del: instr_table.simps)
  next
    case 5
    then show ?thesis using assms(1) branch_run [OF assms(2) relop_taken(5)]
      by (cases "fld 20 5 (get_instr s) = 0"; cases "fld 15 5 (get_instr s) = 0";
          simp add: table del: instr_table.simps)
  next
    case 6
    then show ?thesis using assms(1) branch_run [OF assms(2) relop_taken(6)]
      by (cases "fld 20 5 (get_instr s) = 0"; cases "fld 15 5 (get_instr s) = 0";
          simp add: table del: instr_table.simps)
  qed
qed

abbreviation (input) linked :: "machine \<Rightarrow> u5 \<Rightarrow> u64" where
  "linked s \<equiv> (gpr s)(ucast (fld 7 5 (get_instr s)) := if fld 7 5 (get_instr s) = 0 then 0 else dec_snpc (dec s))"

lemmas transfer_run = table_step table_end match_jump bind_m_def then_m_def return_m_apply helper_simps imm_val_def
  preg_val_def rtl_li_def c_op_defs dst_def set_gpr_def preg_set_def fun_upd_idem jump_apply unguided_def
  u5_nonzero [OF fld5_less] monad_simps

lemma jal_run:
  assumes "gpr s 0 = 0" and "unguided s"
  shows "bind_m table_jal_dispatch exec_table (decJ s) =
    (Ret (), (decJ s)\<lparr>pc := dec_pc (dec s) + J_immediate (get_instr s), gpr := linked s\<rparr>)"
  using assms
  by (cases "fld 7 5 (get_instr s) = 0"; cases "fld 7 5 (get_instr s) = 1";
      simp add: table_jal_dispatch_def decJ_def transfer_run get_instr_def del: instr_table.simps)

lemma jalr_rows:
  assumes "fld 12 3 (get_instr s) = 0"
  shows "table_jalr_dispatch (decI s) = (Ret
    (if fld 7 5 (get_instr s) = 0 \<and> fld 20 12 (get_instr s) = 0
     then (if fld 15 5 (get_instr s) = 1 then PSEUDO EXEC_ID_p_ret else RVC EXEC_ID_c_jr) else CONTROL EXEC_ID_jalr), decI s)"
  using assms by (simp add: table_jalr_dispatch_def table_step table_end match_jump match_funct3_0 return_m_apply del: instr_table.simps)

lemma jalr_helpers:
  assumes "gpr s 0 = 0" and "unguided s" and "cfg_share s"
  shows "fld 15 5 (get_instr s) = 1 \<Longrightarrow> exec_pseudo EXEC_ID_p_ret (decI s) = (Ret (), (decI s)\<lparr>pc := op1 s AND NOT 1\<rparr>)"
    "exec_rvc EXEC_ID_c_jr (decI s) = (Ret (), (decI s)\<lparr>pc := op1 s AND NOT 1\<rparr>)"
    "exec_control EXEC_ID_jalr (decI s) = (Ret (), (decI s)\<lparr>
      zero_null := if fld 7 5 (get_instr s) = 0 then dec_snpc (dec s) else zero_null s,
      pc := (op1 s + I_immediate (get_instr s)) AND NOT 1, gpr := linked s\<rparr>)"
  subgoal using assms by (simp add: jr_target_def decI_def transfer_run)
  subgoal using assms by (simp add: jr_target_def exec_c_jr_def decI_def transfer_run)
  subgoal
    using assms by (cases "fld 7 5 (get_instr s) = 0"; simp add: Let_def link_apply decI_def imm_I_eq transfer_run)
  done

lemma jalr_run:
  assumes "gpr s 0 = 0" and "unguided s" and "cfg_share s" and "fld 12 3 (get_instr s) = 0"
  obtains z where "bind_m table_jalr_dispatch exec_table (decI s) = (Ret (), (decI s)\<lparr>zero_null := z,
    pc := (op1 s + I_immediate (get_instr s)) AND NOT 1, gpr := linked s\<rparr>)"
proof (cases "fld 7 5 (get_instr s) = 0 \<and> fld 20 12 (get_instr s) = 0")
  case True
  have "(decI s)\<lparr>pc := v\<rparr> = (decI s)\<lparr>zero_null := zero_null s, pc := v, gpr := linked s\<rparr>" for v
    using True assms(1) by (simp add: decI_def fun_upd_idem)
  then show ?thesis
    using that [of "zero_null s"] True small_imm(1) [of "get_instr s"] jalr_helpers(1,2) [OF assms(1-3)]
    by (cases "fld 15 5 (get_instr s) = 1") (simp_all add: jalr_rows [OF assms(4)] bind_m_def del: exec_rvc.simps exec_pseudo.simps)
next
  case False
  then have "bind_m table_jalr_dispatch exec_table (decI s) = exec_control EXEC_ID_jalr (decI s)"
    by (auto simp add: jalr_rows [OF assms(4)] bind_m_def simp del: exec_control.simps)
  then show ?thesis by (intro that, simp only: jalr_helpers(3) [OF assms(1-3)])
qed


text \<open>\<open>jalr ra, 4(a0)\<close> with an odd base.\<close>

definition jalr_example :: machine where
  "jalr_example = (static_init True)\<lparr>gpr := (\<lambda>_. 0)(10 := 0x80001001),
     dec := (dec (static_init True))\<lparr>dec_pc := 0x80000000, dec_snpc := 0x80000004, dec_instr := 0x004500e7\<rparr>\<rparr>"


end
