(* ===== verification/Expr.thy ===== *)
theory Expr
  imports Boot Vaddr
begin

text \<open>
  The expression evaluator of the debugger (\<open>src/utils/expr.c\<close>): the tokenizer with its table of
  regular expressions, the search for the dominant operator and the recursive evaluation.
\<close>

section \<open>Tokens\<close>

datatype token_type = TK_NOTYPE | TK_EQ | TK_NEQ | TK_OR | TK_AND | TK_NUM | TK_REG | TK_REF | TK_NEG
  | TK_ADD | TK_SUB | TK_MUL | TK_DIV | TK_MOD | TK_NOT | TK_LPAR | TK_RPAR

text \<open>\<open>str\<close> is meaningful for numbers and registers only; elsewhere the code leaves it as it was.\<close>

record token =
  ttype :: token_type
  tstr :: string

text \<open>
  The regular expressions of the table are literals and bounded or unbounded runs of a character
  class; a rule applies when it matches at the current position, and its match is the longest.
\<close>

definition re_lit :: "string \<Rightarrow> string \<Rightarrow> nat option" where
  "re_lit l e = (if take (length l) e = l then Some (length l) else None)"

definition re_run :: "string \<Rightarrow> (char \<Rightarrow> bool) \<Rightarrow> nat \<Rightarrow> string \<Rightarrow> nat option" where
  "re_run l p hi e =
    (let n = length (takeWhile p (take hi (drop (length l) e)))
     in if take (length l) e = l \<and> 0 < n then Some (length l + n) else None)"

definition re_spaces :: "string \<Rightarrow> nat option" where
  "re_spaces e = (let n = length (takeWhile (\<lambda>c. c = CHR '' '') e) in if 0 < n then Some n else None)"

definition is_digit :: "char \<Rightarrow> bool" where
  "is_digit c \<longleftrightarrow> c \<in> set ''0123456789''"

definition is_xdigit :: "char \<Rightarrow> bool" where
  "is_xdigit c \<longleftrightarrow> c \<in> set ''0123456789abcdefABCDEF''"

definition is_regchar :: "char \<Rightarrow> bool" where
  "is_regchar c \<longleftrightarrow> c \<in> set ''abcdefghijklmnopqrstuvwxyz0123456789''"

definition rules :: "((string \<Rightarrow> nat option) \<times> token_type) list" where
  "rules =
    [(re_spaces, TK_NOTYPE),
     (re_lit ''+'', TK_ADD),
     (re_lit ''=='', TK_EQ),
     (re_run ''0x'' is_xdigit 16, TK_NUM),
     (re_run [] is_digit 10, TK_NUM),
     (re_run ''$'' is_regchar 31, TK_REG),
     (re_lit ''+'', TK_ADD),
     (re_lit ''-'', TK_SUB),
     (re_lit ''*'', TK_MUL),
     (re_lit ''/'', TK_DIV),
     (re_lit ''%'', TK_MOD),
     (re_lit ''=='', TK_EQ),
     (re_lit ''!='', TK_NEQ),
     (re_lit ''&&'', TK_AND),
     (re_lit ''||'', TK_OR),
     (re_lit ''!'', TK_NOT),
     (re_lit ''('', TK_LPAR),
     (re_lit '')'', TK_RPAR)]"

fun first_rule :: "((string \<Rightarrow> nat option) \<times> token_type) list \<Rightarrow> string \<Rightarrow> (token_type \<times> nat) option" where
  "first_rule [] e = None"
| "first_rule ((re, ty) # rs) e = (case re e of Some n \<Rightarrow> Some (ty, n) | None \<Rightarrow> first_rule rs e)"

lemma first_rule_pos: "first_rule rules e = Some (ty, n) \<Longrightarrow> 0 < n"
  by (auto simp: rules_def re_lit_def re_run_def re_spaces_def Let_def split: option.splits if_splits)

text \<open>
  The token array has 32 entries. A 33rd token is written past its end, which is undefined: the
  result \<open>Overflow\<close>.
\<close>

datatype tokens_result = Tokens "token list" | No_match | Overflow

abbreviation (input) NR_TOKEN :: nat where "NR_TOKEN \<equiv> 32"

function make_token :: "string \<Rightarrow> token list \<Rightarrow> tokens_result" where
  "make_token e toks =
    (if e = [] then Tokens toks
     else case first_rule rules e of
       None \<Rightarrow> No_match
     | Some (ty, n) \<Rightarrow>
         if ty = TK_NOTYPE then make_token (drop n e) toks
         else if NR_TOKEN \<le> length toks then Overflow
         else make_token (drop n e)
           (toks @ [\<lparr>ttype = ty, tstr = (if ty = TK_NUM \<or> ty = TK_REG then take n e else [])\<rparr>]))"
  by pat_completeness auto
termination
  by (relation "measure (\<lambda>(e, toks). length e)") (auto dest!: first_rule_pos)

declare make_token.simps [simp del]

section \<open>Evaluation\<close>

definition op_prec :: "token_type \<Rightarrow> nat option" where
  "op_prec t = (case t of
     TK_NOT \<Rightarrow> Some 0 | TK_NEG \<Rightarrow> Some 0 | TK_REF \<Rightarrow> Some 0
   | TK_MUL \<Rightarrow> Some 1 | TK_DIV \<Rightarrow> Some 1 | TK_MOD \<Rightarrow> Some 1
   | TK_ADD \<Rightarrow> Some 2 | TK_SUB \<Rightarrow> Some 2
   | TK_EQ \<Rightarrow> Some 4 | TK_NEQ \<Rightarrow> Some 4
   | TK_AND \<Rightarrow> Some 8
   | TK_OR \<Rightarrow> Some 9
   | _ \<Rightarrow> None)"

definition is_unary :: "token_type \<Rightarrow> bool" where
  "is_unary t \<longleftrightarrow> t = TK_NOT \<or> t = TK_NEG \<or> t = TK_REF"

text \<open>
  The loop of \<open>find_dominated_op\<close> from index \<open>i\<close> on; \<open>best\<close> is the candidate and its type. Every token
  the default case meets has a precedence, so the assertion of \<open>op_prec\<close> is not reached.
\<close>

fun dominated_loop :: "nat \<Rightarrow> nat \<Rightarrow> (nat \<times> token_type) option \<Rightarrow> token list \<Rightarrow> (nat \<times> token_type) option" where
  "dominated_loop i level best [] = best"
| "dominated_loop i level best (t # ts) =
    (if ttype t = TK_REG \<or> ttype t = TK_NUM then dominated_loop (i + 1) level best ts
     else if ttype t = TK_LPAR then dominated_loop (i + 1) (level + 1) best ts
     else if ttype t = TK_RPAR then
       (if level = 0 then None else dominated_loop (i + 1) (level - 1) best ts)
     else if level = 0 then
       dominated_loop (i + 1) level
         (case best of
            None \<Rightarrow> Some (i, ttype t)
          | Some (j, d) \<Rightarrow>
              if the (op_prec d) < the (op_prec (ttype t)) \<or>
                 (the (op_prec d) = the (op_prec (ttype t)) \<and> \<not> is_unary (ttype t))
              then Some (i, ttype t) else best) ts
     else dominated_loop (i + 1) level best ts)"

definition find_dominated_op :: "token list \<Rightarrow> (nat \<times> token_type) option" where
  "find_dominated_op ts = dominated_loop 0 0 None ts"

text \<open>\<open>strtoul\<close> with base 0; the tokenizer's bounds on the length exclude an overflow.\<close>

definition digit_val :: "char \<Rightarrow> nat" where
  "digit_val c =
    (if c \<in> set ''0123456789'' then of_char c - of_char CHR ''0''
     else if c \<in> set ''abcdef'' then of_char c - of_char CHR ''a'' + 10
     else of_char c - of_char CHR ''A'' + 10)"

definition number :: "nat \<Rightarrow> string \<Rightarrow> nat" where
  "number base ds = foldl (\<lambda>v c. base * v + digit_val c) 0 ds"

definition strtoul :: "string \<Rightarrow> u64" where
  "strtoul str = of_nat
    (if take 2 str = ''0x'' then number 16 (takeWhile is_xdigit (drop 2 str))
     else if take 1 str = ''0'' then number 8 (takeWhile (\<lambda>c. c \<in> set ''01234567'') str)
     else number 10 (takeWhile is_digit str))"

text \<open>A single token; \<open>None\<close> is \<open>*success = false\<close>, an operator alone fails the assertion.\<close>

definition eval_single :: "token \<Rightarrow> u64 option exec" where
  "eval_single t = (case ttype t of
     TK_REG \<Rightarrow> with_m (\<lambda>s. return_m (isa_reg_str2val (drop 1 (tstr t)) s))
   | TK_NUM \<Rightarrow> return_m (Some (strtoul (tstr t)))
   | _ \<Rightarrow> panic_m)"

definition eval_unary :: "token_type \<Rightarrow> u64 \<Rightarrow> u64 option exec" where
  "eval_unary op v = (case op of
     TK_NOT \<Rightarrow> return_m (Some (of_bool_w (v = 0)))
   | TK_NEG \<Rightarrow> return_m (Some (- v))
   | TK_REF \<Rightarrow> bind_m (vaddr_read_safe v 4) (\<lambda>w. return_m (Some w))
   | _ \<Rightarrow> panic_m)"

text \<open>A division by zero ends the emulator with a signal.\<close>

definition eval_binary :: "token_type \<Rightarrow> u64 \<Rightarrow> u64 \<Rightarrow> u64 option exec" where
  "eval_binary op a b = (case op of
     TK_ADD \<Rightarrow> return_m (Some (a + b))
   | TK_SUB \<Rightarrow> return_m (Some (a - b))
   | TK_MUL \<Rightarrow> return_m (Some (a * b))
   | TK_DIV \<Rightarrow> if b = 0 then panic_m else return_m (Some (a div b))
   | TK_MOD \<Rightarrow> if b = 0 then panic_m else return_m (Some (a mod b))
   | TK_EQ \<Rightarrow> return_m (Some (of_bool_w (a = b)))
   | TK_NEQ \<Rightarrow> return_m (Some (of_bool_w (a \<noteq> b)))
   | TK_AND \<Rightarrow> return_m (Some (of_bool_w (a \<noteq> 0 \<and> b \<noteq> 0)))
   | TK_OR \<Rightarrow> return_m (Some (of_bool_w (a \<noteq> 0 \<or> b \<noteq> 0)))
   | _ \<Rightarrow> panic_m)"

definition on_success :: "u64 option exec \<Rightarrow> (u64 \<Rightarrow> u64 option exec) \<Rightarrow> u64 option exec" where
  "on_success m f = bind_m m (\<lambda>r. case r of None \<Rightarrow> return_m None | Some v \<Rightarrow> f v)"

lemma dominated_loop_index:
  "dominated_loop i level best ts = Some (k, ty) \<Longrightarrow>
   best = Some (k, ty) \<or> (i \<le> k \<and> k < i + length ts)"
  by (induction i level best ts rule: dominated_loop.induct) (auto split: if_splits option.splits)

lemma find_dominated_op_less: "find_dominated_op ts = Some (d, ty) \<Longrightarrow> d < length ts"
  using dominated_loop_index [of 0 0 None ts d ty] by (simp add: find_dominated_op_def)

text \<open>\<open>eval(s, e)\<close> on the tokens from \<open>s\<close> to \<open>e\<close>.\<close>

function eval :: "token list \<Rightarrow> u64 option exec" where
  "eval ts =
    (if ts = [] then return_m None
     else if length ts = 1 then eval_single (hd ts)
     else if ttype (hd ts) = TK_LPAR \<and> ttype (last ts) = TK_RPAR then eval (butlast (tl ts))
     else case find_dominated_op ts of
       None \<Rightarrow> return_m None
     | Some (d, op) \<Rightarrow>
         if is_unary op then on_success (eval (drop (d + 1) ts)) (eval_unary op)
         else on_success (eval (take d ts)) (\<lambda>a.
              on_success (eval (drop (d + 1) ts)) (eval_binary op a)))"
  by pat_completeness auto
termination
  by (relation "measure length") (auto dest!: find_dominated_op_less)

declare eval.simps [simp del]

section \<open>The entry point\<close>

text \<open>A \<open>-\<close> or \<open>*\<close> that does not follow an operand is unary.\<close>

definition ends_operand :: "token_type option \<Rightarrow> bool" where
  "ends_operand p \<longleftrightarrow> p = Some TK_RPAR \<or> p = Some TK_NUM \<or> p = Some TK_REG"

fun mark_unary :: "token_type option \<Rightarrow> token list \<Rightarrow> token list" where
  "mark_unary prev [] = []"
| "mark_unary prev (t # ts) =
    (let ty = (if ttype t = TK_SUB \<and> \<not> ends_operand prev then TK_NEG
               else if ttype t = TK_MUL \<and> \<not> ends_operand prev then TK_REF
               else ttype t)
     in t\<lparr>ttype := ty\<rparr> # mark_unary (Some ty) ts)"

definition expr :: "string \<Rightarrow> u64 option exec" where
  "expr e = (case make_token e [] of
     No_match \<Rightarrow> return_m None
   | Overflow \<Rightarrow> panic_m
   | Tokens ts \<Rightarrow> eval (mark_unary None ts))"

end
