(* ===== verification/Expr_Laws.thy ===== *)
theory Expr_Laws
  imports Expr
begin

text \<open>
  What the expression evaluator computes: expressions as trees with the operators' precedence
  and associativity, their spelling, and the agreement of tokenizer and evaluator with them.
\<close>

section \<open>Expressions\<close>

datatype ast = Operand token | Paren ast | Unary token_type ast | Binary token_type ast ast

abbreviation (input) mk :: "token_type \<Rightarrow> token" where "mk ty \<equiv> \<lparr>ttype = ty, tstr = []\<rparr>"

fun yield :: "ast \<Rightarrow> token list" where
  "yield (Operand t) = [t]"
| "yield (Paren a) = mk TK_LPAR # yield a @ [mk TK_RPAR]"
| "yield (Unary op a) = mk op # yield a"
| "yield (Binary op a b) = yield a @ mk op # yield b"

definition is_binary :: "token_type \<Rightarrow> bool" where
  "is_binary t \<longleftrightarrow> op_prec t \<noteq> None \<and> \<not> is_unary t"

fun prec_level :: "ast \<Rightarrow> nat" where
  "prec_level (Operand t) = 0"
| "prec_level (Paren a) = 0"
| "prec_level (Unary op a) = 1"
| "prec_level (Binary op a b) = Suc (the (op_prec op))"

fun wf_ast :: "ast \<Rightarrow> bool" where
  "wf_ast (Operand t) \<longleftrightarrow> ttype t = TK_NUM \<or> ttype t = TK_REG"
| "wf_ast (Paren a) \<longleftrightarrow> wf_ast a"
| "wf_ast (Unary op a) \<longleftrightarrow> is_unary op \<and> wf_ast a \<and> prec_level a \<le> 1"
| "wf_ast (Binary op a b) \<longleftrightarrow> is_binary op \<and> wf_ast a \<and> wf_ast b \<and>
    prec_level a \<le> Suc (the (op_prec op)) \<and> prec_level b \<le> the (op_prec op)"

fun value_of :: "ast \<Rightarrow> u64 option exec" where
  "value_of (Operand t) = eval_single t"
| "value_of (Paren a) = value_of a"
| "value_of (Unary op a) = on_success (value_of a) (eval_unary op)"
| "value_of (Binary op a b) = on_success (value_of a) (\<lambda>v. on_success (value_of b) (eval_binary op v))"

definition brackets_outside :: "ast \<Rightarrow> bool" where
  "brackets_outside a \<longleftrightarrow> ttype (hd (yield a)) = TK_LPAR \<and> ttype (last (yield a)) = TK_RPAR"

fun bracket_clash :: "ast \<Rightarrow> bool" where
  "bracket_clash (Operand t) = False"
| "bracket_clash (Paren a) = bracket_clash a"
| "bracket_clash (Unary op a) = bracket_clash a"
| "bracket_clash (Binary op a b) \<longleftrightarrow> bracket_clash a \<or> bracket_clash b \<or> brackets_outside (Binary op a b)"

lemma op_kinds:
  "is_unary op \<Longrightarrow> op \<noteq> TK_REG \<and> op \<noteq> TK_NUM \<and> op \<noteq> TK_LPAR \<and> op \<noteq> TK_RPAR \<and> op_prec op = Some 0"
  "is_binary op \<Longrightarrow> op \<noteq> TK_REG \<and> op \<noteq> TK_NUM \<and> op \<noteq> TK_LPAR \<and> op \<noteq> TK_RPAR \<and> \<not> is_unary op \<and> the (op_prec op) > 0"
  by (auto simp: is_unary_def is_binary_def op_prec_def split: token_type.splits)

lemma yield_not_Nil [simp]: "yield a \<noteq> []"
  by (cases a) auto

text \<open>Inside brackets an expression changes nothing.\<close>

lemma dominated_inside:
  "wf_ast a \<Longrightarrow> dominated_loop i (Suc l) best (yield a @ ts) = dominated_loop (i + length (yield a)) (Suc l) best ts"
proof (induction a arbitrary: i l ts)
  case (Operand t) then show ?case by auto
next
  case (Paren a) then show ?case by simp
next
  case (Unary op a) then show ?case using op_kinds(1) [of op] by simp
next
  case (Binary op a b) then show ?case using op_kinds(2) [of op] by (simp add: ac_simps)
qed

text \<open>Outside brackets it leaves a candidate that binds less, and otherwise proposes its root.\<close>

lemma dominated_keeps:
  "wf_ast a \<Longrightarrow> prec_level a \<le> the (op_prec d) \<or> (is_unary d \<and> prec_level a \<le> 1) \<Longrightarrow>
   dominated_loop i 0 (Some (j, d)) (yield a @ ts) = dominated_loop (i + length (yield a)) 0 (Some (j, d)) ts"
proof (induction a arbitrary: i ts)
  case (Operand t) then show ?case by auto
next
  case (Paren a) then show ?case by (simp add: dominated_inside)
next
  case (Unary op a) then show ?case using op_kinds(1) [of op] op_kinds(1) [of d] by auto
next
  case (Binary op a b)
  then show ?case using op_kinds(2) [of op] op_kinds(1) [of d] by (auto simp: ac_simps)
qed

fun root_op :: "nat \<Rightarrow> ast \<Rightarrow> (nat \<times> token_type) option" where
  "root_op i (Operand t) = None"
| "root_op i (Paren a) = None"
| "root_op i (Unary op a) = Some (i, op)"
| "root_op i (Binary op a b) = Some (i + length (yield a), op)"

lemma dominated_root:
  "wf_ast a \<Longrightarrow> dominated_loop i 0 None (yield a @ ts) = dominated_loop (i + length (yield a)) 0 (root_op i a) ts"
proof (induction a arbitrary: i ts)
  case (Operand t) then show ?case by auto
next
  case (Paren a) then show ?case by (simp add: dominated_inside)
next
  case (Unary op a) then show ?case using op_kinds(1) [of op] dominated_keeps [of a op] by auto
next
  case (Binary op a b)
  then have k: "op \<noteq> TK_REG" "op \<noteq> TK_NUM" "op \<noteq> TK_LPAR" "op \<noteq> TK_RPAR" "\<not> is_unary op" "the (op_prec op) > 0"
    using op_kinds(2) [of op] by auto
  have r: "case root_op i a of None \<Rightarrow> True | Some (j, d) \<Rightarrow> the (op_prec d) \<le> the (op_prec op)"
    using Binary.prems op_kinds(1) by (cases a) auto
  show ?case
    using Binary k r dominated_keeps [of b op]
    by (auto simp: ac_simps split: option.splits prod.splits)
qed

lemma find_dominated_yield: "wf_ast a \<Longrightarrow> find_dominated_op (yield a) = root_op 0 a"
  using dominated_root [of a 0 "[]"] by (simp add: find_dominated_op_def)

section \<open>Evaluation of well-formed expressions\<close>

lemma length_yield: "length (yield a) = 1 \<longleftrightarrow> (\<exists>t. a = Operand t)"
  by (cases a) auto

lemma eval_yield: "wf_ast a \<Longrightarrow> \<not> bracket_clash a \<Longrightarrow> eval (yield a) = value_of a"
proof (induction a)
  case (Operand t) then show ?case by (simp add: eval.simps [of "[t]"])
next
  case (Paren a) then show ?case by (subst eval.simps) (simp add: butlast_append)
next
  case (Unary op a)
  moreover have "find_dominated_op (yield (Unary op a)) = Some (0, op)"
    using find_dominated_yield [OF Unary.prems(1)] by simp
  ultimately show ?case using op_kinds(1) [of op] by (subst eval.simps) simp
next
  case (Binary op a b)
  moreover have "find_dominated_op (yield (Binary op a b)) = Some (length (yield a), op)"
    using find_dominated_yield [OF Binary.prems(1)] by simp
  ultimately show ?case
    using op_kinds(2) [of op] by (subst eval.simps) (auto simp: brackets_outside_def)
qed

section \<open>Brackets that do not match\<close>

text \<open>Some closing bracket has no opening one, when \<open>l\<close> brackets are open at the start.\<close>

fun closes :: "nat \<Rightarrow> token list \<Rightarrow> bool" where
  "closes l [] = False"
| "closes l (t # ts) =
    (if ttype t = TK_LPAR then closes (Suc l) ts
     else if ttype t = TK_RPAR then l = 0 \<or> closes (l - 1) ts
     else closes l ts)"

lemma dominated_closes: "closes l ts \<Longrightarrow> dominated_loop i l best ts = None"
  by (induction i l best ts rule: dominated_loop.induct) (auto split: if_splits)

lemma closes_strip: "ttype t = TK_RPAR \<Longrightarrow> closes (Suc l) (ts @ [t]) \<Longrightarrow> closes l ts"
proof (induction ts arbitrary: l)
  case (Cons a ts)
  then show ?case by (cases l) (auto split: if_splits)
qed simp

lemma closes_balanced: "wf_ast a \<Longrightarrow> closes l (yield a @ ts) = closes l ts"
  by (induction a arbitrary: l ts) (auto dest: op_kinds)

lemma closes_early: "wf_ast a \<Longrightarrow> ttype (hd (yield a)) = TK_LPAR \<Longrightarrow> closes 0 (tl (yield a) @ ts)"
  by (induction a arbitrary: ts) (auto simp: closes_balanced dest: op_kinds)

abbreviation (input) operand_token :: "token \<Rightarrow> bool" where
  "operand_token t \<equiv> ttype t = TK_NUM \<or> ttype t = TK_REG"

lemma eval_closes: "closes 0 ts \<Longrightarrow> \<exists>t\<in>set ts. operand_token t \<Longrightarrow> eval ts = return_m None"
proof (induction ts rule: length_induct)
  case (1 ts)
  show ?case
  proof (cases "length ts = 1")
    case True
    then show ?thesis using 1(2,3) by (cases ts) auto
  next
    case one: False
    show ?thesis
    proof (cases "ttype (hd ts) = TK_LPAR \<and> ttype (last ts) = TK_RPAR")
      case True
      obtain l m r where ts: "ts = l # m @ [r]"
        using one 1(3) by (metis append_butlast_last_id length_Cons length_0_conv neq_Nil_conv One_nat_def empty_iff list.set(1))
      then have "closes 0 m" "\<exists>t\<in>set m. operand_token t"
        using True 1(2,3) closes_strip [of r 0 m] by auto
      then show ?thesis using 1(1) ts True by (subst eval.simps) (simp add: butlast_append)
    next
      case False
      then show ?thesis using one 1(2) dominated_closes [of 0 ts 0 None]
        by (subst eval.simps) (auto simp: find_dominated_op_def)
    qed
  qed
qed

lemma operand_in_yield: "wf_ast a \<Longrightarrow> \<exists>t\<in>set (yield a). operand_token t"
  by (induction a) auto

lemma eval_clash:
  assumes "wf_ast (Binary op a b)" and "brackets_outside (Binary op a b)"
  shows "eval (yield (Binary op a b)) = return_m None"
proof -
  have a: "wf_ast a" "ttype (hd (yield a)) = TK_LPAR" "ttype (last (yield b)) = TK_RPAR"
    using assms by (auto simp: brackets_outside_def)
  let ?m = "tl (yield a) @ mk op # butlast (yield b)"
  have "\<exists>t\<in>set (tl (yield a)). operand_token t"
    using operand_in_yield [OF a(1)] a(2) by (cases "yield a") auto
  then have "eval ?m = return_m None"
    using closes_early [OF a(1,2)] by (intro eval_closes) auto
  moreover have "butlast (tl (yield (Binary op a b))) = ?m"
    by (cases "yield a") (auto simp: butlast_append)
  moreover have "length (yield (Binary op a b)) \<noteq> 1" by (simp add: length_yield)
  ultimately show ?thesis
    using a(2,3) by (subst eval.simps) simp
qed

section \<open>Unary operators\<close>

definition unmark :: "token \<Rightarrow> token" where
  "unmark t = t\<lparr>ttype := (if ttype t = TK_NEG then TK_SUB else if ttype t = TK_REF then TK_MUL else ttype t)\<rparr>"

lemma last_yield: "wf_ast a \<Longrightarrow> ends_operand (Some (ttype (last (yield a))))"
  by (induction a) (auto simp: ends_operand_def)

lemma mark_yield:
  "wf_ast a \<Longrightarrow> \<not> ends_operand prev \<Longrightarrow>
   mark_unary prev (map unmark (yield a) @ ts) = yield a @ mark_unary (Some (ttype (last (yield a)))) ts"
proof (induction a arbitrary: prev ts)
  case (Operand t)
  then show ?case by (auto simp: unmark_def Let_def)
next
  case (Paren a)
  then show ?case by (simp add: unmark_def Let_def ends_operand_def)
next
  case (Unary op a)
  moreover have "\<not> ends_operand (Some op)" using Unary.prems op_kinds(1) [of op] by (simp add: ends_operand_def)
  ultimately show ?case by (auto simp: unmark_def Let_def is_unary_def)
next
  case (Binary op a b)
  have op: "op \<noteq> TK_NEG" "op \<noteq> TK_REF" "\<not> ends_operand (Some op)"
    using Binary.prems op_kinds(2) [of op] by (auto simp: ends_operand_def is_unary_def)
  show ?case using Binary op last_yield [of a] by (simp add: unmark_def Let_def)
qed

section \<open>Spelling\<close>

fun spell_op :: "token_type \<Rightarrow> string" where
  "spell_op TK_EQ = ''==''" | "spell_op TK_NEQ = ''!=''" | "spell_op TK_OR = ''||''" | "spell_op TK_AND = ''&&''"
| "spell_op TK_REF = ''*''" | "spell_op TK_NEG = ''-''" | "spell_op TK_ADD = ''+''" | "spell_op TK_SUB = ''-''"
| "spell_op TK_MUL = ''*''" | "spell_op TK_DIV = ''/''" | "spell_op TK_MOD = ''%''" | "spell_op TK_NOT = ''!''"
| "spell_op TK_LPAR = ''(''" | "spell_op TK_RPAR = '')''" | "spell_op _ = []"

definition spell :: "token \<Rightarrow> string" where
  "spell t = (if ttype t = TK_NUM \<or> ttype t = TK_REG then tstr t else spell_op (ttype t))"

text \<open>Literals and register names the tokenizer can read as one token.\<close>

definition run_of :: "(char \<Rightarrow> bool) \<Rightarrow> nat \<Rightarrow> string \<Rightarrow> bool" where
  "run_of p hi ds \<longleftrightarrow> ds \<noteq> [] \<and> length ds \<le> hi \<and> list_all p ds"

definition lexable :: "token \<Rightarrow> bool" where
  "lexable t \<longleftrightarrow>
    (if ttype t = TK_NUM then
       run_of is_digit 10 (tstr t) \<or> (take 2 (tstr t) = ''0x'' \<and> run_of is_xdigit 16 (drop 2 (tstr t)))
     else if ttype t = TK_REG then take 1 (tstr t) = ''$'' \<and> run_of is_regchar 31 (drop 1 (tstr t))
     else tstr t = [] \<and> ttype t \<noteq> TK_NOTYPE)"

lemma takeWhile_run: "run_of p hi ds \<Longrightarrow> \<not> p c \<Longrightarrow> takeWhile p (take hi (ds @ c # rest)) = ds"
  by (cases "hi - length ds") (auto simp: run_of_def list_all_iff takeWhile_append)

lemma space_class [simp]: "\<not> is_digit CHR '' ''" "\<not> is_xdigit CHR '' ''" "\<not> is_regchar CHR '' ''"
  by (simp_all add: is_digit_def is_xdigit_def is_regchar_def)

lemma re_run_hit:
  "run_of p hi ds \<Longrightarrow> \<not> p c \<Longrightarrow> re_run l p hi (l @ ds @ c # rest) = Some (length (l @ ds))"
  using takeWhile_run [of p hi ds c rest] by (auto simp: re_run_def run_of_def)

lemma first_rule_dec:
  assumes "run_of is_digit 10 ds"
  shows "first_rule rules (ds @ CHR '' '' # rest) = Some (TK_NUM, length ds)"
proof -
  obtain c cs where ds: "ds = c # cs" "is_digit c" "list_all is_digit cs"
    using assms by (cases ds) (auto simp: run_of_def)
  have "c \<noteq> CHR '' ''" "c \<noteq> CHR ''+''" "c \<noteq> CHR ''=''" using ds(2) by (auto simp: is_digit_def)
  moreover have "take (Suc 0) (cs @ CHR '' '' # rest) \<noteq> ''x''"
    using ds(3) by (cases cs) (auto simp: is_digit_def)
  moreover have "re_run [] is_digit 10 (c # cs @ CHR '' '' # rest) = Some (Suc (length cs))"
    using re_run_hit [OF assms, of "CHR '' ''" "[]" rest] ds(1) by simp
  ultimately show ?thesis
    by (simp add: ds(1) rules_def re_spaces_def re_lit_def re_run_def [of "''0x''"])
qed

lemma first_rule_hex:
  assumes "run_of is_xdigit 16 ds"
  shows "first_rule rules (CHR ''0'' # CHR ''x'' # ds @ CHR '' '' # rest) = Some (TK_NUM, length ds + 2)"
proof -
  have "re_run ''0x'' is_xdigit 16 (CHR ''0'' # CHR ''x'' # ds @ CHR '' '' # rest) = Some (length ds + 2)"
    using re_run_hit [OF assms, of "CHR '' ''" "''0x''" rest] by simp
  then show ?thesis by (simp add: rules_def re_spaces_def re_lit_def)
qed

lemma first_rule_reg:
  assumes "run_of is_regchar 31 ds"
  shows "first_rule rules (CHR ''$'' # ds @ CHR '' '' # rest) = Some (TK_REG, length ds + 1)"
proof -
  have "re_run ''$'' is_regchar 31 (CHR ''$'' # ds @ CHR '' '' # rest) = Some (length ds + 1)"
    using re_run_hit [OF assms, of "CHR '' ''" "''$''" rest] by simp
  then show ?thesis
    by (simp add: rules_def re_spaces_def re_lit_def re_run_def [of "''0x''"] re_run_def [of "[]"] is_digit_def)
qed

lemma first_rule_op:
  assumes "ty \<noteq> TK_NUM" "ty \<noteq> TK_REG" "ty \<noteq> TK_NOTYPE"
  shows "first_rule rules (spell_op ty @ CHR '' '' # rest) =
    Some (if ty = TK_NEG then TK_SUB else if ty = TK_REF then TK_MUL else ty, length (spell_op ty))"
  using assms by (cases ty) (simp_all add: rules_def re_spaces_def re_lit_def re_run_def is_digit_def)

lemma first_rule_spell:
  assumes "lexable t"
  shows "first_rule rules (spell t @ CHR '' '' # rest) = Some (ttype (unmark t), length (spell t))"
proof -
  consider (dec) "ttype t = TK_NUM" "run_of is_digit 10 (tstr t)"
    | (hex) "ttype t = TK_NUM" "take 2 (tstr t) = ''0x''" "run_of is_xdigit 16 (drop 2 (tstr t))"
    | (reg) "ttype t = TK_REG" "take 1 (tstr t) = ''$''" "run_of is_regchar 31 (drop 1 (tstr t))"
    | (op) "ttype t \<noteq> TK_NUM" "ttype t \<noteq> TK_REG" "ttype t \<noteq> TK_NOTYPE"
    using assms by (auto simp: lexable_def split: if_splits)
  then show ?thesis
  proof cases
    case dec
    then show ?thesis by (simp add: first_rule_dec spell_def unmark_def)
  next
    case hex
    then have e: "tstr t = CHR ''0'' # CHR ''x'' # drop 2 (tstr t)" using append_take_drop_id [of 2 "tstr t"] by simp
    have "first_rule rules (tstr t @ CHR '' '' # rest) = Some (TK_NUM, length (tstr t))"
      by (subst (1 2) e) (simp add: first_rule_hex [OF hex(3)] del: length_drop)
    then show ?thesis by (simp add: hex(1) spell_def unmark_def)
  next
    case reg
    then have e: "tstr t = CHR ''$'' # drop 1 (tstr t)" using append_take_drop_id [of 1 "tstr t"] by simp
    have "first_rule rules (tstr t @ CHR '' '' # rest) = Some (TK_REG, length (tstr t))"
      by (subst (1 2) e) (simp add: first_rule_reg [OF reg(3), unfolded One_nat_def] del: length_drop)
    then show ?thesis by (simp add: reg(1) spell_def unmark_def)
  next
    case op
    then show ?thesis by (simp add: first_rule_op spell_def unmark_def)
  qed
qed

lemma spell_not_Nil: "lexable t \<Longrightarrow> spell t \<noteq> []"
  by (cases "ttype t") (auto simp: lexable_def spell_def run_of_def)

lemma make_token_space: "make_token (CHR '' '' # e) toks = make_token e toks"
proof (induction e)
  case Nil
  show ?case by (subst make_token.simps) (simp add: rules_def re_spaces_def make_token.simps [of "[]"])
next
  case (Cons c e)
  let ?n = "length (takeWhile (\<lambda>c. c = CHR '' '') e)"
  have f: "first_rule rules (CHR '' '' # e) = Some (TK_NOTYPE, Suc (length (takeWhile (\<lambda>c. c = CHR '' '') e)))" for e
    by (simp add: rules_def re_spaces_def)
  show ?case
  proof (cases "c = CHR '' ''")
    case True
    then show ?thesis by (simp add: make_token.simps [of "CHR '' '' # _"] f)
  next
    case False
    then show ?thesis by (simp add: make_token.simps [of "CHR '' '' # _"] f)
  qed
qed

definition render :: "token list \<Rightarrow> string" where
  "render ts = concat (map (\<lambda>t. spell t @ '' '') ts)"

lemma make_token_spell:
  assumes "lexable t"
  shows "make_token (spell t @ CHR '' '' # e) toks =
    (if 32 \<le> length toks then Overflow else make_token e (toks @ [unmark t]))"
proof -
  have "\<lparr>ttype = ttype (unmark t), tstr = if ttype (unmark t) = TK_NUM \<or> ttype (unmark t) = TK_REG then spell t else []\<rparr> = unmark t"
    using assms by (cases t) (auto simp: lexable_def unmark_def spell_def)
  moreover have "ttype (unmark t) \<noteq> TK_NOTYPE" using assms by (auto simp: lexable_def unmark_def)
  ultimately show ?thesis
    using spell_not_Nil [OF assms]
    by (subst make_token.simps) (auto simp: first_rule_spell [OF assms] make_token_space)
qed

lemma make_token_render:
  "list_all lexable ts \<Longrightarrow> length toks \<le> 32 \<Longrightarrow> make_token (render ts) toks =
     (if length toks + length ts \<le> 32 then Tokens (toks @ map unmark ts) else Overflow)"
proof (induction ts arbitrary: toks)
  case Nil
  then show ?case by (simp add: render_def make_token.simps)
next
  case (Cons t ts)
  have "render (t # ts) = spell t @ CHR '' '' # render ts" by (simp add: render_def)
  then show ?case using Cons by (simp add: make_token_spell)
qed

section \<open>Properties\<close>


text \<open>\<open>1 + (0x2 + $a0) * -3\<close>.\<close>

definition sum_example :: ast where
  "sum_example = Binary TK_ADD (Operand \<lparr>ttype = TK_NUM, tstr = ''1''\<rparr>)
     (Binary TK_MUL (Paren (Binary TK_ADD (Operand \<lparr>ttype = TK_NUM, tstr = ''0x2''\<rparr>) (Operand \<lparr>ttype = TK_REG, tstr = ''$a0''\<rparr>)))
        (Unary TK_NEG (Operand \<lparr>ttype = TK_NUM, tstr = ''3''\<rparr>)))"


end
