(* ===== verification/Watchpoint.thy ===== *)
theory Watchpoint
  imports Expr
begin

text \<open>
  The watchpoints of the debugger (\<open>src/monitor/watchpoint.c\<close>): a pool of 32 entries threaded
  into two singly linked lists, the active watchpoints and the free ones.
\<close>

section \<open>The pool\<close>

abbreviation (input) NR_WP :: nat where "NR_WP \<equiv> 32"

text \<open>Pointers into \<open>wp_pool\<close> are indices.\<close>

record wp =
  wp_NO :: nat
  wp_next :: "nat option"
  wp_expr :: string
  old_val :: u64

record watch_state =
  wp_pool :: "nat \<Rightarrow> wp"
  wp_head :: "nat option"
  wp_free :: "nat option"

type_synonym 'a watch = "watch_state \<times> machine \<Rightarrow> 'a outcome \<times> watch_state \<times> machine"

definition init_wp_pool :: "watch_state \<Rightarrow> watch_state" where
  "init_wp_pool w = w\<lparr>
     wp_pool := (\<lambda>i. if i < NR_WP then (wp_pool w i)\<lparr>wp_NO := i, wp_next := (if i = NR_WP - 1 then None else Some (i + 1))\<rparr>
                     else wp_pool w i),
     wp_head := None, wp_free := Some 0\<rparr>"

definition new_WP :: "nat watch" where
  "new_WP = (\<lambda>(w, s). case wp_free w of
     None \<Rightarrow> (Abort, w, s)
   | Some p \<Rightarrow> (Ret p, w\<lparr>wp_free := wp_next (wp_pool w p)\<rparr>, s))"

definition upd_wp :: "nat \<Rightarrow> (wp \<Rightarrow> wp) \<Rightarrow> watch_state \<Rightarrow> watch_state" where
  "upd_wp p f w = w\<lparr>wp_pool := (wp_pool w)(p := f (wp_pool w p))\<rparr>"

definition free_WP :: "nat \<Rightarrow> unit watch" where
  "free_WP p = (\<lambda>(w, s). if p < NR_WP
     then (Ret (), (upd_wp p (\<lambda>q. q\<lparr>wp_next := wp_free w\<rparr>) w)\<lparr>wp_free := Some p\<rparr>, s)
     else (Abort, w, s))"

definition on_machine :: "'a exec \<Rightarrow> 'a watch" where
  "on_machine m = (\<lambda>(w, s). case m s of (r, s') \<Rightarrow> (r, w, s'))"

text \<open>\<open>None\<close> is the result -1.\<close>

definition set_watchpoint :: "string \<Rightarrow> nat option watch" where
  "set_watchpoint e = bind_m (on_machine (expr e)) (\<lambda>r. case r of
     None \<Rightarrow> return_m None
   | Some val \<Rightarrow> bind_m new_WP (\<lambda>p. (\<lambda>(w, s).
       (Ret (Some (wp_NO (wp_pool w p))),
        (upd_wp p (\<lambda>q. q\<lparr>wp_expr := e, old_val := val, wp_next := wp_head w\<rparr>) w)\<lparr>wp_head := Some p\<rparr>, s))))"

text \<open>The search of \<open>delete_watchpoint\<close>: the previous entry and the entry found.\<close>

partial_function (option) find_wp :: "watch_state \<Rightarrow> nat \<Rightarrow> nat option \<Rightarrow> nat option \<Rightarrow> (nat option \<times> nat option) option" where
  "find_wp w no prev p = (case p of
     None \<Rightarrow> Some (prev, None)
   | Some q \<Rightarrow> if wp_NO (wp_pool w q) = no then Some (prev, p) else find_wp w no p (wp_next (wp_pool w q)))"

definition unlink_wp :: "nat option \<Rightarrow> nat \<Rightarrow> watch_state \<Rightarrow> watch_state" where
  "unlink_wp prev p w = (case prev of
     None \<Rightarrow> w\<lparr>wp_head := wp_next (wp_pool w p)\<rparr>
   | Some r \<Rightarrow> upd_wp r (\<lambda>q. q\<lparr>wp_next := wp_next (wp_pool w p)\<rparr>) w)"

text \<open>The outer option is the result of the search; \<open>None\<close> is a search that does not end.\<close>

definition delete_watchpoint :: "nat \<Rightarrow> watch_state \<times> machine \<Rightarrow> (bool outcome \<times> watch_state \<times> machine) option" where
  "delete_watchpoint no ws = (case ws of (w, s) \<Rightarrow> map_option (\<lambda>(prev, p). case p of
     None \<Rightarrow> (Ret False, w, s)
   | Some q \<Rightarrow> bind_m (free_WP q) (\<lambda>_. return_m True) (unlink_wp prev q w, s)) (find_wp w no None (wp_head w)))"

text \<open>The lines \<open>list_watchpoint\<close> prints.\<close>

partial_function (option) list_from :: "watch_state \<Rightarrow> nat option \<Rightarrow> (nat \<times> string \<times> u64) list option" where
  "list_from w p = (case p of
     None \<Rightarrow> Some []
   | Some q \<Rightarrow> Option.bind (list_from w (wp_next (wp_pool w q))) (\<lambda>rest.
       Some ((wp_NO (wp_pool w q), wp_expr (wp_pool w q), old_val (wp_pool w q)) # rest)))"

definition list_watchpoint :: "watch_state \<Rightarrow> (nat \<times> string \<times> u64) list option" where
  "list_watchpoint w = list_from w (wp_head w)"

text \<open>
  \<open>scan_watchpoint\<close> from entry \<open>p\<close> on: it ignores whether an expression could be evaluated, and the
  value is 0 then.
\<close>

partial_function (option) scan_from :: "nat option \<Rightarrow> watch_state \<times> machine \<Rightarrow> (unit outcome \<times> watch_state \<times> machine) option" where
  "scan_from p ws = (case ws of (w, s) \<Rightarrow> (case p of
     None \<Rightarrow> Some (Ret (), w, s)
   | Some q \<Rightarrow> (case expr (wp_expr (wp_pool w q)) s of
       (Ret r, s') \<Rightarrow>
         let new_val = (case r of None \<Rightarrow> 0 | Some v \<Rightarrow> v)
         in if old_val (wp_pool w q) \<noteq> new_val
            then Some (Ret (), upd_wp q (\<lambda>x. x\<lparr>old_val := new_val\<rparr>) w, s'\<lparr>nemu_state := NEMU_STOP\<rparr>)
            else scan_from (wp_next (wp_pool w q)) (w, s')
     | (Exn e, s') \<Rightarrow> Some (Exn e, w, s')
     | (Jmp c, s') \<Rightarrow> Some (Jmp c, w, s')
     | (Abort, s') \<Rightarrow> Some (Abort, w, s'))))"

definition scan_watchpoint :: "watch_state \<times> machine \<Rightarrow> (unit outcome \<times> watch_state \<times> machine) option" where
  "scan_watchpoint ws = scan_from (wp_head (fst ws)) ws"

section \<open>The two lists\<close>

primrec links :: "(nat \<Rightarrow> wp) \<Rightarrow> nat option \<Rightarrow> nat list \<Rightarrow> bool" where
  "links h p [] \<longleftrightarrow> p = None"
| "links h p (q # qs) \<longleftrightarrow> p = Some q \<and> links h (wp_next (h q)) qs"

lemma links_cong: "(\<And>q. q \<in> set qs \<Longrightarrow> wp_next (h q) = wp_next (h' q)) \<Longrightarrow> links h p qs = links h' p qs"
  by (induction qs arbitrary: p) auto

lemma links_upd [simp]: "q \<notin> set qs \<Longrightarrow> links (h(q := x)) p qs = links h p qs"
  by (rule links_cong) auto

lemma links_None [simp]: "links h None qs \<longleftrightarrow> qs = []"
  by (cases qs) auto

lemma links_Some: "links h (Some q) qs \<longleftrightarrow> (\<exists>rs. qs = q # rs \<and> links h (wp_next (h q)) rs)"
  by (cases qs) auto

definition wp_inv :: "watch_state \<Rightarrow> nat list \<Rightarrow> nat list \<Rightarrow> bool" where
  "wp_inv w hs fs \<longleftrightarrow> links (wp_pool w) (wp_head w) hs \<and> links (wp_pool w) (wp_free w) fs \<and>
     distinct (hs @ fs) \<and> set (hs @ fs) = {..<NR_WP} \<and> (\<forall>i<NR_WP. wp_NO (wp_pool w i) = i)"

text \<open>What the debugger's user sees: number, expression and last value of each watchpoint.\<close>

definition entry :: "watch_state \<Rightarrow> nat \<Rightarrow> nat \<times> string \<times> u64" where
  "entry w p = (p, wp_expr (wp_pool w p), old_val (wp_pool w p))"

definition watches :: "watch_state \<Rightarrow> (nat \<times> string \<times> u64) list \<Rightarrow> bool" where
  "watches w A \<longleftrightarrow> (\<exists>hs fs. wp_inv w hs fs \<and> A = map (entry w) hs)"

lemma links_upt: "(\<And>i. m \<le> i \<Longrightarrow> i < n \<Longrightarrow> wp_next (h i) = (if i = n - 1 then None else Some (i + 1))) \<Longrightarrow> m < n \<Longrightarrow>
  links h (Some m) [m..<n]"
proof (induction "n - m" arbitrary: m)
  case (Suc k)
  show ?case
  proof (cases "Suc m = n")
    case True
    then show ?thesis using Suc.prems by (simp add: upt_conv_Cons)
  next
    case False
    then have "links h (Some (Suc m)) [Suc m..<n]" using Suc by (intro Suc.hyps) auto
    then show ?thesis using Suc.prems False by (simp add: upt_conv_Cons)
  qed
qed simp

lemma init_watches: "watches (init_wp_pool w) []"
proof -
  have "links (wp_pool (init_wp_pool w)) (Some 0) [0..<NR_WP]"
    by (rule links_upt) (auto simp: init_wp_pool_def)
  then have "wp_inv (init_wp_pool w) [] [0..<NR_WP]"
    by (auto simp: wp_inv_def init_wp_pool_def)
  then show ?thesis unfolding watches_def by force
qed

lemma find_wp_links:
  assumes "links (wp_pool w) p qs" and "\<And>q. q \<in> set qs \<Longrightarrow> wp_NO (wp_pool w q) = q" and "distinct qs"
  shows "find_wp w no prev p = Some (if no \<in> set qs
     then (case takeWhile ((\<noteq>) no) qs of [] \<Rightarrow> prev | rs \<Rightarrow> Some (last rs), Some no)
     else (case qs of [] \<Rightarrow> prev | _ \<Rightarrow> Some (last qs), None))"
  using assms
proof (induction qs arbitrary: p prev)
  case Nil
  then show ?case by (simp add: find_wp.simps)
next
  case (Cons q qs)
  show ?case
  proof (cases "q = no")
    case True
    then show ?thesis using Cons.prems by (subst find_wp.simps) simp
  next
    case False
    have "find_wp w no prev p = find_wp w no (Some q) (wp_next (wp_pool w q))"
      using Cons.prems False by (subst find_wp.simps) simp
    also have "\<dots> = Some (if no \<in> set qs
       then (case takeWhile ((\<noteq>) no) qs of [] \<Rightarrow> Some q | rs \<Rightarrow> Some (last rs), Some no)
       else (case qs of [] \<Rightarrow> Some q | _ \<Rightarrow> Some (last qs), None))"
      using Cons.prems by (intro Cons.IH) auto
    finally show ?thesis using False by (auto split: list.split)
  qed
qed


lemma links_unlink:
  "links h p (us @ r # q # vs) \<Longrightarrow> distinct (us @ r # q # vs) \<Longrightarrow>
   links (h(r := (h r)\<lparr>wp_next := wp_next (h q)\<rparr>)) p (us @ r # vs)"
  by (induction us arbitrary: p) auto

definition after_delete :: "nat option \<Rightarrow> nat \<Rightarrow> watch_state \<Rightarrow> watch_state" where
  "after_delete prev q w = (let w1 = unlink_wp prev q w
     in (upd_wp q (\<lambda>x. x\<lparr>wp_next := wp_free w1\<rparr>) w1)\<lparr>wp_free := Some q\<rparr>)"

lemma after_delete_inv:
  assumes "wp_inv w (us @ q # vs) fs"
  shows "wp_inv (after_delete (if us = [] then None else Some (last us)) q w) (us @ vs) (q # fs)"
proof (cases us rule: rev_cases)
  case Nil
  then show ?thesis
    using assms by (auto simp: wp_inv_def after_delete_def unlink_wp_def upd_wp_def Let_def)
next
  case (snoc us' r)
  let ?h = "(wp_pool w)(r := (wp_pool w r)\<lparr>wp_next := wp_next (wp_pool w q)\<rparr>)"
  have i: "links (wp_pool w) (wp_head w) (us' @ r # q # vs)" "links (wp_pool w) (wp_free w) fs"
    "distinct (us' @ r # q # vs @ fs)" "set (us' @ r # q # vs @ fs) = {..<NR_WP}"
    "\<forall>i<NR_WP. wp_NO (wp_pool w i) = i"
    using assms snoc by (auto simp: wp_inv_def)
  have "links ?h (wp_head w) (us' @ r # vs)"
    using i by (intro links_unlink) auto
  moreover have "q \<noteq> r" using i(3) by auto
  ultimately show ?thesis
    using i snoc by (auto simp: wp_inv_def after_delete_def unlink_wp_def upd_wp_def Let_def)
qed

lemma after_delete_entry: "entry (after_delete prev q w) p = entry w p"
  by (auto simp: after_delete_def entry_def unlink_wp_def upd_wp_def Let_def split: option.splits)

lemma delete_watches:
  assumes "watches w A"
  shows "\<exists>w'. delete_watchpoint no (w, s) = Some (Ret (no \<in> fst ` set A), w', s) \<and>
    watches w' (filter (\<lambda>x. fst x \<noteq> no) A)"
proof -
  obtain hs fs where i: "wp_inv w hs fs" and A: "A = map (entry w) hs" using assms by (auto simp: watches_def)
  have dom: "fst ` set A = set hs" by (force simp: A entry_def)
  have l: "links (wp_pool w) (wp_head w) hs" "\<And>q. q \<in> set hs \<Longrightarrow> wp_NO (wp_pool w q) = q" "distinct hs" "set hs \<subseteq> {..<NR_WP}"
    using i by (auto simp: wp_inv_def)
  show ?thesis
  proof (cases "no \<in> set hs")
    case False
    then have "filter (\<lambda>x. fst x \<noteq> no) A = A" using dom by (auto simp: filter_id_conv)
    then show ?thesis
      using False assms dom find_wp_links [OF l(1-3), of no None]
      by (auto simp: delete_watchpoint_def)
  next
    case True
    then obtain us vs where hs: "hs = us @ no # vs" "no \<notin> set us" "no \<notin> set vs"
      using l(3) by (metis distinct.simps(2) distinct_append split_list_first)
    let ?prev = "if us = [] then None else Some (last us)"
    have "takeWhile ((\<noteq>) no) hs = us" unfolding hs(1) using hs(2) by (subst takeWhile_append2) auto
    then have "find_wp w no None (wp_head w) = Some (?prev, Some no)"
      using True find_wp_links [OF l(1-3), of no None] by (cases us) auto
    then have "delete_watchpoint no (w, s) = Some (Ret True, after_delete ?prev no w, s)"
      using True l(4) by (auto simp: delete_watchpoint_def free_WP_def after_delete_def Let_def bind_m_apply return_m_apply)
    moreover have "watches (after_delete ?prev no w) (map (entry w) (us @ vs))"
      using after_delete_inv [of w us no vs fs] i hs(1) after_delete_entry unfolding watches_def by (metis (no_types, lifting) map_eq_conv)
    moreover have "filter (\<lambda>x. x \<noteq> no) us = us" "filter (\<lambda>x. x \<noteq> no) vs = vs"
      using hs(2,3) by (auto intro!: filter_True)
    then have "filter (\<lambda>x. fst x \<noteq> no) A = map (entry w) (us @ vs)"
      using hs(1) by (simp add: A entry_def filter_map comp_def)
    ultimately show ?thesis using True dom by auto
  qed
qed

lemma list_from_links:
  "links (wp_pool w) p qs \<Longrightarrow> (\<And>q. q \<in> set qs \<Longrightarrow> wp_NO (wp_pool w q) = q) \<Longrightarrow> list_from w p = Some (map (entry w) qs)"
proof (induction qs arbitrary: p)
  case Nil
  then show ?case by (subst list_from.simps) simp
next
  case (Cons q qs)
  then have "list_from w (wp_next (wp_pool w q)) = Some (map (entry w) qs)" by simp
  then show ?case using Cons.prems by (subst list_from.simps) (simp add: entry_def)
qed

lemma list_watches: "watches w A \<Longrightarrow> list_watchpoint w = Some A"
  by (auto simp: watches_def list_watchpoint_def wp_inv_def intro!: list_from_links)

lemma set_watches:
  assumes "watches w A" and "expr e s = (Ret (Some v), s')"
  shows "if length A = NR_WP then set_watchpoint e (w, s) = (Abort, w, s')
    else \<exists>n w'. set_watchpoint e (w, s) = (Ret (Some n), w', s') \<and> n \<notin> fst ` set A \<and> watches w' ((n, e, v) # A)"
proof -
  obtain hs fs where i: "wp_inv w hs fs" and A: "A = map (entry w) hs" using assms by (auto simp: watches_def)
  have "card (set (hs @ fs)) = NR_WP" using i by (simp add: wp_inv_def)
  then have "length hs + length fs = NR_WP" using i by (metis distinct_card length_append wp_inv_def)
  then have len: "length A = NR_WP \<longleftrightarrow> fs = []" by (auto simp: A)
  have run: "set_watchpoint e (w, s) = (case wp_free w of None \<Rightarrow> (Abort, w, s') | Some p \<Rightarrow>
      (Ret (Some (wp_NO (wp_pool w p))),
       (upd_wp p (\<lambda>q. q\<lparr>wp_expr := e, old_val := v, wp_next := wp_head w\<rparr>) w)\<lparr>wp_head := Some p, wp_free := wp_next (wp_pool w p)\<rparr>, s'))"
    using assms(2) by (auto simp: set_watchpoint_def on_machine_def new_WP_def bind_m_apply upd_wp_def split: option.split)
  show ?thesis
  proof (cases fs)
    case Nil
    then show ?thesis using i len run by (simp add: wp_inv_def)
  next
    case (Cons n fs')
    let ?w = "(upd_wp n (\<lambda>q. q\<lparr>wp_expr := e, old_val := v, wp_next := wp_head w\<rparr>) w)\<lparr>wp_head := Some n, wp_free := wp_next (wp_pool w n)\<rparr>"
    have n: "wp_free w = Some n" "n \<notin> set hs" "n < NR_WP" "wp_NO (wp_pool w n) = n"
      using i Cons by (auto simp: wp_inv_def)
    have "wp_inv ?w (n # hs) fs'" using i Cons n by (auto simp: wp_inv_def upd_wp_def)
    moreover have "map (entry ?w) (n # hs) = (n, e, v) # A" using n by (auto simp: A entry_def upd_wp_def)
    ultimately have "watches ?w ((n, e, v) # A)" unfolding watches_def by metis
    moreover have "n \<notin> fst ` set A" using n by (auto simp: A entry_def)
    ultimately show ?thesis using len Cons run n by auto
  qed
qed

section \<open>Scanning\<close>

text \<open>
  The list a scan leaves, with the result of the evaluation that ends it: the first watchpoint
  whose value has changed is updated and stops the emulator.
\<close>

fun scan_list :: "(nat \<times> string \<times> u64) list \<Rightarrow> machine \<Rightarrow> unit outcome \<times> (nat \<times> string \<times> u64) list \<times> machine" where
  "scan_list [] s = (Ret (), [], s)"
| "scan_list ((n, e, v) # A) s = (case expr e s of
     (Ret r, s') \<Rightarrow>
       let v' = (case r of None \<Rightarrow> 0 | Some x \<Rightarrow> x)
       in if v \<noteq> v' then (Ret (), (n, e, v') # A, s'\<lparr>nemu_state := NEMU_STOP\<rparr>)
          else (case scan_list A s' of (o', A', s'') \<Rightarrow> (o', (n, e, v) # A', s''))
   | (Exn c, s') \<Rightarrow> (Exn c, (n, e, v) # A, s')
   | (Jmp c, s') \<Rightarrow> (Jmp c, (n, e, v) # A, s')
   | (Abort, s') \<Rightarrow> (Abort, (n, e, v) # A, s'))"

lemma upd_val_inv: "wp_inv (upd_wp q (\<lambda>x. x\<lparr>old_val := v\<rparr>) w) hs fs = wp_inv w hs fs"
proof -
  have "links ((wp_pool w)(q := (wp_pool w q)\<lparr>old_val := v\<rparr>)) p qs = links (wp_pool w) p qs" for p qs
    by (rule links_cong) auto
  then show ?thesis by (auto simp: wp_inv_def upd_wp_def)
qed

lemma scan_from_list:
  assumes "links (wp_pool w) p qs" and "distinct qs"
  shows "\<exists>w'. scan_from p (w, s) = Some (fst (scan_list (map (entry w) qs) s), w', snd (snd (scan_list (map (entry w) qs) s))) \<and>
    map (entry w') qs = fst (snd (scan_list (map (entry w) qs) s)) \<and>
    (\<exists>q v. w' = w \<or> (q \<in> set qs \<and> w' = upd_wp q (\<lambda>x. x\<lparr>old_val := v\<rparr>) w))"
  using assms
proof (induction qs arbitrary: p s)
  case Nil
  then show ?case by (subst scan_from.simps) auto
next
  case (Cons q qs)
  then have p: "p = Some q" and l: "links (wp_pool w) (wp_next (wp_pool w q)) qs" "distinct qs" "q \<notin> set qs" by auto
  obtain r s' where e: "expr (wp_expr (wp_pool w q)) s = (r, s')" by fastforce
  show ?case
  proof (cases r)
    case (Ret x)
    let ?v = "case x of None \<Rightarrow> 0 | Some v \<Rightarrow> v"
    show ?thesis
    proof (cases "old_val (wp_pool w q) = ?v")
      case True
      then have "scan_from p (w, s) = scan_from (wp_next (wp_pool w q)) (w, s')"
        using e Ret p by (subst scan_from.simps) (simp add: Let_def)
      moreover obtain w' where w': "scan_from (wp_next (wp_pool w q)) (w, s') =
          Some (fst (scan_list (map (entry w) qs) s'), w', snd (snd (scan_list (map (entry w) qs) s')))"
        "map (entry w') qs = fst (snd (scan_list (map (entry w) qs) s'))"
        "\<exists>r v. w' = w \<or> (r \<in> set qs \<and> w' = upd_wp r (\<lambda>x. x\<lparr>old_val := v\<rparr>) w)"
        using Cons.IH [OF l(1,2), of s'] by blast
      moreover have "entry w' q = entry w q" using w'(3) l(3) by (auto simp: entry_def upd_wp_def)
      moreover have "entry w q = (q, wp_expr (wp_pool w q), old_val (wp_pool w q))" by (simp add: entry_def)
      moreover obtain o' A' s'' where "scan_list (map (entry w) qs) s' = (o', A', s'')" by (cases "scan_list (map (entry w) qs) s'")
      ultimately show ?thesis
        using e Ret True by (intro exI [of _ w']) (auto simp: Let_def)
    next
      case False
      let ?w = "upd_wp q (\<lambda>x. x\<lparr>old_val := ?v\<rparr>) w"
      have "scan_from p (w, s) = Some (Ret (), ?w, s'\<lparr>nemu_state := NEMU_STOP\<rparr>)"
        using e Ret p False by (subst scan_from.simps) (simp add: Let_def)
      moreover have "map (entry ?w) (q # qs) = (q, wp_expr (wp_pool w q), ?v) # map (entry w) qs"
        using l(3) by (auto simp: entry_def upd_wp_def)
      ultimately show ?thesis using e Ret False by (intro exI [of _ ?w]) (auto simp: entry_def Let_def)
    qed
  qed (use e p in \<open>subst scan_from.simps; auto simp: entry_def\<close>)+
qed

lemma scan_watches:
  assumes "watches w A"
  shows "\<exists>w'. scan_watchpoint (w, s) = Some (fst (scan_list A s), w', snd (snd (scan_list A s))) \<and>
    watches w' (fst (snd (scan_list A s)))"
proof -
  obtain hs fs where i: "wp_inv w hs fs" and A: "A = map (entry w) hs" using assms by (auto simp: watches_def)
  then have "links (wp_pool w) (wp_head w) hs" "distinct hs" by (auto simp: wp_inv_def)
  from scan_from_list [OF this, of s] obtain w' where
    w': "scan_from (wp_head w) (w, s) = Some (fst (scan_list A s), w', snd (snd (scan_list A s)))"
      "map (entry w') hs = fst (snd (scan_list A s))" "\<exists>q v. w' = w \<or> (q \<in> set hs \<and> w' = upd_wp q (\<lambda>x. x\<lparr>old_val := v\<rparr>) w)"
    unfolding A by blast
  then have "wp_inv w' hs fs" using i by (auto simp: upd_val_inv)
  then have "watches w' (fst (snd (scan_list A s)))" unfolding watches_def using w'(2) by metis
  then show ?thesis using w'(1) by (simp add: scan_watchpoint_def)
qed

section \<open>Properties\<close>

text \<open>
  C33. The two linked lists of the watchpoint pool implement a list of watchpoints, the newest
  first: setting one adds an entry with a number that was not in use, and fails the assertion
  exactly when 32 are set; listing shows the list; deleting one always ends, removes the entry with that number, frees
  its place and tells whether there was one; a scan evaluates the expressions in order, updates
  the first whose value has changed, stops the emulator there and leaves the others.
\<close>

theorem watchpoints_refine:
  assumes "watches w A" and "expr e s = (Ret (Some v), s')"
  shows "(if length A = NR_WP then set_watchpoint e (w, s) = (Abort, w, s')
      else \<exists>n w'. set_watchpoint e (w, s) = (Ret (Some n), w', s') \<and> n \<notin> fst ` set A \<and> watches w' ((n, e, v) # A)) \<and>
    list_watchpoint w = Some A \<and>
    (\<exists>w'. delete_watchpoint no (w, s) = Some (Ret (no \<in> fst ` set A), w', s) \<and>
      watches w' (filter (\<lambda>x. fst x \<noteq> no) A)) \<and>
    (\<exists>w'. scan_watchpoint (w, s) = Some (fst (scan_list A s), w', snd (snd (scan_list A s))) \<and>
      watches w' (fst (snd (scan_list A s))))"
  using set_watches [OF assms] list_watches [OF assms(1)] delete_watches [OF assms(1)] scan_watches [OF assms(1)] by blast

theorem watchpoints_refine_witness:
  "\<forall>w0. \<exists>n w'. set_watchpoint ''7'' (init_wp_pool w0, static_init True) = (Ret (Some n), w', static_init True) \<and> watches w' [(n, ''7'', 7)]"
proof -
  have "expr ''7'' (static_init True) = (Ret (Some 7), static_init True)"
    by (simp add: expr_def make_token.simps eval.simps rules_def re_spaces_def re_lit_def re_run_def is_digit_def
      eval_single_def strtoul_def number_def digit_val_def return_m_apply)
  from watchpoints_refine [OF init_watches this] show ?thesis by fastforce
qed

end
