(* ===== verification/Iqueue.thy ===== *)
theory Iqueue
  imports Nemu_Prelude
begin

text \<open>The ring of the last instructions executed (\<open>src/utils/iqueue.c\<close>).\<close>

abbreviation (input) INSTR_QUEUE_SIZE :: nat where "INSTR_QUEUE_SIZE \<equiv> 32"

record iqueue_entry =
  iq_pc :: u64
  iq_instr :: "u8 list"
  iq_ilen :: u8

record iqueue_state =
  iqueue :: "nat \<Rightarrow> iqueue_entry"
  q_idx :: u32

text \<open>The bytes past \<open>ilen\<close> keep their values; the assertion comes after the first two writes.\<close>

definition iqueue_commit :: "u64 \<Rightarrow> u8 list \<Rightarrow> u8 \<Rightarrow> (iqueue_state, unit) nemu" where
  "iqueue_commit pcv instr_buf ilen = (\<lambda>s.
    let i = unat (q_idx s);
        e = (iqueue s i)\<lparr>iq_pc := pcv, iq_ilen := ilen\<rparr>
    in if unat ilen < 20
       then (Ret (), s\<lparr>iqueue := (iqueue s)(i := e\<lparr>iq_instr := take (unat ilen) instr_buf @ drop (unat ilen) (iq_instr e)\<rparr>),
                       q_idx := (q_idx s + 1) mod 32\<rparr>)
       else (Abort, s\<lparr>iqueue := (iqueue s)(i := e)\<rparr>))"

text \<open>The entry \<open>iqueue_dump\<close> marks, and what it prints of an entry.\<close>

definition victim_idx :: "iqueue_state \<Rightarrow> nat" where
  "victim_idx s = unat ((q_idx s - 1) mod 32)"

definition iqueue_dump :: "iqueue_state \<Rightarrow> (bool \<times> u64 \<times> u8 list) list" where
  "iqueue_dump s = map (\<lambda>i. (i = victim_idx s, iq_pc (iqueue s i), take (unat (iq_ilen (iqueue s i))) (iq_instr (iqueue s i))))
     [0..<INSTR_QUEUE_SIZE]"

section \<open>The marked entry is the last one\<close>

lemma q_idx_bound:
  assumes "iqueue_commit pcv buf ilen s = (Ret (), s')"
  shows "q_idx s' < 32"
  using assms by (auto simp: iqueue_commit_def Let_def word_less_nat_alt unat_mod split: if_splits)

lemma victim_is_last:
  assumes "q_idx s < 32" and "unat ilen < 20" and "length buf = unat ilen" and "length (iq_instr (iqueue s (unat (q_idx s)))) = 20"
  shows "\<exists>s'. iqueue_commit pcv buf ilen s = (Ret (), s') \<and> iqueue_dump s' ! victim_idx s' = (True, pcv, buf)"
proof -
  let ?i = "unat (q_idx s)"
  let ?s = "snd (iqueue_commit pcv buf ilen s)"
  have i: "?i < 32" using assms(1) by (simp add: word_less_nat_alt)
  have "victim_idx ?s = ?i"
  proof -
    have n: "q_idx s = of_nat ?i" by simp
    have "unat (((of_nat ?i + 1) mod 32 - 1) mod 32 :: u32) = ?i"
    proof (cases "?i = 31")
      case True
      then show ?thesis by simp
    next
      case False
      then have "unat (of_nat ?i + 1 :: u32) = ?i + 1" using i by (simp add: unat_word_ariths)
      then have "(of_nat ?i + 1 :: u32) mod 32 = of_nat ?i + 1" using i False by (simp add: word_unat_eq_iff unat_mod)
      then show ?thesis using i by (simp add: unat_mod)
    qed
    then show ?thesis using assms(2) by (simp add: victim_idx_def iqueue_commit_def Let_def)
  qed
  then show ?thesis
    using assms(2,3,4) i by (auto simp: iqueue_commit_def Let_def iqueue_dump_def)
qed

end
