(* ===== verification/Rvk.thy ===== *)
theory Rvk
  imports Rvb Exec
begin

text \<open>
  The scalar cryptography extension (\<open>src/isa/riscv64/instr/rvk\<close>), built with \<open>CONFIG_RVK\<close>: the
  AES, SHA-2, SM3 and SM4 intrinsics of \<open>crypto_impl.h\<close>, their execution helpers and the rows they
  add to the dispatch tables.
\<close>

unbundle bit_operations_syntax

section \<open>Tables\<close>

definition AES_ENC_SBOX :: "u8 list" where
  "AES_ENC_SBOX =
    [0x63, 0x7c, 0x77, 0x7b, 0xf2, 0x6b, 0x6f, 0xc5, 0x30, 0x01, 0x67, 0x2b, 0xfe, 0xd7, 0xab, 0x76,
     0xca, 0x82, 0xc9, 0x7d, 0xfa, 0x59, 0x47, 0xf0, 0xad, 0xd4, 0xa2, 0xaf, 0x9c, 0xa4, 0x72, 0xc0,
     0xb7, 0xfd, 0x93, 0x26, 0x36, 0x3f, 0xf7, 0xcc, 0x34, 0xa5, 0xe5, 0xf1, 0x71, 0xd8, 0x31, 0x15,
     0x04, 0xc7, 0x23, 0xc3, 0x18, 0x96, 0x05, 0x9a, 0x07, 0x12, 0x80, 0xe2, 0xeb, 0x27, 0xb2, 0x75,
     0x09, 0x83, 0x2c, 0x1a, 0x1b, 0x6e, 0x5a, 0xa0, 0x52, 0x3b, 0xd6, 0xb3, 0x29, 0xe3, 0x2f, 0x84,
     0x53, 0xd1, 0x00, 0xed, 0x20, 0xfc, 0xb1, 0x5b, 0x6a, 0xcb, 0xbe, 0x39, 0x4a, 0x4c, 0x58, 0xcf,
     0xd0, 0xef, 0xaa, 0xfb, 0x43, 0x4d, 0x33, 0x85, 0x45, 0xf9, 0x02, 0x7f, 0x50, 0x3c, 0x9f, 0xa8,
     0x51, 0xa3, 0x40, 0x8f, 0x92, 0x9d, 0x38, 0xf5, 0xbc, 0xb6, 0xda, 0x21, 0x10, 0xff, 0xf3, 0xd2,
     0xcd, 0x0c, 0x13, 0xec, 0x5f, 0x97, 0x44, 0x17, 0xc4, 0xa7, 0x7e, 0x3d, 0x64, 0x5d, 0x19, 0x73,
     0x60, 0x81, 0x4f, 0xdc, 0x22, 0x2a, 0x90, 0x88, 0x46, 0xee, 0xb8, 0x14, 0xde, 0x5e, 0x0b, 0xdb,
     0xe0, 0x32, 0x3a, 0x0a, 0x49, 0x06, 0x24, 0x5c, 0xc2, 0xd3, 0xac, 0x62, 0x91, 0x95, 0xe4, 0x79,
     0xe7, 0xc8, 0x37, 0x6d, 0x8d, 0xd5, 0x4e, 0xa9, 0x6c, 0x56, 0xf4, 0xea, 0x65, 0x7a, 0xae, 0x08,
     0xba, 0x78, 0x25, 0x2e, 0x1c, 0xa6, 0xb4, 0xc6, 0xe8, 0xdd, 0x74, 0x1f, 0x4b, 0xbd, 0x8b, 0x8a,
     0x70, 0x3e, 0xb5, 0x66, 0x48, 0x03, 0xf6, 0x0e, 0x61, 0x35, 0x57, 0xb9, 0x86, 0xc1, 0x1d, 0x9e,
     0xe1, 0xf8, 0x98, 0x11, 0x69, 0xd9, 0x8e, 0x94, 0x9b, 0x1e, 0x87, 0xe9, 0xce, 0x55, 0x28, 0xdf,
     0x8c, 0xa1, 0x89, 0x0d, 0xbf, 0xe6, 0x42, 0x68, 0x41, 0x99, 0x2d, 0x0f, 0xb0, 0x54, 0xbb, 0x16]"

definition AES_DEC_SBOX :: "u8 list" where
  "AES_DEC_SBOX =
    [0x52, 0x09, 0x6a, 0xd5, 0x30, 0x36, 0xa5, 0x38, 0xbf, 0x40, 0xa3, 0x9e, 0x81, 0xf3, 0xd7, 0xfb,
     0x7c, 0xe3, 0x39, 0x82, 0x9b, 0x2f, 0xff, 0x87, 0x34, 0x8e, 0x43, 0x44, 0xc4, 0xde, 0xe9, 0xcb,
     0x54, 0x7b, 0x94, 0x32, 0xa6, 0xc2, 0x23, 0x3d, 0xee, 0x4c, 0x95, 0x0b, 0x42, 0xfa, 0xc3, 0x4e,
     0x08, 0x2e, 0xa1, 0x66, 0x28, 0xd9, 0x24, 0xb2, 0x76, 0x5b, 0xa2, 0x49, 0x6d, 0x8b, 0xd1, 0x25,
     0x72, 0xf8, 0xf6, 0x64, 0x86, 0x68, 0x98, 0x16, 0xd4, 0xa4, 0x5c, 0xcc, 0x5d, 0x65, 0xb6, 0x92,
     0x6c, 0x70, 0x48, 0x50, 0xfd, 0xed, 0xb9, 0xda, 0x5e, 0x15, 0x46, 0x57, 0xa7, 0x8d, 0x9d, 0x84,
     0x90, 0xd8, 0xab, 0x00, 0x8c, 0xbc, 0xd3, 0x0a, 0xf7, 0xe4, 0x58, 0x05, 0xb8, 0xb3, 0x45, 0x06,
     0xd0, 0x2c, 0x1e, 0x8f, 0xca, 0x3f, 0x0f, 0x02, 0xc1, 0xaf, 0xbd, 0x03, 0x01, 0x13, 0x8a, 0x6b,
     0x3a, 0x91, 0x11, 0x41, 0x4f, 0x67, 0xdc, 0xea, 0x97, 0xf2, 0xcf, 0xce, 0xf0, 0xb4, 0xe6, 0x73,
     0x96, 0xac, 0x74, 0x22, 0xe7, 0xad, 0x35, 0x85, 0xe2, 0xf9, 0x37, 0xe8, 0x1c, 0x75, 0xdf, 0x6e,
     0x47, 0xf1, 0x1a, 0x71, 0x1d, 0x29, 0xc5, 0x89, 0x6f, 0xb7, 0x62, 0x0e, 0xaa, 0x18, 0xbe, 0x1b,
     0xfc, 0x56, 0x3e, 0x4b, 0xc6, 0xd2, 0x79, 0x20, 0x9a, 0xdb, 0xc0, 0xfe, 0x78, 0xcd, 0x5a, 0xf4,
     0x1f, 0xdd, 0xa8, 0x33, 0x88, 0x07, 0xc7, 0x31, 0xb1, 0x12, 0x10, 0x59, 0x27, 0x80, 0xec, 0x5f,
     0x60, 0x51, 0x7f, 0xa9, 0x19, 0xb5, 0x4a, 0x0d, 0x2d, 0xe5, 0x7a, 0x9f, 0x93, 0xc9, 0x9c, 0xef,
     0xa0, 0xe0, 0x3b, 0x4d, 0xae, 0x2a, 0xf5, 0xb0, 0xc8, 0xeb, 0xbb, 0x3c, 0x83, 0x53, 0x99, 0x61,
     0x17, 0x2b, 0x04, 0x7e, 0xba, 0x77, 0xd6, 0x26, 0xe1, 0x69, 0x14, 0x63, 0x55, 0x21, 0x0c, 0x7d]"

definition sm4_sbox :: "u8 list" where
  "sm4_sbox =
    [0xd6, 0x90, 0xe9, 0xfe, 0xcc, 0xe1, 0x3d, 0xb7, 0x16, 0xb6, 0x14, 0xc2, 0x28, 0xfb, 0x2c, 0x05,
     0x2b, 0x67, 0x9a, 0x76, 0x2a, 0xbe, 0x04, 0xc3, 0xaa, 0x44, 0x13, 0x26, 0x49, 0x86, 0x06, 0x99,
     0x9c, 0x42, 0x50, 0xf4, 0x91, 0xef, 0x98, 0x7a, 0x33, 0x54, 0x0b, 0x43, 0xed, 0xcf, 0xac, 0x62,
     0xe4, 0xb3, 0x1c, 0xa9, 0xc9, 0x08, 0xe8, 0x95, 0x80, 0xdf, 0x94, 0xfa, 0x75, 0x8f, 0x3f, 0xa6,
     0x47, 0x07, 0xa7, 0xfc, 0xf3, 0x73, 0x17, 0xba, 0x83, 0x59, 0x3c, 0x19, 0xe6, 0x85, 0x4f, 0xa8,
     0x68, 0x6b, 0x81, 0xb2, 0x71, 0x64, 0xda, 0x8b, 0xf8, 0xeb, 0x0f, 0x4b, 0x70, 0x56, 0x9d, 0x35,
     0x1e, 0x24, 0x0e, 0x5e, 0x63, 0x58, 0xd1, 0xa2, 0x25, 0x22, 0x7c, 0x3b, 0x01, 0x21, 0x78, 0x87,
     0xd4, 0x00, 0x46, 0x57, 0x9f, 0xd3, 0x27, 0x52, 0x4c, 0x36, 0x02, 0xe7, 0xa0, 0xc4, 0xc8, 0x9e,
     0xea, 0xbf, 0x8a, 0xd2, 0x40, 0xc7, 0x38, 0xb5, 0xa3, 0xf7, 0xf2, 0xce, 0xf9, 0x61, 0x15, 0xa1,
     0xe0, 0xae, 0x5d, 0xa4, 0x9b, 0x34, 0x1a, 0x55, 0xad, 0x93, 0x32, 0x30, 0xf5, 0x8c, 0xb1, 0xe3,
     0x1d, 0xf6, 0xe2, 0x2e, 0x82, 0x66, 0xca, 0x60, 0xc0, 0x29, 0x23, 0xab, 0x0d, 0x53, 0x4e, 0x6f,
     0xd5, 0xdb, 0x37, 0x45, 0xde, 0xfd, 0x8e, 0x2f, 0x03, 0xff, 0x6a, 0x72, 0x6d, 0x6c, 0x5b, 0x51,
     0x8d, 0x1b, 0xaf, 0x92, 0xbb, 0xdd, 0xbc, 0x7f, 0x11, 0xd9, 0x5c, 0x41, 0x1f, 0x10, 0x5a, 0xd8,
     0x0a, 0xc1, 0x31, 0x88, 0xa5, 0xcd, 0x7b, 0xbd, 0x2d, 0x74, 0xd0, 0x12, 0xb8, 0xe5, 0xb4, 0xb0,
     0x89, 0x69, 0x97, 0x4a, 0x0c, 0x96, 0x77, 0x7e, 0x65, 0xb9, 0xf1, 0x09, 0xc5, 0x6e, 0xc6, 0x84,
     0x18, 0xf0, 0x7d, 0xec, 0x3a, 0xdc, 0x4d, 0x20, 0x79, 0xee, 0x5f, 0x3e, 0xd7, 0xcb, 0x39, 0x48]"

section \<open>AES\<close>

text \<open>The macros of \<open>aes_common.h\<close>; products are masked to a byte only at the end.\<close>

definition AES_XTIME :: "u32 \<Rightarrow> u32" where
  "AES_XTIME a = shl a 1 XOR (if a AND 0x80 \<noteq> 0 then 0x1b else 0)"

definition AES_GFMUL :: "u32 \<Rightarrow> u32 \<Rightarrow> u32" where
  "AES_GFMUL a b =
    ((if b AND 0x1 \<noteq> 0 then a else 0) XOR
     (if b AND 0x2 \<noteq> 0 then AES_XTIME a else 0) XOR
     (if b AND 0x4 \<noteq> 0 then AES_XTIME (AES_XTIME a) else 0) XOR
     (if b AND 0x8 \<noteq> 0 then AES_XTIME (AES_XTIME (AES_XTIME a)) else 0)) AND 0xFF"

definition BY :: "u32 \<Rightarrow> nat \<Rightarrow> u32" where
  "BY x i = shr x (8 * i) AND 0xFF"

abbreviation (input) byte_at :: "u64 \<Rightarrow> nat \<Rightarrow> u64" where
  "byte_at x sh \<equiv> shr x sh AND 0xFF"

definition AES_SHIFROWS_LO :: "u64 \<Rightarrow> u64 \<Rightarrow> u64" where
  "AES_SHIFROWS_LO rs1 rs2 =
    shl (byte_at rs1 24) 56 OR shl (byte_at rs2 48) 48 OR shl (byte_at rs2 8) 40 OR
    shl (byte_at rs1 32) 32 OR shl (byte_at rs2 56) 24 OR shl (byte_at rs2 16) 16 OR
    shl (byte_at rs1 40) 8 OR shl (byte_at rs1 0) 0"

definition AES_INVSHIFROWS_LO :: "u64 \<Rightarrow> u64 \<Rightarrow> u64" where
  "AES_INVSHIFROWS_LO rs1 rs2 =
    shl (byte_at rs2 24) 56 OR shl (byte_at rs2 48) 48 OR shl (byte_at rs1 8) 40 OR
    shl (byte_at rs1 32) 32 OR shl (byte_at rs1 56) 24 OR shl (byte_at rs2 16) 16 OR
    shl (byte_at rs2 40) 8 OR shl (byte_at rs1 0) 0"

definition AES_MIXBYTE :: "u32 \<Rightarrow> nat \<Rightarrow> nat \<Rightarrow> nat \<Rightarrow> nat \<Rightarrow> u32" where
  "AES_MIXBYTE col b0 b1 b2 b3 =
    BY col b3 XOR BY col b2 XOR AES_GFMUL (BY col b1) 3 XOR AES_GFMUL (BY col b0) 2"

definition AES_MIXCOLUMN :: "u32 \<Rightarrow> u32" where
  "AES_MIXCOLUMN col =
    shl (AES_MIXBYTE col 3 0 1 2) 24 OR shl (AES_MIXBYTE col 2 3 0 1) 16 OR
    shl (AES_MIXBYTE col 1 2 3 0) 8 OR shl (AES_MIXBYTE col 0 1 2 3) 0"

definition AES_INVMIXBYTE :: "u32 \<Rightarrow> nat \<Rightarrow> nat \<Rightarrow> nat \<Rightarrow> nat \<Rightarrow> u32" where
  "AES_INVMIXBYTE col b0 b1 b2 b3 =
    AES_GFMUL (BY col b3) 0x9 XOR AES_GFMUL (BY col b2) 0xd XOR
    AES_GFMUL (BY col b1) 0xb XOR AES_GFMUL (BY col b0) 0xe"

definition AES_INVMIXCOLUMN :: "u32 \<Rightarrow> u32" where
  "AES_INVMIXCOLUMN col =
    shl (AES_INVMIXBYTE col 3 0 1 2) 24 OR shl (AES_INVMIXBYTE col 2 3 0 1) 16 OR
    shl (AES_INVMIXBYTE col 1 2 3 0) 8 OR shl (AES_INVMIXBYTE col 0 1 2 3) 0"

text \<open>A byte of \<open>temp\<close> replaced through a table, at the place it had.\<close>

definition sbox_at :: "u8 list \<Rightarrow> u64 \<Rightarrow> nat \<Rightarrow> u64" where
  "sbox_at box temp sh = shl (ucast (box ! unat (byte_at temp sh))) sh"

definition aes64es :: "u64 \<Rightarrow> u64 \<Rightarrow> u64" where
  "aes64es rs1 rs2 =
    (let temp = AES_SHIFROWS_LO rs1 rs2
     in sbox_at AES_ENC_SBOX temp 0 OR sbox_at AES_ENC_SBOX temp 8 OR sbox_at AES_ENC_SBOX temp 16 OR
        sbox_at AES_ENC_SBOX temp 24 OR sbox_at AES_ENC_SBOX temp 32 OR sbox_at AES_ENC_SBOX temp 40 OR
        sbox_at AES_ENC_SBOX temp 48 OR sbox_at AES_ENC_SBOX temp 56)"

definition aes64esm :: "u64 \<Rightarrow> u64 \<Rightarrow> u64" where
  "aes64esm rs1 rs2 =
    (let temp = aes64es rs1 rs2;
         col_0 = ucast (temp AND 0xFFFFFFFF);
         col_1 = ucast (shr temp 32);
         col_0 = AES_MIXCOLUMN col_0;
         col_1 = AES_MIXCOLUMN col_1
     in shl (ucast col_1) 32 OR ucast col_0)"

definition aes64ds :: "u64 \<Rightarrow> u64 \<Rightarrow> u64" where
  "aes64ds rs1 rs2 =
    (let temp = AES_INVSHIFROWS_LO rs1 rs2
     in sbox_at AES_DEC_SBOX temp 0 OR sbox_at AES_DEC_SBOX temp 8 OR sbox_at AES_DEC_SBOX temp 16 OR
        sbox_at AES_DEC_SBOX temp 24 OR sbox_at AES_DEC_SBOX temp 32 OR sbox_at AES_DEC_SBOX temp 40 OR
        sbox_at AES_DEC_SBOX temp 48 OR sbox_at AES_DEC_SBOX temp 56)"

definition aes64dsm :: "u64 \<Rightarrow> u64 \<Rightarrow> u64" where
  "aes64dsm rs1 rs2 =
    (let temp = aes64ds rs1 rs2;
         col_0 = ucast (temp AND 0xFFFFFFFF);
         col_1 = ucast (shr temp 32);
         col_0 = AES_INVMIXCOLUMN col_0;
         col_1 = AES_INVMIXCOLUMN col_1
     in shl (ucast col_1) 32 OR ucast col_0)"

definition aes64im :: "u64 \<Rightarrow> u64" where
  "aes64im rs1 =
    (let col_0 = ucast (rs1 AND 0xFFFFFFFF);
         col_1 = ucast (shr rs1 32);
         col_0 = AES_INVMIXCOLUMN col_0;
         col_1 = AES_INVMIXCOLUMN col_1
     in shl (ucast col_1) 32 OR ucast col_0)"

definition round_consts :: "u8 list" where
  "round_consts = [0x01, 0x02, 0x04, 0x08, 0x10, 0x20, 0x40, 0x80, 0x1b, 0x36]"

definition sub_word :: "u32 \<Rightarrow> u32" where
  "sub_word temp =
    shl (ucast (AES_ENC_SBOX ! unat (shr temp 24 AND 0xFF))) 24 OR
    shl (ucast (AES_ENC_SBOX ! unat (shr temp 16 AND 0xFF))) 16 OR
    shl (ucast (AES_ENC_SBOX ! unat (shr temp 8 AND 0xFF))) 8 OR
    shl (ucast (AES_ENC_SBOX ! unat (shr temp 0 AND 0xFF))) 0"

text \<open>
  The round constants have ten entries; the numbers 11 to 15 read past their end, which is
  undefined (\<open>None\<close>).
\<close>

definition aes64ks1i :: "u64 \<Rightarrow> u64 \<Rightarrow> u64 option" where
  "aes64ks1i rs1 rs2 =
    (let temp = (ucast (shr rs1 32 AND 0xFFFFFFFF) :: u32);
         enc_rcon = unat (rs2 AND 0xF)
     in if enc_rcon \<noteq> 0xA \<and> length round_consts \<le> enc_rcon then None
        else
          let rotated = (if enc_rcon \<noteq> 0xA then shr temp 8 OR shl temp 24 else temp);
              rcon = (if enc_rcon \<noteq> 0xA then round_consts ! enc_rcon else 0);
              temp = sub_word rotated XOR ucast rcon
          in Some (shl (ucast temp) 32 OR ucast temp))"

definition aes64ks2 :: "u64 \<Rightarrow> u64 \<Rightarrow> u64" where
  "aes64ks2 rs1 rs2 =
    (let lo = (ucast (shr rs1 32 XOR rs2) :: u32);
         hi = (ucast (shr rs2 32 XOR ucast lo) :: u32)
     in shl (ucast hi) 32 OR ucast lo)"

section \<open>SHA-2 and SM3\<close>

text \<open>The 32-bit results are returned as \<open>int32_t\<close> and so sign-extended.\<close>

definition sha256sum0 :: "u32 \<Rightarrow> u32" where
  "sha256sum0 rs1 = rv32_ror rs1 2 XOR rv32_ror rs1 13 XOR rv32_ror rs1 22"

definition sha256sum1 :: "u32 \<Rightarrow> u32" where
  "sha256sum1 rs1 = rv32_ror rs1 6 XOR rv32_ror rs1 11 XOR rv32_ror rs1 25"

definition sha256sig0 :: "u32 \<Rightarrow> u32" where
  "sha256sig0 rs1 = rv32_ror rs1 7 XOR rv32_ror rs1 18 XOR shr rs1 3"

definition sha256sig1 :: "u32 \<Rightarrow> u32" where
  "sha256sig1 rs1 = rv32_ror rs1 17 XOR rv32_ror rs1 19 XOR shr rs1 10"

definition sha512sum0 :: "u64 \<Rightarrow> u64" where
  "sha512sum0 rs1 = rv64_ror rs1 28 XOR rv64_ror rs1 34 XOR rv64_ror rs1 39"

definition sha512sum1 :: "u64 \<Rightarrow> u64" where
  "sha512sum1 rs1 = rv64_ror rs1 14 XOR rv64_ror rs1 18 XOR rv64_ror rs1 41"

definition sha512sig0 :: "u64 \<Rightarrow> u64" where
  "sha512sig0 rs1 = rv64_ror rs1 1 XOR rv64_ror rs1 8 XOR shr rs1 7"

definition sha512sig1 :: "u64 \<Rightarrow> u64" where
  "sha512sig1 rs1 = rv64_ror rs1 19 XOR rv64_ror rs1 61 XOR shr rs1 6"

definition sm3p0 :: "u32 \<Rightarrow> u32" where
  "sm3p0 rs1 = rs1 XOR rv32_rol rs1 9 XOR rv32_rol rs1 17"

definition sm3p1 :: "u32 \<Rightarrow> u32" where
  "sm3p1 rs1 = rs1 XOR rv32_rol rs1 15 XOR rv32_rol rs1 23"

section \<open>SM4\<close>

text \<open>A shift of a 32-bit value by 32 or more is undefined in C.\<close>

definition c_shr32 :: "u32 \<Rightarrow> nat \<Rightarrow> u32 option" where
  "c_shr32 a n = (if n < 32 then Some (shr a n) else None)"

definition sm4_bs :: "u8 \<Rightarrow> nat" where
  "sm4_bs funct7 = unat (shl (shr funct7 5) 3)"

definition sm4_sub :: "u32 \<Rightarrow> nat \<Rightarrow> u32" where
  "sm4_sub rs2 bs = ucast (sm4_sbox ! unat (shr rs2 bs AND 0xFF))"

definition sm4ed :: "u32 \<Rightarrow> u32 \<Rightarrow> u8 \<Rightarrow> u32 option" where
  "sm4ed rs1 rs2 funct7 =
    (let bs = sm4_bs funct7;
         sb_out = sm4_sub rs2 bs;
         linear = sb_out XOR shl sb_out 8 XOR shl sb_out 2 XOR shl sb_out 18 XOR
                  shl (sb_out AND 0x3f) 26 XOR shl (sb_out AND 0xC0) 10
     in map_option (\<lambda>low. (shl linear bs OR low) XOR rs1) (c_shr32 linear (32 - bs)))"

definition sm4ks :: "u32 \<Rightarrow> u32 \<Rightarrow> u8 \<Rightarrow> u32 option" where
  "sm4ks rs1 rs2 funct7 =
    (let bs = sm4_bs funct7;
         sb_out = sm4_sub rs2 bs;
         linear = sb_out XOR shl (sb_out AND 0x07) 29 XOR shl (sb_out AND 0xFE) 7 XOR
                  shl (sb_out AND 0x01) 23 XOR shl (sb_out AND 0xF8) 13
     in map_option (\<lambda>low. (shl linear bs OR low) XOR rs1) (c_shr32 linear (32 - bs)))"

section \<open>Instructions\<close>

datatype rvk_id = EXEC_ID_aes64es | EXEC_ID_aes64esm | EXEC_ID_aes64ds | EXEC_ID_aes64dsm
  | EXEC_ID_aes64ks1i | EXEC_ID_aes64ks2 | EXEC_ID_sm4ks | EXEC_ID_sm4ed
  | EXEC_ID_aes64im | EXEC_ID_sm3p0 | EXEC_ID_sm3p1
  | EXEC_ID_sha256sig0 | EXEC_ID_sha256sig1 | EXEC_ID_sha256sum0 | EXEC_ID_sha256sum1
  | EXEC_ID_sha512sig0 | EXEC_ID_sha512sig1 | EXEC_ID_sha512sum0 | EXEC_ID_sha512sum1

text \<open>The rows of the tables \<open>op_imm\<close> and \<open>op\<close> under \<open>CONFIG_RVK\<close>, after those of \<open>Decode\<close>.\<close>

definition rvk_op_imm_rows :: "(string \<times> rvk_id) list" where
  "rvk_op_imm_rows =
    [(''0011000 00000 ????? 001 ????? ????? ??'', EXEC_ID_aes64im),
     (''0011000 1???? ????? 001 ????? ????? ??'', EXEC_ID_aes64ks1i),
     (''0001000 00000 ????? 001 ????? ????? ??'', EXEC_ID_sha256sum0),
     (''0001000 00001 ????? 001 ????? ????? ??'', EXEC_ID_sha256sum1),
     (''0001000 00010 ????? 001 ????? ????? ??'', EXEC_ID_sha256sig0),
     (''0001000 00011 ????? 001 ????? ????? ??'', EXEC_ID_sha256sig1),
     (''0001000 00100 ????? 001 ????? ????? ??'', EXEC_ID_sha512sum0),
     (''0001000 00101 ????? 001 ????? ????? ??'', EXEC_ID_sha512sum1),
     (''0001000 00110 ????? 001 ????? ????? ??'', EXEC_ID_sha512sig0),
     (''0001000 00111 ????? 001 ????? ????? ??'', EXEC_ID_sha512sig1),
     (''0001000 01000 ????? 001 ????? ????? ??'', EXEC_ID_sm3p0),
     (''0001000 01001 ????? 001 ????? ????? ??'', EXEC_ID_sm3p1)]"

definition rvk_op_rows :: "(string \<times> rvk_id) list" where
  "rvk_op_rows =
    [(''0011001 ????? ????? 000 ????? ????? ??'', EXEC_ID_aes64es),
     (''0011011 ????? ????? 000 ????? ????? ??'', EXEC_ID_aes64esm),
     (''0011101 ????? ????? 000 ????? ????? ??'', EXEC_ID_aes64ds),
     (''0011111 ????? ????? 000 ????? ????? ??'', EXEC_ID_aes64dsm),
     (''0111111 ????? ????? 000 ????? ????? ??'', EXEC_ID_aes64ks2),
     (''??11000 ????? ????? 000 ????? ????? ??'', EXEC_ID_sm4ed),
     (''??11010 ????? ????? 000 ????? ????? ??'', EXEC_ID_sm4ks)]"

definition sm4_helper :: "(u32 \<Rightarrow> u32 \<Rightarrow> u8 \<Rightarrow> u32 option) \<Rightarrow> unit exec" where
  "sm4_helper f = with_instr (\<lambda>i. exec_rr_opt (\<lambda>a b. map_option scast (f (ucast a) (ucast b) (ucast (fld 25 7 i)))))"

fun exec_rvk :: "rvk_id \<Rightarrow> unit exec" where
  "exec_rvk EXEC_ID_aes64es = exec_rr aes64es"
| "exec_rvk EXEC_ID_aes64esm = exec_rr aes64esm"
| "exec_rvk EXEC_ID_aes64ds = exec_rr aes64ds"
| "exec_rvk EXEC_ID_aes64dsm = exec_rr aes64dsm"
| "exec_rvk EXEC_ID_aes64im = exec_r aes64im"
| "exec_rvk EXEC_ID_aes64ks1i = exec_ri_opt aes64ks1i"
| "exec_rvk EXEC_ID_aes64ks2 = exec_rr aes64ks2"
| "exec_rvk EXEC_ID_sha256sum0 = exec_r (\<lambda>a. scast (sha256sum0 (ucast a)))"
| "exec_rvk EXEC_ID_sha256sum1 = exec_r (\<lambda>a. scast (sha256sum1 (ucast a)))"
| "exec_rvk EXEC_ID_sha256sig0 = exec_r (\<lambda>a. scast (sha256sig0 (ucast a)))"
| "exec_rvk EXEC_ID_sha256sig1 = exec_r (\<lambda>a. scast (sha256sig1 (ucast a)))"
| "exec_rvk EXEC_ID_sha512sum0 = exec_r sha512sum0"
| "exec_rvk EXEC_ID_sha512sum1 = exec_r sha512sum1"
| "exec_rvk EXEC_ID_sha512sig0 = exec_r sha512sig0"
| "exec_rvk EXEC_ID_sha512sig1 = exec_r sha512sig1"
| "exec_rvk EXEC_ID_sm3p0 = exec_r (\<lambda>a. scast (sm3p0 (ucast a)))"
| "exec_rvk EXEC_ID_sm3p1 = exec_r (\<lambda>a. scast (sm3p1 (ucast a)))"
| "exec_rvk EXEC_ID_sm4ed = sm4_helper sm4ed"
| "exec_rvk EXEC_ID_sm4ks = sm4_helper sm4ks"

section \<open>The field\<close>

definition xor_hom :: "('a::len word \<Rightarrow> 'b::len word) \<Rightarrow> bool" where
  "xor_hom f \<longleftrightarrow> (\<forall>a b. f (a XOR b) = f a XOR f b)"

lemma xor_hom_zero: "xor_hom f \<Longrightarrow> f 0 = 0"
  by (metis xor_hom_def xor_self_eq)

lemma xor_hom_intros:
  "xor_hom (\<lambda>a. a)" "xor_hom (\<lambda>a. 0)"
  "xor_hom f \<Longrightarrow> xor_hom g \<Longrightarrow> xor_hom (\<lambda>a. f a XOR g a)"
  "xor_hom f \<Longrightarrow> xor_hom g \<Longrightarrow> xor_hom (\<lambda>a. f (g a))"
  "xor_hom f \<Longrightarrow> xor_hom (\<lambda>a. f a AND m)"
  subgoal by (simp add: xor_hom_def)
  subgoal by (simp add: xor_hom_def)
  subgoal by (simp add: xor_hom_def ac_simps)
  subgoal by (simp add: xor_hom_def)
  subgoal by (auto simp: xor_hom_def bit_simps intro!: bit_word_eqI)
  done

lemma xor_hom_XTIME: "xor_hom AES_XTIME"
proof -
  have m: "x AND 0x80 \<noteq> 0 \<longleftrightarrow> bit x 7" for x :: u32
    using and_pow2_nonzero [of x 7] by simp
  show ?thesis
    unfolding xor_hom_def AES_XTIME_def m
    by (auto simp: bit_simps intro!: bit_word_eqI)
qed

lemma xor_hom_if: "xor_hom f \<Longrightarrow> xor_hom (\<lambda>a. if c then f a else 0)"
  by (auto simp: xor_hom_def)

lemma xor_hom_GFMUL: "xor_hom (\<lambda>a. AES_GFMUL a k)"
proof -
  note x = xor_hom_XTIME xor_hom_intros(4) [OF xor_hom_XTIME xor_hom_XTIME]
    xor_hom_intros(4) [OF xor_hom_XTIME xor_hom_intros(4) [OF xor_hom_XTIME xor_hom_XTIME]]
  show ?thesis
    unfolding AES_GFMUL_def
    by (intro xor_hom_intros(5) xor_hom_intros(3) xor_hom_if xor_hom_intros(1) x)
qed

lemma xor_hom_bytes:
  fixes c :: u32
  assumes f: "xor_hom f" and g: "xor_hom g" and b: "list_all (\<lambda>k. f (2 ^ k) = g (2 ^ k)) [0..<8]" and c: "take_bit 8 c = c"
  shows "f c = g c"
proof -
  have "f (take_bit n c) = g (take_bit n c)" if "n \<le> 8" for n
    using that
  proof (induction n)
    case 0
    show ?case using xor_hom_zero [OF f] xor_hom_zero [OF g] by simp
  next
    case (Suc n)
    have "take_bit (Suc n) c = take_bit n c XOR (if bit c n then 2 ^ n else 0)"
      by (rule bit_word_eqI) (auto simp: bit_simps less_Suc_eq)
    then show ?case
      using Suc b f g xor_hom_zero [OF f] xor_hom_zero [OF g] by (auto simp: xor_hom_def list_all_iff)
  qed
  from this [of 8] c show ?thesis by simp
qed

lemma and_FF: "w AND 0xFF = take_bit 8 w" for w :: "'a::len word"
  by (simp add: take_bit_eq_mask mask_eq_exp_minus_1)

lemma GFMUL_byte: "take_bit 8 (AES_GFMUL a k) = AES_GFMUL a k" "take_bit 8 (BY x i) = BY x i"
  by (simp_all add: AES_GFMUL_def BY_def and_FF)

lemma xor_hom_GFMUL2: "xor_hom (\<lambda>a. AES_GFMUL (AES_GFMUL a j) k)"
  by (rule xor_hom_intros(4) [OF xor_hom_GFMUL xor_hom_GFMUL])

text \<open>The inverse matrix, column by column; by linearity it is enough to look at powers of two.\<close>

lemma inverse_coefficients:
  assumes "take_bit 8 c = c"
  shows "AES_GFMUL (AES_GFMUL c 3) 0x9 XOR AES_GFMUL c 0xd XOR AES_GFMUL c 0xb XOR AES_GFMUL (AES_GFMUL c 2) 0xe = c"
    "AES_GFMUL c 0x9 XOR AES_GFMUL c 0xd XOR AES_GFMUL (AES_GFMUL c 2) 0xb XOR AES_GFMUL (AES_GFMUL c 3) 0xe = 0"
    "AES_GFMUL c 0x9 XOR AES_GFMUL (AES_GFMUL c 2) 0xd XOR AES_GFMUL (AES_GFMUL c 3) 0xb XOR AES_GFMUL c 0xe = 0"
    "AES_GFMUL (AES_GFMUL c 2) 0x9 XOR AES_GFMUL (AES_GFMUL c 3) 0xd XOR AES_GFMUL c 0xb XOR AES_GFMUL c 0xe = 0"
proof -
  note hom = xor_hom_intros(1-3) xor_hom_GFMUL xor_hom_GFMUL2
  show "AES_GFMUL (AES_GFMUL c 3) 0x9 XOR AES_GFMUL c 0xd XOR AES_GFMUL c 0xb XOR AES_GFMUL (AES_GFMUL c 2) 0xe = c"
    by (rule xor_hom_bytes [of "\<lambda>c. AES_GFMUL (AES_GFMUL c 3) 0x9 XOR AES_GFMUL c 0xd XOR AES_GFMUL c 0xb XOR AES_GFMUL (AES_GFMUL c 2) 0xe" "\<lambda>c. c", OF _ _ _ assms]; (intro hom)?; code_simp?)
  show "AES_GFMUL c 0x9 XOR AES_GFMUL c 0xd XOR AES_GFMUL (AES_GFMUL c 2) 0xb XOR AES_GFMUL (AES_GFMUL c 3) 0xe = 0"
    by (rule xor_hom_bytes [of "\<lambda>c. AES_GFMUL c 0x9 XOR AES_GFMUL c 0xd XOR AES_GFMUL (AES_GFMUL c 2) 0xb XOR AES_GFMUL (AES_GFMUL c 3) 0xe" "\<lambda>c. 0", OF _ _ _ assms]; (intro hom)?; code_simp?)
  show "AES_GFMUL c 0x9 XOR AES_GFMUL (AES_GFMUL c 2) 0xd XOR AES_GFMUL (AES_GFMUL c 3) 0xb XOR AES_GFMUL c 0xe = 0"
    by (rule xor_hom_bytes [of "\<lambda>c. AES_GFMUL c 0x9 XOR AES_GFMUL (AES_GFMUL c 2) 0xd XOR AES_GFMUL (AES_GFMUL c 3) 0xb XOR AES_GFMUL c 0xe" "\<lambda>c. 0", OF _ _ _ assms]; (intro hom)?; code_simp?)
  show "AES_GFMUL (AES_GFMUL c 2) 0x9 XOR AES_GFMUL (AES_GFMUL c 3) 0xd XOR AES_GFMUL c 0xb XOR AES_GFMUL c 0xe = 0"
    by (rule xor_hom_bytes [of "\<lambda>c. AES_GFMUL (AES_GFMUL c 2) 0x9 XOR AES_GFMUL (AES_GFMUL c 3) 0xd XOR AES_GFMUL c 0xb XOR AES_GFMUL c 0xe" "\<lambda>c. 0", OF _ _ _ assms]; (intro hom)?; code_simp?)
qed

section \<open>Columns\<close>

lemma MIXBYTE_byte: "take_bit 8 (AES_MIXBYTE c i j k l) = AES_MIXBYTE c i j k l"
  by (simp add: AES_MIXBYTE_def GFMUL_byte)

lemma BY_pack:
  assumes "take_bit 8 a = a" "take_bit 8 b = b" "take_bit 8 c = c" "take_bit 8 d = d"
  shows "BY (shl a 24 OR shl b 16 OR shl c 8 OR shl d 0) 0 = d" "BY (shl a 24 OR shl b 16 OR shl c 8 OR shl d 0) 1 = c"
    "BY (shl a 24 OR shl b 16 OR shl c 8 OR shl d 0) 2 = b" "BY (shl a 24 OR shl b 16 OR shl c 8 OR shl d 0) 3 = a"
proof -
  have z: "bit x n \<Longrightarrow> n < 8" if "take_bit 8 x = x" for x :: u32 and n
    using that by (metis bit_take_bit_iff)
  note y = z [OF assms(1)] z [OF assms(2)] z [OF assms(3)] z [OF assms(4)]
  show "BY (shl a 24 OR shl b 16 OR shl c 8 OR shl d 0) 0 = d" "BY (shl a 24 OR shl b 16 OR shl c 8 OR shl d 0) 1 = c"
    "BY (shl a 24 OR shl b 16 OR shl c 8 OR shl d 0) 2 = b" "BY (shl a 24 OR shl b 16 OR shl c 8 OR shl d 0) 3 = a"
    by (rule bit_word_eqI; auto simp: BY_def and_FF bit_simps dest: y)+
qed

lemma BY_split: "x = shl (BY x 3) 24 OR shl (BY x 2) 16 OR shl (BY x 1) 8 OR shl (BY x 0) 0"
proof (rule bit_word_eqI)
  fix n assume n: "n < LENGTH(32)"
  consider "n < 8" | "8 \<le> n" "n < 16" | "16 \<le> n" "n < 24" | "24 \<le> n" by linarith
  then show "bit x n = bit (shl (BY x 3) 24 OR shl (BY x 2) 16 OR shl (BY x 1) 8 OR shl (BY x 0) 0) n"
    using n by cases (auto simp: BY_def and_FF bit_simps)
qed

lemma BY_MIXCOLUMN:
  "BY (AES_MIXCOLUMN c) 0 = AES_MIXBYTE c 0 1 2 3" "BY (AES_MIXCOLUMN c) 1 = AES_MIXBYTE c 1 2 3 0"
  "BY (AES_MIXCOLUMN c) 2 = AES_MIXBYTE c 2 3 0 1" "BY (AES_MIXCOLUMN c) 3 = AES_MIXBYTE c 3 0 1 2"
  unfolding AES_MIXCOLUMN_def by (rule BY_pack; rule MIXBYTE_byte)+

lemma GFMUL_xor: "AES_GFMUL (a XOR b) k = AES_GFMUL a k XOR AES_GFMUL b k"
  using xor_hom_GFMUL [of k] by (simp add: xor_hom_def)

lemma xor4: "(a1 XOR b1 XOR c1 XOR d1) XOR (a2 XOR b2 XOR c2 XOR d2) XOR (a3 XOR b3 XOR c3 XOR d3) XOR (a4 XOR b4 XOR c4 XOR d4) =
   (a1 XOR a2 XOR a3 XOR a4) XOR (b1 XOR b2 XOR b3 XOR b4) XOR (c1 XOR c2 XOR c3 XOR c4) XOR (d1 XOR d2 XOR d3 XOR d4)"
  for a1 :: "'a::len word"
  by (simp only: ac_simps)

lemma INVMIXBYTE_mixed:
  "AES_INVMIXBYTE (AES_MIXCOLUMN c) 0 1 2 3 = BY c 0" "AES_INVMIXBYTE (AES_MIXCOLUMN c) 1 2 3 0 = BY c 1"
  "AES_INVMIXBYTE (AES_MIXCOLUMN c) 2 3 0 1 = BY c 2" "AES_INVMIXBYTE (AES_MIXCOLUMN c) 3 0 1 2 = BY c 3"
proof -
  have g: "AES_GFMUL (x2 XOR x1 XOR AES_GFMUL x0 3 XOR AES_GFMUL x3 2) 0x9 XOR
      AES_GFMUL (x1 XOR x0 XOR AES_GFMUL x3 3 XOR AES_GFMUL x2 2) 0xd XOR
      AES_GFMUL (x0 XOR x3 XOR AES_GFMUL x2 3 XOR AES_GFMUL x1 2) 0xb XOR
      AES_GFMUL (x3 XOR x2 XOR AES_GFMUL x1 3 XOR AES_GFMUL x0 2) 0xe = x0"
    if "take_bit 8 x0 = x0" "take_bit 8 x1 = x1" "take_bit 8 x2 = x2" "take_bit 8 x3 = x3" for x0 x1 x2 x3
  proof -
    have "?thesis \<longleftrightarrow> (AES_GFMUL (AES_GFMUL x0 3) 0x9 XOR AES_GFMUL x0 0xd XOR AES_GFMUL x0 0xb XOR AES_GFMUL (AES_GFMUL x0 2) 0xe) XOR
      (AES_GFMUL x1 0x9 XOR AES_GFMUL x1 0xd XOR AES_GFMUL (AES_GFMUL x1 2) 0xb XOR AES_GFMUL (AES_GFMUL x1 3) 0xe) XOR
      (AES_GFMUL x2 0x9 XOR AES_GFMUL (AES_GFMUL x2 2) 0xd XOR AES_GFMUL (AES_GFMUL x2 3) 0xb XOR AES_GFMUL x2 0xe) XOR
      (AES_GFMUL (AES_GFMUL x3 2) 0x9 XOR AES_GFMUL (AES_GFMUL x3 3) 0xd XOR AES_GFMUL x3 0xb XOR AES_GFMUL x3 0xe) = x0"
      by (simp only: GFMUL_xor ac_simps)
    then show ?thesis
      by (simp only: inverse_coefficients [OF that(1)] inverse_coefficients [OF that(2)] inverse_coefficients [OF that(3)]
         inverse_coefficients [OF that(4)]) simp
  qed
  show "AES_INVMIXBYTE (AES_MIXCOLUMN c) 0 1 2 3 = BY c 0" "AES_INVMIXBYTE (AES_MIXCOLUMN c) 1 2 3 0 = BY c 1"
    "AES_INVMIXBYTE (AES_MIXCOLUMN c) 2 3 0 1 = BY c 2" "AES_INVMIXBYTE (AES_MIXCOLUMN c) 3 0 1 2 = BY c 3"
    unfolding AES_INVMIXBYTE_def BY_MIXCOLUMN AES_MIXBYTE_def by (rule g; rule GFMUL_byte(2))+
qed

lemma INVMIXCOLUMN_inverse: "AES_INVMIXCOLUMN (AES_MIXCOLUMN c) = c"
  unfolding AES_INVMIXCOLUMN_def INVMIXBYTE_mixed by (rule BY_split [symmetric])

section \<open>States\<close>

definition b8 :: "u64 \<Rightarrow> nat \<Rightarrow> u8" where
  "b8 w sh = ucast (shr w sh)"

lemma unat_byte_at: "unat (byte_at w sh) = unat (b8 w sh)"
  by (simp add: b8_def and_FF unsigned_take_bit_eq unsigned_ucast_eq)

lemma b8_eqI:
  assumes "b8 x 0 = b8 y 0" "b8 x 8 = b8 y 8" "b8 x 16 = b8 y 16" "b8 x 24 = b8 y 24"
    "b8 x 32 = b8 y 32" "b8 x 40 = b8 y 40" "b8 x 48 = b8 y 48" "b8 x 56 = b8 y 56"
  shows "x = y"
proof (rule bit_word_eqI)
  fix n assume n: "n < LENGTH(64)"
  have e: "bit x (sh + k) = bit y (sh + k)" if "b8 x sh = b8 y sh" "k < 8" for sh k
    using arg_cong [OF that(1), of "\<lambda>w. bit w k"] that(2) by (simp add: b8_def bit_simps)
  have "n div 8 \<in> {0, 1, 2, 3, 4, 5, 6, 7}" using n by auto
  then have "b8 x (8 * (n div 8)) = b8 y (8 * (n div 8))" using assms by auto
  from e [OF this, of "n mod 8"] show "bit x n = bit y n" by simp
qed

lemma b8_SHIFROWS:
  "b8 (AES_SHIFROWS_LO a b) 0 = b8 a 0" "b8 (AES_SHIFROWS_LO a b) 8 = b8 a 40"
  "b8 (AES_SHIFROWS_LO a b) 16 = b8 b 16" "b8 (AES_SHIFROWS_LO a b) 24 = b8 b 56"
  "b8 (AES_SHIFROWS_LO a b) 32 = b8 a 32" "b8 (AES_SHIFROWS_LO a b) 40 = b8 b 8"
  "b8 (AES_SHIFROWS_LO a b) 48 = b8 b 48" "b8 (AES_SHIFROWS_LO a b) 56 = b8 a 24"
  by (rule bit_word_eqI; auto simp: b8_def AES_SHIFROWS_LO_def and_FF bit_simps)+

lemma b8_INVSHIFROWS:
  "b8 (AES_INVSHIFROWS_LO a b) 0 = b8 a 0" "b8 (AES_INVSHIFROWS_LO a b) 8 = b8 b 40"
  "b8 (AES_INVSHIFROWS_LO a b) 16 = b8 b 16" "b8 (AES_INVSHIFROWS_LO a b) 24 = b8 a 56"
  "b8 (AES_INVSHIFROWS_LO a b) 32 = b8 a 32" "b8 (AES_INVSHIFROWS_LO a b) 40 = b8 a 8"
  "b8 (AES_INVSHIFROWS_LO a b) 48 = b8 b 48" "b8 (AES_INVSHIFROWS_LO a b) 56 = b8 b 24"
  by (rule bit_word_eqI; auto simp: b8_def AES_INVSHIFROWS_LO_def and_FF bit_simps)+

definition pack8 :: "(nat \<Rightarrow> u8) \<Rightarrow> u64" where
  "pack8 f = shl (ucast (f 0)) 0 OR shl (ucast (f 8)) 8 OR shl (ucast (f 16)) 16 OR shl (ucast (f 24)) 24 OR
     shl (ucast (f 32)) 32 OR shl (ucast (f 40)) 40 OR shl (ucast (f 48)) 48 OR shl (ucast (f 56)) 56"

lemma b8_pack8:
  "b8 (pack8 f) 0 = f 0" "b8 (pack8 f) 8 = f 8" "b8 (pack8 f) 16 = f 16" "b8 (pack8 f) 24 = f 24"
  "b8 (pack8 f) 32 = f 32" "b8 (pack8 f) 40 = f 40" "b8 (pack8 f) 48 = f 48" "b8 (pack8 f) 56 = f 56"
  by (rule bit_word_eqI; auto simp: b8_def pack8_def bit_simps dest: bit_imp_le_length)+

lemma aes64es_pack: "aes64es a b = pack8 (\<lambda>sh. AES_ENC_SBOX ! unat (b8 (AES_SHIFROWS_LO a b) sh))"
  "aes64ds a b = pack8 (\<lambda>sh. AES_DEC_SBOX ! unat (b8 (AES_INVSHIFROWS_LO a b) sh))"
  by (simp_all only: aes64es_def aes64ds_def Let_def sbox_at_def unat_byte_at pack8_def)

lemma sbox_table: "map (\<lambda>b. AES_DEC_SBOX ! unat b) AES_ENC_SBOX = map of_nat [0..<256]"
  by code_simp

lemma sbox_inverse: "AES_DEC_SBOX ! unat (AES_ENC_SBOX ! unat b) = b" for b :: u8
proof -
  have l: "length AES_ENC_SBOX = 256" by (simp add: AES_ENC_SBOX_def)
  have u: "unat b < 256" using unsigned_less [of b, where ?'a = nat] by simp
  have "map (\<lambda>b. AES_DEC_SBOX ! unat b) AES_ENC_SBOX ! unat b = map of_nat [0..<256] ! unat b"
    by (simp only: sbox_table)
  then show ?thesis using l u by simp
qed

lemma ds_es: "aes64ds (aes64es lo hi) (aes64es hi lo) = lo"
  by (rule b8_eqI) (simp_all add: aes64es_pack b8_pack8 b8_SHIFROWS b8_INVSHIFROWS sbox_inverse)

lemma im_esm: "aes64im (aes64esm a b) = aes64es a b"
proof -
  have m: "w AND 0xFFFFFFFF = take_bit 32 w" for w :: u64
    by (simp add: take_bit_eq_mask mask_eq_exp_minus_1)
  have c: "ucast ((shl (ucast c1) 32 OR ucast c0 :: u64) AND 0xFFFFFFFF) = c0"
    "ucast (shr (shl (ucast c1) 32 OR ucast c0 :: u64) 32) = c1" for c0 c1 :: u32
    unfolding m by (rule bit_word_eqI; auto simp: bit_simps dest: bit_imp_le_length)+
  have j: "shl (ucast (ucast (shr w 32) :: u32)) 32 OR ucast (ucast (w AND 0xFFFFFFFF) :: u32) = w" for w :: u64
    unfolding m by (rule bit_word_eqI) (auto simp: bit_simps)
  show ?thesis
    by (simp only: aes64im_def aes64esm_def Let_def c INVMIXCOLUMN_inverse j)
qed

lemma dsm_im: "aes64dsm a b = aes64im (aes64ds a b)"
  by (simp only: aes64dsm_def aes64im_def Let_def)

text \<open>Where C leaves the result open: a shift by 32, and an index past the round constants.\<close>

lemma sm4_undefined: "sm4ed rs1 rs2 f = None \<longleftrightarrow> sm4_bs f = 0" "sm4ks rs1 rs2 f = None \<longleftrightarrow> sm4_bs f = 0"
  by (auto simp: sm4ed_def sm4ks_def Let_def c_shr32_def)

lemma ks1i_undefined: "aes64ks1i rs1 rs2 = None \<longleftrightarrow> unat (rs2 AND 0xF) > 0xA"
  by (auto simp: aes64ks1i_def Let_def round_consts_def)

section \<open>Properties\<close>

text \<open>
  C3. The AES instructions invert each other: with the state in two registers, the final
  decryption step undoes the final encryption step, and after undoing the column mixing with
  \<open>aes64im\<close> it undoes the middle round too. The inverse tables and the inverse field products of
  \<open>aes_common.h\<close> are correct for every byte and every column.
\<close>

theorem aes64_roundtrip:
  "aes64ds (aes64es lo hi) (aes64es hi lo) = lo \<and>
   aes64ds (aes64es hi lo) (aes64es lo hi) = hi \<and>
   aes64ds (aes64im (aes64esm lo hi)) (aes64im (aes64esm hi lo)) = lo \<and>
   aes64dsm (aes64es lo hi) (aes64es hi lo) = aes64im lo"
  by (simp only: ds_es im_esm dsm_im simp_thms)

end
