(* ===== verification/Tcache.thy ===== *)
theory Tcache
  imports Cpu_Exec
begin

text \<open>
  The trace cache of the performance build (\<open>src/cpu/tcache.c\<close>) and the pointers of
  \<open>src/cpu/cpu-exec.c\<close> into it. Decoded instructions live in a pool; a basic block is a run of
  consecutive entries, its last entry is linked to the blocks that follow. A block that has not
  been decoded yet is represented by a record from a second pool, which is patched out when it
  is. A hash table finds the decoded blocks by address.
\<close>

section \<open>State\<close>

text \<open>
  Pointers to \<open>Decode\<close> structures: the elements of \<open>tcache_pool\<close> and \<open>tcache_bb_pool\<close>, the static
  structure \<open>ex\<close>, and the two values that are not addresses, \<open>NULL\<close> and what \<open>memset\<close> with -1 leaves.
  Pointers to \<open>bb_t\<close> structures: the elements of \<open>bb_list\<close> and \<open>bb_pool\<close>.
\<close>

datatype dptr = D_NULL | D_M1 | TC nat | BB nat | D_EX

datatype bb_ptr = BB_NULL | BB_M1 | BB_LIST nat | BB_POOL nat

text \<open>
  \<open>EHelper\<close> is a label of \<open>execute\<close>: the one of \<open>exec_nemu_decode\<close>, or the one \<open>g_exec_table\<close> has for a
  decoded instruction.
\<close>

datatype ehelper = Exec_nemu_decode | Exec_label exec_id

text \<open>\<open>list_next\<close> and \<open>bb_src\<close> share storage with \<open>tnext\<close> and \<open>ntnext\<close>.\<close>

record tentry =
  tnext :: dptr
  ntnext :: dptr
  EHelper :: ehelper
  tdec :: Decode

record bb_t =
  bb_s :: dptr
  bb_next :: bb_ptr
  bb_pc :: u64

datatype tcache_phase = TCACHE_BB_BUILDING | TCACHE_RUNNING

text \<open>The options of the build are the first four fields.\<close>

record tcache =
  TCACHE_SIZE :: nat
  BB_LIST_SIZE :: nat
  BB_POOL_SIZE :: nat
  RT_CHECK :: bool
  tpool :: "dptr \<Rightarrow> tentry"
  tc_idx :: nat
  tcache_bb_freelist :: dptr
  bb_mem :: "bb_ptr \<Rightarrow> bb_t"
  bb_idx :: nat
  tcache_state :: tcache_phase
  bb_now :: dptr
  bb_now_record :: dptr
  idx_in_bb :: u32
  prev_s :: dptr
  mach :: machine

type_synonym 'a tc = "(tcache, 'a) nemu"

definition TCACHE_BB_SIZE :: "tcache \<Rightarrow> nat" where
  "TCACHE_BB_SIZE t = TCACHE_SIZE t div 4 + 2"

text \<open>The pointers that can be dereferenced; another one crashes the process.\<close>

fun d_valid :: "tcache \<Rightarrow> dptr \<Rightarrow> bool" where
  "d_valid t (TC i) = (i < TCACHE_SIZE t)"
| "d_valid t (BB j) = (j < TCACHE_BB_SIZE t)"
| "d_valid t D_EX = True"
| "d_valid t _ = False"

fun bb_valid :: "tcache \<Rightarrow> bb_ptr \<Rightarrow> bool" where
  "bb_valid t (BB_LIST k) = (k < BB_LIST_SIZE t)"
| "bb_valid t (BB_POOL n) = (n < BB_POOL_SIZE t)"
| "bb_valid t _ = False"

definition upd_ent :: "dptr \<Rightarrow> (tentry \<Rightarrow> tentry) \<Rightarrow> tcache \<Rightarrow> tcache" where
  "upd_ent p f t = t\<lparr>tpool := (tpool t)(p := f (tpool t p))\<rparr>"

definition store :: "dptr \<Rightarrow> (tentry \<Rightarrow> tentry) \<Rightarrow> unit tc" where
  "store p f = with_m (\<lambda>t. then_m (assert_m (d_valid t p)) (modify_m (upd_ent p f)))"

definition load :: "dptr \<Rightarrow> (tentry \<Rightarrow> 'a) \<Rightarrow> 'a tc" where
  "load p f = with_m (\<lambda>t. then_m (assert_m (d_valid t p)) (return_m (f (tpool t p))))"

definition upd_bb :: "bb_ptr \<Rightarrow> (bb_t \<Rightarrow> bb_t) \<Rightarrow> tcache \<Rightarrow> tcache" where
  "upd_bb p f t = t\<lparr>bb_mem := (bb_mem t)(p := f (bb_mem t p))\<rparr>"

text \<open>The field \<open>type\<close> of a record: the values of this enumeration are 1 and 2.\<close>

abbreviation BB_RECORD_TYPE_NTAKEN :: instr_type where "BB_RECORD_TYPE_NTAKEN \<equiv> INSTR_TYPE_J"
abbreviation BB_RECORD_TYPE_TAKEN :: instr_type where "BB_RECORD_TYPE_TAKEN \<equiv> INSTR_TYPE_B"

section \<open>Entries\<close>

definition entry_init :: "u64 \<Rightarrow> tentry \<Rightarrow> tentry" where
  "entry_init pcv e = e\<lparr>tnext := D_NULL, ntnext := D_NULL, EHelper := Exec_nemu_decode,
     tdec := (tdec e)\<lparr>dec_type := INSTR_TYPE_N, dec_pc := pcv\<rparr>\<rparr>"

definition tcache_entry_init :: "dptr \<Rightarrow> u64 \<Rightarrow> dptr tc" where
  "tcache_entry_init s pcv = then_m (store s (entry_init pcv)) (return_m s)"

definition tcache_new :: "u64 \<Rightarrow> dptr tc" where
  "tcache_new pcv = with_m (\<lambda>t.
     if tc_idx t = TCACHE_SIZE t then return_m D_NULL
     else then_m (assert_m (tc_idx t < TCACHE_SIZE t))
         (then_m (modify_m (\<lambda>t. t\<lparr>tc_idx := tc_idx t + 1\<rparr>))
                 (tcache_entry_init (TC (tc_idx t)) pcv)))"

definition tcache_bb_check :: "dptr \<Rightarrow> unit tc" where
  "tcache_bb_check s = with_m (\<lambda>t. assert_m (RT_CHECK t \<longrightarrow>
     (case s of BB j \<Rightarrow> j < TCACHE_BB_SIZE t | _ \<Rightarrow> False)))"

definition tcache_bb_new :: "u64 \<Rightarrow> dptr tc" where
  "tcache_bb_new pcv = with_m (\<lambda>t. let s = tcache_bb_freelist t in
     then_m (assert_m (s \<noteq> D_NULL))
    (then_m (tcache_bb_check s)
    (bind_m (load s tnext) (\<lambda>next.
     then_m (tcache_bb_check next)
    (then_m (modify_m (\<lambda>t. t\<lparr>tcache_bb_freelist := next\<rparr>))
    (then_m (when_m (RT_CHECK t) (then_m (tcache_bb_check next) (bind_m (load next tnext) tcache_bb_check)))
            (tcache_entry_init s pcv)))))))"

definition tcache_bb_free :: "dptr \<Rightarrow> unit tc" where
  "tcache_bb_free s =
     then_m (tcache_bb_check s) (with_m (\<lambda>t.
     then_m (tcache_bb_check (tcache_bb_freelist t))
    (then_m (store s (\<lambda>e. e\<lparr>tnext := tcache_bb_freelist t\<rparr>))
    (then_m (modify_m (\<lambda>t. t\<lparr>tcache_bb_freelist := s\<rparr>))
            (tcache_bb_check (tcache_bb_freelist t))))))"

section \<open>The table of basic blocks\<close>

definition bb_new :: "dptr \<Rightarrow> u64 \<Rightarrow> bb_ptr \<Rightarrow> bb_ptr option tc" where
  "bb_new s pcv next = with_m (\<lambda>t.
     if bb_idx t = BB_POOL_SIZE t then return_m None
     else then_m (assert_m (bb_idx t < BB_POOL_SIZE t))
         (then_m (modify_m (\<lambda>t. upd_bb (BB_POOL (bb_idx t)) (\<lambda>_. \<lparr>bb_s = s, bb_next = next, bb_pc = pcv\<rparr>) t
                               \<lparr>bb_idx := bb_idx t + 1\<rparr>))
                 (return_m (Some (BB_POOL (bb_idx t))))))"

text \<open>\<open>CONFIG_ILEN_MIN\<close> is 2 with compressed instructions.\<close>

definition bb_hash :: "tcache \<Rightarrow> u64 \<Rightarrow> bb_ptr" where
  "bb_hash t pcv = BB_LIST (unat (pcv div 2) mod BB_LIST_SIZE t)"

definition bb_insert :: "u64 \<Rightarrow> dptr \<Rightarrow> bb_ptr option tc" where
  "bb_insert pcv fill = with_m (\<lambda>t. let head = bb_hash t pcv; h = bb_mem t head in
     if bb_next h = BB_M1 \<and> bb_pc h = -1
     then then_m (modify_m (upd_bb head (\<lambda>h. h\<lparr>bb_s := fill, bb_pc := pcv\<rparr>))) (return_m (Some head))
     else bind_m (bb_new (bb_s h) (bb_pc h) (bb_next h)) (\<lambda>bb. case bb of
        None \<Rightarrow> return_m None
      | Some b \<Rightarrow> then_m (modify_m (upd_bb head (\<lambda>h. h\<lparr>bb_s := fill, bb_pc := pcv, bb_next := b\<rparr>)))
                         (return_m (Some head))))"

text \<open>
  The loop of \<open>bb_find\<close>. A chain has at most one element per element of the pool; a walk that takes
  more steps goes round a cycle and never ends, which the model does not tell from an abort.
\<close>

primrec bb_walk :: "nat \<Rightarrow> tcache \<Rightarrow> u64 \<Rightarrow> bb_ptr \<Rightarrow> bb_ptr option option" where
  "bb_walk 0 t pcv bb = None"
| "bb_walk (Suc n) t pcv bb = (let next = bb_next (bb_mem t bb) in
     if next = BB_M1 then Some None
     else if \<not> bb_valid t next then None
     else if bb_pc (bb_mem t next) = pcv then Some (Some next)
     else bb_walk n t pcv next)"

definition swap_bb :: "bb_ptr \<Rightarrow> bb_ptr \<Rightarrow> tcache \<Rightarrow> tcache" where
  "swap_bb head bb t =
     upd_bb head (\<lambda>h. h\<lparr>bb_s := bb_s (bb_mem t bb), bb_pc := bb_pc (bb_mem t bb)\<rparr>)
    (upd_bb bb (\<lambda>b. b\<lparr>bb_s := bb_s (bb_mem t head), bb_pc := bb_pc (bb_mem t head)\<rparr>) t)"

definition bb_find :: "u64 \<Rightarrow> bb_ptr option tc" where
  "bb_find pcv = with_m (\<lambda>t. let head = bb_hash t pcv in
     if bb_pc (bb_mem t head) = pcv then return_m (Some head)
     else (case bb_walk (BB_POOL_SIZE t + 1) t pcv head of
        None \<Rightarrow> panic_m
      | Some None \<Rightarrow> return_m None
      | Some (Some bb) \<Rightarrow> then_m (modify_m (swap_bb head bb)) (return_m (Some head))))"

section \<open>Linking blocks\<close>

definition tcache_bb_fetch :: "dptr \<Rightarrow> bool \<Rightarrow> u64 \<Rightarrow> unit tc" where
  "tcache_bb_fetch this is_taken jpc = bind_m (bb_find jpc) (\<lambda>bb. case bb of
     Some b \<Rightarrow> with_m (\<lambda>t. let s = bb_s (bb_mem t b) in
       if is_taken then store this (\<lambda>e. e\<lparr>tnext := s\<rparr>) else store this (\<lambda>e. e\<lparr>ntnext := s\<rparr>))
   | None \<Rightarrow> bind_m (tcache_bb_new jpc) (\<lambda>ret.
       then_m (if is_taken
               then then_m (store ret (\<lambda>e. e\<lparr>tdec := (tdec e)\<lparr>dec_type := BB_RECORD_TYPE_TAKEN\<rparr>\<rparr>))
                           (store this (\<lambda>e. e\<lparr>tnext := ret\<rparr>))
               else then_m (store ret (\<lambda>e. e\<lparr>tdec := (tdec e)\<lparr>dec_type := BB_RECORD_TYPE_NTAKEN\<rparr>\<rparr>))
                           (store this (\<lambda>e. e\<lparr>ntnext := ret\<rparr>)))
              (store ret (\<lambda>e. e\<lparr>ntnext := this\<rparr>))))"

text \<open>
  \<open>tcache_flush\<close>: \<open>memset\<close> fills every field of \<open>bb_list\<close> with ones, and the records form the free list
  in the order of the pool.
\<close>

definition tcache_flush :: "tcache \<Rightarrow> tcache" where
  "tcache_flush t = t\<lparr>tc_idx := 0, bb_idx := 0,
     bb_mem := (\<lambda>p. case p of BB_LIST k \<Rightarrow> \<lparr>bb_s = D_M1, bb_next = BB_M1, bb_pc = -1\<rparr> | _ \<Rightarrow> bb_mem t p),
     tpool := (\<lambda>p. case p of
        BB j \<Rightarrow> (tpool t p)\<lparr>tnext := (if j < TCACHE_BB_SIZE t - 1 then BB (j + 1) else D_NULL)\<rparr>
      | _ \<Rightarrow> tpool t p),
     tcache_bb_freelist := BB 0\<rparr>"

definition tcache_jr_fetch :: "dptr \<Rightarrow> u64 \<Rightarrow> dptr tc" where
  "tcache_jr_fetch s jpc =
     then_m (store s (\<lambda>e. e\<lparr>ntnext := tnext e\<rparr>))
    (then_m (tcache_bb_fetch s True jpc) (load s tnext))"

definition tcache_patch_and_free :: "dptr \<Rightarrow> dptr \<Rightarrow> unit tc" where
  "tcache_patch_and_free bb_record bb = bind_m (load bb_record (\<lambda>e. (ntnext e, dec_type (tdec e)))) (\<lambda>(src, type).
     then_m (when_m (type = BB_RECORD_TYPE_TAKEN) (store src (\<lambda>e. e\<lparr>tnext := bb\<rparr>)))
    (then_m (when_m (type = BB_RECORD_TYPE_NTAKEN) (store src (\<lambda>e. e\<lparr>ntnext := bb\<rparr>)))
            (tcache_bb_free bb_record)))"

definition save_globals :: "dptr \<Rightarrow> tcache \<Rightarrow> tcache" where
  "save_globals s t = t\<lparr>prev_s := s\<rparr>"

text \<open>
  \<open>fetch_decode(s, pc)\<close> on an entry of the pool, which takes the place of the structure \<open>dec\<close> of the
  machine while it runs; \<open>EHelper\<close> is written when it returns.
\<close>

definition fetch_decode_at :: "dptr \<Rightarrow> u64 \<Rightarrow> unit tc" where
  "fetch_decode_at s pcv t = (case fetch_decode pcv ((mach t)\<lparr>dec := tdec (tpool t s)\<rparr>) of (r, m) \<Rightarrow>
     let t' = upd_ent s (\<lambda>e. e\<lparr>tdec := dec m\<rparr>) (t\<lparr>mach := m\<rparr>)
     in (case r of
          Ret idx \<Rightarrow> (Ret (), upd_ent s (\<lambda>e. e\<lparr>EHelper := Exec_label idx\<rparr>) t')
        | Exn e \<Rightarrow> (Exn e, t') | Jmp c \<Rightarrow> (Jmp c, t') | Abort \<Rightarrow> (Abort, t')))"

section \<open>Decoding\<close>

text \<open>The label \<open>full\<close> of \<open>tcache_decode\<close>; it ends in \<open>longjmp_exec(NEMU_EXEC_AGAIN)\<close>.\<close>

definition tcache_full :: "u64 \<Rightarrow> dptr tc" where
  "tcache_full thispc =
     then_m (modify_m tcache_flush) (bind_m (tcache_bb_new thispc) (\<lambda>s. with_m (\<lambda>t.
     then_m (store s (\<lambda>e. e\<lparr>tdec := (tdec e)\<lparr>dec_idx_in_bb := ucast (idx_in_bb t)\<rparr>\<rparr>))
    (then_m (modify_m (save_globals s))
    (then_m (modify_m (\<lambda>t. t\<lparr>bb_now := D_NULL, bb_now_record := D_NULL, tcache_state := TCACHE_RUNNING\<rparr>))
            (\<lambda>t. (Jmp NEMU_EXEC_AGAIN, t)))))))"

text \<open>The switch on the type of the last instruction of a block.\<close>

definition link_block :: "dptr \<Rightarrow> Decode \<Rightarrow> unit tc" where
  "link_block s d = (case dec_type d of
      INSTR_TYPE_J \<Rightarrow> tcache_bb_fetch s True (dec_jnpc d)
    | INSTR_TYPE_B \<Rightarrow> then_m (tcache_bb_fetch s True (dec_jnpc d)) (tcache_bb_fetch s False (dec_snpc d))
    | INSTR_TYPE_I \<Rightarrow> store s (\<lambda>e. e\<lparr>tnext := s, ntnext := s\<rparr>)
    | INSTR_TYPE_N \<Rightarrow> panic_m)"

text \<open>The end of a basic block.\<close>

definition tcache_end_bb :: "dptr \<Rightarrow> u64 \<Rightarrow> unit tc" where
  "tcache_end_bb s thispc = with_m (\<lambda>t. let now = bb_now t; record = bb_now_record t; d = tdec (tpool t s) in
     bind_m (load now (\<lambda>e. dec_pc (tdec e))) (\<lambda>pcv. bind_m (bb_insert pcv now) (\<lambda>ret. case ret of
        None \<Rightarrow> then_m (tcache_full thispc) (return_m ())
      | Some _ \<Rightarrow>
          then_m (tcache_patch_and_free record now)
         (then_m (modify_m (\<lambda>t. t\<lparr>bb_now := D_NULL, bb_now_record := D_NULL\<rparr>))
         (then_m (link_block s d)
                 (modify_m (\<lambda>t. t\<lparr>tcache_state := TCACHE_RUNNING\<rparr>)))))))"

fun next_entry :: "dptr \<Rightarrow> dptr" where
  "next_entry (TC i) = TC (i + 1)"
| "next_entry (BB j) = BB (j + 1)"
| "next_entry p = p"

text \<open>What \<open>tcache_decode\<close> does with the instruction it has decoded.\<close>

definition tcache_extend_bb :: "dptr \<Rightarrow> u64 \<Rightarrow> unit tc" where
  "tcache_extend_bb s thispc = bind_m (load s tdec) (\<lambda>d.
     if dec_type d = INSTR_TYPE_N
     then bind_m (tcache_new (dec_snpc d)) (\<lambda>next.
            if next = D_NULL then then_m (tcache_full thispc) (return_m ())
            else assert_m (next = next_entry s))
     else tcache_end_bb s thispc)"

text \<open>From \<open>save_globals(s)\<close> to the end of \<open>tcache_decode\<close>.\<close>

definition tcache_decode_instr :: "dptr \<Rightarrow> u64 \<Rightarrow> dptr tc" where
  "tcache_decode_instr s thispc =
     then_m (modify_m (save_globals s))
    (then_m (with_m (\<lambda>t. store s (\<lambda>e. e\<lparr>tdec := (tdec e)\<lparr>dec_idx_in_bb := ucast (idx_in_bb t)\<rparr>\<rparr>)))
    (then_m (fetch_decode_at s thispc)
    (then_m (tcache_extend_bb s thispc)
    (then_m (modify_m (\<lambda>t. t\<lparr>idx_in_bb := idx_in_bb t + 1\<rparr>))
            (return_m s)))))"

definition tcache_decode :: "dptr \<Rightarrow> dptr tc" where
  "tcache_decode s = bind_m (load s (\<lambda>e. dec_pc (tdec e))) (\<lambda>thispc. with_m (\<lambda>t.
     if tcache_state t = TCACHE_RUNNING
     then bind_m (bb_find thispc) (\<lambda>bb. case bb of
        Some b \<Rightarrow> with_m (\<lambda>t. let q = bb_s (bb_mem t b) in then_m (tcache_patch_and_free s q) (return_m q))
      | None \<Rightarrow> bind_m (tcache_new thispc) (\<lambda>s'.
          then_m (modify_m (\<lambda>t. t\<lparr>idx_in_bb := 1\<rparr>))
         (if s' = D_NULL then tcache_full thispc
          else then_m (modify_m (\<lambda>t. t\<lparr>bb_now_record := s, bb_now := s', tcache_state := TCACHE_BB_BUILDING\<rparr>))
                      (tcache_decode_instr s' thispc))))
     else tcache_decode_instr s thispc))"

section \<open>What the main loop calls\<close>

definition tcache_handle_exception :: "u64 \<Rightarrow> unit tc" where
  "tcache_handle_exception jpc =
     then_m (tcache_bb_fetch D_EX True jpc) (bind_m (load D_EX tnext) (\<lambda>s.
     then_m (modify_m (save_globals s)) (modify_m (\<lambda>t. t\<lparr>tcache_state := TCACHE_RUNNING\<rparr>))))"

definition tcache_handle_flush :: "u64 \<Rightarrow> dptr tc" where
  "tcache_handle_flush snpc =
     then_m (modify_m tcache_flush) (then_m (tcache_handle_exception snpc) (load D_EX tnext))"

definition tcache_init :: "u64 \<Rightarrow> dptr tc" where
  "tcache_init reset_vector = then_m (modify_m tcache_flush) (tcache_bb_new reset_vector)"

definition jr_fetch :: "dptr \<Rightarrow> u64 \<Rightarrow> dptr tc" where
  "jr_fetch s target = bind_m (load s (\<lambda>e. (tnext e, ntnext e))) (\<lambda>(t, nt).
     bind_m (load t (\<lambda>e. dec_pc (tdec e))) (\<lambda>tpc.
     if tpc = target then return_m t
     else bind_m (load nt (\<lambda>e. dec_pc (tdec e))) (\<lambda>ntpc.
     if ntpc = target then return_m nt else tcache_jr_fetch s target)))"

end
