(* ===== verification/Tcache_Table.thy ===== *)
theory Tcache_Table
  imports Tcache
begin

text \<open>
  The hash table of decoded basic blocks is a map from addresses to entries: finding a block moves it
  to the front of its bucket and leaves the map alone, inserting one extends the map or reports that
  the pool is exhausted.
\<close>

section \<open>The table is a map\<close>

primrec bb_chain :: "(bb_ptr \<Rightarrow> bb_t) \<Rightarrow> bb_ptr \<Rightarrow> nat list \<Rightarrow> bool" where
  "bb_chain h p [] \<longleftrightarrow> p = BB_M1"
| "bb_chain h p (n # ns) \<longleftrightarrow> p = BB_POOL n \<and> bb_chain h (bb_next (h (BB_POOL n))) ns"

lemma bb_chain_cong:
  "(\<And>n. n \<in> set ns \<Longrightarrow> bb_next (h (BB_POOL n)) = bb_next (h' (BB_POOL n))) \<Longrightarrow> bb_chain h p ns = bb_chain h' p ns"
  by (induction ns arbitrary: p) auto

definition bb_bucket :: "tcache \<Rightarrow> u64 \<Rightarrow> nat" where
  "bb_bucket t pcv = unat (pcv div 2) mod BB_LIST_SIZE t"

definition bb_nodes :: "(nat \<Rightarrow> nat list) \<Rightarrow> nat \<Rightarrow> bb_ptr set" where
  "bb_nodes f k = insert (BB_LIST k) (BB_POOL ` set (f k))"

text \<open>
  One bucket: its chain runs through the pool elements \<open>f k\<close>, an empty head ends it, and the elements
  have different addresses, all of this bucket.
\<close>

definition bucket_ok :: "tcache \<Rightarrow> (nat \<Rightarrow> nat list) \<Rightarrow> nat \<Rightarrow> bool" where
  "bucket_ok t f k \<longleftrightarrow> bb_chain (bb_mem t) (bb_next (bb_mem t (BB_LIST k))) (f k) \<and> distinct (f k) \<and>
     set (f k) \<subseteq> {..<bb_idx t} \<and> (bb_pc (bb_mem t (BB_LIST k)) = -1 \<longrightarrow> f k = []) \<and>
     (\<forall>n\<in>set (f k). bb_pc (bb_mem t (BB_POOL n)) \<noteq> -1) \<and>
     (\<forall>p\<in>bb_nodes f k. bb_pc (bb_mem t p) \<noteq> -1 \<longrightarrow> bb_bucket t (bb_pc (bb_mem t p)) = k) \<and>
     inj_on (\<lambda>p. bb_pc (bb_mem t p)) (bb_nodes f k)"

definition table_ok :: "tcache \<Rightarrow> (nat \<Rightarrow> nat list) \<Rightarrow> bool" where
  "table_ok t f \<longleftrightarrow> BB_LIST_SIZE t > 0 \<and> bb_idx t \<le> BB_POOL_SIZE t \<and> (\<forall>k<BB_LIST_SIZE t. bucket_ok t f k) \<and>
     (\<forall>k<BB_LIST_SIZE t. \<forall>l<BB_LIST_SIZE t. k \<noteq> l \<longrightarrow> set (f k) \<inter> set (f l) = {})"

definition table_map :: "tcache \<Rightarrow> (nat \<Rightarrow> nat list) \<Rightarrow> u64 \<Rightarrow> dptr \<Rightarrow> bool" where
  "table_map t f pcv s \<longleftrightarrow> pcv \<noteq> -1 \<and>
     (\<exists>p\<in>bb_nodes f (bb_bucket t pcv). bb_pc (bb_mem t p) = pcv \<and> bb_s (bb_mem t p) = s)"

definition represents :: "tcache \<Rightarrow> (u64 \<rightharpoonup> dptr) \<Rightarrow> bool" where
  "represents t M \<longleftrightarrow> (\<exists>f. table_ok t f \<and> (\<forall>pcv s. M pcv = Some s \<longleftrightarrow> table_map t f pcv s))"

lemma bb_hash_bucket: "bb_hash t pcv = BB_LIST (bb_bucket t pcv)"
  by (simp add: bb_hash_def bb_bucket_def)

lemma bb_bucket_less: "table_ok t f \<Longrightarrow> bb_bucket t pcv < BB_LIST_SIZE t"
  by (simp add: table_ok_def bb_bucket_def)

lemma bb_walk_chain:
  assumes "bb_chain (bb_mem t) (bb_next (bb_mem t p)) ns" "length ns < fuel" "\<forall>n\<in>set ns. n < BB_POOL_SIZE t"
  shows "bb_walk fuel t pcv p = Some (map_option BB_POOL (find (\<lambda>n. bb_pc (bb_mem t (BB_POOL n)) = pcv) ns))"
  using assms
proof (induction ns arbitrary: p fuel)
  case Nil
  then show ?case by (cases fuel) simp_all
next
  case (Cons n ns)
  then obtain fu where "fuel = Suc fu" "length ns < fu" by (cases fuel) simp_all
  with Cons show ?case by (auto simp: Let_def)
qed

lemma chain_length: "bucket_ok t f k \<Longrightarrow> length (f k) \<le> bb_idx t"
  unfolding bucket_ok_def by (metis card_lessThan card_mono distinct_card finite_lessThan)

lemma bb_find_walk:
  assumes "table_ok t f" "k = bb_bucket t pcv"
  shows "bb_walk (BB_POOL_SIZE t + 1) t pcv (BB_LIST k) =
    Some (map_option BB_POOL (find (\<lambda>n. bb_pc (bb_mem t (BB_POOL n)) = pcv) (f k)))"
proof -
  have b: "bucket_ok t f k" "bb_idx t \<le> BB_POOL_SIZE t"
    using assms bb_bucket_less [OF assms(1), of pcv] by (simp_all add: table_ok_def)
  then have "length (f k) < BB_POOL_SIZE t + 1" "\<forall>n\<in>set (f k). n < BB_POOL_SIZE t"
    using chain_length [OF b(1)] by (auto simp: bucket_ok_def)
  with b(1) show ?thesis by (intro bb_walk_chain) (simp_all add: bucket_ok_def)
qed

text \<open>What an operation of the table leaves alone, except that it may take elements of the pool.\<close>

definition table_step :: "tcache \<Rightarrow> tcache \<Rightarrow> bool" where
  "table_step t t' \<longleftrightarrow> t' = t\<lparr>bb_mem := bb_mem t', bb_idx := bb_idx t'\<rparr>"

lemma swap_bb_simps [simp]:
  "bb_next (bb_mem (swap_bb h q t) p) = bb_next (bb_mem t p)" "bb_idx (swap_bb h q t) = bb_idx t"
  "BB_LIST_SIZE (swap_bb h q t) = BB_LIST_SIZE t" "BB_POOL_SIZE (swap_bb h q t) = BB_POOL_SIZE t"
  "bb_pc (bb_mem (swap_bb h q t) p) = (if p = h then bb_pc (bb_mem t q) else if p = q then bb_pc (bb_mem t h) else bb_pc (bb_mem t p))"
  "bb_s (bb_mem (swap_bb h q t) p) = (if p = h then bb_s (bb_mem t q) else if p = q then bb_s (bb_mem t h) else bb_s (bb_mem t p))"
  "bb_bucket (swap_bb h q t) pcv = bb_bucket t pcv" "table_step t (swap_bb h q t)"
  by (auto simp: swap_bb_def upd_bb_def bb_bucket_def table_step_def)

lemma bb_chain_swap [simp]: "bb_chain (bb_mem (swap_bb h q t)) p ns = bb_chain (bb_mem t) p ns"
  by (rule bb_chain_cong) simp

lemma inj_on_swap:
  assumes "inj_on g A" "h \<in> A" "q \<in> A"
  shows "inj_on (\<lambda>p. if p = h then g q else if p = q then g h else g p) A"
  using assms unfolding inj_on_def by (smt (verit, best))

lemma bb_nodes_other: "k \<noteq> l \<Longrightarrow> BB_LIST l \<notin> bb_nodes f k"
  by (auto simp: bb_nodes_def)

text \<open>A bucket whose elements are not written.\<close>

lemma bucket_frame:
  assumes "bucket_ok t f l" "f' l = f l" "\<And>p. p \<in> bb_nodes f l \<Longrightarrow> bb_mem t' p = bb_mem t p"
    "bb_idx t \<le> bb_idx t'" "BB_LIST_SIZE t' = BB_LIST_SIZE t"
  shows "bucket_ok t' f' l"
proof -
  have n: "bb_nodes f' l = bb_nodes f l" using assms(2) by (simp add: bb_nodes_def)
  have "BB_LIST l \<in> bb_nodes f l" "\<And>n. n \<in> set (f l) \<Longrightarrow> BB_POOL n \<in> bb_nodes f l" by (simp_all add: bb_nodes_def)
  then have m: "bb_mem t' (BB_LIST l) = bb_mem t (BB_LIST l)"
    "\<And>n. n \<in> set (f l) \<Longrightarrow> bb_mem t' (BB_POOL n) = bb_mem t (BB_POOL n)"
    using assms(3) by blast+
  then have "bb_chain (bb_mem t') q (f l) = bb_chain (bb_mem t) q (f l)" for q by (intro bb_chain_cong) simp
  moreover have "inj_on (\<lambda>p. bb_pc (bb_mem t' p)) (bb_nodes f l) = inj_on (\<lambda>p. bb_pc (bb_mem t p)) (bb_nodes f l)"
    using assms(3) by (intro inj_on_cong) simp
  moreover have "bb_bucket t' x = bb_bucket t x" for x using assms(5) by (simp add: bb_bucket_def)
  ultimately show ?thesis using assms m n by (auto simp: bucket_ok_def)
qed

lemma table_map_frame:
  assumes "f' (bb_bucket t x) = f (bb_bucket t x)" "BB_LIST_SIZE t' = BB_LIST_SIZE t"
    "\<And>p. p \<in> bb_nodes f (bb_bucket t x) \<Longrightarrow> bb_mem t' p = bb_mem t p"
  shows "table_map t' f' x s = table_map t f x s"
proof -
  have "bb_bucket t' x = bb_bucket t x" using assms(2) by (simp add: bb_bucket_def)
  then show ?thesis using assms(1,3) by (auto simp: table_map_def bb_nodes_def)
qed

lemma pool_other:
  assumes "table_ok t f" "k < BB_LIST_SIZE t" "n \<in> set (f k)" "l < BB_LIST_SIZE t" "l \<noteq> k"
  shows "BB_LIST k \<notin> bb_nodes f l" "BB_POOL n \<notin> bb_nodes f l"
proof -
  have "set (f k) \<inter> set (f l) = {}" using assms unfolding table_ok_def by metis
  with assms(3,5) show "BB_LIST k \<notin> bb_nodes f l" "BB_POOL n \<notin> bb_nodes f l" by (auto simp: bb_nodes_def)
qed

lemma Bex_swap:
  "(\<And>p. p \<in> A \<Longrightarrow> x p \<in> A) \<Longrightarrow> (\<And>p. P' p = P (x p)) \<Longrightarrow> (\<And>p. P p = P' (x p)) \<Longrightarrow> (\<exists>p\<in>A. P' p) = (\<exists>p\<in>A. P p)"
  by blast

lemma swap_table:
  assumes ok: "table_ok t f" and k: "k < BB_LIST_SIZE t" and n: "n \<in> set (f k)"
  shows "table_ok (swap_bb (BB_LIST k) (BB_POOL n) t) f"
    "table_map (swap_bb (BB_LIST k) (BB_POOL n) t) f pcv s = table_map t f pcv s"
proof -
  let ?t = "swap_bb (BB_LIST k) (BB_POOL n) t"
  have bk: "bucket_ok t f k" using ok k by (simp add: table_ok_def)
  have mem: "BB_LIST k \<in> bb_nodes f k" "BB_POOL n \<in> bb_nodes f k" using n by (simp_all add: bb_nodes_def)
  have ne: "bb_pc (bb_mem t (BB_LIST k)) \<noteq> -1" "bb_pc (bb_mem t (BB_POOL n)) \<noteq> -1"
    using bk n mem by (auto simp: bucket_ok_def)
  have other: "bb_mem ?t p = bb_mem t p" if "l < BB_LIST_SIZE t" "l \<noteq> k" "p \<in> bb_nodes f l" for l p
    using pool_other [OF ok k n that(1,2)] that(3) by (auto simp: swap_bb_def upd_bb_def)
  have same: "bucket_ok ?t f k"
  proof -
    have inj: "inj_on (\<lambda>p. bb_pc (bb_mem ?t p)) (bb_nodes f k)"
      unfolding swap_bb_simps using bk by (intro inj_on_swap [OF _ mem]) (simp add: bucket_ok_def)
    have "bb_bucket t (bb_pc (bb_mem t (BB_LIST k))) = k" "bb_bucket t (bb_pc (bb_mem t (BB_POOL n))) = k"
      using bk mem ne by (auto simp: bucket_ok_def)
    then have "\<forall>p\<in>bb_nodes f k. bb_pc (bb_mem ?t p) \<noteq> -1 \<longrightarrow> bb_bucket ?t (bb_pc (bb_mem ?t p)) = k"
      "\<forall>n'\<in>set (f k). bb_pc (bb_mem ?t (BB_POOL n')) \<noteq> -1"
      using bk ne by (simp_all add: bucket_ok_def)
    with inj ne bk show ?thesis by (simp add: bucket_ok_def)
  qed
  have "bucket_ok ?t f l" if "l < BB_LIST_SIZE t" for l
    using same bucket_frame [of t f l f ?t] other that ok by (cases "l = k") (simp_all add: table_ok_def)
  then show "table_ok ?t f" using ok by (simp add: table_ok_def)
  show "table_map ?t f pcv s = table_map t f pcv s"
  proof (cases "bb_bucket t pcv = k")
    case True
    let ?x = "\<lambda>p. if p = BB_LIST k then BB_POOL n else if p = BB_POOL n then BB_LIST k else p"
    have "(\<exists>p\<in>bb_nodes f k. bb_pc (bb_mem ?t p) = pcv \<and> bb_s (bb_mem ?t p) = s) =
      (\<exists>p\<in>bb_nodes f k. bb_pc (bb_mem t p) = pcv \<and> bb_s (bb_mem t p) = s)"
      by (rule Bex_swap [where x = ?x]) (simp_all add: mem)
    with True show ?thesis by (simp add: table_map_def)
  next
    case False
    with other [OF bb_bucket_less [OF ok]] show ?thesis by (intro table_map_frame) simp_all
  qed
qed

lemma bb_find_spec:
  assumes rep: "represents t M" and pcv: "pcv \<noteq> -1"
  shows "case M pcv of
      None \<Rightarrow> bb_find pcv t = (Ret None, t)
    | Some s \<Rightarrow> \<exists>p t'. bb_find pcv t = (Ret (Some p), t') \<and> bb_s (bb_mem t' p) = s \<and>
        represents t' M \<and> table_step t t'"
proof -
  obtain f where ok: "table_ok t f" and M: "\<And>pcv s. M pcv = Some s \<longleftrightarrow> table_map t f pcv s"
    using rep by (auto simp: represents_def)
  define k where "k = bb_bucket t pcv"
  have k: "k < BB_LIST_SIZE t" unfolding k_def using ok by (rule bb_bucket_less)
  then have bk: "bucket_ok t f k" using ok by (simp add: table_ok_def)
  let ?h = "BB_LIST k"
  consider (head) "bb_pc (bb_mem t ?h) = pcv"
    | (found) n where "bb_pc (bb_mem t ?h) \<noteq> pcv" "find (\<lambda>n. bb_pc (bb_mem t (BB_POOL n)) = pcv) (f k) = Some n"
    | (none) "bb_pc (bb_mem t ?h) \<noteq> pcv" "find (\<lambda>n. bb_pc (bb_mem t (BB_POOL n)) = pcv) (f k) = None"
    by (meson option.exhaust)
  then show ?thesis
  proof cases
    case head
    then have "M pcv = Some (bb_s (bb_mem t ?h))"
      using pcv by (auto simp: M table_map_def bb_nodes_def k_def)
    moreover have "bb_find pcv t = (Ret (Some ?h), t)"
      using head by (simp add: bb_find_def Let_def bb_hash_bucket k_def monad_simps)
    ultimately show ?thesis using rep by (auto simp: table_step_def)
  next
    case found
    then have n: "n \<in> set (f k)" "bb_pc (bb_mem t (BB_POOL n)) = pcv" by (auto simp: find_Some_iff)
    then have "M pcv = Some (bb_s (bb_mem t (BB_POOL n)))"
      using pcv by (auto simp: M table_map_def bb_nodes_def k_def)
    moreover have "bb_find pcv t = (Ret (Some ?h), swap_bb ?h (BB_POOL n) t)"
      using found bb_find_walk [OF ok refl, of pcv]
      by (simp add: bb_find_def Let_def bb_hash_bucket k_def monad_simps)
    moreover have "represents (swap_bb ?h (BB_POOL n) t) M"
      unfolding represents_def using swap_table [OF ok k n(1)] M by auto
    ultimately show ?thesis by auto
  next
    case none
    then have "M pcv = None"
    proof -
      have "\<not> table_map t f pcv s" for s
        using none by (auto simp: table_map_def bb_nodes_def find_None_iff simp flip: k_def)
      then show ?thesis using M by (metis not_Some_eq)
    qed
    moreover have "bb_find pcv t = (Ret None, t)"
      using none bb_find_walk [OF ok refl, of pcv]
      by (simp add: bb_find_def Let_def bb_hash_bucket k_def monad_simps)
    ultimately show ?thesis by simp
  qed
qed

text \<open>Inserting: an empty head takes the block, otherwise the head moves into the pool.\<close>

lemma insert_head:
  fixes fill :: dptr
  assumes ok: "table_ok t f" and k: "k = bb_bucket t pcv" and pcv: "pcv \<noteq> -1" and e: "bb_pc (bb_mem t (BB_LIST k)) = -1"
  defines "t' \<equiv> upd_bb (BB_LIST k) (\<lambda>h. h\<lparr>bb_s := fill, bb_pc := pcv\<rparr>) t"
  shows "table_ok t' f" "table_map t' f x s \<longleftrightarrow> (if x = pcv then s = fill else table_map t f x s)"
proof -
  have kl: "k < BB_LIST_SIZE t" unfolding k using ok by (rule bb_bucket_less)
  then have bk: "bucket_ok t f k" using ok by (simp add: table_ok_def)
  then have nil: "f k = []" using e by (simp add: bucket_ok_def)
  have [simp]: "bb_bucket t' x = bb_bucket t x" "BB_LIST_SIZE t' = BB_LIST_SIZE t" "bb_idx t' = bb_idx t"
    "BB_POOL_SIZE t' = BB_POOL_SIZE t" "bb_next (bb_mem t' p) = bb_next (bb_mem t p)" for x p
    by (simp_all add: t'_def upd_bb_def bb_bucket_def)
  have m: "p \<noteq> BB_LIST k \<Longrightarrow> bb_mem t' p = bb_mem t p" "bb_pc (bb_mem t' (BB_LIST k)) = pcv"
    "bb_s (bb_mem t' (BB_LIST k)) = fill" for p
    by (simp_all add: t'_def upd_bb_def)
  have other: "p \<in> bb_nodes f l \<Longrightarrow> l \<noteq> k \<Longrightarrow> bb_mem t' p = bb_mem t p" for p l
    using m(1) bb_nodes_other by metis
  have "bucket_ok t' f k" using bk nil m k pcv by (simp add: bucket_ok_def bb_nodes_def)
  then have "bucket_ok t' f l" if "l < BB_LIST_SIZE t" for l
    using bucket_frame [of t f l f t'] other that ok by (cases "l = k") (simp_all add: table_ok_def)
  then show "table_ok t' f" using ok by (simp add: table_ok_def)
  show "table_map t' f x s \<longleftrightarrow> (if x = pcv then s = fill else table_map t f x s)"
  proof (cases "bb_bucket t x = k")
    case True
    then show ?thesis using m nil pcv e k by (auto simp: table_map_def bb_nodes_def)
  next
    case False
    then have "x \<noteq> pcv" using k by auto
    with False other show ?thesis using table_map_frame [of f t x f t'] by simp
  qed
qed

lemma insert_pool:
  fixes fill :: dptr
  assumes ok: "table_ok t f" and k: "k = bb_bucket t pcv" and pcv: "pcv \<noteq> -1"
    and e: "bb_pc (bb_mem t (BB_LIST k)) \<noteq> -1" and new: "\<And>s. \<not> table_map t f pcv s" and room: "bb_idx t < BB_POOL_SIZE t"
  defines "n \<equiv> bb_idx t"
  defines "f' \<equiv> f(k := n # f k)"
  defines "t' \<equiv> upd_bb (BB_LIST k) (\<lambda>h. h\<lparr>bb_s := fill, bb_pc := pcv, bb_next := BB_POOL n\<rparr>)
     ((upd_bb (BB_POOL n) (\<lambda>_. \<lparr>bb_s = bb_s (bb_mem t (BB_LIST k)), bb_next = bb_next (bb_mem t (BB_LIST k)),
         bb_pc = bb_pc (bb_mem t (BB_LIST k))\<rparr>) t)\<lparr>bb_idx := n + 1\<rparr>)"
  shows "table_ok t' f'" "table_map t' f' x s \<longleftrightarrow> (if x = pcv then s = fill else table_map t f x s)"
proof -
  have kl: "k < BB_LIST_SIZE t" unfolding k using ok by (rule bb_bucket_less)
  have bo: "l < BB_LIST_SIZE t \<Longrightarrow> bucket_ok t f l" for l using ok by (simp add: table_ok_def)
  then have fresh: "l < BB_LIST_SIZE t \<Longrightarrow> n \<notin> set (f l)" for l by (auto simp: bucket_ok_def n_def)
  have bk: "bucket_ok t f k" by (rule bo [OF kl])
  have [simp]: "bb_bucket t' x = bb_bucket t x" "BB_LIST_SIZE t' = BB_LIST_SIZE t" "bb_idx t' = n + 1"
    "BB_POOL_SIZE t' = BB_POOL_SIZE t" for x
    by (simp_all add: t'_def upd_bb_def bb_bucket_def)
  have m: "p \<noteq> BB_LIST k \<Longrightarrow> p \<noteq> BB_POOL n \<Longrightarrow> bb_mem t' p = bb_mem t p"
    "bb_mem t' (BB_POOL n) = bb_mem t (BB_LIST k)"
    "bb_pc (bb_mem t' (BB_LIST k)) = pcv" "bb_s (bb_mem t' (BB_LIST k)) = fill"
    "bb_next (bb_mem t' (BB_LIST k)) = BB_POOL n" for p
    by (simp_all add: t'_def upd_bb_def)
  have old: "n' \<in> set (f k) \<Longrightarrow> bb_mem t' (BB_POOL n') = bb_mem t (BB_POOL n')" for n'
    using m(1) [of "BB_POOL n'"] fresh [OF kl] by auto
  have oth: "bb_mem t' p = bb_mem t p" if "l < BB_LIST_SIZE t" "l \<noteq> k" "p \<in> bb_nodes f l" for p l
    using m(1) [of p] fresh [OF that(1)] that(2,3) by (auto simp: bb_nodes_def)
  have fk: "f' k = n # f k" by (simp add: f'_def)
  have nodes: "bb_nodes f' k = insert (BB_LIST k) (insert (BB_POOL n) (BB_POOL ` set (f k)))"
    by (simp add: fk bb_nodes_def)
  have ne: "bb_pc (bb_mem t (BB_LIST k)) \<noteq> pcv" "n' \<in> set (f k) \<Longrightarrow> bb_pc (bb_mem t (BB_POOL n')) \<noteq> pcv" for n'
    using new [unfolded table_map_def] pcv k by (auto simp: bb_nodes_def)
  have old_inj: "inj_on (\<lambda>p. bb_pc (bb_mem t p)) (bb_nodes f k)" using bk by (simp add: bucket_ok_def)
  have same: "bucket_ok t' f' k"
  proof -
    have "inj_on (\<lambda>p. bb_pc (bb_mem t' p)) (bb_nodes f' k)"
      using old_inj ne fresh [OF kl] unfolding inj_on_def nodes by (auto simp: m old bb_nodes_def)
    moreover have "distinct (f' k)" "set (f' k) \<subseteq> {..<n + 1}"
      using bk fresh [OF kl] by (auto simp: fk bucket_ok_def n_def)
    moreover have "bb_chain (bb_mem t') q (f k) = bb_chain (bb_mem t) q (f k)" for q
      by (rule bb_chain_cong) (simp add: old)
    then have "bb_chain (bb_mem t') (bb_next (bb_mem t' (BB_LIST k))) (f' k)"
      using bk by (simp add: m fk bucket_ok_def)
    moreover have "\<forall>p\<in>bb_nodes f' k. bb_pc (bb_mem t' p) \<noteq> -1 \<and> bb_bucket t (bb_pc (bb_mem t' p)) = k"
      using bk e pcv k [symmetric] unfolding nodes by (auto simp: m old bucket_ok_def bb_nodes_def)
    moreover have "n' \<in> set (f' k) \<Longrightarrow> BB_POOL n' \<in> bb_nodes f' k" for n' by (simp add: bb_nodes_def)
    ultimately show ?thesis using m(3) pcv by (simp add: bucket_ok_def)
  qed
  have "bucket_ok t' f' l" if l: "l < BB_LIST_SIZE t" for l
  proof (cases "l = k")
    case False
    then show ?thesis using oth [OF l False] by (intro bucket_frame [OF bo [OF l]]) (simp_all add: f'_def n_def)
  qed (simp add: same)
  moreover have "set (f' a) \<inter> set (f' b) = {}" if "a < BB_LIST_SIZE t" "b < BB_LIST_SIZE t" "a \<noteq> b" for a b
  proof -
    have "set (f a) \<inter> set (f b) = {}" using ok that unfolding table_ok_def by metis
    then show ?thesis using fresh [OF that(1)] fresh [OF that(2)] that(3) by (auto simp: f'_def)
  qed
  ultimately show "table_ok t' f'" using ok room by (simp add: table_ok_def n_def)
  show "table_map t' f' x s \<longleftrightarrow> (if x = pcv then s = fill else table_map t f x s)"
  proof (cases "bb_bucket t x = k")
    case True
    have "(\<exists>p\<in>bb_nodes f' k. bb_pc (bb_mem t' p) = x \<and> bb_s (bb_mem t' p) = s) \<longleftrightarrow>
      pcv = x \<and> fill = s \<or> (\<exists>p\<in>bb_nodes f k. bb_pc (bb_mem t p) = x \<and> bb_s (bb_mem t p) = s)"
      unfolding nodes by (auto simp: m old bb_nodes_def)
    with True show ?thesis using new [of s] pcv by (auto simp: table_map_def)
  next
    case False
    then have "x \<noteq> pcv" "f' (bb_bucket t x) = f (bb_bucket t x)" using k by (auto simp: f'_def)
    with False oth [OF bb_bucket_less [OF ok]] show ?thesis using table_map_frame [of f' t x f t'] by simp
  qed
qed

lemma bb_insert_spec:
  assumes rep: "represents t M" and pcv: "pcv \<noteq> -1" and new: "M pcv = None"
  shows "bb_insert pcv fill t = (Ret None, t) \<and> bb_idx t = BB_POOL_SIZE t \<or>
    (\<exists>p t'. bb_insert pcv fill t = (Ret (Some p), t') \<and> represents t' (M(pcv \<mapsto> fill)) \<and> table_step t t')"
proof -
  obtain f where ok: "table_ok t f" and M: "\<And>pcv s. M pcv = Some s \<longleftrightarrow> table_map t f pcv s"
    using rep by (auto simp: represents_def)
  define k where "k = bb_bucket t pcv"
  have k: "k < BB_LIST_SIZE t" unfolding k_def using ok by (rule bb_bucket_less)
  then have bk: "bucket_ok t f k" using ok by (simp add: table_ok_def)
  have head: "bb_pc (bb_mem t (BB_LIST k)) = -1 \<Longrightarrow> bb_next (bb_mem t (BB_LIST k)) = BB_M1"
    using bk by (auto simp: bucket_ok_def)
  consider (empty) "bb_pc (bb_mem t (BB_LIST k)) = -1"
    | (full) "bb_pc (bb_mem t (BB_LIST k)) \<noteq> -1" "bb_idx t = BB_POOL_SIZE t"
    | (room) "bb_pc (bb_mem t (BB_LIST k)) \<noteq> -1" "bb_idx t < BB_POOL_SIZE t"
    using ok by (fastforce simp: table_ok_def)
  then show ?thesis
  proof cases
    case empty
    have "represents (upd_bb (BB_LIST k) (\<lambda>h. h\<lparr>bb_s := fill, bb_pc := pcv\<rparr>) t) (M(pcv \<mapsto> fill))"
      unfolding represents_def using insert_head [OF ok k_def pcv empty] M by (intro exI [of _ f]) auto
    then show ?thesis using empty head
      by (auto simp: bb_insert_def bb_hash_bucket k_def monad_simps Let_def table_step_def upd_bb_def)
  next
    case full
    then show ?thesis by (simp add: bb_insert_def bb_new_def bb_hash_bucket k_def monad_simps Let_def)
  next
    case room
    have "\<not> table_map t f pcv s" for s using M [of pcv s] new by simp
    from insert_pool [OF ok k_def pcv room(1) this room(2)] M
    have "represents (upd_bb (BB_LIST k) (\<lambda>h. h\<lparr>bb_s := fill, bb_pc := pcv, bb_next := BB_POOL (bb_idx t)\<rparr>)
      ((upd_bb (BB_POOL (bb_idx t)) (\<lambda>_. \<lparr>bb_s = bb_s (bb_mem t (BB_LIST k)), bb_next = bb_next (bb_mem t (BB_LIST k)),
         bb_pc = bb_pc (bb_mem t (BB_LIST k))\<rparr>) t)\<lparr>bb_idx := bb_idx t + 1\<rparr>)) (M(pcv \<mapsto> fill))"
      unfolding represents_def by (intro exI [of _ "f(k := bb_idx t # f k)"]) auto
    then show ?thesis using room
      by (auto simp: bb_insert_def bb_new_def bb_hash_bucket k_def monad_simps Let_def table_step_def upd_bb_def)
  qed
qed

lemma flush_represents: "BB_LIST_SIZE t > 0 \<Longrightarrow> represents (tcache_flush t) Map.empty"
  unfolding represents_def
  by (rule exI [of _ "\<lambda>_. []"]) (auto simp: tcache_flush_def table_ok_def bucket_ok_def bb_nodes_def table_map_def)

end
