(* ===== verification/Tcache_Links.thy ===== *)
theory Tcache_Links
  imports Tcache_Table Step_Laws
begin

text \<open>
  The invariant of the trace cache's links, and that taking, returning, patching and linking entries
  keep it: every link of a decoded jump leads to an entry of the address it jumps to, either a
  decoded block or the record that stands for it, and a record is led to by its source only.
\<close>

section \<open>Running the operations\<close>

text \<open>
  \<open>wp m Q E J t\<close>: if \<open>m\<close> started in \<open>t\<close> returns, it does so with \<open>Q\<close>; if it leaves by an exception or by
  \<open>longjmp_exec\<close>, the state satisfies \<open>E\<close> or \<open>J\<close>.
\<close>

definition wp :: "('s, 'a) nemu \<Rightarrow> ('a \<Rightarrow> 's \<Rightarrow> bool) \<Rightarrow> ('s \<Rightarrow> bool) \<Rightarrow> ('s \<Rightarrow> bool) \<Rightarrow> 's \<Rightarrow> bool" where
  "wp m Q E J t \<longleftrightarrow> (case m t of
     (Ret x, t') \<Rightarrow> Q x t' | (Exn e, t') \<Rightarrow> E t' | (Jmp c, t') \<Rightarrow> J t' | (Abort, t') \<Rightarrow> True)"

named_theorems wp_simps \<open>computing preconditions\<close>

lemma wp_effects [wp_simps]:
  "wp (modify_m f) Q E J t = Q () (f t)" "wp (assert_m b) Q E J t = (b \<longrightarrow> Q () t)"
  by (simp_all add: wp_def monad_simps)

lemma wp_values [wp_simps]:
  "wp panic_m Q E J t" "wp (with_m g) Q E J t = wp (g t) Q E J t"
  by (simp_all add: wp_def monad_simps)

lemma wp_jump [wp_simps]: "wp (\<lambda>t. (Jmp c, t)) Q E J t = J t"
  by (simp add: wp_def)

lemma wp_return [wp_simps]: "wp (return_m x) Q E J = Q x"
  by (rule ext) (simp add: wp_def monad_simps)

lemma wp_bind [wp_simps]: "wp (bind_m m f) Q E J t = wp m (\<lambda>x. wp (f x) Q E J) E J t"
  by (simp add: wp_def bind_m_def split: prod.splits outcome.splits)

lemma wp_then [wp_simps]: "wp (then_m m k) Q E J t = wp m (\<lambda>_. wp k Q E J) E J t"
  by (simp add: then_m_def wp_bind)

lemma wp_when [wp_simps]: "wp (when_m b m) Q E J t = (if b then wp m Q E J t else Q () t)"
  by (simp add: when_m_def wp_return)

lemma wp_mono:
  "wp m Q E J t \<Longrightarrow> (\<And>x t. Q x t \<Longrightarrow> Q' x t) \<Longrightarrow> (\<And>t. E t \<Longrightarrow> E' t) \<Longrightarrow> (\<And>t. J t \<Longrightarrow> J' t) \<Longrightarrow> wp m Q' E' J' t"
  unfolding wp_def by (auto split: prod.splits outcome.splits)

lemma wp_load [wp_simps]: "wp (load p g) Q E J t = (d_valid t p \<longrightarrow> Q (g (tpool t p)) t)"
  by (simp add: load_def wp_simps)

lemma wp_store [wp_simps]: "wp (store p g) Q E J t = (d_valid t p \<longrightarrow> Q () (upd_ent p g t))"
  by (simp add: store_def wp_simps)

lemma upd_ent_simps [simp]:
  "tpool (upd_ent p g t) = (tpool t)(p := g (tpool t p))" "tc_idx (upd_ent p g t) = tc_idx t"
  "TCACHE_SIZE (upd_ent p g t) = TCACHE_SIZE t" "tcache_bb_freelist (upd_ent p g t) = tcache_bb_freelist t"
  "bb_mem (upd_ent p g t) = bb_mem t" "bb_idx (upd_ent p g t) = bb_idx t" "BB_LIST_SIZE (upd_ent p g t) = BB_LIST_SIZE t"
  "BB_POOL_SIZE (upd_ent p g t) = BB_POOL_SIZE t" "tcache_state (upd_ent p g t) = tcache_state t"
  "bb_now (upd_ent p g t) = bb_now t" "bb_now_record (upd_ent p g t) = bb_now_record t" "mach (upd_ent p g t) = mach t"
  "prev_s (upd_ent p g t) = prev_s t" "RT_CHECK (upd_ent p g t) = RT_CHECK t" "idx_in_bb (upd_ent p g t) = idx_in_bb t"
  by (simp_all add: upd_ent_def)

lemma bb_size_simps [simp]:
  "TCACHE_BB_SIZE (upd_ent p g t) = TCACHE_BB_SIZE t" "TCACHE_BB_SIZE (t\<lparr>tcache_bb_freelist := x\<rparr>) = TCACHE_BB_SIZE t"
  "TCACHE_BB_SIZE (t\<lparr>tc_idx := n\<rparr>) = TCACHE_BB_SIZE t" "TCACHE_BB_SIZE (tcache_flush t) = TCACHE_BB_SIZE t"
  "TCACHE_BB_SIZE (t\<lparr>mach := m\<rparr>) = TCACHE_BB_SIZE t" "TCACHE_BB_SIZE (save_globals p t) = TCACHE_BB_SIZE t"
  by (simp_all add: TCACHE_BB_SIZE_def tcache_flush_def save_globals_def)

lemma d_valid_simps [simp]:
  "d_valid (upd_ent p g t) q = d_valid t q" "d_valid (t\<lparr>tcache_bb_freelist := x\<rparr>) q = d_valid t q"
  "d_valid (t\<lparr>tc_idx := n\<rparr>) q = d_valid t q" "d_valid (t\<lparr>mach := m\<rparr>) q = d_valid t q"
  "d_valid (save_globals p t) q = d_valid t q"
  by (cases q, simp_all add: save_globals_def TCACHE_BB_SIZE_def)+

lemma save_globals_simps [simp]:
  "tpool (save_globals p t) = tpool t" "tc_idx (save_globals p t) = tc_idx t" "TCACHE_SIZE (save_globals p t) = TCACHE_SIZE t"
  "tcache_bb_freelist (save_globals p t) = tcache_bb_freelist t" "idx_in_bb (save_globals p t) = idx_in_bb t"
  "prev_s (save_globals p t) = p" "mach (save_globals p t) = mach t" "bb_now (save_globals p t) = bb_now t"
  "bb_now_record (save_globals p t) = bb_now_record t" "tcache_state (save_globals p t) = tcache_state t"
  by (simp_all add: save_globals_def)

lemma flush_idx [simp]: "idx_in_bb (tcache_flush t) = idx_in_bb t"
  by (simp add: tcache_flush_def)

section \<open>The invariant of the links\<close>

abbreviation tpc :: "tcache \<Rightarrow> dptr \<Rightarrow> u64" where "tpc t p \<equiv> dec_pc (tdec (tpool t p))"
abbreviation ttyp :: "tcache \<Rightarrow> dptr \<Rightarrow> instr_type" where "ttyp t p \<equiv> dec_type (tdec (tpool t p))"
abbreviation tjnpc :: "tcache \<Rightarrow> dptr \<Rightarrow> u64" where "tjnpc t p \<equiv> dec_jnpc (tdec (tpool t p))"
abbreviation tsnpc :: "tcache \<Rightarrow> dptr \<Rightarrow> u64" where "tsnpc t p \<equiv> dec_snpc (tdec (tpool t p))"

primrec free_chain :: "(dptr \<Rightarrow> tentry) \<Rightarrow> dptr \<Rightarrow> nat list \<Rightarrow> bool" where
  "free_chain h p [] \<longleftrightarrow> p = D_NULL"
| "free_chain h p (j # js) \<longleftrightarrow> p = BB j \<and> free_chain h (tnext (h (BB j))) js"

text \<open>The last instruction of a block, an instruction followed by the next entry, and a whole rest of a block.\<close>

definition block_end :: "tcache \<Rightarrow> nat \<Rightarrow> bool" where
  "block_end t i \<longleftrightarrow> i < tc_idx t \<and> EHelper (tpool t (TC i)) \<noteq> Exec_nemu_decode \<and> ttyp t (TC i) \<noteq> INSTR_TYPE_N"

definition flows :: "tcache \<Rightarrow> nat \<Rightarrow> bool" where
  "flows t i \<longleftrightarrow> Suc i < tc_idx t \<and> EHelper (tpool t (TC i)) \<noteq> Exec_nemu_decode \<and> ttyp t (TC i) = INSTR_TYPE_N \<and>
     tpc t (TC (Suc i)) = tsnpc t (TC i)"

definition whole :: "tcache \<Rightarrow> nat \<Rightarrow> bool" where
  "whole t i \<longleftrightarrow> (\<exists>j\<ge>i. block_end t j \<and> (\<forall>k. i \<le> k \<longrightarrow> k < j \<longrightarrow> flows t k))"

text \<open>Where a link may lead: a decoded block, or a record in use (\<open>fs\<close> are the free ones).\<close>

definition in_use :: "tcache \<Rightarrow> nat list \<Rightarrow> nat \<Rightarrow> bool" where
  "in_use t fs j \<longleftrightarrow> j < TCACHE_BB_SIZE t \<and> j \<notin> set fs"

definition target :: "tcache \<Rightarrow> nat list \<Rightarrow> dptr \<Rightarrow> bool" where
  "target t fs p \<longleftrightarrow> (\<exists>i. p = TC i \<and> whole t i) \<or> (\<exists>j. p = BB j \<and> in_use t fs j)"

definition tlink :: "tcache \<Rightarrow> nat list \<Rightarrow> nat \<Rightarrow> bool" where
  "tlink t fs i \<longleftrightarrow> (let q = tnext (tpool t (TC i)) in target t fs q \<and>
     (ttyp t (TC i) \<noteq> INSTR_TYPE_I \<longrightarrow> tpc t q = tjnpc t (TC i)) \<and>
     (\<forall>j. q = BB j \<longrightarrow> ttyp t q = BB_RECORD_TYPE_TAKEN \<and> ntnext (tpool t q) = TC i))"

definition ntlink :: "tcache \<Rightarrow> nat list \<Rightarrow> nat \<Rightarrow> bool" where
  "ntlink t fs i \<longleftrightarrow> ttyp t (TC i) \<noteq> INSTR_TYPE_J \<longrightarrow> (let q = ntnext (tpool t (TC i)) in target t fs q \<and>
     (ttyp t (TC i) \<noteq> INSTR_TYPE_I \<longrightarrow> tpc t q = tsnpc t (TC i)) \<and>
     (\<forall>j. q = BB j \<longrightarrow> ttyp t q = BB_RECORD_TYPE_NTAKEN \<and> ntnext (tpool t q) = TC i))"

text \<open>The block a record stands for is where its source goes.\<close>

definition record_ok :: "tcache \<Rightarrow> nat \<Rightarrow> bool" where
  "record_ok t j \<longleftrightarrow> EHelper (tpool t (BB j)) = Exec_nemu_decode \<and>
     (ttyp t (BB j) = BB_RECORD_TYPE_TAKEN \<longrightarrow> ntnext (tpool t (BB j)) = D_EX \<or>
       (\<exists>i. ntnext (tpool t (BB j)) = TC i \<and> block_end t i \<and>
         (ttyp t (TC i) \<noteq> INSTR_TYPE_I \<longrightarrow> tpc t (BB j) = tjnpc t (TC i)))) \<and>
     (ttyp t (BB j) = BB_RECORD_TYPE_NTAKEN \<longrightarrow>
       (\<exists>i. ntnext (tpool t (BB j)) = TC i \<and> block_end t i \<and>
         ttyp t (TC i) = INSTR_TYPE_B \<and> tpc t (BB j) = tsnpc t (TC i)))"

definition records :: "tcache \<Rightarrow> nat list \<Rightarrow> bool" where
  "records t fs \<longleftrightarrow> free_chain (tpool t) (tcache_bb_freelist t) fs \<and> distinct fs \<and>
     (\<forall>j\<in>set fs. j < TCACHE_BB_SIZE t) \<and> (\<forall>j. in_use t fs j \<longrightarrow> record_ok t j) \<and> tc_idx t \<le> TCACHE_SIZE t"

text \<open>The links of all block ends except those of \<open>X\<close> and \<open>Y\<close> are set.\<close>

definition links :: "tcache \<Rightarrow> nat list \<Rightarrow> nat set \<Rightarrow> nat set \<Rightarrow> bool" where
  "links t fs X Y \<longleftrightarrow> records t fs \<and>
     (\<forall>i. block_end t i \<longrightarrow> (i \<notin> X \<longrightarrow> tlink t fs i) \<and> (i \<notin> Y \<longrightarrow> ntlink t fs i))"

definition blocks :: "tcache \<Rightarrow> (u64 \<rightharpoonup> dptr) \<Rightarrow> bool" where
  "blocks t M \<longleftrightarrow> represents t M \<and> (\<forall>pcv p. M pcv = Some p \<longrightarrow> (\<exists>i. p = TC i \<and> whole t i \<and> tpc t p = pcv))"

section \<open>What the operations leave alone\<close>

text \<open>Decoded code: everything about the entries of the pool but their links.\<close>

definition same_code :: "tcache \<Rightarrow> tcache \<Rightarrow> bool" where
  "same_code t t' \<longleftrightarrow> tc_idx t' = tc_idx t \<and> TCACHE_SIZE t' = TCACHE_SIZE t \<and>
     (\<forall>i. EHelper (tpool t' (TC i)) = EHelper (tpool t (TC i)) \<and> tdec (tpool t' (TC i)) = tdec (tpool t (TC i)))"

definition same_table :: "tcache \<Rightarrow> tcache \<Rightarrow> bool" where
  "same_table t t' \<longleftrightarrow> bb_mem t' = bb_mem t \<and> bb_idx t' = bb_idx t \<and> BB_LIST_SIZE t' = BB_LIST_SIZE t \<and>
     BB_POOL_SIZE t' = BB_POOL_SIZE t"

lemma same_codeD:
  assumes "same_code t t'"
  shows "block_end t' i = block_end t i" "flows t' i = flows t i" "whole t' i = whole t i"
    "TCACHE_BB_SIZE t' = TCACHE_BB_SIZE t" "tdec (tpool t' (TC i)) = tdec (tpool t (TC i))"
    "EHelper (tpool t' (TC i)) = EHelper (tpool t (TC i))"
proof -
  show b: "block_end t' i = block_end t i" and f: "flows t' i = flows t i" for i
    using assms by (simp_all add: same_code_def block_end_def flows_def)
  show "whole t' i = whole t i" by (simp add: whole_def b f)
qed (use assms in \<open>simp_all add: same_code_def TCACHE_BB_SIZE_def\<close>)

lemma same_table_represents: "same_table t t' \<Longrightarrow> represents t' M = represents t M"
  by (simp add: same_table_def represents_def table_ok_def bucket_ok_def table_map_def bb_bucket_def)

lemma blocks_same: "same_code t t' \<Longrightarrow> same_table t t' \<Longrightarrow> blocks t M \<Longrightarrow> blocks t' M"
  by (simp add: blocks_def same_table_represents same_codeD) (metis same_codeD(5))


section \<open>Links under the elementary updates\<close>

definition get_link :: "bool \<Rightarrow> tentry \<Rightarrow> dptr" where
  "get_link tk e = (if tk then tnext e else ntnext e)"

definition set_link :: "bool \<Rightarrow> dptr \<Rightarrow> tentry \<Rightarrow> tentry" where
  "set_link tk q e = (if tk then e\<lparr>tnext := q\<rparr> else e\<lparr>ntnext := q\<rparr>)"

lemma set_link_simps [simp]:
  "tdec (set_link tk q e) = tdec e" "EHelper (set_link tk q e) = EHelper e" "get_link tk (set_link tk q e) = q"
  "tnext (set_link tk q e) = (if tk then q else tnext e)" "ntnext (set_link tk q e) = (if tk then ntnext e else q)"
  by (simp_all add: set_link_def get_link_def)

text \<open>The invariant depends on the pools, their free list and the number of entries only.\<close>

lemma tlinks_cong:
  assumes "tpool t' = tpool t" "tc_idx t' = tc_idx t" "TCACHE_SIZE t' = TCACHE_SIZE t"
    "tcache_bb_freelist t' = tcache_bb_freelist t"
  shows "links t' fs X Y = links t fs X Y" "target t' fs p = target t fs p" "in_use t' fs j = in_use t fs j"
    "block_end t' i = block_end t i" "whole t' i = whole t i" "flows t' i = flows t i"
proof -
  have n: "TCACHE_BB_SIZE t' = TCACHE_BB_SIZE t" using assms by (simp add: TCACHE_BB_SIZE_def)
  show u: "in_use t' fs j = in_use t fs j" for j by (simp add: in_use_def n)
  show b: "block_end t' i = block_end t i" and f: "flows t' i = flows t i" for i
    using assms by (simp_all add: block_end_def flows_def)
  show w: "whole t' i = whole t i" for i by (simp add: whole_def b f)
  show g: "target t' fs p = target t fs p" for p by (simp add: target_def w u)
  have "tlink t' fs i = tlink t fs i" "ntlink t' fs i = ntlink t fs i" for i
    using assms by (simp_all add: tlink_def ntlink_def g)
  moreover have "record_ok t' j = record_ok t j" for j using assms by (simp add: record_ok_def b)
  then have "records t' fs = records t fs" using assms by (simp add: records_def u n)
  ultimately show "links t' fs X Y = links t fs X Y" by (simp add: links_def b)
qed

lemma links_upd_code:
  assumes "same_code t t'" "\<And>j. in_use t fs j \<Longrightarrow> tpool t' (BB j) = tpool t (BB j)"
  shows "target t' fs p = target t fs p" "in_use t' fs j = in_use t fs j"
    "target t fs p \<Longrightarrow> tdec (tpool t' p) = tdec (tpool t p)"
  using assms(2) same_codeD [OF assms(1)]
  by (auto simp: target_def in_use_def)

lemma not_free: "target t (j # fs) p \<Longrightarrow> p \<noteq> BB j"
  by (auto simp: target_def in_use_def)

lemma free_chain_cong:
  "(\<And>j. j \<in> set js \<Longrightarrow> tnext (h (BB j)) = tnext (h' (BB j))) \<Longrightarrow> free_chain h p js = free_chain h' p js"
  by (induction js arbitrary: p) auto

text \<open>Writing one link.\<close>

lemma links_set:
  assumes l: "links t fs X Y" and i: "block_end t i" and q: "target t fs q"
    and pc: "ttyp t (TC i) \<noteq> INSTR_TYPE_I \<Longrightarrow> tpc t q = (if tk then tjnpc t (TC i) else tsnpc t (TC i))"
    and src: "\<And>j. q = BB j \<Longrightarrow> ttyp t q = (if tk then BB_RECORD_TYPE_TAKEN else BB_RECORD_TYPE_NTAKEN) \<and>
      ntnext (tpool t q) = TC i"
  defines "t' \<equiv> upd_ent (TC i) (set_link tk q) t"
  shows "links t' fs (if tk then X - {i} else X) (if tk then Y else Y - {i})"
proof -
  have sc: "same_code t t'" by (simp add: same_code_def t'_def)
  have bb: "tpool t' (BB j) = tpool t (BB j)" "tdec (tpool t' p) = tdec (tpool t p)" for j p
    by (simp_all add: t'_def)
  note sd = same_codeD [OF sc]
  have tg: "target t' fs p = target t fs p" "in_use t' fs j = in_use t fs j" for p j
    using links_upd_code [OF sc] bb by auto
  have rec: "record_ok t' j = record_ok t j" for j by (simp add: record_ok_def bb sd)
  have "free_chain (tpool t') p fs = free_chain (tpool t) p fs" for p by (rule free_chain_cong) (simp add: bb)
  then have "records t' fs" using l by (simp add: links_def records_def rec tg sd) (simp add: t'_def)
  moreover have "tlink t' fs i'" if "block_end t i'" "i' \<notin> (if tk then X - {i} else X)" for i'
  proof (cases "i' = i \<and> tk")
    case True
    then show ?thesis using q pc src by (auto simp: tlink_def Let_def tg bb) (simp_all add: t'_def)
  next
    case False
    then have "tnext (tpool t' (TC i')) = tnext (tpool t (TC i'))" "tlink t fs i'"
      using l that by (auto simp: t'_def links_def split: if_splits)
    then show ?thesis by (simp add: tlink_def Let_def tg bb)
  qed
  moreover have "ntlink t' fs i'" if "block_end t i'" "i' \<notin> (if tk then Y else Y - {i})" for i'
  proof (cases "i' = i \<and> \<not> tk")
    case True
    then show ?thesis using q pc src by (auto simp: ntlink_def Let_def tg bb) (simp_all add: t'_def)
  next
    case False
    then have "ntnext (tpool t' (TC i')) = ntnext (tpool t (TC i'))" "ntlink t fs i'"
      using l that by (auto simp: t'_def links_def split: if_splits)
    then show ?thesis by (simp add: ntlink_def Let_def tg bb)
  qed
  ultimately show ?thesis by (simp add: links_def sd)
qed

text \<open>Taking a record from the free list.\<close>

lemma links_alloc:
  fixes g :: "tentry \<Rightarrow> tentry"
  assumes l: "links t (j # fs) X Y"
  defines "t' \<equiv> upd_ent (BB j) g (t\<lparr>tcache_bb_freelist := tnext (tpool t (BB j))\<rparr>)"
  assumes rec: "record_ok t' j"
  shows "links t' fs X Y" "in_use t' fs j" "same_code t t'"
proof -
  show sc: "same_code t t'" by (simp add: same_code_def t'_def)
  note sd = same_codeD [OF sc]
  have r: "records t (j # fs)" using l by (simp add: links_def)
  have other: "j' \<noteq> j \<Longrightarrow> tpool t' (BB j') = tpool t (BB j')" "tpool t' (TC i) = tpool t (TC i)" for j' i
    by (simp_all add: t'_def)
  have use: "in_use t' fs j' \<longleftrightarrow> j' = j \<or> in_use t (j # fs) j'" for j'
    using r by (auto simp: in_use_def sd records_def)
  show "in_use t' fs j" by (simp add: use)
  have tg: "target t (j # fs) p \<Longrightarrow> target t' fs p \<and> tpool t' p = tpool t p" for p
    using other by (auto simp: target_def use sd in_use_def)
  have "record_ok t' j'" if "in_use t' fs j'" for j'
    using r rec that other(1) [of j'] by (cases "j' = j") (auto simp: records_def use record_ok_def sd other(2))
  moreover have "free_chain (tpool t') (tcache_bb_freelist t') fs"
  proof -
    have "free_chain (tpool t) (tnext (tpool t (BB j))) fs" "j \<notin> set fs" using r by (simp_all add: records_def)
    moreover have "free_chain (tpool t') p fs = free_chain (tpool t) p fs" for p
      using calculation(2) other(1) by (intro free_chain_cong) metis
    ultimately show ?thesis by (simp add: t'_def)
  qed
  ultimately have "records t' fs" using r by (simp add: records_def sd) (simp add: t'_def)
  moreover have "tlink t (j # fs) i \<Longrightarrow> tlink t' fs i" "ntlink t (j # fs) i \<Longrightarrow> ntlink t' fs i" for i
    using tg by (auto simp: tlink_def ntlink_def Let_def other(2))
  ultimately show "links t' fs X Y" using l by (simp add: links_def sd)
qed

text \<open>Returning a record no link leads to.\<close>

lemma links_free:
  assumes l: "links t fs X Y" and j: "in_use t fs j"
    and no: "\<And>i. block_end t i \<Longrightarrow> (i \<notin> X \<longrightarrow> tnext (tpool t (TC i)) \<noteq> BB j) \<and>
      (i \<notin> Y \<longrightarrow> ttyp t (TC i) \<noteq> INSTR_TYPE_J \<longrightarrow> ntnext (tpool t (TC i)) \<noteq> BB j)"
  defines "t' \<equiv> (upd_ent (BB j) (\<lambda>e. e\<lparr>tnext := tcache_bb_freelist t\<rparr>) t)\<lparr>tcache_bb_freelist := BB j\<rparr>"
  shows "links t' (j # fs) X Y" "same_code t t'"
proof -
  show sc: "same_code t t'" by (simp add: same_code_def t'_def)
  note sd = same_codeD [OF sc]
  have r: "records t fs" using l by (simp add: links_def)
  have same: "tpool t' (TC i) = tpool t (TC i)" "tdec (tpool t' p) = tdec (tpool t p)"
    "ntnext (tpool t' p) = ntnext (tpool t p)" "EHelper (tpool t' p) = EHelper (tpool t p)" for i p
    by (simp_all add: t'_def)
  have use: "in_use t' (j # fs) j' \<longleftrightarrow> j' \<noteq> j \<and> in_use t fs j'" for j' by (auto simp: in_use_def sd)
  have tg: "target t fs p \<Longrightarrow> p \<noteq> BB j \<Longrightarrow> target t' (j # fs) p" for p by (auto simp: target_def use sd)
  have "record_ok t' j' = record_ok t j'" for j' by (simp add: record_ok_def same sd)
  moreover have "free_chain (tpool t') (BB j) (j # fs)"
  proof -
    have "free_chain (tpool t) (tcache_bb_freelist t) fs" "j \<notin> set fs" using r j by (simp_all add: records_def in_use_def)
    moreover have "free_chain (tpool t') p fs = free_chain (tpool t) p fs" for p
      using calculation(2) by (intro free_chain_cong) (auto simp: t'_def)
    ultimately show ?thesis by (simp add: t'_def)
  qed
  moreover have "j \<notin> set fs" "j < TCACHE_BB_SIZE t" using j by (simp_all add: in_use_def)
  ultimately have "records t' (j # fs)" using r by (simp add: records_def use sd) (simp add: t'_def)
  moreover have "tlink t' (j # fs) i" if "block_end t i" "i \<notin> X" for i
    using l that no [OF that(1)] tg by (auto simp: tlink_def Let_def same links_def)
  moreover have "ntlink t' (j # fs) i" if "block_end t i" "i \<notin> Y" for i
    using l that no [OF that(1)] tg by (auto simp: ntlink_def Let_def same links_def)
  ultimately show "links t' (j # fs) X Y" by (simp add: links_def sd)
qed

section \<open>The operations keep the links\<close>

lemma table_stepD:
  assumes "table_step t t'"
  shows "tpool t' = tpool t" "tc_idx t' = tc_idx t" "TCACHE_SIZE t' = TCACHE_SIZE t"
    "tcache_bb_freelist t' = tcache_bb_freelist t" "same_code t t'" "bb_now t' = bb_now t"
    "bb_now_record t' = bb_now_record t" "tcache_state t' = tcache_state t"
proof -
  obtain m n where "t' = t\<lparr>bb_mem := m, bb_idx := n\<rparr>" using assms by (auto simp: table_step_def)
  then show "tpool t' = tpool t" "tc_idx t' = tc_idx t" "TCACHE_SIZE t' = TCACHE_SIZE t"
    "tcache_bb_freelist t' = tcache_bb_freelist t" "same_code t t'" "bb_now t' = bb_now t"
    "bb_now_record t' = bb_now_record t" "tcache_state t' = tcache_state t"
    by (simp_all add: same_code_def)
qed

lemma table_step_links: "table_step t t' \<Longrightarrow> links t' fs X Y = links t fs X Y"
  by (rule tlinks_cong) (simp_all add: table_stepD)

lemma wp_bb_find:
  assumes "represents t M" "pcv \<noteq> -1" "M pcv = None \<Longrightarrow> Q None t"
    "\<And>p t'. M pcv = Some (bb_s (bb_mem t' p)) \<Longrightarrow> represents t' M \<Longrightarrow> table_step t t' \<Longrightarrow> Q (Some p) t'"
  shows "wp (bb_find pcv) Q E J t"
  using bb_find_spec [OF assms(1,2)] assms(3,4) by (cases "M pcv") (auto simp: wp_def)

lemma wp_bb_new:
  assumes "records t fs"
    "\<And>j fs'. fs = j # fs' \<Longrightarrow> Q (BB j) (upd_ent (BB j) (entry_init pcv) (t\<lparr>tcache_bb_freelist := tnext (tpool t (BB j))\<rparr>))"
  shows "wp (tcache_bb_new pcv) Q E J t"
proof (cases fs)
  case Nil
  with assms(1) show ?thesis by (simp add: tcache_bb_new_def Let_def wp_simps records_def)
next
  case (Cons j fs')
  then have "tcache_bb_freelist t = BB j" using assms(1) by (simp add: records_def)
  with assms(2) [OF Cons] show ?thesis
    by (simp add: tcache_bb_new_def Let_def wp_simps tcache_bb_check_def tcache_entry_init_def)
qed

lemma upd_ent_twice: "upd_ent p f (upd_ent p g t) = upd_ent p (\<lambda>e. f (g e)) t"
  by (simp add: upd_ent_def)

lemma upd_ent_commute: "p \<noteq> q \<Longrightarrow> upd_ent p f (upd_ent q g t) = upd_ent q g (upd_ent p f t)"
  by (simp add: upd_ent_def fun_upd_twist)

definition new_record :: "u64 \<Rightarrow> bool \<Rightarrow> dptr \<Rightarrow> tentry \<Rightarrow> tentry" where
  "new_record pcv tk src e = (let e = entry_init pcv e in
     e\<lparr>tdec := (tdec e)\<lparr>dec_type := (if tk then BB_RECORD_TYPE_TAKEN else BB_RECORD_TYPE_NTAKEN)\<rparr>, ntnext := src\<rparr>)"

lemma new_record_simps [simp]:
  "EHelper (new_record pcv tk src e) = Exec_nemu_decode" "dec_pc (tdec (new_record pcv tk src e)) = pcv"
  "dec_type (tdec (new_record pcv tk src e)) = (if tk then BB_RECORD_TYPE_TAKEN else BB_RECORD_TYPE_NTAKEN)"
  "ntnext (new_record pcv tk src e) = src"
  by (simp_all add: new_record_def entry_init_def)

text \<open>
  A fetch makes the link of its source point to an entry of the address asked for: the decoded block if there is
  one, otherwise a new record.
\<close>

lemma wp_bb_fetch:
  assumes b: "blocks t M" "records t fs" "jpc \<noteq> -1"
    and hit: "\<And>t' q. table_step t t' \<Longrightarrow> blocks t' M \<Longrightarrow> target t' fs q \<Longrightarrow> tpc t' q = jpc \<Longrightarrow> (\<And>j. q \<noteq> BB j) \<Longrightarrow>
      d_valid t' this \<Longrightarrow> Q () (upd_ent this (set_link tk q) t')"
    and miss: "\<And>j fs' t'. fs = j # fs' \<Longrightarrow>
      t' = upd_ent (BB j) (new_record jpc tk this) (t\<lparr>tcache_bb_freelist := tnext (tpool t (BB j))\<rparr>) \<Longrightarrow>
      d_valid t' this \<Longrightarrow> Q () (upd_ent this (set_link tk (BB j)) t')"
    and nbb: "\<And>j. this \<noteq> BB j"
  shows "wp (tcache_bb_fetch this tk jpc) Q E J t"
proof -
  have r: "represents t M" "records t fs" using b by (simp_all add: blocks_def)
  show ?thesis unfolding tcache_bb_fetch_def wp_bind
  proof (rule wp_bb_find [OF r(1) b(3)], goal_cases)
    case 1
    show ?case unfolding option.case wp_bind
    proof (rule wp_bb_new [OF r(2)], goal_cases)
      case (1 j fs')
      have ne: "BB j \<noteq> this" using nbb by metis
      have "new_record jpc tk this = (\<lambda>e. (entry_init jpc e)\<lparr>tdec := (tdec (entry_init jpc e))
          \<lparr>dec_type := (if tk then BB_RECORD_TYPE_TAKEN else BB_RECORD_TYPE_NTAKEN)\<rparr>, ntnext := this\<rparr>)"
        by (rule ext) (simp add: new_record_def Let_def)
      with miss [OF 1 refl] show ?case
        by (cases tk) (simp_all add: wp_simps upd_ent_commute [OF ne] upd_ent_twice set_link_def [abs_def])
    qed
  next
    case (2 p t')
    have bl: "blocks t' M" using b(1) 2(2) same_codeD [OF table_stepD(5) [OF 2(3)]] table_stepD(1) [OF 2(3)]
      by (simp add: blocks_def)
    obtain i where i: "bb_s (bb_mem t' p) = TC i" "whole t' i" "tpc t' (TC i) = jpc"
      using bl 2(1) unfolding blocks_def by metis
    then have "target t' fs (TC i)" by (simp add: target_def)
    from hit [OF 2(3) bl this i(3)] i(1) show ?case
      by (cases tk) (simp_all add: wp_simps Let_def set_link_def [abs_def])
  qed
qed

lemma same_table_upd [simp]:
  "same_table t (upd_ent p g t)" "same_table t (t\<lparr>tcache_bb_freelist := x\<rparr>)"
  by (simp_all add: same_table_def)

lemma same_trans:
  "same_code t t' \<Longrightarrow> same_code t' t'' \<Longrightarrow> same_code t t''" "same_table t t' \<Longrightarrow> same_table t' t'' \<Longrightarrow> same_table t t''"
  by (simp_all add: same_code_def same_table_def)

lemma same_code_link [simp]:
  "same_code t (upd_ent (TC i) (set_link tk q) t)"
  "same_code t (upd_ent D_EX g t)"
  by (simp_all add: same_code_def)

lemma links_records: "links t fs X Y \<Longrightarrow> records t fs"
  by (simp add: links_def)

lemma links_weaken: "links t fs X Y \<Longrightarrow> X \<subseteq> X' \<Longrightarrow> Y \<subseteq> Y' \<Longrightarrow> links t fs X' Y'"
  by (auto simp: links_def)

lemma links_ex: "links t fs X Y \<Longrightarrow> links (upd_ent D_EX g t) fs X Y"
proof -
  let ?t = "upd_ent D_EX g t"
  assume l: "links t fs X Y"
  note sd = same_codeD [OF same_code_link(2) [of t g]]
  have tg: "target ?t fs p = target t fs p" "in_use ?t fs j = in_use t fs j" for p j
    using links_upd_code [OF same_code_link(2)] by auto
  have ex: "target t fs p \<Longrightarrow> tpool ?t p = tpool t p" for p by (auto simp: target_def)
  have "record_ok ?t j = record_ok t j" for j by (simp add: record_ok_def sd)
  moreover have "free_chain (tpool ?t) p fs = free_chain (tpool t) p fs" for p by (rule free_chain_cong) simp
  ultimately have "records ?t fs" using l by (simp add: links_def records_def tg sd)
  moreover have "tlink t fs i \<Longrightarrow> tlink ?t fs i" "ntlink t fs i \<Longrightarrow> ntlink ?t fs i" for i
    using ex by (auto simp: tlink_def ntlink_def Let_def tg sd)
  ultimately show ?thesis using l by (simp add: links_def sd)
qed

lemma target_upd:
  assumes "target t fs q" "same_code t t'" "\<And>j. tpool t' (BB j) = tpool t (BB j)"
  shows "target t' fs q" "tpc t' q = tpc t q"
  using links_upd_code [OF assms(2), of fs] assms(1,3) by auto

lemma wp_fetch_TC:
  assumes b: "blocks t M" "links t fs X Y" "jpc \<noteq> -1" and i: "block_end t i"
    and jpc: "ttyp t (TC i) \<noteq> INSTR_TYPE_I \<Longrightarrow> jpc = (if tk then tjnpc t (TC i) else tsnpc t (TC i))"
    and nt: "\<not> tk \<Longrightarrow> ttyp t (TC i) = INSTR_TYPE_B"
    and Q: "\<And>t' fs' q. blocks t' M \<Longrightarrow> links t' fs' (if tk then X - {i} else X) (if tk then Y else Y - {i}) \<Longrightarrow>
      same_code t t' \<Longrightarrow> q = get_link tk (tpool t' (TC i)) \<Longrightarrow>
      target t' fs' q \<Longrightarrow> tpc t' q = jpc \<Longrightarrow> tcache_state t' = tcache_state t \<Longrightarrow> Q () t'"
  shows "wp (tcache_bb_fetch (TC i) tk jpc) Q E J t"
proof (rule wp_bb_fetch [OF b(1) links_records [OF b(2)] b(3)], goal_cases)
  case (1 t' q)
  let ?t = "upd_ent (TC i) (set_link tk q) t'"
  have sc: "same_code t t'" using 1(1) by (rule table_stepD)
  have l: "links t' fs X Y" using b(2) table_step_links [OF 1(1)] by simp
  have "links ?t fs (if tk then X - {i} else X) (if tk then Y else Y - {i})"
    using 1 i jpc by (intro links_set [OF l]) (auto simp: same_codeD [OF sc])
  moreover have "blocks ?t M" using blocks_same [OF same_code_link(1) same_table_upd(1) 1(2)] .
  moreover have "target ?t fs q" "tpc ?t q = tpc t' q" using target_upd [OF 1(3), of ?t] by simp_all
  ultimately show ?case using 1(4) table_stepD(8) [OF 1(1)]
    by (intro Q [OF _ _ same_trans(1) [OF sc same_code_link(1)] refl]) auto
next
  case (2 j fs' t')
  let ?t = "upd_ent (TC i) (set_link tk (BB j)) t'"
  have sc: "same_code t t'" by (simp add: same_code_def 2(2))
  have e: "tpool t' (BB j) = new_record jpc tk (TC i) (tpool t (BB j))" by (simp add: 2(2))
  have "record_ok t' j"
    using i jpc nt by (cases tk) (simp_all add: record_ok_def e same_codeD(1,5) [OF sc])
  then have l: "links t' fs' X Y" "in_use t' fs' j" using links_alloc [of t j fs' X Y] b(2) 2(1,2) by auto
  then have tg: "target t' fs' (BB j)" by (simp add: target_def)
  have p: "tpc t' (BB j) = jpc" by (simp add: 2(2))
  have "links ?t fs' (if tk then X - {i} else X) (if tk then Y else Y - {i})"
    using i jpc p tg e by (intro links_set [OF l(1)]) (auto simp: same_codeD(1,5) [OF sc])
  moreover have "blocks ?t M" using 2(2) by (intro blocks_same [OF _ _ b(1)] same_trans(1) [OF sc]) (simp_all add: same_table_def)
  moreover have "target ?t fs' (BB j)" "tpc ?t (BB j) = tpc t' (BB j)" using target_upd [OF tg, of ?t] by simp_all
  moreover have "tcache_state t' = tcache_state t" by (simp add: 2(2))
  ultimately show ?case using p by (intro Q [OF _ _ same_trans(1) [OF sc same_code_link(1)] refl]) auto
qed simp

lemma wp_fetch_EX:
  assumes b: "blocks t M" "links t fs X Y" "jpc \<noteq> -1"
    and Q: "\<And>t' fs'. blocks t' M \<Longrightarrow> links t' fs' X Y \<Longrightarrow> target t' fs' (tnext (tpool t' D_EX)) \<Longrightarrow>
      tpc t' (tnext (tpool t' D_EX)) = jpc \<Longrightarrow> Q () t'"
  shows "wp (tcache_bb_fetch D_EX True jpc) Q E J t"
proof (rule wp_bb_fetch [OF b(1) links_records [OF b(2)] b(3)], goal_cases)
  case (1 t' q)
  let ?t = "upd_ent D_EX (set_link True q) t'"
  have l: "links ?t fs X Y" using b(2) table_step_links [OF 1(1)] by (intro links_ex) simp
  have "blocks ?t M" using blocks_same [OF same_code_link(2) same_table_upd(1) 1(2)] .
  then show ?case using target_upd [OF 1(3), of ?t] 1(4) by (intro Q [OF _ l]) simp_all
next
  case (2 j fs' t')
  let ?t = "upd_ent D_EX (set_link True (BB j)) t'"
  have sc: "same_code t t'" by (simp add: same_code_def 2(2))
  have "record_ok t' j" by (simp add: record_ok_def 2(2))
  then have l: "links t' fs' X Y" "in_use t' fs' j" using links_alloc [of t j fs' X Y] b(2) 2(1,2) by auto
  then have tg: "target t' fs' (BB j)" by (simp add: target_def)
  have p: "tpc t' (BB j) = jpc" by (simp add: 2(2))
  have "blocks ?t M" using 2(2) by (intro blocks_same [OF _ _ b(1)] same_trans(1) [OF sc]) (simp_all add: same_table_def)
  then show ?case using target_upd [OF tg, of ?t] p by (intro Q [OF _ links_ex [OF l(1)]]) simp_all
qed simp

lemma back_ref:
  assumes "links t fs X Y" "block_end t i"
  shows "i \<notin> X \<Longrightarrow> tnext (tpool t (TC i)) = BB j \<Longrightarrow> ttyp t (BB j) = BB_RECORD_TYPE_TAKEN \<and> ntnext (tpool t (BB j)) = TC i"
    "i \<notin> Y \<Longrightarrow> ttyp t (TC i) \<noteq> INSTR_TYPE_J \<Longrightarrow> ntnext (tpool t (TC i)) = BB j \<Longrightarrow>
      ttyp t (BB j) = BB_RECORD_TYPE_NTAKEN \<and> ntnext (tpool t (BB j)) = TC i"
proof -
  have "i \<notin> X \<Longrightarrow> tlink t fs i" "i \<notin> Y \<Longrightarrow> ntlink t fs i" using assms by (simp_all add: links_def)
  then show "i \<notin> X \<Longrightarrow> tnext (tpool t (TC i)) = BB j \<Longrightarrow> ttyp t (BB j) = BB_RECORD_TYPE_TAKEN \<and> ntnext (tpool t (BB j)) = TC i"
    "i \<notin> Y \<Longrightarrow> ttyp t (TC i) \<noteq> INSTR_TYPE_J \<Longrightarrow> ntnext (tpool t (TC i)) = BB j \<Longrightarrow>
      ttyp t (BB j) = BB_RECORD_TYPE_NTAKEN \<and> ntnext (tpool t (BB j)) = TC i"
    by (simp_all add: tlink_def ntlink_def Let_def)
qed

text \<open>Patching a record out: its source is linked to the block, and the record is free again.\<close>

lemma patch_links:
  assumes l: "links t fs X Y" and j: "in_use t fs j" and b: "whole t b" "tpc t (TC b) = tpc t (BB j)"
    and src: "ntnext (tpool t (BB j)) = TC i" and ty: "ttyp t (BB j) = (if tk then BB_RECORD_TYPE_TAKEN else BB_RECORD_TYPE_NTAKEN)"
  defines "t' \<equiv> upd_ent (TC i) (set_link tk (TC b)) t"
  shows "links t' fs X Y" "\<And>i. block_end t' i \<Longrightarrow> (i \<notin> X \<longrightarrow> tnext (tpool t' (TC i)) \<noteq> BB j) \<and>
      (i \<notin> Y \<longrightarrow> ttyp t' (TC i) \<noteq> INSTR_TYPE_J \<longrightarrow> ntnext (tpool t' (TC i)) \<noteq> BB j)"
proof -
  have sc: "same_code t t'" by (simp add: t'_def)
  have rec: "record_ok t j" using l j by (simp add: links_def records_def)
  have e: "block_end t i" using rec src ty by (cases tk) (auto simp: record_ok_def)
  show "links t' fs X Y"
  proof -
    have "ttyp t (TC i) \<noteq> INSTR_TYPE_I \<Longrightarrow> tpc t (TC b) = (if tk then tjnpc t (TC i) else tsnpc t (TC i))"
      using rec src ty b(2) by (cases tk) (auto simp: record_ok_def)
    with links_set [OF l e, of "TC b" tk] b(1)
    have "links t' fs (if tk then X - {i} else X) (if tk then Y else Y - {i})" by (simp add: t'_def target_def)
    then show ?thesis by (rule links_weaken) auto
  qed
  fix i' assume "block_end t' i'"
  then have i': "block_end t i'" by (simp add: same_codeD [OF sc])
  have A: "i' \<notin> X \<Longrightarrow> tnext (tpool t (TC i')) = BB j \<Longrightarrow> i' = i \<and> tk"
    "i' \<notin> Y \<Longrightarrow> ttyp t (TC i') \<noteq> INSTR_TYPE_J \<Longrightarrow> ntnext (tpool t (TC i')) = BB j \<Longrightarrow> i' = i \<and> \<not> tk"
    using back_ref [OF l i', of j] src ty by (simp_all split: if_splits)
  show "(i' \<notin> X \<longrightarrow> tnext (tpool t' (TC i')) \<noteq> BB j) \<and>
      (i' \<notin> Y \<longrightarrow> ttyp t' (TC i') \<noteq> INSTR_TYPE_J \<longrightarrow> ntnext (tpool t' (TC i')) \<noteq> BB j)"
    unfolding t'_def upd_ent_simps using A by (cases "i' = i") (simp_all, blast+)
qed

lemma wp_patch_and_free:
  assumes b: "blocks t M" and l: "links t fs X Y" and j: "in_use t fs j" and w: "whole t b" "tpc t (TC b) = tpc t (BB j)"
    and Q: "\<And>t'. blocks t' M \<Longrightarrow> links t' (j # fs) X Y \<Longrightarrow> same_code t t' \<Longrightarrow>
      tcache_state t' = tcache_state t \<Longrightarrow> Q () t'"
  shows "wp (tcache_patch_and_free (BB j) (TC b)) Q E J t"
proof -
  let ?no = "\<lambda>t. \<forall>i. block_end t i \<longrightarrow> (i \<notin> X \<longrightarrow> tnext (tpool t (TC i)) \<noteq> BB j) \<and>
      (i \<notin> Y \<longrightarrow> ttyp t (TC i) \<noteq> INSTR_TYPE_J \<longrightarrow> ntnext (tpool t (TC i)) \<noteq> BB j)"
  have free: "wp (tcache_bb_free (BB j)) Q E J t1"
    if t1: "links t1 fs X Y" "?no t1" "same_code t t1" "same_table t t1" "tcache_state t1 = tcache_state t" for t1
  proof -
    let ?t = "(upd_ent (BB j) (\<lambda>e. e\<lparr>tnext := tcache_bb_freelist t1\<rparr>) t1)\<lparr>tcache_bb_freelist := BB j\<rparr>"
    have u: "in_use t1 fs j" using j same_codeD(4) [OF t1(3)] by (simp add: in_use_def)
    have "links ?t (j # fs) X Y" "same_code t1 ?t" using t1(2) links_free [OF t1(1) u] by auto
    moreover have "same_table t ?t" using t1(4) by (simp add: same_table_def)
    ultimately have "Q () ?t" using blocks_same [OF _ _ b] same_trans(1) [OF t1(3)] t1(5) by (intro Q) auto
    then show ?thesis by (simp add: tcache_bb_free_def wp_simps tcache_bb_check_def)
  qed
  have rec: "record_ok t j" using l j by (simp add: links_def records_def)
  have none: "?no t" if "ttyp t (BB j) \<noteq> BB_RECORD_TYPE_TAKEN \<or> ntnext (tpool t (BB j)) = D_EX" "ttyp t (BB j) \<noteq> BB_RECORD_TYPE_NTAKEN"
    using back_ref [OF l, of _ j] that by fastforce
  consider (ex) "ttyp t (BB j) = BB_RECORD_TYPE_TAKEN" "ntnext (tpool t (BB j)) = D_EX"
    | (link) tk i where "ttyp t (BB j) = (if tk then BB_RECORD_TYPE_TAKEN else BB_RECORD_TYPE_NTAKEN)" "ntnext (tpool t (BB j)) = TC i"
    | (other) "ttyp t (BB j) \<noteq> BB_RECORD_TYPE_TAKEN" "ttyp t (BB j) \<noteq> BB_RECORD_TYPE_NTAKEN"
    using rec unfolding record_ok_def by metis
  then show ?thesis
  proof cases
    case ex
    let ?t = "upd_ent D_EX (\<lambda>e. e\<lparr>tnext := TC b\<rparr>) t"
    have "?no ?t" using none ex same_codeD(1) [OF same_code_link(2) [of t]] by simp
    from free [OF links_ex [OF l] this same_code_link(2) same_table_upd(1) upd_ent_simps(9)] ex
    show ?thesis by (simp add: tcache_patch_and_free_def wp_simps)
  next
    case link
    from free [OF patch_links(1) [OF l j w link(2,1)] _ same_code_link(1) same_table_upd(1) upd_ent_simps(9)]
      patch_links(2) [OF l j w link(2,1)] link
    show ?thesis by (cases tk) (simp_all add: tcache_patch_and_free_def wp_simps set_link_def [abs_def])
  next
    case other
    from free [OF l none] other show ?thesis
      by (simp add: tcache_patch_and_free_def wp_simps same_code_def same_table_def)
  qed
qed

section \<open>Flushing and growing\<close>

lemma free_chain_upt:
  assumes "\<And>j. j < n \<Longrightarrow> tnext (h (BB j)) = (if j < n - 1 then BB (j + 1) else D_NULL)" "i < n"
  shows "free_chain h (BB i) [i..<n]"
  using assms(2)
proof (induction "n - i" arbitrary: i)
  case (Suc k)
  then show ?case using assms(1) [of i] by (cases "i = n - 1") (auto simp: upt_conv_Cons)
qed simp

lemma flush_links: "links (tcache_flush t) [0..<TCACHE_BB_SIZE t] {} {}"
proof -
  have "free_chain (tpool (tcache_flush t)) (BB 0) [0..<TCACHE_BB_SIZE t]"
    by (rule free_chain_upt) (simp_all add: tcache_flush_def TCACHE_BB_SIZE_def)
  then have "records (tcache_flush t) [0..<TCACHE_BB_SIZE t]"
    by (simp add: records_def in_use_def) (simp add: tcache_flush_def)
  moreover have "\<not> block_end (tcache_flush t) i" for i by (simp add: block_end_def tcache_flush_def)
  ultimately show ?thesis by (simp add: links_def)
qed

lemma flush_blocks: "BB_LIST_SIZE t > 0 \<Longrightarrow> blocks (tcache_flush t) Map.empty"
  by (simp add: blocks_def flush_represents)

lemma blocks_size: "blocks t M \<Longrightarrow> BB_LIST_SIZE t > 0"
  by (auto simp: blocks_def represents_def table_ok_def)

text \<open>Entries at the end of the pool come into being and are decoded.\<close>

definition grows :: "tcache \<Rightarrow> tcache \<Rightarrow> bool" where
  "grows t t' \<longleftrightarrow> (\<forall>j. tpool t' (BB j) = tpool t (BB j)) \<and> tcache_bb_freelist t' = tcache_bb_freelist t \<and>
     TCACHE_SIZE t' = TCACHE_SIZE t \<and> tc_idx t' \<le> TCACHE_SIZE t' \<and>
     (\<forall>i. block_end t i \<longrightarrow> block_end t' i \<and> tpool t' (TC i) = tpool t (TC i)) \<and>
     (\<forall>i. flows t i \<longrightarrow> flows t' i \<and> tpool t' (TC i) = tpool t (TC i))"

lemma grows_whole:
  assumes "grows t t'" "whole t i"
  shows "whole t' i" "tpool t' (TC i) = tpool t (TC i)"
proof -
  obtain j where j: "j \<ge> i" "block_end t j" "\<And>k. i \<le> k \<Longrightarrow> k < j \<Longrightarrow> flows t k" using assms(2) by (auto simp: whole_def)
  then show "whole t' i" using assms(1) unfolding grows_def whole_def by blast
  show "tpool t' (TC i) = tpool t (TC i)" using j assms(1) unfolding grows_def by (metis le_eq_less_or_eq)
qed

lemma links_grow:
  assumes g: "grows t t'" and l: "links t fs {} {}" and new: "\<And>i. block_end t' i \<Longrightarrow> block_end t i \<or> i \<in> X"
  shows "links t' fs X X"
proof -
  have n: "TCACHE_BB_SIZE t' = TCACHE_BB_SIZE t" using g by (simp add: grows_def TCACHE_BB_SIZE_def)
  have bb: "tpool t' (BB j) = tpool t (BB j)" for j using g by (simp add: grows_def)
  have e: "block_end t i \<Longrightarrow> block_end t' i \<and> tpool t' (TC i) = tpool t (TC i)" for i using g by (simp add: grows_def)
  have use: "in_use t' fs j = in_use t fs j" for j by (simp add: in_use_def n)
  have tg: "target t fs p \<Longrightarrow> target t' fs p \<and> tpool t' p = tpool t p" for p
    using grows_whole [OF g] bb by (auto simp: target_def use)
  have "record_ok t j \<Longrightarrow> record_ok t' j" for j using e unfolding record_ok_def bb by metis
  moreover have "free_chain (tpool t') p fs = free_chain (tpool t) p fs" for p by (rule free_chain_cong) (simp add: bb)
  ultimately have "records t' fs" using l g by (simp add: links_def records_def use n grows_def)
  moreover have "tlink t' fs i \<and> ntlink t' fs i" if "block_end t' i" "i \<notin> X" for i
  proof -
    have b: "block_end t i" using new [OF that(1)] that(2) by simp
    then have "tlink t fs i" "ntlink t fs i" using l by (simp_all add: links_def)
    then show ?thesis using e [OF b] tg by (auto simp: tlink_def ntlink_def Let_def)
  qed
  ultimately show ?thesis by (simp add: links_def)
qed

lemma blocks_grow:
  assumes g: "grows t t'" and "same_table t t'" "blocks t M"
  shows "blocks t' M"
proof -
  have "\<exists>i. p = TC i \<and> whole t' i \<and> tpc t' p = pcv" if "M pcv = Some p" for pcv p
  proof -
    obtain i where "p = TC i" "whole t i" "tpc t p = pcv" using assms(3) \<open>M pcv = Some p\<close> by (auto simp: blocks_def)
    with grows_whole [OF g, of i] show ?thesis by simp
  qed
  then show ?thesis using assms(2,3) by (simp add: blocks_def same_table_represents)
qed

lemma grows_new:
  fixes pcv :: u64
  assumes "tc_idx t < TCACHE_SIZE t"
  defines "t' \<equiv> upd_ent (TC (tc_idx t)) (entry_init pcv) (t\<lparr>tc_idx := tc_idx t + 1\<rparr>)"
  shows "grows t t'" "block_end t' i = block_end t i"
proof -
  show "block_end t' i = block_end t i" for i by (auto simp: t'_def block_end_def entry_init_def)
  then show "grows t t'" using assms(1)
    by (auto simp: grows_def t'_def block_end_def flows_def)
qed

text \<open>Decoding an entry: it keeps its address.\<close>

lemma grows_decode:
  assumes "tc_idx t = Suc n" "tc_idx t \<le> TCACHE_SIZE t" "EHelper (tpool t (TC n)) = Exec_nemu_decode"
    and t': "tpool t' = (tpool t)(TC n := e)" "tc_idx t' = tc_idx t" "TCACHE_SIZE t' = TCACHE_SIZE t"
      "tcache_bb_freelist t' = tcache_bb_freelist t" and pc: "dec_pc (tdec e) = tpc t (TC n)"
  shows "grows t t'" "block_end t' i \<longleftrightarrow> block_end t i \<or> i = n \<and> EHelper e \<noteq> Exec_nemu_decode \<and> dec_type (tdec e) \<noteq> INSTR_TYPE_N"
proof -
  have ne: "block_end t i \<Longrightarrow> i \<noteq> n" "flows t i \<Longrightarrow> i \<noteq> n" for i using assms(3) by (auto simp: block_end_def flows_def)
  show "block_end t' i \<longleftrightarrow> block_end t i \<or> i = n \<and> EHelper e \<noteq> Exec_nemu_decode \<and> dec_type (tdec e) \<noteq> INSTR_TYPE_N"
    using assms(1) ne by (auto simp: block_end_def t')
  show "grows t t'"
    using assms(2) ne pc by (auto simp: grows_def t' block_end_def flows_def)
qed

section \<open>Decoding keeps the links\<close>

text \<open>The block under construction ends at entry \<open>n\<close>, which is not decoded yet.\<close>

definition building :: "tcache \<Rightarrow> nat list \<Rightarrow> (u64 \<rightharpoonup> dptr) \<Rightarrow> nat \<Rightarrow> bool" where
  "building t fs M n \<longleftrightarrow> (\<exists>b j. tc_idx t = Suc n \<and> bb_now t = TC b \<and> b \<le> n \<and> bb_now_record t = BB j \<and> in_use t fs j \<and>
     tpc t (BB j) = tpc t (TC b) \<and> tpc t (TC b) \<noteq> -1 \<and> M (tpc t (TC b)) = None \<and>
     (\<forall>k. b \<le> k \<longrightarrow> k < n \<longrightarrow> flows t k) \<and> EHelper (tpool t (TC n)) = Exec_nemu_decode)"

text \<open>
  The entry \<open>p\<close> the emulator executes next: a link target, or, while a block is being built, its last
  entry or the one before it, which has just been decoded.
\<close>

definition walk_inv :: "tcache \<Rightarrow> dptr \<Rightarrow> u64 \<Rightarrow> bool" where
  "walk_inv t p pcv \<longleftrightarrow> (\<exists>fs M. links t fs {} {} \<and> blocks t M \<and> tpc t p = pcv \<and>
     (case tcache_state t of
        TCACHE_RUNNING \<Rightarrow> target t fs p
      | TCACHE_BB_BUILDING \<Rightarrow> \<exists>n. building t fs M n \<and> (p = TC n \<or> n > 0 \<and> p = TC (n - 1) \<and> flows t (n - 1))))"

definition idle :: "tcache \<Rightarrow> bool" where
  "idle t \<longleftrightarrow> (\<exists>fs M. links t fs {} {} \<and> blocks t M)"

lemma walk_idle: "walk_inv t p pcv \<Longrightarrow> idle t"
  by (auto simp: walk_inv_def idle_def)

lemma wp_full:
  assumes "BB_LIST_SIZE t > 0" "\<And>t'. walk_inv t' (prev_s t') thispc \<Longrightarrow> J t'"
  shows "wp (tcache_full thispc) Q E J t"
proof -
  let ?f = "tcache_flush t"
  have r: "records ?f [0..<TCACHE_BB_SIZE t]" using flush_links by (simp add: links_def)
  show ?thesis unfolding tcache_full_def wp_then wp_effects wp_bind
  proof (rule wp_bb_new [OF r], goal_cases)
    case (1 j fs)
    let ?g = "\<lambda>e. (entry_init thispc e)\<lparr>tdec := (tdec (entry_init thispc e))\<lparr>dec_idx_in_bb := ucast (idx_in_bb t)\<rparr>\<rparr>"
    let ?t = "upd_ent (BB j) ?g (?f\<lparr>tcache_bb_freelist := tnext (tpool ?f (BB j))\<rparr>)"
    have "record_ok ?t j" by (simp add: record_ok_def entry_init_def)
    then have l: "links ?t fs {} {}" "in_use ?t fs j" "same_code ?f ?t"
      using links_alloc [of ?f j fs "{}" "{}" ?g] flush_links [of t] 1 by simp_all
    have b: "blocks ?t Map.empty"
      by (rule blocks_same [OF l(3) _ flush_blocks [OF assms(1)]]) (simp add: same_table_def)
    let ?w = "save_globals (BB j) ?t\<lparr>bb_now := D_NULL, bb_now_record := D_NULL, tcache_state := TCACHE_RUNNING\<rparr>"
    have c: "tpool ?w = tpool ?t" "tc_idx ?w = tc_idx ?t" "TCACHE_SIZE ?w = TCACHE_SIZE ?t"
      "tcache_bb_freelist ?w = tcache_bb_freelist ?t" by (simp_all add: save_globals_def)
    have "blocks ?w Map.empty" by (rule blocks_same [OF _ _ b]) (simp_all add: same_code_def same_table_def save_globals_def)
    moreover have "target ?w fs (BB j)" using l(2) tlinks_cong(3) [OF c] by (simp add: target_def)
    moreover have "tpc ?t (BB j) = thispc" by (simp add: entry_init_def)
    ultimately have "walk_inv ?w (prev_s ?w) thispc"
      using l(1) tlinks_cong(1) [OF c] unfolding walk_inv_def
      by (intro exI [of _ fs] exI [of _ Map.empty]) (simp add: save_globals_def)
    from assms(2) [OF this] show ?case
      by (simp add: wp_simps upd_ent_twice)
  qed
qed

lemma fetch_keeps_pc:
  assumes "fetch_decode pcv m = (r, m')"
  shows "dec_pc (dec m') = pcv" "r \<noteq> Jmp c"
proof -
  let ?m = "m\<lparr>dec := (dec m)\<lparr>dec_pc := pcv, dec_snpc := pcv\<rparr>\<rparr>"
  have run: "isa_fetch_decode ?m = (r, m')" using assms by (simp add: fetch_decode_def then_m_apply upd_dec_apply)
  then have "dcore m' = dcore ?m" using framesD [OF dcore_fetch_decode, of ?m] by simp
  then show "dec_pc (dec m') = pcv" by (simp add: dcore_def)
  show "r \<noteq> Jmp c" using frames_no_jump [OF dcore_fetch_decode] run by blast
qed

lemma wp_fetch_decode_at:
  assumes "\<And>idx m. fetch_decode pcv ((mach t)\<lparr>dec := tdec (tpool t s)\<rparr>) = (Ret idx, m) \<Longrightarrow> dec_pc (dec m) = pcv \<Longrightarrow>
      Q () (upd_ent s (\<lambda>e. e\<lparr>tdec := dec m, EHelper := Exec_label idx\<rparr>) (t\<lparr>mach := m\<rparr>))"
    "\<And>x m. fetch_decode pcv ((mach t)\<lparr>dec := tdec (tpool t s)\<rparr>) = (Exn x, m) \<Longrightarrow> dec_pc (dec m) = pcv \<Longrightarrow>
      E (upd_ent s (\<lambda>e. e\<lparr>tdec := dec m\<rparr>) (t\<lparr>mach := m\<rparr>))"
  shows "wp (fetch_decode_at s pcv) Q E J t"
proof -
  obtain r m where run: "fetch_decode pcv ((mach t)\<lparr>dec := tdec (tpool t s)\<rparr>) = (r, m)" by fastforce
  note k = fetch_keeps_pc [OF run]
  show ?thesis
  proof (cases r)
    case (Ret idx)
    then show ?thesis using assms(1) run k(1) by (simp add: wp_def fetch_decode_at_def Let_def upd_ent_twice)
  next
    case (Exn x)
    then show ?thesis using assms(2) run k(1) by (simp add: wp_def fetch_decode_at_def Let_def)
  qed (use k(2) run in \<open>simp_all add: wp_def fetch_decode_at_def Let_def\<close>)
qed

lemma wp_tcache_new:
  assumes "tc_idx t = TCACHE_SIZE t \<Longrightarrow> Q D_NULL t"
    "tc_idx t < TCACHE_SIZE t \<Longrightarrow> Q (TC (tc_idx t)) (upd_ent (TC (tc_idx t)) (entry_init pcv) (t\<lparr>tc_idx := tc_idx t + 1\<rparr>))"
  shows "wp (tcache_new pcv) Q E J t"
  using assms by (simp add: tcache_new_def wp_simps tcache_entry_init_def)

lemma links_J: "links t fs X {n} \<Longrightarrow> ttyp t (TC n) = INSTR_TYPE_J \<Longrightarrow> links t fs X {}"
  by (auto simp: links_def ntlink_def)

lemma wp_link_block:
  assumes l: "links t fs {n} {n}" and b: "blocks t M" and e: "block_end t n" and d: "d = tdec (tpool t (TC n))"
    and j: "dec_type d \<in> {INSTR_TYPE_J, INSTR_TYPE_B} \<Longrightarrow> dec_jnpc d \<noteq> -1" "dec_type d = INSTR_TYPE_B \<Longrightarrow> dec_snpc d \<noteq> -1"
    and Q: "\<And>t' fs'. links t' fs' {} {} \<Longrightarrow> blocks t' M \<Longrightarrow> same_code t t' \<Longrightarrow> Q () t'"
  shows "wp (link_block (TC n) d) Q E J t"
proof (cases "dec_type d")
  case INSTR_TYPE_N
  then show ?thesis by (simp add: wp_simps link_block_def)
next
  case INSTR_TYPE_J
  then have "dec_jnpc d \<noteq> -1" using j(1) by simp
  then have "wp (tcache_bb_fetch (TC n) True (dec_jnpc d)) Q E J t"
  proof (rule wp_fetch_TC [OF b l _ e], goal_cases)
    case (3 t' fs' q)
    then have "links t' fs' {} {n}" by simp
    then show ?case using 3(1,3) d INSTR_TYPE_J links_J [of t' fs' "{}" n] by (intro Q) (simp_all add: same_codeD)
  qed (use d in simp_all)
  with INSTR_TYPE_J show ?thesis by (simp add: link_block_def)
next
  case INSTR_TYPE_B
  then have ne: "dec_jnpc d \<noteq> -1" "dec_snpc d \<noteq> -1" using j by simp_all
  have "wp (tcache_bb_fetch (TC n) True (dec_jnpc d)) (\<lambda>_. wp (tcache_bb_fetch (TC n) False (dec_snpc d)) Q E J) E J t"
  proof (rule wp_fetch_TC [OF b l ne(1) e], goal_cases)
    case (3 t' fs' q)
    have sd: "block_end t' n" "tdec (tpool t' (TC n)) = d" using e d same_codeD [OF 3(3)] by simp_all
    have "links t' fs' {} {n}" using 3(2) by simp
    from wp_fetch_TC [OF 3(1) this ne(2) sd(1), of False] show ?case
      using sd(2) INSTR_TYPE_B Q same_trans(1) [OF 3(3)] by simp
  qed (use d in simp_all)
  with INSTR_TYPE_B show ?thesis by (simp add: wp_simps link_block_def)
next
  case INSTR_TYPE_I
  let ?t1 = "upd_ent (TC n) (set_link True (TC n)) t" and ?t2 = "upd_ent (TC n) (\<lambda>e. e\<lparr>tnext := TC n, ntnext := TC n\<rparr>) t"
  have w: "whole t n" using e by (auto simp: whole_def)
  have t2: "?t2 = upd_ent (TC n) (set_link False (TC n)) ?t1" by (simp add: upd_ent_twice set_link_def)
  have "links ?t1 fs {} {n}" using links_set [OF l e, of "TC n" True] w d INSTR_TYPE_I by (simp add: target_def)
  then have "links ?t2 fs {} {}" unfolding t2
    using links_set [of ?t1 fs "{}" "{n}" n "TC n" False] e w d INSTR_TYPE_I same_codeD [OF same_code_link(1) [of t n True]]
    by (simp add: target_def)
  moreover have "same_code t ?t2" by (simp add: same_code_def)
  ultimately have "Q () ?t2" using blocks_same [OF _ _ b] by (intro Q) (simp_all add: same_table_def)
  with INSTR_TYPE_I show ?thesis by (simp add: wp_simps link_block_def)
qed

text \<open>The instruction at an address does not jump to the odd address -1.\<close>

definition code_ok :: "u64 \<Rightarrow> machine \<Rightarrow> bool" where
  "code_ok pcv m \<longleftrightarrow> (\<forall>d idx m'. fetch_decode pcv (m\<lparr>dec := d\<rparr>) = (Ret idx, m') \<longrightarrow>
     (dec_type (dec m') \<in> {INSTR_TYPE_J, INSTR_TYPE_B} \<longrightarrow> dec_jnpc (dec m') \<noteq> -1) \<and>
     (dec_type (dec m') = INSTR_TYPE_B \<longrightarrow> dec_snpc (dec m') \<noteq> -1))"

text \<open>The end of a block: it enters the table, its record is patched out and it is linked.\<close>

lemma wp_end_bb:
  assumes l: "links t fs {n} {n}" and b: "blocks t M" and e: "block_end t n"
    and now: "bb_now t = TC b" "bb_now_record t = BB j" and j: "in_use t fs j" and w: "whole t b" "tpc t (TC b) = tpc t (BB j)"
    and M: "M (tpc t (TC b)) = None" "tpc t (TC b) \<noteq> -1"
    and np: "ttyp t (TC n) \<in> {INSTR_TYPE_J, INSTR_TYPE_B} \<Longrightarrow> tjnpc t (TC n) \<noteq> -1"
      "ttyp t (TC n) = INSTR_TYPE_B \<Longrightarrow> tsnpc t (TC n) \<noteq> -1"
    and Q: "\<And>t' fs' M'. links t' fs' {} {} \<Longrightarrow> blocks t' M' \<Longrightarrow> same_code t t' \<Longrightarrow> tcache_state t' = TCACHE_RUNNING \<Longrightarrow> Q () t'"
    and J: "\<And>t'. walk_inv t' (prev_s t') thispc \<Longrightarrow> J t'"
  shows "wp (tcache_end_bb (TC n) thispc) Q E J t"
proof -
  let ?M = "M(tpc t (TC b) \<mapsto> TC b)"
  have rep: "represents t M" using b by (simp add: blocks_def)
  have ins: "wp (bb_insert (tpc t (TC b)) (TC b)) (\<lambda>ret. wp (case ret of None \<Rightarrow> then_m (tcache_full thispc) (return_m ())
      | Some _ \<Rightarrow> then_m (tcache_patch_and_free (BB j) (TC b))
         (then_m (modify_m (\<lambda>t. t\<lparr>bb_now := D_NULL, bb_now_record := D_NULL\<rparr>))
         (then_m (link_block (TC n) (tdec (tpool t (TC n)))) (modify_m (\<lambda>t. t\<lparr>tcache_state := TCACHE_RUNNING\<rparr>))))) Q E J) E J t"
    (is "wp _ ?K E J t")
  proof -
    have none: "?K None t"
      using wp_full [OF blocks_size [OF b] J] by (simp add: wp_simps)
    have some: "?K (Some p) t1" if t1: "represents t1 ?M" "table_step t t1" for p t1
    proof -
      have sc: "same_code t t1" using t1(2) by (rule table_stepD)
      note td = table_stepD [OF t1(2)]
      have b1: "blocks t1 ?M" using b t1(1) w(1) by (auto simp: blocks_def same_codeD [OF sc] td)
      have l1: "links t1 fs {n} {n}" using l by (simp add: table_step_links [OF t1(2)])
      have j1: "in_use t1 fs j" "whole t1 b" "tpc t1 (TC b) = tpc t1 (BB j)"
        using j w by (simp_all add: in_use_def same_codeD [OF sc] td)
      show ?thesis unfolding option.case wp_then
      proof (rule wp_patch_and_free [OF b1 l1 j1], goal_cases)
        case (1 t2)
        let ?t = "t2\<lparr>bb_now := D_NULL, bb_now_record := D_NULL\<rparr>"
        have s2: "same_code t ?t" using same_trans(1) [OF sc 1(3)] by (simp add: same_code_def)
        have b2: "blocks ?t ?M" by (rule blocks_same [OF _ _ 1(1)]) (simp_all add: same_code_def same_table_def)
        have l2: "links ?t (j # fs) {n} {n}" using 1(2) tlinks_cong(1) [of ?t t2] by simp
        have e2: "block_end ?t n" "tdec (tpool t (TC n)) = tdec (tpool ?t (TC n))"
          using e same_codeD [OF s2] by simp_all
        show ?case unfolding wp_effects
        proof (rule wp_link_block [OF l2 b2 e2], goal_cases)
          case (3 t3 fs3)
          let ?u = "t3\<lparr>tcache_state := TCACHE_RUNNING\<rparr>"
          have "links ?u fs3 {} {}" using 3(1) tlinks_cong(1) [of ?u t3] by simp
          moreover have "blocks ?u ?M" by (rule blocks_same [OF _ _ 3(2)]) (simp_all add: same_code_def same_table_def)
          moreover have "same_code t ?u" using same_trans(1) [OF s2 3(3)] by (simp add: same_code_def)
          ultimately show ?case by (intro Q) simp_all
        qed (use np in auto)
      qed
    qed
    show ?thesis using bb_insert_spec [OF rep M(2,1), of "TC b"] none some by (auto simp: wp_def)
  qed
  then show ?thesis by (simp add: tcache_end_bb_def Let_def wp_simps now)
qed

end
