(* ===== verification/Decode_Parity.thy ===== *)
theory Decode_Parity
  imports Step_Laws Cpu_Exec
begin

text \<open>
  Instructions stay at even addresses: the one that follows an instruction at an even address, and the
  target of a direct jump or branch there, are even. So -1, the mark of an unused element in the trace
  cache, is never the address of a block.
\<close>

unbundle bit_operations_syntax

section \<open>Jump targets are even\<close>

definition even_ops :: "exec_id \<Rightarrow> Decode \<Rightarrow> bool" where
  "even_ops idx d \<longleftrightarrow>
     (is_jump_id idx \<longrightarrow> (\<forall>v. id_src1 d = Imm v \<longrightarrow> bit v 0 = bit (dec_pc d) 0)) \<and>
     (is_branch_id idx \<longrightarrow> (\<forall>v. id_dest d = Imm v \<longrightarrow> bit v 0 = bit (dec_pc d) 0))"

lemmas even_ids = even_ops_def is_jump_id_def is_branch_id_def ensures_return_iff

lemma bit0_add: "bit (a + b) 0 \<longleftrightarrow> bit a 0 \<noteq> bit b 0" for a b :: u64
  by (simp add: bit_0)

lemma even_immediates: "\<not> bit (imm_J i) 0" "\<not> bit (imm_B i) 0" "\<not> bit (imm_DIJ i) 0" "\<not> bit (imm_CB i) 0" "\<not> bit (imm_CJ i) 0"
proof -
  have "\<not> bit (x * 2) 0" for x :: u32 by (simp add: bit_0)
  then show "\<not> bit (imm_J i) 0" "\<not> bit (imm_B i) 0" "\<not> bit (imm_DIJ i) 0" "\<not> bit (imm_CB i) 0" "\<not> bit (imm_CJ i) 0"
    by (simp_all add: imm_J_def imm_B_def imm_DIJ_def imm_CB_def imm_CJ_def bit_simps)
qed

lemma even_decoders:
  "ensures P decode_J (\<lambda>_ d. \<forall>v. id_src1 d = Imm v \<longrightarrow> bit v 0 = bit (dec_pc d) 0)"
  "ensures P decode_dasicscall_j (\<lambda>_ d. \<forall>v. id_src1 d = Imm v \<longrightarrow> bit v 0 = bit (dec_pc d) 0)"
  "ensures P decode_CJ (\<lambda>_ d. \<forall>v. id_src1 d = Imm v \<longrightarrow> bit v 0 = bit (dec_pc d) 0)"
  "ensures P decode_B (\<lambda>_ d. \<forall>v. id_dest d = Imm v \<longrightarrow> bit v 0 = bit (dec_pc d) 0)"
  "ensures P decode_CB (\<lambda>_ d. \<forall>v. id_dest d = Imm v \<longrightarrow> bit v 0 = bit (dec_pc d) 0)"
  unfolding decode_J_def decode_B_def decode_dasicscall_j_def decode_CJ_def decode_CB_def
  by (auto simp: run_simps bit0_add even_immediates split: if_splits)

lemmas even_jump = even_decoders [where P = P, THEN ensures_then] for P

lemma then_any: "ensures (\<lambda>_. True) k Q \<Longrightarrow> ensures P (then_m m k) Q"
  by (rule ensures_then [OF ensures_any])

lemma even_plain:
  "ensures P table_addi_dispatch even_ops" "ensures P table_jalr_dispatch even_ops" "ensures P table_mem_fence even_ops"
  "ensures P table_rvm even_ops" "ensures P table_rvm32 even_ops" "ensures P table_atomic even_ops"
  "ensures P table_c_li_dispatch even_ops" "ensures P table_rvc_Q1_compute_more64 even_ops"
  "ensures P table_rvc_Q1_compute_more32 even_ops"
  unfolding table_addi_dispatch_def table_jalr_dispatch_def table_mem_fence_def table_rvm_def table_rvm32_def
    table_atomic_def table_c_li_dispatch_def table_rvc_Q1_compute_more64_def table_rvc_Q1_compute_more32_def
  by (rule ensures_table; simp add: even_ids)+

lemma even_dispatch:
  "ensures P table_c_addi_dispatch even_ops" "ensures P table_c_addiw_dispatch even_ops" "ensures P table_atomic_any even_ops"
  "ensures P table_rvc_Q1_compute_more even_ops"
  unfolding table_c_addi_dispatch_def table_c_addiw_dispatch_def table_atomic_any_def table_rvc_Q1_compute_more_def
  by (intro ensures_intro ensures_table; simp add: even_ids even_plain)+

lemma even_mmu:
  "ensures P table_load even_ops" "ensures P table_store even_ops" "ensures P table_c_ldst even_ops"
  unfolding table_load_def table_store_def table_c_ldst_def
  by (intro ensures_with ensures_mmu_table ensures_table; simp add: even_ids)+

lemma even_op:
  "ensures P table_op_imm even_ops" "ensures P table_op_imm32 even_ops" "ensures P table_op even_ops" "ensures P table_op32 even_ops"
  unfolding table_op_imm_def table_op_imm32_def table_op_def table_op32_def
  by (intro ensures_instr ensures_table; simp add: even_ids even_plain even_dispatch)+

lemma even_transfer:
  "ensures (\<lambda>d. \<forall>v. id_src1 d = Imm v \<longrightarrow> bit v 0 = bit (dec_pc d) 0) table_jal_dispatch even_ops"
  "ensures (\<lambda>d. \<forall>v. id_dest d = Imm v \<longrightarrow> bit v 0 = bit (dec_pc d) 0) table_branch even_ops"
  unfolding table_jal_dispatch_def table_branch_def
  by (rule ensures_table; simp add: even_ids)+

lemmas even_tables = even_plain even_dispatch even_mmu even_op even_transfer even_jump then_any even_ids

lemma even_main: "ensures P table_main even_ops"
  unfolding table_main_def by (rule ensures_table; simp add: even_tables)

lemma even_rvc: "ensures P table_rvc even_ops"
proof -
  have sub: "ensures P table_rvc_Q1_lui_addi16sp even_ops" "ensures P table_rvc_Q1_compute even_ops"
    "ensures P table_rvc_Q2_jr_mov even_ops" "ensures P table_rvc_Q2_jalr_add even_ops" for P
    unfolding table_rvc_Q1_lui_addi16sp_def table_rvc_Q1_compute_def table_rvc_Q2_jr_mov_def table_rvc_Q2_jalr_add_def
    by (rule ensures_table; simp add: even_tables)+
  have misc: "ensures P table_rvc_Q2_misc even_ops" for P
    unfolding table_rvc_Q2_misc_def by (rule ensures_table; simp add: even_tables sub)
  have "ensures P table_rvc_Q0 even_ops" "ensures P table_rvc_Q1 even_ops" "ensures P table_rvc_Q2 even_ops" for P
    unfolding table_rvc_Q0_def table_rvc_Q1_def table_rvc_Q2_def by (rule ensures_table; simp add: even_tables sub misc)+
  then show ?thesis unfolding table_rvc_def by (intro ensures_table) (simp_all add: even_ids)
qed

definition even_jnpc :: "Decode \<Rightarrow> bool" where
  "even_jnpc d \<longleftrightarrow> (dec_type d \<in> {INSTR_TYPE_J, INSTR_TYPE_B} \<longrightarrow> bit (dec_jnpc d) 0 = bit (dec_pc d) 0)"

lemma even_classify: "ensures (even_ops idx) (classify idx) (\<lambda>_. even_jnpc)"
  unfolding classify_def even_jnpc_def even_ops_def
  by (auto simp: run_simps lift_opt_def elim!: get_imm.elims split: option.splits if_splits)

lemma even_fetch_decode: "ensures P isa_fetch_decode (\<lambda>_. even_jnpc)"
proof -
  have "ensures (\<lambda>_. True) (bind_m fetch_half (\<lambda>hi.
      then_m (upd_dec (\<lambda>d. d\<lparr>dec_instr := dec_instr d OR shl hi 16\<rparr>)) table_main)) even_ops"
    by (intro ensures_bind [OF ensures_any] ensures_then [OF ensures_any] even_main)
  then have body: "ensures (\<lambda>_. True) (if b then table_rvc else bind_m fetch_half (\<lambda>hi.
      then_m (upd_dec (\<lambda>d. d\<lparr>dec_instr := dec_instr d OR shl hi 16\<rparr>)) table_main)) even_ops" for b
    by (simp add: even_rvc)
  have last: "ensures (even_ops idx) (then_m (classify idx) (return_m idx)) (\<lambda>_. even_jnpc)" for idx
    by (rule ensures_then [OF even_classify]) (rule ensures_return)
  show ?thesis
    unfolding isa_fetch_decode_def
    by (intro ensures_then [OF ensures_any] ensures_bind [OF ensures_any] ensures_bind [OF body last])
qed

text \<open>The instruction at an even address goes on or jumps to an even address.\<close>

lemma fetch_decode_even:
  assumes run: "fetch_decode pcv m = (Ret idx, m')" and even: "\<not> bit pcv 0"
  shows "\<not> bit (dec_snpc (dec m')) 0" "dec_type (dec m') \<in> {INSTR_TYPE_J, INSTR_TYPE_B} \<Longrightarrow> \<not> bit (dec_jnpc (dec m')) 0"
proof -
  let ?m = "m\<lparr>dec := (dec m)\<lparr>dec_pc := pcv, dec_snpc := pcv\<rparr>\<rparr>"
  have run': "isa_fetch_decode ?m = (Ret idx, m')" using run by (simp add: fetch_decode_def then_m_apply upd_dec_apply)
  then have "dcore m' = dcore ?m" using framesD [OF dcore_fetch_decode, of ?m] by simp
  then have "dec_pc (dec m') = pcv" "bit (dec_snpc (dec m')) 0 = bit pcv 0" by (simp_all add: dcore_def)
  moreover have "even_jnpc (dec m')" using even_fetch_decode [of "\<lambda>_. True"] run' by (simp add: ensures_def)
  ultimately show "\<not> bit (dec_snpc (dec m')) 0"
    "dec_type (dec m') \<in> {INSTR_TYPE_J, INSTR_TYPE_B} \<Longrightarrow> \<not> bit (dec_jnpc (dec m')) 0"
    using even by (simp_all add: even_jnpc_def)
qed

end
