(* ===== verification/Tcache_Build.thy ===== *)
theory Tcache_Build
  imports Tcache_Links Decode_Parity
begin

text \<open>
  Decoding through the trace cache keeps the links: a block is built entry by entry, completed and linked,
  or the cache is flushed and the instruction is decoded again. The calls of the main loop do the same.
\<close>

lemma walk_inv_cong:
  assumes c: "tpool t' = tpool t" "tc_idx t' = tc_idx t" "TCACHE_SIZE t' = TCACHE_SIZE t"
    "tcache_bb_freelist t' = tcache_bb_freelist t" and s: "same_table t t'"
    and b: "tcache_state t' = tcache_state t" "bb_now t' = bb_now t" "bb_now_record t' = bb_now_record t"
  shows "walk_inv t' p pcv = walk_inv t p pcv"
proof -
  have "blocks t' M = blocks t M" for M by (simp add: blocks_def same_table_represents [OF s] tlinks_cong [OF c] c)
  moreover have "building t' fs M n = building t fs M n" for fs M n
    unfolding building_def tlinks_cong(3,6) [OF c] c b ..
  ultimately show ?thesis unfolding walk_inv_def tlinks_cong [OF c] c b by (cases "tcache_state t") simp_all
qed

lemma walk_inv_upd [simp]:
  "walk_inv (t\<lparr>idx_in_bb := x\<rparr>) p pcv = walk_inv t p pcv" "walk_inv (t\<lparr>mach := m\<rparr>) p pcv = walk_inv t p pcv"
  "walk_inv (t\<lparr>prev_s := q\<rparr>) p pcv = walk_inv t p pcv"
  by (rule walk_inv_cong; simp add: same_table_def)+

text \<open>An instruction inside a block: the next entry follows it.\<close>

lemma walk_next:
  assumes l: "links t fs {} {}" and b: "blocks t M" and st: "tcache_state t = TCACHE_BB_BUILDING" and n: "tc_idx t = Suc n"
    and h: "bb_now t = TC h" "h \<le> n" "bb_now_record t = BB j" "in_use t fs j" "tpc t (BB j) = tpc t (TC h)" "tpc t (TC h) \<noteq> -1"
      "M (tpc t (TC h)) = None" "\<And>k. h \<le> k \<Longrightarrow> k < n \<Longrightarrow> flows t k"
    and e: "EHelper (tpool t (TC n)) \<noteq> Exec_nemu_decode" "ttyp t (TC n) = INSTR_TYPE_N" and sz: "tc_idx t < TCACHE_SIZE t"
  defines "t' \<equiv> (upd_ent (TC (tc_idx t)) (entry_init (tsnpc t (TC n))) (t\<lparr>tc_idx := tc_idx t + 1\<rparr>))"
  shows "walk_inv t' (TC n) (tpc t (TC n))"
proof -
  let ?t = "upd_ent (TC (tc_idx t)) (entry_init (tsnpc t (TC n))) (t\<lparr>tc_idx := tc_idx t + 1\<rparr>)"
  note g = grows_new [OF sz, of "tsnpc t (TC n)"]
  have c: "tpool t' = tpool ?t" "tc_idx t' = tc_idx ?t" "TCACHE_SIZE t' = TCACHE_SIZE ?t"
    "tcache_bb_freelist t' = tcache_bb_freelist ?t" by (simp_all add: t'_def)
  have "links ?t fs {} {}" using g by (intro links_grow [OF _ l]) auto
  then have "links t' fs {} {}" using tlinks_cong(1) [OF c] by simp
  moreover have "blocks ?t M" by (rule blocks_grow [OF g(1) _ b]) (simp add: same_table_def)
  then have "blocks t' M" by (rule blocks_same [rotated 2]) (simp_all add: t'_def same_code_def same_table_def)
  moreover have p: "i \<le> n \<Longrightarrow> tpool t' (TC i) = tpool t (TC i)" "tpool t' (BB j) = tpool t (BB j)" for i
    using n by (simp_all add: t'_def)
  have fl: "flows t k \<Longrightarrow> flows t' k" for k using g(1) tlinks_cong(6) [OF c] by (simp add: grows_def)
  have fn: "flows t' n" using n e by (simp add: flows_def t'_def entry_init_def)
  have "building t' fs M (Suc n)"
    unfolding building_def
  proof (intro exI conjI allI impI)
    show "tc_idx t' = Suc (Suc n)" "bb_now t' = TC h" "h \<le> Suc n" "bb_now_record t' = BB j"
      using n h by (simp_all add: t'_def)
    show "in_use t' fs j" using h(4) by (simp add: in_use_def TCACHE_BB_SIZE_def t'_def)
    show "tpc t' (BB j) = tpc t' (TC h)" "tpc t' (TC h) \<noteq> -1" "M (tpc t' (TC h)) = None" using h p by simp_all
    show "flows t' k" if "h \<le> k" "k < Suc n" for k using h(8) fl fn that by (cases "k = n") auto
    show "EHelper (tpool t' (TC (Suc n))) = Exec_nemu_decode" using n by (simp add: t'_def entry_init_def)
  qed
  moreover have "tcache_state t' = TCACHE_BB_BUILDING" using st by (simp add: t'_def)
  ultimately show ?thesis using fn p(1) [of n] unfolding walk_inv_def
    by (intro exI [of _ fs] exI [of _ M]) (auto intro!: exI [of _ "Suc n"])
qed

text \<open>After the fetch: the block is extended or completed.\<close>

lemma wp_extend_bb:
  assumes g: "grows t t'" and l: "links t fs {} {}" and b: "blocks t' M" and st: "tcache_state t' = TCACHE_BB_BUILDING"
    and n: "tc_idx t' = Suc n" and e: "EHelper (tpool t' (TC n)) \<noteq> Exec_nemu_decode"
    and ends: "\<And>i. block_end t' i \<longleftrightarrow> block_end t i \<or> i = n \<and> ttyp t' (TC n) \<noteq> INSTR_TYPE_N"
    and h: "bb_now t' = TC h" "h \<le> n" "bb_now_record t' = BB j" "in_use t' fs j" "tpc t' (BB j) = tpc t' (TC h)" "tpc t' (TC h) \<noteq> -1"
      "M (tpc t' (TC h)) = None" "\<And>k. h \<le> k \<Longrightarrow> k < n \<Longrightarrow> flows t' k"
    and np: "ttyp t' (TC n) \<in> {INSTR_TYPE_J, INSTR_TYPE_B} \<Longrightarrow> tjnpc t' (TC n) \<noteq> -1"
      "ttyp t' (TC n) = INSTR_TYPE_B \<Longrightarrow> tsnpc t' (TC n) \<noteq> -1"
    and Q: "\<And>u. walk_inv u (TC n) (tpc t' (TC n)) \<Longrightarrow> Q () u"
    and J: "\<And>u. walk_inv u (prev_s u) thispc \<Longrightarrow> J u"
  shows "wp (tcache_extend_bb (TC n) thispc) Q E J t'"
proof (cases "ttyp t' (TC n) = INSTR_TYPE_N")
  case True
  have l2: "links t' fs {} {}" using ends True by (intro links_grow [OF g l]) auto
  have "wp (tcache_new (tsnpc t' (TC n))) (\<lambda>next. wp (if next = D_NULL then then_m (tcache_full thispc) (return_m ())
      else assert_m (next = next_entry (TC n))) Q E J) E J t'"
  proof (rule wp_tcache_new)
    assume "tc_idx t' < TCACHE_SIZE t'"
    from walk_next [OF l2 b st n h e True this] show "wp (if TC (tc_idx t') = D_NULL then then_m (tcache_full thispc) (return_m ())
      else assert_m (TC (tc_idx t') = next_entry (TC n))) Q E J
      (upd_ent (TC (tc_idx t')) (entry_init (tsnpc t' (TC n))) (t'\<lparr>tc_idx := tc_idx t' + 1\<rparr>))"
      using Q by (auto simp: wp_simps)
  qed (use wp_full [OF blocks_size [OF b] J] in \<open>simp add: wp_simps\<close>)
  with True show ?thesis by (simp add: tcache_extend_bb_def wp_simps)
next
  case False
  have l2: "links t' fs {n} {n}" using ends by (intro links_grow [OF g l]) auto
  have en: "block_end t' n" using ends False by simp
  then have w: "whole t' h" using h(2,8) by (auto simp: whole_def)
  have "wp (tcache_end_bb (TC n) thispc) Q E J t'"
  proof (rule wp_end_bb [OF l2 b en h(1,3,4) w h(5) [symmetric] h(7,6) np], goal_cases)
    case (3 u fs' M')
    have "whole u n" using same_codeD(3) [OF 3(3)] en by (auto simp: whole_def)
    then have "target u fs' (TC n)" by (simp add: target_def)
    then have "walk_inv u (TC n) (tpc t' (TC n))"
      using 3 same_codeD(5) [OF 3(3)] unfolding walk_inv_def by (intro exI [of _ fs'] exI [of _ M']) simp
    then show ?case by (rule Q)
  qed (use J in simp_all)
  with False show ?thesis by (simp add: tcache_extend_bb_def wp_simps)
qed

lemma wp_decode_instr:
  assumes l: "links t fs {} {}" and b: "blocks t M" and bu: "building t fs M n" and st: "tcache_state t = TCACHE_BB_BUILDING"
    and pc: "tpc t (TC n) = pcv" and ok: "code_ok pcv (mach t)"
    and Q: "\<And>t'. walk_inv t' (TC n) pcv \<Longrightarrow> Q (TC n) t'" and E: "\<And>t'. idle t' \<Longrightarrow> E t'"
    and J: "\<And>t'. walk_inv t' (prev_s t') pcv \<Longrightarrow> J t'"
  shows "wp (tcache_decode_instr (TC n) pcv) Q E J t"
proof -
  obtain h j where n: "tc_idx t = Suc n" "bb_now t = TC h" "h \<le> n" "bb_now_record t = BB j" "in_use t fs j"
    "tpc t (BB j) = tpc t (TC h)" "tpc t (TC h) \<noteq> -1" "M (tpc t (TC h)) = None" "\<And>k. h \<le> k \<Longrightarrow> k < n \<Longrightarrow> flows t k"
    "EHelper (tpool t (TC n)) = Exec_nemu_decode" using bu by (auto simp: building_def)
  have sz: "tc_idx t \<le> TCACHE_SIZE t" using l by (simp add: links_def records_def)
  let ?t0 = "upd_ent (TC n) (\<lambda>e. e\<lparr>tdec := (tdec e)\<lparr>dec_idx_in_bb := ucast (idx_in_bb (save_globals (TC n) t))\<rparr>\<rparr>) (save_globals (TC n) t)"
  have after: "grows t t2" "blocks t2 M" "tpc t2 (TC h) = tpc t (TC h)"
    "\<And>i. block_end t2 i \<longleftrightarrow> block_end t i \<or> i = n \<and> EHelper e \<noteq> Exec_nemu_decode \<and> dec_type (tdec e) \<noteq> INSTR_TYPE_N"
    if t2: "tpool t2 = (tpool t)(TC n := e)" "tc_idx t2 = tc_idx t" "TCACHE_SIZE t2 = TCACHE_SIZE t"
      "tcache_bb_freelist t2 = tcache_bb_freelist t" "same_table t t2" and d: "dec_pc (tdec e) = pcv" for t2 e
  proof -
    note g = grows_decode [OF n(1) sz n(10) t2(1-4), unfolded pc, OF d]
    show "grows t t2" by (rule g)
    then show "blocks t2 M" by (rule blocks_grow [OF _ t2(5) b])
    show "tpc t2 (TC h) = tpc t (TC h)" using d pc by (simp add: t2(1))
  qed (rule grows_decode(2) [OF n(1) sz n(10) t2(1-4), unfolded pc, OF d])
  show ?thesis unfolding tcache_decode_instr_def wp_then wp_effects wp_values wp_store
  proof (intro impI wp_fetch_decode_at, goal_cases)
    case (1 idx m)
    let ?t2 = "upd_ent (TC n) (\<lambda>e. e\<lparr>tdec := dec m, EHelper := Exec_label idx\<rparr>) (?t0\<lparr>mach := m\<rparr>)"
    have eqs: "tpool ?t2 = (tpool t)(TC n := (tpool t (TC n))\<lparr>tdec := dec m, EHelper := Exec_label idx\<rparr>)"
      "tc_idx ?t2 = tc_idx t" "TCACHE_SIZE ?t2 = TCACHE_SIZE t" "tcache_bb_freelist ?t2 = tcache_bb_freelist t"
      "same_table t ?t2" "bb_now ?t2 = TC h" "bb_now_record ?t2 = BB j" "tcache_state ?t2 = TCACHE_BB_BUILDING"
      using n st by (simp_all add: save_globals_def same_table_def)
    have ok': "dec_type (dec m) \<in> {INSTR_TYPE_J, INSTR_TYPE_B} \<Longrightarrow> dec_jnpc (dec m) \<noteq> -1"
      "dec_type (dec m) = INSTR_TYPE_B \<Longrightarrow> dec_snpc (dec m) \<noteq> -1"
      using ok 1(2) unfolding code_ok_def by (auto simp: save_globals_def)
    have A: "grows t ?t2" "blocks ?t2 M" "tpc ?t2 (TC h) = tpc t (TC h)"
      "\<And>i. block_end ?t2 i \<longleftrightarrow> block_end t i \<or> i = n \<and> ttyp ?t2 (TC n) \<noteq> INSTR_TYPE_N"
      using after [OF eqs(1-5)] 1(3) pc by simp_all
    have n2: "tc_idx ?t2 = Suc n" "in_use ?t2 fs j" "tpc ?t2 (BB j) = tpc ?t2 (TC h)" "tpc ?t2 (TC h) \<noteq> -1" "M (tpc ?t2 (TC h)) = None"
      "EHelper (tpool ?t2 (TC n)) \<noteq> Exec_nemu_decode"
      using n A(3) eqs(1-3) by (simp_all add: in_use_def TCACHE_BB_SIZE_def save_globals_def)
    have fl: "h \<le> k \<Longrightarrow> k < n \<Longrightarrow> flows ?t2 k" for k using A(1) n(9) unfolding grows_def by blast
    have d2: "tdec (tpool ?t2 (TC n)) = dec m" by simp
    show ?case
      by (rule wp_extend_bb [OF A(1) l A(2) eqs(8) n2(1,6) A(4) eqs(6) n(3) eqs(7) n2(2-5) fl])
        (use ok' d2 1(3) J Q in \<open>auto simp: wp_simps\<close>)
  next
    case (2 x m)
    let ?t2 = "upd_ent (TC n) (\<lambda>e. e\<lparr>tdec := dec m\<rparr>) (?t0\<lparr>mach := m\<rparr>)"
    have eqs: "tpool ?t2 = (tpool t)(TC n := (tpool t (TC n))\<lparr>tdec := dec m\<rparr>)"
      "tc_idx ?t2 = tc_idx t" "TCACHE_SIZE ?t2 = TCACHE_SIZE t" "tcache_bb_freelist ?t2 = tcache_bb_freelist t"
      "same_table t ?t2" by (simp_all add: save_globals_def same_table_def)
    have A: "grows t ?t2" "\<And>i. block_end ?t2 i = block_end t i" "blocks ?t2 M"
      using after [OF eqs] 2(3) n(10) by simp_all
    have "links ?t2 fs {} {}" using A(2) by (intro links_grow [OF A(1) l]) auto
    with A(3) show ?case by (intro E) (auto simp: idle_def)
  qed
qed

lemma whole_decoded: "whole t i \<Longrightarrow> EHelper (tpool t (TC i)) \<noteq> Exec_nemu_decode"
  unfolding whole_def block_end_def flows_def by (metis le_eq_less_or_eq)

lemma wp_decode:
  assumes w: "walk_inv t p pcv" and e: "EHelper (tpool t p) = Exec_nemu_decode" and pcv: "pcv \<noteq> -1" and ok: "code_ok pcv (mach t)"
    and Q: "\<And>t' q. walk_inv t' q pcv \<Longrightarrow> Q q t'" and E: "\<And>t'. idle t' \<Longrightarrow> E t'"
    and J: "\<And>t'. walk_inv t' (prev_s t') pcv \<Longrightarrow> J t'"
  shows "wp (tcache_decode p) Q E J t"
proof -
  obtain fs M where l: "links t fs {} {}" and b: "blocks t M" and pc: "tpc t p = pcv"
    and st: "case tcache_state t of TCACHE_RUNNING \<Rightarrow> target t fs p
      | TCACHE_BB_BUILDING \<Rightarrow> \<exists>n. building t fs M n \<and> (p = TC n \<or> n > 0 \<and> p = TC (n - 1) \<and> flows t (n - 1))"
    using w by (auto simp: walk_inv_def)
  show ?thesis
  proof (cases "tcache_state t")
    case TCACHE_BB_BUILDING
    then obtain n where "building t fs M n" "p = TC n" using st e by (auto simp: flows_def)
    then have "wp (tcache_decode_instr p pcv) Q E J t"
      using wp_decode_instr [OF l b _ TCACHE_BB_BUILDING _ ok] pc Q E J by blast
    with TCACHE_BB_BUILDING pc show ?thesis by (simp add: tcache_decode_def wp_simps)
  next
    case TCACHE_RUNNING
    then obtain j where p: "p = BB j" "in_use t fs j" using st e whole_decoded by (auto simp: target_def)
    have rep: "represents t M" using b by (simp add: blocks_def)
    have "wp (bb_find pcv) (\<lambda>bb. wp (case bb of
        Some b \<Rightarrow> with_m (\<lambda>t. let q = bb_s (bb_mem t b) in then_m (tcache_patch_and_free p q) (return_m q))
      | None \<Rightarrow> bind_m (tcache_new pcv) (\<lambda>s'.
          then_m (modify_m (\<lambda>t. t\<lparr>idx_in_bb := 1\<rparr>))
         (if s' = D_NULL then tcache_full pcv
          else then_m (modify_m (\<lambda>t. t\<lparr>bb_now_record := p, bb_now := s', tcache_state := TCACHE_BB_BUILDING\<rparr>))
                      (tcache_decode_instr s' pcv)))) Q E J) E J t"
    proof (rule wp_bb_find [OF rep pcv], goal_cases)
      case 1
      show ?case unfolding option.case wp_bind
      proof (rule wp_tcache_new, goal_cases)
        case 1
        have "BB_LIST_SIZE (t\<lparr>idx_in_bb := 1\<rparr>) > 0" using blocks_size [OF b] by simp
        then show ?case using wp_full [of "t\<lparr>idx_in_bb := 1\<rparr>"] J by (simp add: wp_simps)
      next
        case 2
        let ?n = "tc_idx t"
        let ?t1 = "upd_ent (TC ?n) (entry_init pcv) (t\<lparr>tc_idx := ?n + 1\<rparr>)"
        let ?t = "?t1\<lparr>idx_in_bb := 1, bb_now_record := p, bb_now := TC ?n, tcache_state := TCACHE_BB_BUILDING\<rparr>"
        note g = grows_new [OF 2, of pcv]
        have l1: "links ?t1 fs {} {}" using g(2) by (intro links_grow [OF g(1) l]) auto
        have b1: "blocks ?t1 M" by (rule blocks_grow [OF g(1) _ b]) (simp add: same_table_def)
        have c: "tpool ?t = tpool ?t1" "tc_idx ?t = tc_idx ?t1" "TCACHE_SIZE ?t = TCACHE_SIZE ?t1"
          "tcache_bb_freelist ?t = tcache_bb_freelist ?t1" by simp_all
        have l2: "links ?t fs {} {}" using l1 tlinks_cong(1) [OF c] by simp
        have b2: "blocks ?t M" by (rule blocks_same [OF _ _ b1]) (simp_all add: same_code_def same_table_def)
        have "building ?t fs M ?n" unfolding building_def
          using p pc pcv 1 by (intro exI [of _ ?n] exI [of _ j]) (simp add: entry_init_def in_use_def TCACHE_BB_SIZE_def)
        moreover have "tpc ?t (TC ?n) = pcv" by (simp add: entry_init_def)
        moreover have "code_ok pcv (mach ?t)" using ok by simp
        ultimately have "wp (tcache_decode_instr (TC ?n) pcv) Q E J ?t"
          using wp_decode_instr [OF l2 b2, of ?n pcv Q E J] Q E J by simp
        then show ?case by (simp add: wp_simps)
      qed
    next
      case (2 r t')
      note td = table_stepD [OF 2(3)]
      have b1: "blocks t' M" using b 2(2) by (simp add: blocks_def same_codeD [OF td(5)] td(1))
      then obtain i where i: "bb_s (bb_mem t' r) = TC i" "whole t' i" "tpc t' (TC i) = pcv"
        using 2(1) unfolding blocks_def by metis
      have l1: "links t' fs {} {}" using l by (simp add: table_step_links [OF 2(3)])
      have j: "in_use t' fs j" "tpc t' (TC i) = tpc t' (BB j)"
        using p pc i(3) by (simp_all add: in_use_def same_codeD [OF td(5)] td(1))
      have run: "tcache_state t' = TCACHE_RUNNING" using TCACHE_RUNNING td by simp
      have "wp (tcache_patch_and_free (BB j) (TC i)) (\<lambda>_. Q (TC i)) E J t'"
      proof (rule wp_patch_and_free [OF b1 l1 j(1) i(2) j(2)], goal_cases)
        case (1 u)
        have "target u (j # fs) (TC i)" using i(2) same_codeD(3) [OF 1(3)] by (simp add: target_def)
        then have "walk_inv u (TC i) pcv" using 1 run i(3) same_codeD(5) [OF 1(3)] unfolding walk_inv_def
          by (intro exI [of _ "j # fs"] exI [of _ M]) simp
        then show ?case by (rule Q)
      qed
      with p(1) i(1) show ?case by (simp add: wp_simps Let_def)
    qed
    with TCACHE_RUNNING show ?thesis unfolding tcache_decode_def wp_bind wp_load wp_values pc by (simp add: wp_bind)
  qed
qed


section \<open>The calls of the main loop\<close>

lemma wp_handle_exception:
  assumes "idle t" "jpc \<noteq> -1" and Q: "\<And>t'. walk_inv t' (prev_s t') jpc \<Longrightarrow> tnext (tpool t' D_EX) = prev_s t' \<Longrightarrow> Q () t'"
  shows "wp (tcache_handle_exception jpc) Q E J t"
proof -
  obtain fs M where l: "links t fs {} {}" "blocks t M" using assms(1) by (auto simp: idle_def)
  show ?thesis unfolding tcache_handle_exception_def wp_then
  proof (rule wp_fetch_EX [OF l(2,1) assms(2)], goal_cases)
    case (1 t' fs')
    let ?s = "tnext (tpool t' D_EX)"
    let ?u = "(save_globals ?s t')\<lparr>tcache_state := TCACHE_RUNNING\<rparr>"
    have c: "tpool ?u = tpool t'" "tc_idx ?u = tc_idx t'" "TCACHE_SIZE ?u = TCACHE_SIZE t'"
      "tcache_bb_freelist ?u = tcache_bb_freelist t'" by simp_all
    have "blocks ?u M" by (rule blocks_same [OF _ _ 1(1)]) (simp_all add: same_code_def same_table_def save_globals_def)
    then have "walk_inv ?u ?s jpc" using 1 tlinks_cong(1,2) [OF c] unfolding walk_inv_def
      by (intro exI [of _ fs'] exI [of _ M]) simp
    then show ?case using Q [of ?u] by (simp add: wp_simps)
  qed
qed

lemma idle_mach: "idle t \<Longrightarrow> idle (t\<lparr>mach := m\<rparr>)"
proof -
  assume "idle t"
  then obtain fs M where l: "links t fs {} {}" "blocks t M" by (auto simp: idle_def)
  have "links (t\<lparr>mach := m\<rparr>) fs {} {}" using l(1) tlinks_cong(1) [of "t\<lparr>mach := m\<rparr>" t] by simp
  moreover have "blocks (t\<lparr>mach := m\<rparr>) M" by (rule blocks_same [OF _ _ l(2)]) (simp_all add: same_code_def same_table_def)
  ultimately show ?thesis by (auto simp: idle_def)
qed

lemma idle_flush: "idle t \<Longrightarrow> idle (tcache_flush t)"
  using flush_links flush_blocks blocks_size unfolding idle_def by metis

lemma wp_handle_flush:
  assumes "idle t" "snpc \<noteq> -1" and Q: "\<And>t' p. walk_inv t' p snpc \<Longrightarrow> Q p t'"
  shows "wp (tcache_handle_flush snpc) Q E J t"
  unfolding tcache_handle_flush_def wp_then wp_effects
  by (rule wp_handle_exception [OF idle_flush [OF assms(1)] assms(2)]) (use Q in \<open>simp add: wp_simps\<close>)

lemma wp_init:
  assumes "BB_LIST_SIZE t > 0" "tcache_state t = TCACHE_RUNNING" and Q: "\<And>t' p. walk_inv t' p pcv \<Longrightarrow> Q p t'"
  shows "wp (tcache_init pcv) Q E J t"
proof -
  have r: "records (tcache_flush t) [0..<TCACHE_BB_SIZE t]" using flush_links by (simp add: links_def)
  show ?thesis unfolding tcache_init_def wp_then wp_effects
  proof (rule wp_bb_new [OF r], goal_cases)
    case (1 j fs)
    let ?t = "upd_ent (BB j) (entry_init pcv) (tcache_flush t\<lparr>tcache_bb_freelist := tnext (tpool (tcache_flush t) (BB j))\<rparr>)"
    have "record_ok ?t j" by (simp add: record_ok_def entry_init_def)
    then have l: "links ?t fs {} {}" "in_use ?t fs j" "same_code (tcache_flush t) ?t"
      using links_alloc [of "tcache_flush t" j fs "{}" "{}" "entry_init pcv"] flush_links [of t] 1 by simp_all
    have "blocks ?t Map.empty"
      by (rule blocks_same [OF l(3) _ flush_blocks [OF assms(1)]]) (simp add: same_table_def)
    moreover have "tcache_state ?t = TCACHE_RUNNING" using assms(2) by (simp add: tcache_flush_def)
    ultimately have "walk_inv ?t (BB j) pcv" using l unfolding walk_inv_def
      by (intro exI [of _ fs] exI [of _ Map.empty]) (simp add: target_def entry_init_def)
    then show ?case by (rule Q)
  qed
qed

text \<open>
  An indirect jump. The two links of its entry are a cache of the last targets; a record may only
  move from \<open>tnext\<close> to \<open>ntnext\<close> when it has been patched out.
\<close>

definition jr_settled :: "tcache \<Rightarrow> dptr \<Rightarrow> u64 \<Rightarrow> bool" where
  "jr_settled t p jpc \<longleftrightarrow> EHelper (tpool t (tnext (tpool t p))) \<noteq> Exec_nemu_decode \<or>
     tpc t (tnext (tpool t p)) = jpc \<or> tpc t (ntnext (tpool t p)) = jpc"

lemma wp_jr_fetch:
  assumes w: "walk_inv t p pcv" and e: "EHelper (tpool t p) \<noteq> Exec_nemu_decode" "ttyp t p = INSTR_TYPE_I"
    and "jpc \<noteq> -1" and s: "jr_settled t p jpc" and Q: "\<And>t' q. walk_inv t' q jpc \<Longrightarrow> Q q t'"
  shows "wp (jr_fetch p jpc) Q E J t"
proof -
  obtain fs M where l: "links t fs {} {}" and b: "blocks t M"
    and st: "case tcache_state t of TCACHE_RUNNING \<Rightarrow> target t fs p
      | TCACHE_BB_BUILDING \<Rightarrow> \<exists>n. building t fs M n \<and> (p = TC n \<or> n > 0 \<and> p = TC (n - 1) \<and> flows t (n - 1))"
    using w by (auto simp: walk_inv_def)
  have rec: "in_use t fs j \<Longrightarrow> EHelper (tpool t (BB j)) = Exec_nemu_decode" for j
    using l by (simp add: links_def records_def record_ok_def)
  have run: "tcache_state t = TCACHE_RUNNING" "target t fs p"
    using st e by (cases "tcache_state t"; auto simp: building_def flows_def)+
  then obtain i where p: "p = TC i" and wi: "whole t i" using e(1) rec by (auto simp: target_def)
  then have i: "block_end t i" using e(2) unfolding whole_def flows_def by (metis instr_type.distinct(5) le_eq_less_or_eq nle_le)
  then have ln: "tlink t fs i" "ntlink t fs i" using l by (simp_all add: links_def)
  let ?a = "tnext (tpool t p)" and ?b = "ntnext (tpool t p)"
  have tg: "target t fs ?a" "target t fs ?b" using ln e(2) by (simp_all add: tlink_def ntlink_def Let_def p)
  have hit: "walk_inv t q jpc" if "target t fs q" "tpc t q = jpc" for q
    using l b that run unfolding walk_inv_def by (intro exI [of _ fs] exI [of _ M]) simp
  have miss: "wp (tcache_jr_fetch p jpc) Q E J t" if m: "tpc t ?a \<noteq> jpc" "tpc t ?b \<noteq> jpc"
  proof -
    have a: "\<And>j. ?a \<noteq> BB j" using s m tg(1) rec by (auto simp: jr_settled_def target_def)
    let ?t = "upd_ent (TC i) (set_link False ?a) t"
    have l1: "links ?t fs {} {}" using links_set [OF l i tg(1), of False] a e(2) p by simp
    have b1: "blocks ?t M" by (rule blocks_same [OF same_code_link(1) same_table_upd(1) b])
    have i1: "block_end ?t i" "ttyp ?t (TC i) = INSTR_TYPE_I" "tcache_state ?t = TCACHE_RUNNING"
      using i e(2) p run same_codeD [OF same_code_link(1) [of t i False ?a]] by simp_all
    have "wp (tcache_bb_fetch (TC i) True jpc) (\<lambda>_. wp (load (TC i) tnext) Q E J) E J ?t"
    proof (rule wp_fetch_TC [OF b1 l1 assms(4) i1(1)], goal_cases)
      case (3 t' fs' q)
      then have "walk_inv t' q jpc" using i1(3) unfolding walk_inv_def
        by (intro exI [of _ fs'] exI [of _ M]) simp
      then show ?case using Q 3(4) by (simp add: wp_simps get_link_def)
    qed (use i1 in simp_all)
    moreover have "upd_ent (TC i) (\<lambda>e. e\<lparr>ntnext := tnext e\<rparr>) t = ?t" by (simp add: upd_ent_def set_link_def p)
    ultimately show ?thesis by (simp add: tcache_jr_fetch_def wp_simps p)
  qed
  show ?thesis using hit [OF tg(1)] hit [OF tg(2)] miss Q
    by (auto simp: jr_fetch_def wp_simps split_beta)
qed

end
