(* ===== verification/Tcache_Laws.thy ===== *)
theory Tcache_Laws
  imports Tcache_Build
begin

text \<open>
  Running a program through the trace cache: the entry executed next is always the one of the address
  where the machine continues.
\<close>

section \<open>Running through the cache\<close>

text \<open>
  What \<open>execute\<close> and \<open>cpu_exec\<close> do with the cache: \<open>walk g t p pcv\<close> says that in state \<open>t\<close> the entry \<open>p\<close> is
  executed next where the machine continues at \<open>pcv\<close>. Executing an instruction may change the machine in any
  way; an undecoded entry is decoded, which can raise an exception or start the cache afresh; a decoded
  one is left by its type; traps, interrupts and flushes come at any time. With \<open>g\<close> an indirect jump is
  only followed when the record of its last target has been patched out.
\<close>

inductive walk :: "bool \<Rightarrow> tcache \<Rightarrow> dptr \<Rightarrow> u64 \<Rightarrow> bool" for g where
  walk_init: "BB_LIST_SIZE t > 0 \<Longrightarrow> tcache_state t = TCACHE_RUNNING \<Longrightarrow> tcache_init pcv t = (Ret p, t') \<Longrightarrow> walk g t' p pcv"
| walk_exec: "walk g t p pcv \<Longrightarrow> walk g (t\<lparr>mach := m\<rparr>) p pcv"
| walk_decode: "walk g t p pcv \<Longrightarrow> \<not> bit pcv 0 \<Longrightarrow> EHelper (tpool t p) = Exec_nemu_decode \<Longrightarrow>
    tcache_decode p t = (Ret q, t') \<Longrightarrow> walk g t' q pcv"
| walk_again: "walk g t p pcv \<Longrightarrow> \<not> bit pcv 0 \<Longrightarrow> EHelper (tpool t p) = Exec_nemu_decode \<Longrightarrow>
    tcache_decode p t = (Jmp c, t') \<Longrightarrow> walk g t' (prev_s t') pcv"
| walk_fault: "walk g t p pcv \<Longrightarrow> \<not> bit pcv 0 \<Longrightarrow> EHelper (tpool t p) = Exec_nemu_decode \<Longrightarrow>
    tcache_decode p t = (Exn x, t') \<Longrightarrow> \<not> bit jpc 0 \<Longrightarrow>
    tcache_handle_exception jpc (t'\<lparr>mach := m\<rparr>) = (Ret (), t'') \<Longrightarrow> walk g t'' (prev_s t'') jpc"
| walk_normal: "walk g t p pcv \<Longrightarrow> EHelper (tpool t p) \<noteq> Exec_nemu_decode \<Longrightarrow> ttyp t p = INSTR_TYPE_N \<Longrightarrow>
    walk g t (next_entry p) (tsnpc t p)"
| walk_jump: "walk g t p pcv \<Longrightarrow> EHelper (tpool t p) \<noteq> Exec_nemu_decode \<Longrightarrow> ttyp t p \<in> {INSTR_TYPE_J, INSTR_TYPE_B} \<Longrightarrow>
    walk g t (tnext (tpool t p)) (tjnpc t p)"
| walk_not_taken: "walk g t p pcv \<Longrightarrow> EHelper (tpool t p) \<noteq> Exec_nemu_decode \<Longrightarrow> ttyp t p = INSTR_TYPE_B \<Longrightarrow>
    walk g t (ntnext (tpool t p)) (tsnpc t p)"
| walk_indirect: "walk g t p pcv \<Longrightarrow> EHelper (tpool t p) \<noteq> Exec_nemu_decode \<Longrightarrow> ttyp t p = INSTR_TYPE_I \<Longrightarrow>
    \<not> bit jpc 0 \<Longrightarrow> (g \<Longrightarrow> jr_settled t p jpc) \<Longrightarrow> jr_fetch p jpc t = (Ret q, t') \<Longrightarrow> walk g t' q jpc"
| walk_trap: "walk g t p pcv \<Longrightarrow> \<not> bit jpc 0 \<Longrightarrow> tcache_handle_exception jpc t = (Ret (), t') \<Longrightarrow> walk g t' (prev_s t') jpc"
| walk_flush: "walk g t p pcv \<Longrightarrow> \<not> bit jpc 0 \<Longrightarrow> tcache_handle_flush jpc t = (Ret q, t') \<Longrightarrow> walk g t' q jpc"

lemma wpD:
  assumes "wp m Q E J t"
  shows "m t = (Ret x, t') \<Longrightarrow> Q x t'" "m t = (Exn e, t') \<Longrightarrow> E t'" "m t = (Jmp c, t') \<Longrightarrow> J t'"
  using assms by (auto simp: wp_def)

lemma even_not_minus_1: "\<not> bit pcv 0 \<Longrightarrow> pcv \<noteq> -1" for pcv :: u64
  by auto

lemma even_code_ok: "\<not> bit pcv 0 \<Longrightarrow> code_ok pcv m"
  unfolding code_ok_def using fetch_decode_even even_not_minus_1 by blast

text \<open>A decoded entry that is executed belongs to a whole block, or flows into the block being built.\<close>

lemma walk_cases:
  assumes w: "walk_inv t p pcv" and e: "EHelper (tpool t p) \<noteq> Exec_nemu_decode"
  obtains (whole) fs M i where "links t fs {} {}" "blocks t M" "tcache_state t = TCACHE_RUNNING" "p = TC i" "whole t i"
    | (flow) fs M n where "links t fs {} {}" "blocks t M" "tcache_state t = TCACHE_BB_BUILDING" "building t fs M (Suc n)" "p = TC n" "flows t n"
proof -
  obtain fs M where l: "links t fs {} {}" "blocks t M"
    and st: "case tcache_state t of TCACHE_RUNNING \<Rightarrow> target t fs p
      | TCACHE_BB_BUILDING \<Rightarrow> \<exists>n. building t fs M n \<and> (p = TC n \<or> n > 0 \<and> p = TC (n - 1) \<and> flows t (n - 1))"
    using w by (auto simp: walk_inv_def)
  have rec: "in_use t fs j \<Longrightarrow> EHelper (tpool t (BB j)) = Exec_nemu_decode" for j
    using l(1) by (simp add: links_def records_def record_ok_def)
  show thesis
  proof (cases "tcache_state t")
    case TCACHE_RUNNING
    then obtain i where "p = TC i" "whole t i" using st e rec by (auto simp: target_def)
    with TCACHE_RUNNING l show thesis by (intro whole)
  next
    case TCACHE_BB_BUILDING
    then obtain n where n: "building t fs M n" "n > 0" "p = TC (n - 1)" "flows t (n - 1)"
      using st e by (auto simp: building_def)
    then obtain k where "n = Suc k" by (cases n) auto
    with TCACHE_BB_BUILDING l n show thesis by (intro flow [of fs M k]) simp_all
  qed
qed

lemma whole_step: "whole t i \<Longrightarrow> block_end t i \<or> flows t i \<and> whole t (Suc i)"
  unfolding whole_def by (metis Suc_leI Suc_leD le_eq_less_or_eq)

lemma walk_inv_target:
  "links t fs {} {} \<Longrightarrow> blocks t M \<Longrightarrow> tcache_state t = TCACHE_RUNNING \<Longrightarrow> target t fs p \<Longrightarrow> tpc t p = pcv \<Longrightarrow> walk_inv t p pcv"
  unfolding walk_inv_def by (intro exI [of _ fs] exI [of _ M]) simp

lemma walk_inv_normal:
  assumes w: "walk_inv t p pcv" and e: "EHelper (tpool t p) \<noteq> Exec_nemu_decode" "ttyp t p = INSTR_TYPE_N"
  shows "walk_inv t (next_entry p) (tsnpc t p)"
  using w e(1)
proof (cases rule: walk_cases)
  case (whole fs M i)
  then have "flows t i" "whole t (Suc i)" using whole_step [OF whole(5)] e(2) by (auto simp: block_end_def)
  then show ?thesis using whole walk_inv_target [OF whole(1-3), of "TC (Suc i)"] by (simp add: target_def flows_def)
next
  case (flow fs M n)
  then show ?thesis unfolding walk_inv_def
    by (intro exI [of _ fs] exI [of _ M]) (simp add: flows_def, blast)
qed

lemma walk_inv_links:
  assumes w: "walk_inv t p pcv" and e: "EHelper (tpool t p) \<noteq> Exec_nemu_decode"
  shows "ttyp t p \<in> {INSTR_TYPE_J, INSTR_TYPE_B} \<Longrightarrow> walk_inv t (tnext (tpool t p)) (tjnpc t p)"
    "ttyp t p = INSTR_TYPE_B \<Longrightarrow> walk_inv t (ntnext (tpool t p)) (tsnpc t p)"
proof -
  have both: "tlink t fs i \<and> ntlink t fs i" if "links t fs {} {}" "whole t i" "ttyp t (TC i) \<noteq> INSTR_TYPE_N" for fs i
    using whole_step [OF that(2)] that(1,3) by (auto simp: links_def flows_def)
  have "ttyp t p \<noteq> INSTR_TYPE_N \<Longrightarrow> \<exists>fs M i. links t fs {} {} \<and> blocks t M \<and> tcache_state t = TCACHE_RUNNING \<and>
      p = TC i \<and> tlink t fs i \<and> ntlink t fs i"
    by (rule walk_cases [OF w e]) (auto simp: flows_def dest: both)
  then show "ttyp t p \<in> {INSTR_TYPE_J, INSTR_TYPE_B} \<Longrightarrow> walk_inv t (tnext (tpool t p)) (tjnpc t p)"
    "ttyp t p = INSTR_TYPE_B \<Longrightarrow> walk_inv t (ntnext (tpool t p)) (tsnpc t p)"
    by (auto simp: tlink_def ntlink_def Let_def intro: walk_inv_target)
qed

lemma walk_keeps_inv: "walk True t p pcv \<Longrightarrow> walk_inv t p pcv"
proof (induction rule: walk.induct)
  case (walk_init t pcv p t')
  then show ?case using wpD(1) [OF wp_init [where Q = "\<lambda>p t. walk_inv t p pcv"]] by blast
next
  case (walk_decode t p pcv q t')
  note d = wp_decode [OF walk_decode.IH walk_decode.hyps(3) even_not_minus_1 even_code_ok, OF walk_decode.hyps(2,2),
      where Q = "\<lambda>q t'. walk_inv t' q pcv" and E = idle and J = "\<lambda>t'. walk_inv t' (prev_s t') pcv"]
  show ?case using wpD(1) [OF d] walk_decode.hyps(4) by simp
next
  case (walk_again t p pcv c t')
  note d = wp_decode [OF walk_again.IH walk_again.hyps(3) even_not_minus_1 even_code_ok, OF walk_again.hyps(2,2),
      where Q = "\<lambda>q t'. walk_inv t' q pcv" and E = idle and J = "\<lambda>t'. walk_inv t' (prev_s t') pcv"]
  show ?case using wpD(3) [OF d] walk_again.hyps(4) by simp
next
  case (walk_fault t p pcv x t' jpc m t'')
  note d = wp_decode [OF walk_fault.IH walk_fault.hyps(3) even_not_minus_1 even_code_ok, OF walk_fault.hyps(2,2),
      where Q = "\<lambda>q t'. walk_inv t' q pcv" and E = idle and J = "\<lambda>t'. walk_inv t' (prev_s t') pcv"]
  have "idle (t'\<lparr>mach := m\<rparr>)" using wpD(2) [OF d] walk_fault.hyps(4) by (simp add: idle_mach)
  from wpD(1) [OF wp_handle_exception [OF this even_not_minus_1, OF walk_fault.hyps(5), where Q = "\<lambda>_ t'. walk_inv t' (prev_s t') jpc"]]
  show ?case using walk_fault.hyps(6) by simp
next
  case (walk_normal t p pcv)
  then show ?case by (intro walk_inv_normal)
next
  case (walk_jump t p pcv)
  then show ?case by (intro walk_inv_links(1))
next
  case (walk_not_taken t p pcv)
  then show ?case by (intro walk_inv_links(2))
next
  case (walk_indirect t p pcv jpc q t')
  from wpD(1) [OF wp_jr_fetch [OF walk_indirect.IH walk_indirect.hyps(2,3) even_not_minus_1 walk_indirect.hyps(5),
      OF walk_indirect.hyps(4) TrueI, where Q = "\<lambda>q t'. walk_inv t' q jpc"]]
  show ?case using walk_indirect.hyps(6) by simp
next
  case (walk_trap t p pcv jpc t')
  from wpD(1) [OF wp_handle_exception [OF walk_idle [OF walk_trap.IH] even_not_minus_1, OF walk_trap.hyps(2),
      where Q = "\<lambda>_ t'. walk_inv t' (prev_s t') jpc"]]
  show ?case using walk_trap.hyps(3) by simp
next
  case (walk_flush t p pcv jpc q t')
  from wpD(1) [OF wp_handle_flush [OF walk_idle [OF walk_flush.IH] even_not_minus_1, OF walk_flush.hyps(2),
      where Q = "\<lambda>q t'. walk_inv t' q jpc"]]
  show ?case using walk_flush.hyps(3) by simp
qed simp

lemma walk_inv_valid: "walk_inv t p pcv \<Longrightarrow> d_valid t p"
  unfolding walk_inv_def links_def records_def target_def in_use_def whole_def block_end_def building_def flows_def
  by (cases "tcache_state t") (auto split: tcache_phase.splits)

text \<open>
  Without the restriction: an indirect jump whose last target could not be decoded moves the record of that target
  to \<open>ntnext\<close>. When the record is patched out later, \<open>tnext\<close> is written and the record is freed, but
  \<open>ntnext\<close> still leads to it.
\<close>

lemma jr_stale_link:
  assumes b: "blocks t M" and l: "links t fs {} {}" and j: "in_use t fs j" and i: "tnext (tpool t (TC i)) = BB j"
    and rec: "ttyp t (BB j) = BB_RECORD_TYPE_TAKEN" "ntnext (tpool t (BB j)) = TC i"
    and pc: "tpc t (BB j) \<noteq> jpc" "tpc t (ntnext (tpool t (TC i))) \<noteq> jpc" "jpc \<noteq> -1"
    and run: "jr_fetch (TC i) jpc t = (Ret q, t')" "tcache_patch_and_free (BB j) (TC k) t' = (Ret (), t'')"
  shows "ntnext (tpool t'' (TC i)) = BB j \<and> tcache_bb_freelist t'' = BB j"
proof -
  have "wp (tcache_jr_fetch (TC i) jpc) (\<lambda>_ t'. ntnext (tpool t' (TC i)) = BB j \<and> tpool t' (BB j) = tpool t (BB j)) (\<lambda>_. True) (\<lambda>_. True) t"
  proof -
    let ?t = "upd_ent (TC i) (\<lambda>e. e\<lparr>ntnext := tnext e\<rparr>) t"
    have sc: "same_code t ?t" by (simp add: same_code_def)
    have b1: "blocks ?t M" by (rule blocks_same [OF sc _ b]) simp
    have r: "records t fs" using l by (simp add: links_def)
    have r1: "records ?t fs"
    proof -
      have "free_chain (tpool ?t) p fs = free_chain (tpool t) p fs" for p by (rule free_chain_cong) simp
      moreover have "tpool ?t (BB n) = tpool t (BB n)" for n by simp
      then have "record_ok ?t n = record_ok t n" for n unfolding record_ok_def same_codeD(1,5) [OF sc] by presburger
      ultimately show ?thesis using r by (simp add: records_def in_use_def same_codeD [OF sc])
    qed
    show ?thesis unfolding tcache_jr_fetch_def wp_then wp_store
    proof (intro impI, rule wp_bb_fetch [OF b1 r1 pc(3)], goal_cases)
      case (1 t2 p)
      then show ?case using i table_stepD(1) [OF 1(2)] by (simp add: wp_simps)
    next
      case (2 n fs2 t2)
      have "n \<noteq> j" using 2(2) j by (auto simp: in_use_def)
      then show ?case using i by (simp add: wp_simps 2(3))
    qed simp
  qed
  moreover have "tcache_jr_fetch (TC i) jpc t = (Ret q, t')"
    using run(1) pc(1,2) i by (simp add: jr_fetch_def load_def run_simps split: if_splits)
  ultimately have t': "ntnext (tpool t' (TC i)) = BB j" "tpool t' (BB j) = tpool t (BB j)" using wpD(1) by fastforce+
  show ?thesis using run(2) rec t'
    by (auto simp: tcache_patch_and_free_def tcache_bb_free_def load_def store_def tcache_bb_check_def run_simps split: if_splits)
qed

section \<open>Properties\<close>

text \<open>A cold cache of the default size.\<close>

definition cold_tcache :: tcache where
  "cold_tcache = \<lparr>TCACHE_SIZE = 8192, BB_LIST_SIZE = 1024, BB_POOL_SIZE = 1024, RT_CHECK = True,
     tpool = (\<lambda>_. \<lparr>tnext = D_NULL, ntnext = D_NULL, EHelper = Exec_nemu_decode, tdec = dec (static_init False)\<rparr>),
     tc_idx = 0, tcache_bb_freelist = D_NULL, bb_mem = (\<lambda>_. \<lparr>bb_s = D_NULL, bb_next = BB_NULL, bb_pc = 0\<rparr>), bb_idx = 0,
     tcache_state = TCACHE_RUNNING, bb_now = D_NULL, bb_now_record = D_NULL, idx_in_bb = 0, prev_s = D_NULL,
     mach = static_init False\<rparr>"

text \<open>
  C36. The hash table of decoded blocks implements a map from addresses to entries: a lookup always
  ends and returns what the map holds, although it reorders the bucket; an insertion of a new block
  extends the map, or reports that the pool is exhausted and changes nothing; a flush empties the
  map.
\<close>

theorem block_table_refines:
  assumes "represents t M" "pcv \<noteq> -1"
  shows "(case M pcv of
      None \<Rightarrow> bb_find pcv t = (Ret None, t) \<and>
        (bb_insert pcv fill t = (Ret None, t) \<and> bb_idx t = BB_POOL_SIZE t \<or>
         (\<exists>p t'. bb_insert pcv fill t = (Ret (Some p), t') \<and> represents t' (M(pcv \<mapsto> fill)) \<and> table_step t t'))
    | Some s \<Rightarrow> \<exists>p t'. bb_find pcv t = (Ret (Some p), t') \<and> bb_s (bb_mem t' p) = s \<and> represents t' M \<and> table_step t t') \<and>
    represents (tcache_flush t) Map.empty"
proof -
  have "BB_LIST_SIZE t > 0" using assms(1) by (auto simp: represents_def table_ok_def)
  then show ?thesis using bb_find_spec [OF assms] bb_insert_spec [OF assms, of fill] flush_represents
    by (cases "M pcv") simp_all
qed

theorem block_table_refines_witness:
  "\<exists>p t'. bb_insert 0x80000000 (TC 0) (tcache_flush cold_tcache) = (Ret (Some p), t') \<and>
     represents t' [0x80000000 \<mapsto> TC 0]"
proof -
  have "represents (tcache_flush cold_tcache) Map.empty" by (rule flush_represents) (simp add: cold_tcache_def)
  from block_table_refines [OF this, of "0x80000000" "TC 0"] show ?thesis
    by (auto simp: tcache_flush_def cold_tcache_def)
qed

text \<open>
  C35. Running through the trace cache is running the program: in every state reached by decoding,
  following links, indirect jumps whose last target has been decoded, exceptions, interrupts and
  flushes, the entry that is executed next exists and is the one of the address where the machine
  continues. So a taken branch goes to its target, a branch that is not taken falls through, and a
  block that was decoded before is entered at its start.
\<close>

theorem trace_cache_follows_pc:
  assumes "walk True t p pcv"
  shows "d_valid t p \<and> dec_pc (tdec (tpool t p)) = pcv"
  using walk_inv_valid [OF walk_keeps_inv [OF assms]] walk_keeps_inv [OF assms] by (auto simp: walk_inv_def)

text \<open>The cache is set up at the reset vector, and an interrupt goes to a handler.\<close>

lemma bb_walk_none: "bb_next (bb_mem t bb) = BB_M1 \<Longrightarrow> bb_walk (numeral n) t pcv bb = Some None"
  by (simp add: numeral_eq_Suc)

lemmas cold_eval = cold_tcache_def prod_eq_iff tcache_init_def tcache_handle_exception_def tcache_flush_def
  tcache_bb_fetch_def tcache_bb_new_def tcache_bb_check_def bb_find_def bb_hash_def bb_walk_none load_def store_def
  upd_ent_def tcache_entry_init_def entry_init_def save_globals_def TCACHE_BB_SIZE_def then_m_def bind_m_def
  monad_simps Let_def

theorem trace_cache_follows_pc_witness:
  "\<exists>t. walk True t (BB 1) 0x80000100 \<and> d_valid t (BB 1) \<and> dec_pc (tdec (tpool t (BB 1))) = 0x80000100"
proof -
  let ?a = "snd (tcache_init 0x80000000 cold_tcache)" and ?b = "\<lambda>t. snd (tcache_handle_exception 0x80000100 t)"
  have "tcache_init 0x80000000 cold_tcache = (Ret (BB 0), ?a)" by (simp add: cold_eval)
  then have "walk True ?a (BB 0) 0x80000000" by (rule walk_init [rotated 2]) (simp_all add: cold_tcache_def)
  moreover have "tcache_handle_exception 0x80000100 ?a = (Ret (), ?b ?a)" by (simp add: cold_eval)
  moreover have "prev_s (?b ?a) = BB 1" by (simp add: cold_eval)
  ultimately have "walk True (?b ?a) (BB 1) 0x80000100" using walk_trap [of True ?a "BB 0" "0x80000000" "0x80000100" "?b ?a"] by simp
  then show ?thesis using trace_cache_follows_pc by blast
qed

end
