(* ===== verification/Spec2Isabelle.thy ===== *)
theory Spec2Isabelle
  imports Difftest_Laws Isa_Compute Isa_Control Expr_Laws Watchpoint Iqueue Rvk Tcache_Laws
begin

text \<open>
  A verification development of NEMU, a full-system instruction-set emulator (the tree
  \<open>src/\<close>), in its RISC-V 64 configuration with the DASICS isolation extension.

  \<^bold>\<open>The program.\<close> NEMU is built as a stand-alone emulator or, with \<open>CONFIG_SHARE\<close>, as a shared
  library that a hardware simulation steps beside its own design (difftest). \<open>cpu_exec\<close> is the
  main loop: it polls the host's events, takes a pending interrupt or the trap of the last
  exception, and lets \<open>execute\<close> fetch, decode and execute a batch of instructions. A virtual
  access goes through DASICS, address checks and Sv39 translation (\<open>vaddr.c\<close>, \<open>mmu.c\<close>) to a
  physical access, which passes PMP and ends in guest memory or a device (\<open>paddr.c\<close>,
  \<open>device/io\<close>). Exceptions leave the C stack by \<open>longjmp_exception\<close>; privileged state is an
  array of control and status registers (\<open>priv.c\<close>), from which two cached translation modes are
  derived (\<open>update_mmu_state\<close>).

  \<^bold>\<open>How it is modelled.\<close> The emulator's globals are one record \<open>machine\<close> (theory \<open>Machine\<close>). Code
  that touches it is a function \<open>machine \<Rightarrow> outcome \<times> machine\<close>: it returns a value (\<open>Ret\<close>), takes
  \<open>longjmp_exception\<close> (\<open>Exn\<close>), takes \<open>longjmp_exec\<close> with another cause (\<open>Jmp\<close>), or dies in a
  failed assertion or panic (\<open>Abort\<close>); the state reached is kept in every case. Integers are
  words of the width C gives them; every definition keeps the name of the C function, macro or
  type it translates where Isabelle allows it. The field \<open>cfg_share\<close> is the build option
  \<open>CONFIG_SHARE\<close>, so both builds are covered by one model.

  \<^bold>\<open>Theories\<close>, in the order of their dependence:
  \<^item> \<open>Nemu_Prelude\<close>: word abbreviations, bit fields, the execution monad, the collections
    \<open>monad_simps\<close> and \<open>keeps_intro\<close>, and the predicate \<open>keeps\<close> for invariants.
  \<^item> \<open>Machine\<close>, \<open>Csr_Def\<close>: the machine record (\<open>isa-def.h\<close>, globals of the C files), control
    register addresses, layouts, masks and the existence table (\<open>local-include/csr.h\<close>).
  \<^item> \<open>Host_Mem\<close>, \<open>Fifo\<close>: little-endian host accesses (\<open>include/memory/host.h\<close>) and a bounded
    queue, as locales that guest memory, device memory, the key queue and the store-commit queue
    interpret.
  \<^item> \<open>C_Ops\<close>, \<open>Rvb\<close>: the operators of \<open>c_op.h\<close>, RTL pseudo instructions, the M extension and the
    bit-manipulation intrinsics; they meet their arithmetic definitions.
  \<^item> \<open>Intr\<close>: delegation, trap entry and interrupt selection (\<open>system/intr.c\<close>).
  \<^item> \<open>Dasics\<close>, \<open>Pmp\<close>: the isolation checks of \<open>priv.c\<close> and the physical memory protection of
    \<open>mmu.c\<close>, against first-match and region specifications.
  \<^item> \<open>Device_IO\<close>: I/O space, region maps, CLINT, UART, RTC, keyboard.
  \<^item> \<open>Csr_Access\<close>, \<open>Csr_Laws\<close>: register reads, writes, privileged instructions and host calls;
    the invariant \<open>sys_ok\<close>, masked views, PMP write rules, trap/return round trip.
  \<^item> \<open>Memory\<close>, \<open>Mmu\<close>, \<open>Vaddr\<close>: physical memory and the store-commit queue, Sv39 translation as a
    refinement of an inductive walk relation, virtual accesses and the host TLB.
  \<^item> \<open>Instr_Pattern\<close>, \<open>Decode\<close>: the pattern compiler of \<open>include/cpu/decode.h\<close> and every decode
    helper and table of the integer, M, A, B, C and privileged groups.
  \<^item> \<open>Exec\<close>: RTL loads, stores and jumps and every execution helper of those groups.
  \<^item> \<open>Frame\<close>, \<open>Exec_Laws\<close>, \<open>Step_Laws\<close>: what memory accesses leave alone, the operand shapes the
    decoder hands to the helpers, and the machine invariant over one instruction.
  \<^item> \<open>Isa_Spec\<close>, \<open>Isa_Compute\<close>, \<open>Isa_Control\<close>: the manual's computational instructions and control
    transfers of RV64IM as functions of the instruction word; decoder and helpers agree with them
    on every encoding.
  \<^item> \<open>Cpu_Exec\<close>, \<open>Cpu_Laws\<close>: \<open>execute\<close>, \<open>cpu_exec\<close>, event polling, instruction counting; the
    difftest step always returns, and the invariant holds over whole runs.
  \<^item> \<open>Tcache\<close>, \<open>Tcache_Table\<close>, \<open>Tcache_Links\<close>, \<open>Decode_Parity\<close>, \<open>Tcache_Build\<close>, \<open>Tcache_Laws\<close>: the
    trace cache (\<open>cpu/tcache.c\<close>, \<open>jr_fetch\<close> of \<open>cpu-exec.c\<close>). The hash table of blocks implements a map;
    the links between blocks keep an invariant, for which the decoder's jump targets must be even;
    the relation \<open>walk\<close> follows the cache the way \<open>execute\<close> does and always is at an entry of the
    address where the machine continues.
  \<^item> \<open>Boot\<close>, \<open>Difftest_Ref\<close>, \<open>Difftest_Laws\<close>: reset, and the difftest interface of both
    \<open>ref.c\<close> files; register round trip, exact effect of the fast memory copy.
  \<^item> \<open>Rvk\<close>: the scalar cryptography extension; decryption undoes encryption.
  \<^item> \<open>Expr\<close>, \<open>Expr_Laws\<close>, \<open>Watchpoint\<close>, \<open>Iqueue\<close>: the debugger's expressions against trees with
    precedence, the pool of watchpoints against a list, the ring of recent instructions.
  \<^item> this theory: the states of a session of calls, and the invariant over them.

  \<^bold>\<open>The machine invariant\<close> \<open>machine_ok\<close>: the zero register is zero, \<open>satp.mode\<close> is Bare or Sv39, and
  the two cached translation modes are those \<open>mstatus\<close>, \<open>satp\<close> and the privilege mode give. It is
  proved for register accesses, traps and returns (\<open>Csr_Laws\<close>), lifted to every instruction
  (\<open>Step_Laws\<close>), to runs (\<open>Cpu_Laws\<close>) and to sessions (below). The hypothesis of several theorems
  on translation and traps is part of it.

  \<^bold>\<open>Bounds and termination.\<close> All loops of the source whose bound is static (page-table levels,
  PMP entries, byte loops, pattern strings, batches) are total functions. The loop of
  \<open>cpu_exec\<close> can run for ever, because an exception does not count against the requested number
  of instructions: it is a partial function into \<open>option\<close>, \<open>None\<close> being no return. In the difftest
  build it is proved to return. A lookup in the trace cache's table gets as many steps as the pool
  of blocks has elements, and one more; a bucket has no more, so the lookup is proved to end.

  \<^bold>\<open>Configuration.\<close> Interpreter engine, system mode, no block execution (\<open>CONFIG_PERF_OPT\<close> off),
  \<open>CONFIG_DEBUG\<close> and the difftest client off; \<open>RVB\<close>, \<open>RVN\<close>, \<open>RV_DASICS\<close>, \<open>RV_SVINVAL\<close>,
  \<open>RV_PMP_CHECK\<close> with 16 entries, \<open>RV_DEBUG\<close>, \<open>RV_ARCH_CSRS\<close>, \<open>MISA_UNCHANGEABLE\<close>, \<open>AC_SOFT\<close>,
  \<open>RT_CHECK\<close>, \<open>ENABLE_INSTR_CNT\<close> and \<open>USE_MMAP\<close> on; \<open>FPU_NONE\<close>, no vector extension, no
  flash; \<open>Rvk\<close> covers \<open>CONFIG_RVK\<close> on its own, and the trace cache, for any sizes of its pools, is
  the part of \<open>CONFIG_PERF_OPT\<close> that is modelled. With \<open>CONFIG_SHARE\<close> also \<open>DIFFTEST_STORE_COMMIT\<close>, \<open>GUIDED_EXEC\<close>, \<open>QUERY_REF\<close> and
  \<open>LARGE_COPY\<close>, 36 physical address bits and batches of one instruction. Memory starts at
  0x80000000 and has \<open>memory_size\<close> bytes.

  \<^bold>\<open>Outside code\<close> appears as parameters: the host clock, alarm signals and the SDL event queue
  are fields of the machine that no operation writes, so every theorem holds for all of them;
  the key map is the field \<open>key_map\<close>. The size of the difftest register buffer, which a submodule
  defines, is taken from the comments in \<open>isa-def.h\<close>.

  \<^bold>\<open>Not modelled\<close>: logging, profiling and checkpointing, which do not change the guest's state;
  the floating-point and vector extensions and the jump macros of block execution, which belong
  to other build options; the other guest architectures; screen, audio, disk, SD card and PLIC devices;
  the monitor's command line; the configuration tools and the firmware under \<open>resource/\<close>. A
  pointer past the end of a guest or device array is undefined in C; the model reads and writes
  the byte at that address.
\<close>

section \<open>Sessions\<close>

text \<open>
  The states a host program can bring the emulator to. It boots (the stand-alone emulator or the
  difftest library, on any host clock, alarm signals and window events), adds the devices, loads
  memory, and then calls in any order the operations of the main loop and of the difftest
  interface. A register copy is allowed when it does not change what translation depends on and
  keeps the zero register zero; without the first condition the copy would leave the cached
  translation modes stale.
\<close>

definition regcpy_harmless :: "dut_regs \<Rightarrow> machine \<Rightarrow> bool" where
  "regcpy_harmless d s \<longleftrightarrow> dut_mode d = mode s \<and> dut_csrs d c_satp = csr c_satp s \<and> dut_gpr d 0 = 0 \<and>
     fld 11 2 (dut_csrs d c_mstatus) = fld 11 2 (csr c_mstatus s) \<and>
     bit (dut_csrs d c_mstatus) 17 = bit (csr c_mstatus s) 17"

inductive session :: "machine \<Rightarrow> bool" where
  boot: "then_m init_mem (init_isa cpt) (host_start share clk alarm events) = (Ret (), s) \<Longrightarrow> session s"
| devices: "session s \<Longrightarrow> init_device s = (Ret (), s') \<Longrightarrow> session s'"
| image: "session s \<Longrightarrow> session (s\<lparr>pmem := m\<rparr>)"
| run: "session s \<Longrightarrow> cpu_exec n s = Some (r, s') \<Longrightarrow> session s'"
| guided: "session s \<Longrightarrow> guided_exec_step g s = Some (r, s') \<Longrightarrow> session s'"
| intr: "session s \<Longrightarrow> difftest_raise_intr NO s = (r, s') \<Longrightarrow> session s'"
| regcpy: "session s \<Longrightarrow> regcpy_harmless d s \<Longrightarrow> regcpy_to_ref d s = (r, s') \<Longrightarrow> session s'"
| memcpy: "session s \<Longrightarrow> memcpy_to_ref a buf b n s = (r, s') \<Longrightarrow> session s'"
| uarch: "session s \<Longrightarrow> uarchstatus_to_ref v s = (r, s') \<Longrightarrow> session s'"
| query: "session s \<Longrightarrow> difftest_query_ref t s = (q, s') \<Longrightarrow> session s'"
| ramsize: "session s \<Longrightarrow> difftest_set_ramsize z s = (r, s') \<Longrightarrow> session s'"

lemma keeps_run: "keeps machine_ok m \<Longrightarrow> m s = (r, s') \<Longrightarrow> machine_ok s \<Longrightarrow> machine_ok s'"
  by (metis keepsD snd_conv)

text \<open>
  C40. In every session the machine invariant holds at every call: the zero register is zero,
  \<open>satp\<close> is in a supported mode and both cached translation modes are those of the privilege mode,
  \<open>mstatus\<close> and \<open>satp\<close>, whatever program was loaded and however its runs ended.
\<close>

theorem session_machine_ok: "session s \<Longrightarrow> machine_ok s"
proof (induction rule: session.induct)
  case (boot cpt share clk alarm events s)
  then show ?case using boot_ok [of cpt share clk alarm events] by simp
next
  case (devices s s')
  have "keeps machine_ok init_device" unfolding init_device_def by (intro keeps_intro devices_ok)
  then show ?case using devices keeps_run by blast
next
  case (image s m)
  then show ?case using machine_okI [of "s\<lparr>pmem := m\<rparr>" s] by (simp add: view_upd machine_ok_def)
next
  case (run s n r s')
  then show ?case by (blast intro: cpu_exec_ok)
next
  case (guided s g r s')
  then show ?case by (blast intro: guided_exec_ok)
next
  case (regcpy s d r s')
  then show ?case using regcpy_ok [of s d] by (simp add: regcpy_harmless_def)
qed (blast intro: difftest_calls_ok [THEN keeps_run])+

text \<open>A freshly booted reference.\<close>

theorem session_machine_ok_witness:
  "machine_ok (snd (then_m init_mem (init_isa False) (host_start True (\<lambda>_. 0) (\<lambda>_. False) (\<lambda>_. []))))"
proof (rule session_machine_ok, rule session.boot)
  show "then_m init_mem (init_isa False) (host_start True (\<lambda>_. 0) (\<lambda>_. False) (\<lambda>_. [])) =
    (Ret (), snd (then_m init_mem (init_isa False) (host_start True (\<lambda>_. 0) (\<lambda>_. False) (\<lambda>_. []))))"
    by (simp add: then_m_def bind_m_def init_mem_run init_isa_def monad_simps init_device_def when_m_def
        host_start_def reset_state_def Let_def set_gpr_def)
qed

end
